(* ===== verification/Go_Prelude.thy ===== *)
theory Go_Prelude
  imports Main "HOL-Library.Sublist" "HOL-Library.Multiset"
begin

text \<open>
  What every component of the development shares: the outcome of a Go call
  (a value, an error value, or a run-time panic), the functions of the packages
  \<open>strings\<close> and \<open>strconv\<close> that the program uses, maps iterated in an arbitrary
  order, and a locale for state machines.  A Go string is a list of bytes,
  so \<open>string\<close> (a list of 8-bit characters) models it exactly.
\<close>

named_theorems go_simps \<open>evaluation rules of outcomes and of the string library\<close>
named_theorems go_splits \<open>case splits of outcomes\<close>

section \<open>Outcomes of calls\<close>

text \<open>
  A Go function with an error result returns a value (\<open>Ok\<close>), returns an error
  (\<open>Err\<close>), or panics: an index out of range, a write to a nil map, a nil pointer
  dereference.  A panic is not recovered anywhere in the program.
\<close>

datatype ('e, 'a) outcome = Ok 'a | Err 'e | Panic

fun obind :: "('e, 'a) outcome \<Rightarrow> ('a \<Rightarrow> ('e, 'b) outcome) \<Rightarrow> ('e, 'b) outcome" where
  "obind (Ok a) f = f a"
| "obind (Err e) f = Err e"
| "obind Panic f = Panic"

fun omap :: "('a \<Rightarrow> 'b) \<Rightarrow> ('e, 'a) outcome \<Rightarrow> ('e, 'b) outcome" where
  "omap f (Ok a) = Ok (f a)"
| "omap f (Err e) = Err e"
| "omap f Panic = Panic"

text \<open>\<open>for _, x := range xs\<close> with a body that may return early.\<close>

fun ofold :: "('a \<Rightarrow> 's \<Rightarrow> ('e, 's) outcome) \<Rightarrow> 'a list \<Rightarrow> 's \<Rightarrow> ('e, 's) outcome" where
  "ofold f [] s = Ok s"
| "ofold f (x # xs) s = obind (f x s) (ofold f xs)"

lemma obind_Ok_iff [simp]: "obind m f = Ok b \<longleftrightarrow> (\<exists>a. m = Ok a \<and> f a = Ok b)"
  by (cases m) auto

lemma obind_Panic_iff: "obind m f = Panic \<longleftrightarrow> m = Panic \<or> (\<exists>a. m = Ok a \<and> f a = Panic)"
  by (cases m) auto

lemma obind_Err_iff: "obind m f = Err e \<longleftrightarrow> m = Err e \<or> (\<exists>a. m = Ok a \<and> f a = Err e)"
  by (cases m) auto

lemma omap_Ok_iff [simp]: "omap f m = Ok b \<longleftrightarrow> (\<exists>a. m = Ok a \<and> b = f a)"
  by (cases m) auto

lemma omap_Err_iff: "omap f m = Err e \<longleftrightarrow> m = Err e"
  by (cases m) simp_all

lemma omap_Panic_iff [simp]: "omap f m = Panic \<longleftrightarrow> m = Panic"
  by (cases m) auto

lemma ofold_append: "ofold f (xs @ ys) s = obind (ofold f xs s) (ofold f ys)"
proof (induction xs arbitrary: s)
  case (Cons x xs)
  then show ?case by (cases "f x s") auto
qed simp

lemma ofold_invariant:
  assumes "\<And>x s s'. x \<in> set xs \<Longrightarrow> P s \<Longrightarrow> f x s = Ok s' \<Longrightarrow> P s'"
    and "P s" and "ofold f xs s = Ok s'"
  shows "P s'"
  using assms by (induction xs arbitrary: s) auto

lemma ofold_no_panic:
  assumes "\<And>x s. x \<in> set xs \<Longrightarrow> P s \<Longrightarrow> f x s \<noteq> Panic"
    and "\<And>x s s'. x \<in> set xs \<Longrightarrow> P s \<Longrightarrow> f x s = Ok s' \<Longrightarrow> P s'" and "P s"
  shows "ofold f xs s \<noteq> Panic"
  using assms
proof (induction xs arbitrary: s)
  case (Cons x xs)
  have "ofold f xs s1 \<noteq> Panic" if "f x s = Ok s1" for s1
    by (rule Cons.IH) (meson Cons.prems that list.set_intros)+
  moreover have "f x s \<noteq> Panic" using Cons.prems by simp
  ultimately show ?case by (cases "f x s") auto
qed simp

section \<open>Characters and strings\<close>

abbreviation nl :: char where "nl \<equiv> CHR 0x0A"
abbreviation bslash :: char where "bslash \<equiv> CHR 0x5C"
abbreviation dquote :: char where "dquote \<equiv> CHR 0x22"
abbreviation squote :: char where "squote \<equiv> CHR 0x27"
abbreviation spc :: char where "spc \<equiv> CHR 0x20"

text \<open>\<open>strings.HasPrefix\<close>, \<open>HasSuffix\<close>, \<open>Contains\<close>.\<close>

definition has_prefix :: "string \<Rightarrow> string \<Rightarrow> bool" where
  "has_prefix s p = (take (length p) s = p)"

definition has_suffix :: "string \<Rightarrow> string \<Rightarrow> bool" where
  "has_suffix s p = has_prefix (rev s) (rev p)"

fun contains :: "string \<Rightarrow> string \<Rightarrow> bool" where
  "contains [] sub = (sub = [])"
| "contains (c # s) sub = (has_prefix (c # s) sub \<or> contains s sub)"

text \<open>\<open>strings.Split (s, c)\<close> for a one-character separator: never the empty list.\<close>

fun split_on :: "char \<Rightarrow> string \<Rightarrow> string list" where
  "split_on c [] = [[]]"
| "split_on c (x # xs) =
     (if x = c then [] # split_on c xs
      else (case split_on c xs of [] \<Rightarrow> [[x]] | w # ws \<Rightarrow> (x # w) # ws))"

text \<open>\<open>strings.SplitN (s, c, 2)\<close>: the text before and after the first separator.\<close>

definition splitn2 :: "char \<Rightarrow> string \<Rightarrow> string list" where
  "splitn2 c s =
     (if c \<in> set s
      then [takeWhile (\<lambda>x. x \<noteq> c) s, tl (dropWhile (\<lambda>x. x \<noteq> c) s)] else [s])"

text \<open>\<open>strings.Join\<close>.\<close>

fun join :: "string \<Rightarrow> string list \<Rightarrow> string" where
  "join sep [] = []"
| "join sep [w] = w"
| "join sep (w # v # ws) = w @ sep @ join sep (v # ws)"

text \<open>\<open>strings.Count\<close> and \<open>strings.ReplaceAll\<close> for a non-empty pattern: leftmost, not overlapping.\<close>

function count_sub :: "string \<Rightarrow> string \<Rightarrow> nat" where
  "count_sub sub s =
     (if s = [] \<or> sub = [] then 0
      else if has_prefix s sub then Suc (count_sub sub (drop (length sub) s))
      else count_sub sub (tl s))"
  by pat_completeness auto
termination
  by (relation "measure (\<lambda>(sub, s). length s)") auto

function replace_all :: "string \<Rightarrow> string \<Rightarrow> string \<Rightarrow> string" where
  "replace_all old new s =
     (if s = [] \<or> old = [] then s
      else if has_prefix s old then new @ replace_all old new (drop (length old) s)
      else hd s # replace_all old new (tl s))"
  by pat_completeness auto
termination
  by (relation "measure (\<lambda>(old, new, s). length s)") auto

declare count_sub.simps [simp del] replace_all.simps [simp del]

text \<open>
  \<open>strings.TrimSpace\<close> removes the white space of Unicode from both ends of a
  UTF-8 string: the six ASCII characters, U+0085, U+00A0, U+1680, U+2000 to U+200A,
  U+2028, U+2029, U+202F, U+205F and U+3000, here as their encodings.
\<close>

definition go_spaces :: "string list" where
  "go_spaces =
     [[CHR 0x20], [CHR 0x09], [CHR 0x0A], [CHR 0x0D], [CHR 0x0B], [CHR 0x0C],
      [CHR 0xC2, CHR 0x85], [CHR 0xC2, CHR 0xA0], [CHR 0xE1, CHR 0x9A, CHR 0x80],
      [CHR 0xE2, CHR 0x80, CHR 0x80], [CHR 0xE2, CHR 0x80, CHR 0x81], [CHR 0xE2, CHR 0x80, CHR 0x82],
      [CHR 0xE2, CHR 0x80, CHR 0x83], [CHR 0xE2, CHR 0x80, CHR 0x84], [CHR 0xE2, CHR 0x80, CHR 0x85],
      [CHR 0xE2, CHR 0x80, CHR 0x86], [CHR 0xE2, CHR 0x80, CHR 0x87], [CHR 0xE2, CHR 0x80, CHR 0x88],
      [CHR 0xE2, CHR 0x80, CHR 0x89], [CHR 0xE2, CHR 0x80, CHR 0x8A], [CHR 0xE2, CHR 0x80, CHR 0xA8],
      [CHR 0xE2, CHR 0x80, CHR 0xA9], [CHR 0xE2, CHR 0x80, CHR 0xAF], [CHR 0xE2, CHR 0x81, CHR 0x9F],
      [CHR 0xE3, CHR 0x80, CHR 0x80]]"

function strip_words :: "string list \<Rightarrow> string \<Rightarrow> string" where
  "strip_words ws s =
     (case find (\<lambda>w. w \<noteq> [] \<and> has_prefix s w) ws of
        None \<Rightarrow> s
      | Some w \<Rightarrow> strip_words ws (drop (length w) s))"
  by pat_completeness auto
termination
proof (relation "measure (\<lambda>(ws, s). length s)")
  fix ws s w
  assume "find (\<lambda>w. w \<noteq> [] \<and> has_prefix s w) ws = Some w"
  then have "w \<noteq> []" "take (length w) s = w"
    by (auto simp: find_Some_iff has_prefix_def)
  then have "s \<noteq> []" by auto
  with \<open>w \<noteq> []\<close> show "((ws, drop (length w) s), (ws, s)) \<in> measure (\<lambda>(ws, s). length s)"
    by simp
qed simp

declare strip_words.simps [simp del]

definition trim_space :: "string \<Rightarrow> string" where
  "trim_space s = rev (strip_words (map rev go_spaces) (rev (strip_words go_spaces s)))"

text \<open>\<open>strings.Trim\<close> with a cutset of ASCII characters.\<close>

definition trim_set :: "char list \<Rightarrow> string \<Rightarrow> string" where
  "trim_set cs s =
     rev (dropWhile (\<lambda>c. c \<in> set cs) (rev (dropWhile (\<lambda>c. c \<in> set cs) s)))"

section \<open>Lemmas of the string library\<close>

lemma last_neq: "w \<noteq> [] \<Longrightarrow> x \<notin> set w \<Longrightarrow> last w \<noteq> x"
  by (metis last_in_set)

lemma split_on_ne [simp]: "split_on c s \<noteq> []"
  by (induction s) (auto split: list.splits)

lemma join_split_on: "join [c] (split_on c s) = s"
proof (induction s)
  case (Cons x xs)
  obtain w ws where ws: "split_on c xs = w # ws"
    by (cases "split_on c xs") auto
  with Cons show ?case by (cases ws) auto
qed simp

lemma split_on_no_sep: "w \<in> set (split_on c s) \<Longrightarrow> c \<notin> set w"
proof (induction s arbitrary: w)
  case (Cons x xs)
  obtain v vs where "split_on c xs = v # vs"
    by (cases "split_on c xs") auto
  with Cons show ?case by (auto split: if_splits)
qed simp

lemma set_split_on: "w \<in> set (split_on c s) \<Longrightarrow> set w \<subseteq> set s"
proof (induction s arbitrary: w)
  case (Cons x xs)
  obtain v vs where v: "split_on c xs = v # vs"
    by (cases "split_on c xs") auto
  have "set v \<subseteq> set xs" "\<forall>u \<in> set vs. set u \<subseteq> set xs"
    using Cons.IH v by auto
  with Cons.prems v show ?case by (auto split: if_splits)
qed simp

lemma split_on_single: "c \<notin> set w \<Longrightarrow> split_on c w = [w]"
  by (induction w) auto

lemma split_on_append: "c \<notin> set w \<Longrightarrow> split_on c (w @ c # s) = w # split_on c s"
  by (induction w) auto

lemma split_on_join:
  assumes "ws \<noteq> []" "\<forall>w \<in> set ws. c \<notin> set w"
  shows "split_on c (join [c] ws) = ws"
  using assms
proof (induction "[c]" ws rule: join.induct)
  case (3 w v ws)
  then show ?case by (simp add: split_on_append)
qed (simp_all add: split_on_single)

lemma set_join: "x \<in> set (join sep ws) \<Longrightarrow> x \<in> set sep \<or> (\<exists>w \<in> set ws. x \<in> set w)"
  by (induction sep ws rule: join.induct) auto

lemma join_eq_Nil_iff: "join [c] ws = [] \<longleftrightarrow> ws = [] \<or> ws = [[]]"
  by (induction "[c]" ws rule: join.induct) auto

lemma has_prefix_iff [go_simps]: "has_prefix s p \<longleftrightarrow> prefix p s"
proof
  assume "has_prefix s p"
  then show "prefix p s" unfolding has_prefix_def by (metis take_is_prefix)
next
  assume "prefix p s"
  then show "has_prefix s p" by (auto simp: has_prefix_def prefix_def)
qed

lemma has_suffix_iff [go_simps]: "has_suffix s p \<longleftrightarrow> suffix p s"
  by (simp add: has_suffix_def has_prefix_iff suffix_to_prefix)

lemma contains_iff: "contains s sub \<longleftrightarrow> sublist sub s"
  by (induction s) (auto simp: has_prefix_iff sublist_Cons_right)

lemma contains_char: "contains s [c] \<longleftrightarrow> c \<in> set s"
  by (induction s) (auto simp: has_prefix_def)

lemma replace_all_absent: "\<not> contains s old \<Longrightarrow> replace_all old new s = s"
proof (induction s)
  case Nil
  then show ?case by (subst replace_all.simps) simp
next
  case (Cons c s)
  then show ?case by (subst replace_all.simps) auto
qed

declare contains.simps(2) [simp del] contains_char [simp]

lemma strip_words_id:
  assumes "\<forall>w \<in> set ws. w = [] \<or> \<not> has_prefix s w"
  shows "strip_words ws s = s"
proof -
  have "find (\<lambda>w. w \<noteq> [] \<and> has_prefix s w) ws = None"
    using assms by (auto simp: find_None_iff)
  then show ?thesis by (subst strip_words.simps) simp
qed

lemma strip_words_suffix: "\<exists>u. s = u @ strip_words ws s"
proof (induction ws s rule: strip_words.induct)
  case (1 ws s)
  show ?case
  proof (cases "find (\<lambda>w. w \<noteq> [] \<and> has_prefix s w) ws")
    case None
    then show ?thesis by (subst strip_words.simps) simp
  next
    case (Some w)
    with 1 obtain u where "drop (length w) s = u @ strip_words ws (drop (length w) s)" by blast
    then have "s = (take (length w) s @ u) @ strip_words ws s"
      using Some by (subst strip_words.simps) (metis append.assoc append_take_drop_id option.simps(5))
    then show ?thesis by blast
  qed
qed

text \<open>A string without a byte of any Unicode space is its own trimming.\<close>

definition no_space_byte :: "char \<Rightarrow> bool" where
  "no_space_byte c \<longleftrightarrow> (\<forall>w \<in> set go_spaces. c \<notin> set w)"

lemma go_spaces_nonempty: "w \<in> set go_spaces \<Longrightarrow> w \<noteq> []"
  by (auto simp: go_spaces_def)

lemma strip_words_no_space:
  assumes "s = [] \<or> no_space_byte (hd s)"
  shows "strip_words go_spaces s = s" "strip_words (map rev go_spaces) s = s"
proof -
  have *: "w = [] \<or> \<not> has_prefix s w" if "s = [] \<or> hd s \<notin> set w" for w
    using that by (cases w; cases s) (auto simp: has_prefix_def)
  have fwd: "\<forall>w \<in> set go_spaces. w = [] \<or> \<not> has_prefix s w"
    using assms by (intro ballI *) (auto simp: no_space_byte_def)
  moreover have "\<forall>w \<in> set (map rev go_spaces). w = [] \<or> \<not> has_prefix s w"
    using assms by (intro ballI *) (auto simp: no_space_byte_def)
  ultimately show "strip_words go_spaces s = s" "strip_words (map rev go_spaces) s = s"
    by (simp_all only: strip_words_id)
qed

lemma trim_space_id:
  assumes "s = [] \<or> no_space_byte (hd s) \<and> no_space_byte (last s)"
  shows "trim_space s = s"
proof -
  have "rev s = [] \<or> no_space_byte (hd (rev s))"
    using assms by (auto simp: hd_rev)
  then have "strip_words (map rev go_spaces) (rev s) = rev s"
    by (rule strip_words_no_space)
  moreover have "strip_words go_spaces s = s"
    using assms by (intro strip_words_no_space) auto
  ultimately show ?thesis by (simp add: trim_space_def)
qed

section \<open>Decimal numbers\<close>

text \<open>\<open>strconv.Itoa\<close> and the verb \<open>%d\<close> of \<open>fmt\<close>.\<close>

definition digit_char :: "nat \<Rightarrow> char" where
  "digit_char n = char_of (n + 48)"

fun nat_str :: "nat \<Rightarrow> string" where
  "nat_str n = (if n < 10 then [digit_char n] else nat_str (n div 10) @ [digit_char (n mod 10)])"

declare nat_str.simps [simp del]

definition itoa :: "int \<Rightarrow> string" where
  "itoa i = (if i < 0 then ''-'' @ nat_str (nat (- i)) else nat_str (nat i))"

text \<open>The value of a digit in bases up to 36, as \<open>strconv.ParseUint\<close> reads it.\<close>

definition digit_val :: "char \<Rightarrow> nat option" where
  "digit_val c =
     (let n = of_char c :: nat in
      if 48 \<le> n \<and> n \<le> 57 then Some (n - 48)
      else if 97 \<le> n \<and> n \<le> 122 then Some (n - 87)
      else if 65 \<le> n \<and> n \<le> 90 then Some (n - 55)
      else None)"

fun digits_val :: "nat \<Rightarrow> nat \<Rightarrow> string \<Rightarrow> nat option" where
  "digits_val base acc [] = Some acc"
| "digits_val base acc (c # cs) =
     (case digit_val c of
        Some d \<Rightarrow> if d < base then digits_val base (acc * base + d) cs else None
      | None \<Rightarrow> None)"

text \<open>
  \<open>strconv.ParseInt (s, base, bits)\<close> for an explicit base: an optional sign, at
  least one digit, and a value in the range of \<open>bits\<close> bits; every other input is an error.
\<close>

definition parse_int :: "nat \<Rightarrow> nat \<Rightarrow> string \<Rightarrow> int option" where
  "parse_int base bits s =
     (let neg = (s \<noteq> [] \<and> hd s = CHR ''-'');
          body = (if s \<noteq> [] \<and> (hd s = CHR ''-'' \<or> hd s = CHR ''+'') then tl s else s)
      in if body = [] then None
         else case digits_val base 0 body of
           None \<Rightarrow> None
         | Some n \<Rightarrow>
             (let i = (if neg then - int n else int n)
              in if - (2 ^ (bits - 1)) \<le> i \<and> i < 2 ^ (bits - 1) then Some i else None))"

lemma digit_val_digit_char: "n < 10 \<Longrightarrow> digit_val (digit_char n) = Some n"
  by (simp add: digit_val_def digit_char_def Let_def)

lemma digits_val_append:
  "digits_val b acc (xs @ ys) = Option.bind (digits_val b acc xs) (\<lambda>a. digits_val b a ys)"
  by (induction xs arbitrary: acc) (auto split: option.splits)

lemma digits_val_nat_str: "digits_val 10 0 (nat_str n) = Some n"
proof (induction n rule: nat_str.induct)
  case (1 n)
  then show ?case
    by (subst nat_str.simps) (auto simp: digits_val_append digit_val_digit_char)
qed

lemma nat_str_ne: "nat_str n \<noteq> []"
  by (subst nat_str.simps) simp

lemma nat_str_digits: "c \<in> set (nat_str n) \<Longrightarrow> 48 \<le> (of_char c :: nat) \<and> (of_char c :: nat) \<le> 57"
proof (induction n rule: nat_str.induct)
  case (1 n)
  have d: "48 \<le> (of_char (digit_char k) :: nat) \<and> (of_char (digit_char k) :: nat) \<le> 57" if "k < 10" for k
    using that by (simp add: digit_char_def)
  from 1 d [of n] d [of "n mod 10"] show ?case
    by (subst (asm) (2) nat_str.simps) (auto split: if_splits)
qed

text \<open>Printing and parsing a number of the machine's range is the identity.\<close>

lemma parse_int_itoa:
  assumes "- (2 ^ (bits - 1)) \<le> i" "i < 2 ^ (bits - 1)"
  shows "parse_int 10 bits (itoa i) = Some i"
proof (cases "i < 0")
  case True
  then show ?thesis
    using assms by (simp add: parse_int_def itoa_def digits_val_nat_str nat_str_ne)
next
  case False
  have "hd (nat_str (nat i)) \<in> set (nat_str (nat i))"
    by (rule hd_in_set [OF nat_str_ne])
  from nat_str_digits [OF this]
  have "hd (nat_str (nat i)) \<noteq> CHR ''-'' \<and> hd (nat_str (nat i)) \<noteq> CHR ''+''" by auto
  with False assms show ?thesis
    by (simp add: parse_int_def itoa_def digits_val_nat_str nat_str_ne)
qed

section \<open>Maps in an arbitrary order\<close>

text \<open>
  A Go map iterates in an unspecified order.  A definition that ranges over a map
  takes an oracle for the order, any function that permutes the list of keys, and the
  theorems hold for every such oracle.
\<close>

type_synonym go_order = "string list \<Rightarrow> string list"

definition perm_oracle :: "go_order \<Rightarrow> bool" where
  "perm_oracle ord \<longleftrightarrow> (\<forall>xs. mset (ord xs) = mset xs)"

lemma perm_oracle_id [intro, simp]: "perm_oracle (\<lambda>xs. xs)"
  by (simp add: perm_oracle_def)

lemma perm_oracle_rev [intro, simp]: "perm_oracle rev"
  by (simp add: perm_oracle_def)

lemma perm_oracle_set: "perm_oracle ord \<Longrightarrow> set (ord xs) = set xs"
  unfolding perm_oracle_def by (metis set_mset_mset)

lemma perm_oracle_distinct: "perm_oracle ord \<Longrightarrow> distinct (ord xs) = distinct xs"
  unfolding perm_oracle_def by (metis mset_eq_imp_distinct_iff)

lemma perm_oracle_length: "perm_oracle ord \<Longrightarrow> length (ord xs) = length xs"
  unfolding perm_oracle_def by (metis size_mset)

section \<open>State machines\<close>

inductive reach :: "('s \<Rightarrow> bool) \<Rightarrow> ('s \<Rightarrow> 's \<Rightarrow> bool) \<Rightarrow> 's \<Rightarrow> bool"
  for init step where
  reach_init: "init s \<Longrightarrow> reach init step s"
| reach_step: "reach init step s \<Longrightarrow> step s t \<Longrightarrow> reach init step t"

text \<open>
  The contract between a component and its clients: an invariant that holds at the
  start and that every step keeps holds in every reachable state.
\<close>

locale invariant_machine =
  fixes init :: "'s \<Rightarrow> bool"
    and step :: "'s \<Rightarrow> 's \<Rightarrow> bool"
    and inv :: "'s \<Rightarrow> bool"
  assumes inv_init: "init s \<Longrightarrow> inv s"
    and inv_step: "inv s \<Longrightarrow> step s t \<Longrightarrow> inv t"
begin

lemma always: "reach init step s \<Longrightarrow> inv s"
  by (induction rule: reach.induct) (auto intro: inv_init inv_step)

end

section \<open>Letters and slices\<close>

definition lower_char :: "char \<Rightarrow> char" where
  "lower_char c = (let n = of_char c :: nat in if 65 \<le> n \<and> n \<le> 90 then char_of (n + 32) else c)"

definition upper_char :: "char \<Rightarrow> char" where
  "upper_char c = (let n = of_char c :: nat in if 97 \<le> n \<and> n \<le> 122 then char_of (n - 32) else c)"

text \<open>\<open>strings.ToLower\<close> of ASCII letters.\<close>

definition to_lower :: "string \<Rightarrow> string" where
  "to_lower = map lower_char"

text \<open>Assigning to an element of a slice panics beyond its length.\<close>

definition set_at :: "nat \<Rightarrow> 'a \<Rightarrow> 'a list \<Rightarrow> ('e, 'a list) outcome" where
  "set_at i v xs = (if i < length xs then Ok (xs[i := v]) else Panic)"

text \<open>
  The lines \<open>bufio.Scanner\<close> gives: without the carriage return before a newline, and up to a line that
  does not fit its buffer of 64 kB, which ends the scan.
\<close>

definition drop_cr :: "string \<Rightarrow> string" where
  "drop_cr l = (if l \<noteq> [] \<and> last l = CHR 0x0D then butlast l else l)"

definition scanned_lines :: "string \<Rightarrow> string list" where
  "scanned_lines s =
     (let ls = split_on nl s; ls = (if last ls = [] then butlast ls else ls)
      in map drop_cr (takeWhile (\<lambda>l. length l < 65536) ls))"

lemma scanned_lines_join:
  assumes "ls \<noteq> []" and "\<And>l. l \<in> set ls \<Longrightarrow> nl \<notin> set l \<and> CHR 0x0D \<notin> set l \<and> length l < 65536"
  shows "scanned_lines (join [nl] ls @ [nl]) = ls"
proof -
  have "join [nl] ls @ [nl] = join [nl] (ls @ [[]])"
    using assms(1) by (induction ls rule: induct_list012) auto
  moreover have "split_on nl (join [nl] (ls @ [[]])) = ls @ [[]]"
    by (rule split_on_join) (use assms in auto)
  moreover have "takeWhile (\<lambda>l. length l < 65536) ls = ls"
    using assms(2) takeWhile_eq_all_conv [of "\<lambda>l. length l < 65536" ls] by blast
  moreover have "map drop_cr ls = ls"
    using assms(2) by (intro map_idI) (metis drop_cr_def last_in_set)
  ultimately show ?thesis
    unfolding scanned_lines_def Let_def by (simp only: last_snoc butlast_snoc if_True simp_thms)
qed

lemma scanned_lines_no_nl: "l \<in> set (scanned_lines s) \<Longrightarrow> nl \<notin> set l \<and> length l < 65536"
proof -
  assume "l \<in> set (scanned_lines s)"
  then obtain l' where l': "l = drop_cr l'" "l' \<in> set (split_on nl s)" "length l' < 65536"
    by (auto simp: scanned_lines_def Let_def dest: set_takeWhileD in_set_butlastD split: if_splits)
  then have "nl \<notin> set l'" by (simp add: split_on_no_sep)
  with l' show ?thesis
    by (auto simp: drop_cr_def dest: in_set_butlastD)
qed

lemma scanned_lines_no_cr: "CHR 0x0D \<notin> set s \<Longrightarrow> l \<in> set (scanned_lines s) \<Longrightarrow> CHR 0x0D \<notin> set l"
proof -
  assume s: "CHR 0x0D \<notin> set s" and "l \<in> set (scanned_lines s)"
  then obtain l' where l': "l = drop_cr l'" "l' \<in> set (split_on nl s)"
    by (auto simp: scanned_lines_def Let_def dest: set_takeWhileD in_set_butlastD split: if_splits)
  have "CHR 0x0D \<notin> set l'"
    using s set_split_on [OF l'(2)] by auto
  with l' show ?thesis
    by (auto simp: drop_cr_def dest: in_set_butlastD)
qed

end
