(* ===== verification/Registries.thy ===== *)
theory Registries
  imports Go_Prelude
begin

text \<open>
  The registries of the program: modules (\<open>modules/moduleRegistry.go\<close>), action plugins
  (\<open>plugins/actions.go\<close>), lookup plugins (\<open>plugins/lookup/repository.go\<close>) and become
  plugins (\<open>plugins/become/repository/become.go\<close>), each a Go map from names to
  constructors, and what the program registers at start.  Modules and actions are entered under
  the aliases of \<open>utils/fqcn/fqcn.go\<close>.  The contract they share is the locale
  \<open>alias_registry\<close>.
\<close>

section \<open>Fully qualified names\<close>

definition to_internal_fqcns :: "string \<Rightarrow> string list" where
  "to_internal_fqcns name =
     (if contains name ''.'' then [name]
      else [name, ''ansible.builtin.'' @ name, ''ansible.legacy.'' @ name])"

lemma name_in_fqcns: "name \<in> set (to_internal_fqcns name)"
  by (simp add: to_internal_fqcns_def)

lemma fqcns_distinct: "distinct (to_internal_fqcns name)"
  by (auto simp: to_internal_fqcns_def)

text \<open>Every alias is its own only alias unless it is the short name itself.\<close>

lemma dot_in_prefixed [simp]:
  "contains (''ansible.builtin.'' @ n) ''.''" "contains (''ansible.legacy.'' @ n) ''.''"
  by (simp_all add: contains_char)

lemma fqcns_idem:
  "a \<in> set (to_internal_fqcns n) \<Longrightarrow> a \<noteq> n \<Longrightarrow> to_internal_fqcns a = [a]"
  by (auto simp: to_internal_fqcns_def split: if_splits)

text \<open>Distinct short names share no alias.\<close>

lemma fqcns_disjoint:
  assumes "CHR ''.'' \<notin> set n" "CHR ''.'' \<notin> set m" "n \<noteq> m"
  shows "set (to_internal_fqcns n) \<inter> set (to_internal_fqcns m) = {}"
  using assms by (auto simp: to_internal_fqcns_def contains_char)

section \<open>The contract of a registry\<close>

text \<open>
  A client enters a value under a name and looks names up.  \<open>names n\<close> are the keys an
  entry for \<open>n\<close> answers to.
\<close>

locale alias_registry =
  fixes names :: "string \<Rightarrow> string list"
    and register :: "string \<Rightarrow> 'v \<Rightarrow> 'm \<Rightarrow> 'm"
    and find :: "string \<Rightarrow> 'm \<Rightarrow> 'v option"
    and empty :: 'm
  assumes find_empty: "find k empty = None"
    and find_register: "find k (register n v m) = (if k \<in> set (names n) then Some v else find k m)"
    and names_self: "n \<in> set (names n)"
begin

definition register_all :: "(string \<times> 'v) list \<Rightarrow> 'm \<Rightarrow> 'm" where
  "register_all ps m = fold (\<lambda>(n, v). register n v) ps m"

lemma register_all_simps [simp]:
  "register_all [] m = m"
  "register_all ((n, v) # ps) m = register_all ps (register n v m)"
  by (simp_all add: register_all_def)

text \<open>The last registration under a key is the one found.\<close>

lemma find_registered: "find n (register n v m) = Some v"
  by (simp add: find_register names_self)

lemma find_untouched:
  "(\<And>n v. (n, v) \<in> set ps \<Longrightarrow> k \<notin> set (names n)) \<Longrightarrow> find k (register_all ps m) = find k m"
proof (induction ps arbitrary: m)
  case (Cons p ps)
  obtain n v where p: "p = (n, v)" by force
  have "find k (register_all ps (register n v m)) = find k (register n v m)"
    by (rule Cons.IH) (use Cons.prems in auto)
  with Cons.prems [of n v] show ?case by (simp add: p find_register)
qed simp

lemma last_registration_wins:
  assumes "k \<in> set (names n)" "\<And>n' v'. (n', v') \<in> set qs \<Longrightarrow> k \<notin> set (names n')"
  shows "find k (register_all (ps @ (n, v) # qs) m) = Some v"
proof -
  have "find k (register_all (ps @ (n, v) # qs) m)
      = find k (register_all qs (register n v (register_all ps m)))"
    by (simp add: register_all_def)
  also have "\<dots> = find k (register n v (register_all ps m))"
    by (rule find_untouched) (rule assms(2))
  finally show ?thesis using assms(1) by (simp add: find_register)
qed

lemma found_was_registered:
  "find k (register_all ps m) = Some v \<Longrightarrow>
     find k m = Some v \<or> (\<exists>n. (n, v) \<in> set ps \<and> k \<in> set (names n))"
proof (induction ps arbitrary: m)
  case (Cons p ps)
  obtain n w where p: "p = (n, w)" by force
  from Cons.IH [of "register n w m"] Cons.prems show ?case
    by (auto simp: p find_register split: if_splits)
qed simp

text \<open>With pairwise disjoint aliases a lookup is membership, whatever the order.\<close>

lemma find_register_all_iff:
  assumes "sorted_wrt (\<lambda>p q. set (names (fst p)) \<inter> set (names (fst q)) = {}) ps"
  shows "find k (register_all ps empty) = Some v
           \<longleftrightarrow> (\<exists>n. (n, v) \<in> set ps \<and> k \<in> set (names n))"
proof
  assume "find k (register_all ps empty) = Some v"
  from found_was_registered [OF this] show "\<exists>n. (n, v) \<in> set ps \<and> k \<in> set (names n)"
    by (simp add: find_empty)
next
  assume "\<exists>n. (n, v) \<in> set ps \<and> k \<in> set (names n)"
  then obtain n us ws where ps: "ps = us @ (n, v) # ws" and k: "k \<in> set (names n)"
    by (auto dest!: split_list)
  have "k \<notin> set (names n')" if "(n', v') \<in> set ws" for n' v'
    using assms k that by (force simp: ps sorted_wrt_append)
  then show "find k (register_all ps empty) = Some v"
    unfolding ps by (rule last_registration_wins [OF k])
qed

lemma registration_commutes:
  assumes "set (names n) \<inter> set (names n') = {}"
  shows "find k (register n v (register n' v' m)) = find k (register n' v' (register n v m))"
  using assms by (auto simp: find_register)

end

section \<open>Modules\<close>

text \<open>
  The constructors the program registers.  A Python module is built by
  \<open>NewStandardModule\<close> from its Ansible name and the prefix \<open>py_\<close>.
\<close>

datatype module_fn =
    CommandNew | ShellNew | GetUrlNew | GroupNew | HostnameNew | PipNew | PingNew
  | WaitForNew | ServiceNew | PyModuleNew string

fun mod_name :: "module_fn \<Rightarrow> string" where
  "mod_name CommandNew = ''command''"
| "mod_name ShellNew = ''shell''"
| "mod_name GetUrlNew = ''get_url''"
| "mod_name GroupNew = ''group''"
| "mod_name HostnameNew = ''hostname''"
| "mod_name PipNew = ''pip''"
| "mod_name PingNew = ''ping''"
| "mod_name WaitForNew = ''wait_for''"
| "mod_name ServiceNew = ''service''"
| "mod_name (PyModuleNew n) = ''py_'' @ n"

type_synonym module_registry = "string \<rightharpoonup> module_fn"

definition new_registry :: module_registry where
  "new_registry = Map.empty"

definition register_module_fn :: "module_fn \<Rightarrow> module_registry \<Rightarrow> module_registry" where
  "register_module_fn fn r =
     fold (\<lambda>internal_name r. r(internal_name \<mapsto> fn)) (to_internal_fqcns (mod_name fn)) r"

definition find_module :: "string \<Rightarrow> module_registry \<Rightarrow> module_fn option" where
  "find_module name r = r name"

definition default_modules_register :: "module_registry \<Rightarrow> module_registry" where
  "default_modules_register =
     fold register_module_fn
       [CommandNew, ShellNew, GetUrlNew, GroupNew, HostnameNew, PipNew, PingNew, WaitForNew, ServiceNew]"

definition default_modules_register_python :: "module_registry \<Rightarrow> module_registry" where
  "default_modules_register_python =
     fold register_module_fn
       (map PyModuleNew [''get_url'', ''setup'', ''apt'', ''apt_repository'', ''apt_key''])"

section \<open>Actions\<close>

datatype action_fn = ExampleNew | DebugNew | WaitForConnectionNew | SetFactNew

type_synonym action_registry = "string \<rightharpoonup> action_fn"

definition register_action :: "string \<Rightarrow> action_fn \<Rightarrow> action_registry \<Rightarrow> action_registry" where
  "register_action name fn m = fold (\<lambda>k m. m(k \<mapsto> fn)) (to_internal_fqcns name) m"

definition find_action :: "string \<Rightarrow> action_registry \<Rightarrow> action_fn option" where
  "find_action name m = m name"

text \<open>The four calls of \<open>RegisterAction\<close> in \<open>plugins/default/default_plugins.go\<close>.\<close>

definition default_actions :: "(string \<times> action_fn) list" where
  "default_actions =
     [(''example'', ExampleNew), (''debug'', DebugNew),
      (''wait_for_connection'', WaitForConnectionNew), (''set_fact'', SetFactNew)]"

definition register_default_actions :: "action_registry \<Rightarrow> action_registry" where
  "register_default_actions = fold (\<lambda>(n, f). register_action n f) default_actions"

section \<open>Lookup and become plugins\<close>

text \<open>These two registries have no aliases.\<close>

definition register_plugin :: "string \<Rightarrow> 'f \<Rightarrow> (string \<rightharpoonup> 'f) \<Rightarrow> (string \<rightharpoonup> 'f)" where
  "register_plugin name fn m = m(name \<mapsto> fn)"

definition find_plugin :: "string \<Rightarrow> (string \<rightharpoonup> 'f) \<Rightarrow> 'f option" where
  "find_plugin name m = m name"

datatype become_fn = NewSu | NewSudo

definition register_become_plugins :: "(string \<rightharpoonup> become_fn) \<Rightarrow> (string \<rightharpoonup> become_fn)" where
  "register_become_plugins =
     register_plugin ''sudo'' NewSudo \<circ> register_plugin ''su'' NewSu"

datatype lookup_fn =
    UrlRun | SequenceRun | IndexedItemsRun | RandomChoiceRun | ListRun | ItemsRun | EnvRun
  | VarsRun | VarnamesRun

definition default_lookups :: "(string \<times> lookup_fn) list" where
  "default_lookups =
     [(''url'', UrlRun), (''sequence'', SequenceRun), (''indexed_items'', IndexedItemsRun),
      (''random_choice'', RandomChoiceRun), (''list'', ListRun), (''items'', ItemsRun),
      (''env'', EnvRun), (''vars'', VarsRun), (''varnames'', VarnamesRun)]"

text \<open>\<open>RegisterDefaultPlugins\<close>, and \<open>ResetLookupPlugins\<close>, which starts from a new map.\<close>

definition register_default_lookups :: "(string \<rightharpoonup> lookup_fn) \<Rightarrow> (string \<rightharpoonup> lookup_fn)" where
  "register_default_lookups = fold (\<lambda>(n, f). register_plugin n f) default_lookups"

definition reset_lookup_plugins :: "(string \<rightharpoonup> lookup_fn) \<Rightarrow> (string \<rightharpoonup> lookup_fn)" where
  "reset_lookup_plugins m = register_default_lookups Map.empty"

section \<open>The registries meet their contract\<close>

lemma fold_upd_apply:
  "fold (\<lambda>k m. m(k \<mapsto> v)) ks m k' = (if k' \<in> set ks then Some v else m k')"
  by (induction ks arbitrary: m) auto

interpretation actions: alias_registry to_internal_fqcns register_action find_action Map.empty
  by unfold_locales
    (simp_all add: register_action_def find_action_def fold_upd_apply name_in_fqcns)

text \<open>A module is registered under the name its constructor reports.\<close>

interpretation modules: alias_registry to_internal_fqcns
  "\<lambda>n v r. fold (\<lambda>k r. r(k \<mapsto> v)) (to_internal_fqcns n) r" find_module new_registry
  by unfold_locales (simp_all add: find_module_def new_registry_def fold_upd_apply name_in_fqcns)

interpretation plugin: alias_registry "\<lambda>n. [n]" register_plugin find_plugin Map.empty
  by unfold_locales (simp_all add: register_plugin_def find_plugin_def)

lemma register_modules_all:
  "fold register_module_fn fns r = modules.register_all (map (\<lambda>f. (mod_name f, f)) fns) r"
  by (simp add: modules.register_all_def fold_map comp_def register_module_fn_def [abs_def])

text \<open>Modules of pairwise different dot-free names are exactly what lookup finds.\<close>

lemma find_registered_modules:
  assumes "distinct (map mod_name fns)" "\<forall>f \<in> set fns. CHR ''.'' \<notin> set (mod_name f)"
  shows "find_module k (fold register_module_fn fns new_registry) = Some f
           \<longleftrightarrow> f \<in> set fns \<and> k \<in> set (to_internal_fqcns (mod_name f))"
proof -
  have "sorted_wrt (\<lambda>p q. set (to_internal_fqcns (fst p)) \<inter> set (to_internal_fqcns (fst q)) = {})
          (map (\<lambda>f. (mod_name f, f)) fns)"
    using assms
  proof (induction fns)
    case (Cons g gs)
    have "set (to_internal_fqcns (mod_name g)) \<inter> set (to_internal_fqcns (mod_name h)) = {}"
      if "h \<in> set gs" for h
      using Cons.prems that by (intro fqcns_disjoint) auto
    with Cons show ?case by simp
  qed simp
  from modules.find_register_all_iff [OF this, of k f] show ?thesis
    by (auto simp: register_modules_all)
qed

text \<open>The modules of \<open>Register\<close> followed by \<open>RegisterPython\<close>, as the program starts.\<close>

definition all_module_fns :: "module_fn list" where
  "all_module_fns =
     [CommandNew, ShellNew, GetUrlNew, GroupNew, HostnameNew, PipNew, PingNew, WaitForNew, ServiceNew]
     @ map PyModuleNew [''get_url'', ''setup'', ''apt'', ''apt_repository'', ''apt_key'']"

lemma default_registry_all:
  "default_modules_register_python (default_modules_register new_registry)
     = fold register_module_fn all_module_fns new_registry"
  by (simp add: default_modules_register_python_def default_modules_register_def all_module_fns_def)

text \<open>
  After start-up a task name resolves to a built-in module exactly when it is the module's
  short name or that name under \<open>ansible.builtin\<close> or \<open>ansible.legacy\<close>, and no
  Python wrapper hides a native module: the lookup is the same whichever was registered last.
\<close>

theorem default_modules_resolve:
  "find_module k (default_modules_register_python (default_modules_register new_registry)) = Some f
     \<longleftrightarrow> f \<in> set all_module_fns
         \<and> k \<in> {mod_name f, ''ansible.builtin.'' @ mod_name f, ''ansible.legacy.'' @ mod_name f}"
proof -
  have nodot: "\<forall>f \<in> set all_module_fns. CHR ''.'' \<notin> set (mod_name f)"
    by (simp add: all_module_fns_def)
  have "distinct (map mod_name all_module_fns)"
    by (simp add: all_module_fns_def)
  from find_registered_modules [OF this nodot, of k f] nodot show ?thesis
    by (auto simp: default_registry_all to_internal_fqcns_def contains_char)
qed

text \<open>The default actions, in the same way.\<close>

lemma default_actions_resolve:
  "find_action k (register_default_actions Map.empty) = Some f
     \<longleftrightarrow> (\<exists>n. (n, f) \<in> set default_actions \<and> k \<in> set (to_internal_fqcns n))"
proof -
  have "sorted_wrt (\<lambda>p q. set (to_internal_fqcns (fst p)) \<inter> set (to_internal_fqcns (fst q)) = {})
          default_actions"
    by (simp add: default_actions_def to_internal_fqcns_def contains_char)
  from actions.find_register_all_iff [OF this, of k f] show ?thesis
    by (simp add: register_default_actions_def actions.register_all_def)
qed

lemma default_lookups_resolve:
  "find_plugin k (register_default_lookups Map.empty) = map_of default_lookups k"
  by (simp add: find_plugin_def register_default_lookups_def default_lookups_def register_plugin_def)

lemma reset_forgets: "reset_lookup_plugins m = reset_lookup_plugins m'"
  by (simp add: reset_lookup_plugins_def)

lemma become_plugins_resolve:
  "find_plugin k (register_become_plugins m) =
     (if k = ''sudo'' then Some NewSudo else if k = ''su'' then Some NewSu else find_plugin k m)"
  by (simp add: register_become_plugins_def plugin.find_register)

end
