(* ===== verification/File_Mode.thy ===== *)
theory File_Mode
  imports Go_Prelude "HOL-Library.Word"
begin

unbundle bit_operations_syntax

text \<open>
  File modes: the symbolic modes of \<open>module_utils/gosibleModule/mode.go\<close>, the entry point
  \<open>parseMode\<close> of \<open>gosible_module.go\<close>, and the attribute names of
  \<open>module_utils/file/file.go\<close>.  An \<open>os.FileMode\<close> is a \<open>uint32\<close>, here a
  \<open>32 word\<close>; the process umask is an argument.
\<close>

section \<open>Bits\<close>

text \<open>The octal constants of the source are written in hexadecimal: 0777 is \<open>0x1FF\<close>.\<close>

type_synonym file_mode = "32 word"

definition perm_bits :: file_mode where "perm_bits = 0x1FF"
definition exec_perm_bits :: file_mode where "exec_perm_bits = 0x49"
definition default_perm :: file_mode where "default_perm = 0x1B6"

text \<open>The permission bits of \<open>syscall\<close>, and three of the portable bits of \<open>io/fs\<close>.\<close>

definition s_isuid :: file_mode where "s_isuid = 0x800"
definition s_isgid :: file_mode where "s_isgid = 0x400"
definition s_isvtx :: file_mode where "s_isvtx = 0x200"
definition s_irwxu :: file_mode where "s_irwxu = 0x1C0"
definition s_irwxg :: file_mode where "s_irwxg = 0x38"
definition s_irwxo :: file_mode where "s_irwxo = 7"

definition mode_setuid :: file_mode where "mode_setuid = push_bit 23 1"
definition mode_setgid :: file_mode where "mode_setgid = push_bit 22 1"
definition mode_sticky :: file_mode where "mode_sticky = push_bit 20 1"

text \<open>What the code reads of an \<open>os.FileInfo\<close>.\<close>

record file_info =
  fi_mode :: file_mode
  fi_is_dir :: bool

definition syscall_mode :: "file_mode \<Rightarrow> file_mode" where
  "syscall_mode i =
     (i AND perm_bits)
     OR (if i AND mode_setgid \<noteq> 0 then s_isuid else 0)
     OR (if i AND mode_setgid \<noteq> 0 then s_isgid else 0)
     OR (if i AND mode_sticky \<noteq> 0 then s_isvtx else 0)"

section \<open>Permissions of a class\<close>

text \<open>\<open>getUserPermsToModesMap\<close>; a missing key of a Go map reads as 0.\<close>

definition reversed_umask :: "bool \<Rightarrow> file_mode \<Rightarrow> file_mode" where
  "reversed_umask use_umask umask = (if use_umask then umask XOR perm_bits else NOT 0)"

definition user_perms_to_mode :: "file_info \<Rightarrow> file_mode \<Rightarrow> bool \<Rightarrow> char \<Rightarrow> char \<Rightarrow> file_mode" where
  "user_perms_to_mode stat umask use_umask user perm =
     (let prev_mode = syscall_mode (fi_mode stat);
          has_x_permissions = (prev_mode AND exec_perm_bits \<noteq> 0);
          apply_x_permission = (fi_is_dir stat \<or> has_x_permissions);
          rev_umask = reversed_umask use_umask umask;
          u_x = (if apply_x_permission then 0x40 else 0);
          g_x = (if apply_x_permission then 8 else 0);
          o_x = (if apply_x_permission then 1 else 0)
      in if user = CHR ''u'' then
           (if perm = CHR ''r'' then rev_umask AND 0x100
            else if perm = CHR ''w'' then rev_umask AND 0x80
            else if perm = CHR ''x'' then rev_umask AND 0x40
            else if perm = CHR ''s'' then s_isuid
            else if perm = CHR ''t'' then 0
            else if perm = CHR ''u'' then prev_mode AND s_irwxu
            else if perm = CHR ''g'' then push_bit 3 (prev_mode AND s_irwxg)
            else if perm = CHR ''o'' then push_bit 6 (prev_mode AND s_irwxo)
            else if perm = CHR ''X'' then u_x else 0)
         else if user = CHR ''g'' then
           (if perm = CHR ''r'' then rev_umask AND 0x20
            else if perm = CHR ''w'' then rev_umask AND 0x10
            else if perm = CHR ''x'' then rev_umask AND 8
            else if perm = CHR ''s'' then s_isgid
            else if perm = CHR ''t'' then 0
            else if perm = CHR ''u'' then drop_bit 3 (prev_mode AND s_irwxu)
            else if perm = CHR ''g'' then prev_mode AND s_irwxg
            else if perm = CHR ''o'' then push_bit 3 (prev_mode AND s_irwxo)
            else if perm = CHR ''X'' then g_x else 0)
         else if user = CHR ''o'' then
           (if perm = CHR ''r'' then rev_umask AND 4
            else if perm = CHR ''w'' then rev_umask AND 2
            else if perm = CHR ''x'' then rev_umask AND 1
            else if perm = CHR ''s'' then 0
            else if perm = CHR ''t'' then s_isvtx
            else if perm = CHR ''u'' then drop_bit 6 (prev_mode AND s_irwxu)
            else if perm = CHR ''g'' then drop_bit 3 (prev_mode AND s_irwxg)
            else if perm = CHR ''o'' then prev_mode AND s_irwxo
            else if perm = CHR ''X'' then o_x else 0)
         else 0)"

definition get_octal_mode_from_symbolic_perms ::
  "file_info \<Rightarrow> file_mode \<Rightarrow> char \<Rightarrow> string \<Rightarrow> bool \<Rightarrow> file_mode" where
  "get_octal_mode_from_symbolic_perms stat umask user perms use_umask =
     fold (\<lambda>perm mode. mode OR user_perms_to_mode stat umask use_umask user perm) perms 0"

definition apply_operation_to_mode :: "char \<Rightarrow> char \<Rightarrow> file_mode \<Rightarrow> file_mode \<Rightarrow> file_mode" where
  "apply_operation_to_mode user op mode_to_apply current_mode =
     (if op = CHR ''='' then
        (let mask = (if user = CHR ''u'' then s_irwxu OR s_isuid
                     else if user = CHR ''g'' then s_irwxg OR s_isgid
                     else if user = CHR ''0'' then s_irwxo OR s_isvtx
                     else 0);
             inverse_mask = mask XOR perm_bits
         in (current_mode AND inverse_mask) OR mode_to_apply)
      else if op = CHR ''+'' then current_mode OR mode_to_apply
      else if op = CHR ''-'' then current_mode - (current_mode AND mode_to_apply)
      else 0)"

section \<open>Parsing\<close>

definition is_operator :: "char \<Rightarrow> bool" where
  "is_operator c \<longleftrightarrow> c = CHR ''+'' \<or> c = CHR ''='' \<or> c = CHR ''-''"

text \<open>
  \<open>modeOperatorRe.Split (mode, -1)\<close> and \<open>FindAllString (mode, -1)\<close> for a class of
  single characters: the pieces between matches, one more than there are matches.
\<close>

fun split_operators :: "string \<Rightarrow> string list" where
  "split_operators [] = [[]]"
| "split_operators (c # cs) =
     (if is_operator c then [] # split_operators cs
      else (case split_operators cs of [] \<Rightarrow> [[c]] | w # ws \<Rightarrow> (c # w) # ws))"

definition find_operators :: "string \<Rightarrow> string" where
  "find_operators mode = filter is_operator mode"

definition wrong_user :: "string \<Rightarrow> bool" where
  "wrong_user users \<longleftrightarrow> (\<exists>c \<in> set users. c \<notin> set ''ugo'')"

definition illegal_perm :: "string \<Rightarrow> bool" where
  "illegal_perm perms \<longleftrightarrow> (\<exists>c \<in> set perms. c \<notin> set ''rwxXstugo'')"

datatype mode_error = WrongFormat | BadPermission string | UnsupportedType

text \<open>The loop over the users for one operator, and the loop over the operators.\<close>

definition apply_users ::
  "file_info \<Rightarrow> file_mode \<Rightarrow> string \<Rightarrow> bool \<Rightarrow> char \<Rightarrow> string \<Rightarrow> file_mode \<Rightarrow> file_mode" where
  "apply_users stat umask users use_umask oper perms new_mode =
     fold (\<lambda>user m. apply_operation_to_mode user oper
             (get_octal_mode_from_symbolic_perms stat umask user perms use_umask) m) users new_mode"

definition apply_perm ::
  "file_info \<Rightarrow> file_mode \<Rightarrow> string \<Rightarrow> string \<Rightarrow> bool \<Rightarrow> char \<times> string
     \<Rightarrow> file_mode \<Rightarrow> (mode_error, file_mode) outcome" where
  "apply_perm stat umask mode users use_umask = (\<lambda>(oper, perms) new_mode.
     if illegal_perm perms then Err (BadPermission mode)
     else Ok (apply_users stat umask users use_umask oper perms new_mode))"

definition apply_single_mode ::
  "file_info \<Rightarrow> file_mode \<Rightarrow> string \<Rightarrow> file_mode \<Rightarrow> (mode_error, file_mode) outcome" where
  "apply_single_mode stat umask mode new_mode =
     (case split_operators mode of
        [] \<Rightarrow> Err WrongFormat
      | users # perm_list \<Rightarrow>
          let opers = find_operators mode;
              use_umask = (users = []);
              users = (if users = [] \<or> users = ''a'' then ''ugo'' else users)
          in if wrong_user users then Err (BadPermission mode)
             else if length opers \<noteq> length perm_list then Err (BadPermission mode)
             else ofold (apply_perm stat umask mode users use_umask) (zip opers perm_list) new_mode)"

definition symbolic_mode_to_octal ::
  "file_info \<Rightarrow> file_mode \<Rightarrow> string \<Rightarrow> (mode_error, file_mode) outcome" where
  "symbolic_mode_to_octal stat umask symbolic_mode =
     ofold (apply_single_mode stat umask) (split_on (CHR '','') symbolic_mode)
       (syscall_mode (fi_mode stat))"

text \<open>
  \<open>parseMode\<close>: the dynamic type of the argument, an octal number of 32 bits, or a
  symbolic mode.  A Go \<open>int\<close> is converted to \<open>uint32\<close> modulo \<open>2 ^ 32\<close>.
\<close>

datatype mode_arg = ModeInt int | ModeString string | ModeOther

definition parse_mode ::
  "file_info \<Rightarrow> file_mode \<Rightarrow> mode_arg \<Rightarrow> (mode_error, file_mode) outcome" where
  "parse_mode stat umask mode =
     (case mode of
        ModeInt v \<Rightarrow> Ok (word_of_int v)
      | ModeString v \<Rightarrow>
          (case parse_int 8 32 v of
             Some mod64 \<Rightarrow> Ok (word_of_int mod64)
           | None \<Rightarrow> symbolic_mode_to_octal stat umask v)
      | ModeOther \<Rightarrow> Err UnsupportedType)"

section \<open>Attribute names\<close>

definition file_attributes :: "(char \<times> string) list" where
  "file_attributes =
     [(CHR ''A'', ''noatime''), (CHR ''a'', ''append''), (CHR ''c'', ''compressed''),
      (CHR ''C'', ''nocow''), (CHR ''d'', ''nodump''), (CHR ''D'', ''dirsync''),
      (CHR ''e'', ''extents''), (CHR ''E'', ''encrypted''), (CHR ''h'', ''blocksize''),
      (CHR ''i'', ''immutable''), (CHR ''I'', ''indexed''), (CHR ''j'', ''journalled''),
      (CHR ''N'', ''inline''), (CHR ''s'', ''zero''), (CHR ''S'', ''synchronous''),
      (CHR ''t'', ''notail''), (CHR ''T'', ''blockroot''), (CHR ''u'', ''undelete''),
      (CHR ''X'', ''compressedraw''), (CHR ''Z'', ''compresseddirty'')]"

definition format_attributes :: "string \<Rightarrow> string list" where
  "format_attributes attributes = List.map_filter (map_of file_attributes) attributes"

section \<open>Operations as operations on sets of permissions\<close>

text \<open>
  The abstract mode of chmod(1): the set of the nine permission bits, numbered from the
  execute bit of others (0) to the read bit of the user (8).
\<close>

definition perm_set :: "file_mode \<Rightarrow> nat set" where
  "perm_set m = {n. n < 9 \<and> bit m n}"

definition class_base :: "char \<Rightarrow> nat" where
  "class_base user = (if user = CHR ''u'' then 6 else if user = CHR ''g'' then 3 else 0)"

definition class_bits :: "char \<Rightarrow> nat set" where
  "class_bits user = {class_base user ..< class_base user + 3}"

definition chmod_op :: "char \<Rightarrow> char \<Rightarrow> nat set \<Rightarrow> nat set \<Rightarrow> nat set" where
  "chmod_op user op new cur =
     (if op = CHR ''='' then (cur - class_bits user) \<union> new
      else if op = CHR ''+'' then cur \<union> new
      else cur - new)"

lemma perm_set_or [go_simps]: "perm_set (a OR b) = perm_set a \<union> perm_set b"
  by (auto simp: perm_set_def bit_or_iff)

lemma perm_set_and [go_simps]: "perm_set (a AND b) = perm_set a \<inter> perm_set b"
  by (auto simp: perm_set_def bit_and_iff)

lemma perm_set_0 [go_simps]: "perm_set 0 = {}"
  by (simp add: perm_set_def)

lemma minus_and_eq: "c - (c AND m) = c AND NOT (m :: 'a :: len word)"
proof -
  have "c - (c AND m) = c AND NOT (c AND m)"
    by (rule disjunctive_diff_eq_and_not) (auto intro!: bit_word_eqI simp: bit_simps)
  also have "\<dots> = c AND NOT m"
    by (rule bit_word_eqI) (auto simp: bit_simps)
  finally show ?thesis .
qed

lemma perm_set_minus [go_simps]: "perm_set (c - (c AND m)) = perm_set c - perm_set m"
  by (auto simp: minus_and_eq perm_set_def bit_and_iff bit_not_iff)

lemma less9: "n < 9 \<longleftrightarrow> n \<in> {0, 1, 2, 3, 4, 5, 6, 7, 8 :: nat}"
  by auto

lemma perm_set_filter: "perm_set m = set (filter (bit m) [0 ..< 9])"
  by (auto simp: perm_set_def)

lemma inverse_masks [go_simps]:
  "perm_set ((s_irwxu OR s_isuid) XOR perm_bits) = {0 ..< 6}"
  "perm_set ((s_irwxg OR s_isgid) XOR perm_bits) = {0 ..< 3} \<union> {6 ..< 9}"
  "perm_set perm_bits = {0 ..< 9}"
  unfolding perm_set_filter by code_simp+

lemma perm_set_bound: "n \<in> perm_set m \<Longrightarrow> n < 9"
  by (simp add: perm_set_def)

text \<open>One operator on one class; assigning to others adds and never clears.\<close>

lemma apply_operation_perm_set:
  assumes "user \<in> set ''ugo''" "is_operator op"
  shows "perm_set (apply_operation_to_mode user op m c) =
           (if user = CHR ''o'' \<and> op = CHR ''='' then perm_set c \<union> perm_set m
            else chmod_op user op (perm_set m) (perm_set c))"
proof -
  have all: "perm_set c \<inter> {0 ..< 9} = perm_set c"
    and sub: "perm_set c \<inter> {0 ..< 6} = perm_set c - {6 ..< 9}"
      "perm_set c \<inter> ({0 ..< 3} \<union> {6 ..< 9}) = perm_set c - {3 ..< 6}"
    by (auto dest: perm_set_bound)
  consider "op = CHR ''+''" | "op = CHR ''-''" | "op = CHR ''=''"
    using assms(2) by (auto simp: is_operator_def)
  then show ?thesis
  proof cases
    case 3
    consider "user = CHR ''u''" | "user = CHR ''g''" | "user = CHR ''o''" using assms(1) by auto
    then show ?thesis
      by cases (simp_all add: 3 apply_operation_to_mode_def Let_def go_simps chmod_op_def
          class_bits_def class_base_def all sub)
  qed (simp_all add: apply_operation_to_mode_def go_simps chmod_op_def)
qed

section \<open>Permission letters\<close>

text \<open>
  What a permission letter stands for in a class: \<open>r\<close>, \<open>w\<close> and \<open>x\<close> (limited by the
  umask when no class is given), \<open>X\<close>, or a copy of the bits another class had at the start.
\<close>

definition letter_bits :: "file_info \<Rightarrow> file_mode \<Rightarrow> bool \<Rightarrow> char \<Rightarrow> char \<Rightarrow> nat set" where
  "letter_bits stat umask use_umask user perm =
     (let b = class_base user;
          orig = perm_set (fi_mode stat);
          allowed = (if use_umask then - perm_set umask else UNIV);
          copy = (\<lambda>from. {n. b \<le> n \<and> n < b + 3 \<and> n - b + class_base from \<in> orig})
      in if perm = CHR ''r'' then {b + 2} \<inter> allowed
         else if perm = CHR ''w'' then {b + 1} \<inter> allowed
         else if perm = CHR ''x'' then {b} \<inter> allowed
         else if perm = CHR ''X'' then (if fi_is_dir stat \<or> orig \<inter> {0, 3, 6} \<noteq> {} then {b} else {})
         else if perm \<in> set ''ugo'' then copy perm
         else {})"

lemma bit_syscall_mode: "n < 9 \<Longrightarrow> bit (syscall_mode m) n \<longleftrightarrow> bit m n"
  unfolding less9
  by (auto simp: syscall_mode_def perm_bits_def s_isuid_def s_isgid_def s_isvtx_def bit_simps)

lemma perm_set_syscall_mode [go_simps]: "perm_set (syscall_mode m) = perm_set m"
  unfolding perm_set_def using bit_syscall_mode by blast

lemma list_all_bits: "list_all P [0 ..< 32] \<Longrightarrow> n < 32 \<Longrightarrow> P n"
  unfolding list_all_iff set_upt by simp

lemma bit_imp_less32: "bit (w :: file_mode) n \<Longrightarrow> n < 32"
  using bit_imp_le_length [of w n] by simp

lemma exec_bits_iff: "syscall_mode m AND exec_perm_bits = 0 \<longleftrightarrow> perm_set m \<inter> {0, 3, 6} = {}"
proof -
  let ?w = "syscall_mode m AND exec_perm_bits"
  have "list_all (\<lambda>n. bit exec_perm_bits n \<longleftrightarrow> n = 0 \<or> n = 3 \<or> n = 6) [0 ..< 32]"
    unfolding exec_perm_bits_def by code_simp
  from list_all_bits [OF this] bit_imp_less32
  have b: "bit exec_perm_bits n \<longleftrightarrow> n = 0 \<or> n = 3 \<or> n = 6" for n
    by (cases "n < 32") auto
  have "?w = 0 \<longleftrightarrow> (\<forall>n. \<not> bit ?w n)"
    by (metis bit_0_eq bit_eqI bot_apply bot_bool_def)
  also have "\<dots> \<longleftrightarrow> \<not> bit m 0 \<and> \<not> bit m 3 \<and> \<not> bit m 6"
  proof -
    have "(\<forall>n. \<not> bit ?w n) \<longleftrightarrow>
            \<not> bit (syscall_mode m) 0 \<and> \<not> bit (syscall_mode m) 3 \<and> \<not> bit (syscall_mode m) 6"
      unfolding bit_and_iff b by blast
    then show ?thesis by (simp add: bit_syscall_mode)
  qed
  finally show ?thesis by (auto simp: perm_set_def)
qed

lemma bit_const_iff:
  "bit s_irwxu n \<longleftrightarrow> 6 \<le> n \<and> n < 9" "bit s_irwxg n \<longleftrightarrow> 3 \<le> n \<and> n < 6" "bit s_irwxo n \<longleftrightarrow> n < 3"
proof -
  have "list_all (\<lambda>n. (bit s_irwxu n \<longleftrightarrow> 6 \<le> n \<and> n < 9) \<and> (bit s_irwxg n \<longleftrightarrow> 3 \<le> n \<and> n < 6)
                        \<and> (bit s_irwxo n \<longleftrightarrow> n < 3)) [0 ..< 32]"
    unfolding s_irwxu_def s_irwxg_def s_irwxo_def by code_simp
  from list_all_bits [OF this, of n] bit_imp_less32 [of _ n]
  show "bit s_irwxu n \<longleftrightarrow> 6 \<le> n \<and> n < 9" "bit s_irwxg n \<longleftrightarrow> 3 \<le> n \<and> n < 6" "bit s_irwxo n \<longleftrightarrow> n < 3"
    by (cases "n < 32"; auto)+
qed

lemma perm_set_shift:
  "perm_set (push_bit k w) = {n. k \<le> n \<and> n < 9 \<and> bit w (n - k)}"
  "perm_set (drop_bit k w) = {n. n < 9 \<and> bit w (n + k)}"
  by (auto simp: perm_set_def bit_push_bit_iff bit_drop_bit_eq add.commute dest: bit_imp_le_length)

lemma perm_set_letters [go_simps]:
  "perm_set (0x100 :: file_mode) = {8}" "perm_set (0x80 :: file_mode) = {7}" "perm_set (0x40 :: file_mode) = {6}"
  "perm_set (0x20 :: file_mode) = {5}" "perm_set (0x10 :: file_mode) = {4}" "perm_set (8 :: file_mode) = {3}"
  "perm_set (4 :: file_mode) = {2}" "perm_set (2 :: file_mode) = {1}" "perm_set (1 :: file_mode) = {0}"
  "perm_set s_isuid = {}" "perm_set s_isgid = {}" "perm_set s_isvtx = {}"
  unfolding perm_set_filter
  by (code_simp, code_simp, code_simp, code_simp, code_simp, code_simp,
      code_simp, code_simp, code_simp, code_simp, code_simp, code_simp)

lemma perm_set_rev_umask:
  "perm_set (umask XOR perm_bits) = {n. n < 9 \<and> n \<notin> perm_set umask}" "perm_set (- 1 :: file_mode) = {n. n < 9}"
proof -
  have b: "bit perm_bits n" if "n < 9" for n
  proof -
    have "n \<in> perm_set perm_bits" unfolding inverse_masks using that by simp
    then show ?thesis by (simp add: perm_set_def)
  qed
  have "n \<in> perm_set (umask XOR perm_bits) \<longleftrightarrow> n < 9 \<and> n \<notin> perm_set umask" for n
    by (cases "n < 9") (simp_all add: perm_set_def bit_xor_iff b)
  then show "perm_set (umask XOR perm_bits) = {n. n < 9 \<and> n \<notin> perm_set umask}" by blast
  show "perm_set (- 1 :: file_mode) = {n. n < 9}"
    by (rule set_eqI) (simp add: perm_set_def, linarith)
qed

lemma bit_class_copy:
  "bit (syscall_mode m AND s_irwxu) n \<longleftrightarrow> 6 \<le> n \<and> n < 9 \<and> bit m n"
  "bit (syscall_mode m AND s_irwxg) n \<longleftrightarrow> 3 \<le> n \<and> n < 6 \<and> bit m n"
  "bit (syscall_mode m AND s_irwxo) n \<longleftrightarrow> n < 3 \<and> bit m n"
  using bit_syscall_mode [of n m] by (auto simp: bit_and_iff bit_const_iff)

lemma perm_set_copy:
  "perm_set (syscall_mode m AND s_irwxu) = {n. 6 \<le> n \<and> n < 9 \<and> n - 6 + 6 \<in> perm_set m}"
  "perm_set (syscall_mode m AND s_irwxg) = {n. 3 \<le> n \<and> n < 6 \<and> n - 3 + 3 \<in> perm_set m}"
  "perm_set (syscall_mode m AND s_irwxo) = {n. n < 3 \<and> n \<in> perm_set m}"
  "perm_set (push_bit 3 (syscall_mode m AND s_irwxg)) = {n. 6 \<le> n \<and> n < 9 \<and> n - 6 + 3 \<in> perm_set m}"
  "perm_set (push_bit 6 (syscall_mode m AND s_irwxo)) = {n. 6 \<le> n \<and> n < 9 \<and> n - 6 \<in> perm_set m}"
  "perm_set (push_bit 3 (syscall_mode m AND s_irwxo)) = {n. 3 \<le> n \<and> n < 6 \<and> n - 3 \<in> perm_set m}"
  "perm_set (drop_bit 3 (syscall_mode m AND s_irwxu)) = {n. 3 \<le> n \<and> n < 6 \<and> n - 3 + 6 \<in> perm_set m}"
  "perm_set (drop_bit 6 (syscall_mode m AND s_irwxu)) = {n. n < 3 \<and> n + 6 \<in> perm_set m}"
  "perm_set (drop_bit 3 (syscall_mode m AND s_irwxg)) = {n. n < 3 \<and> n + 3 \<in> perm_set m}"
proof -
  have up: "3 \<le> n \<Longrightarrow> n - 3 + 6 = n + 3" "6 \<le> n \<Longrightarrow> n - 6 + 3 = n - 3" for n :: nat by simp_all
  show
    "perm_set (syscall_mode m AND s_irwxu) = {n. 6 \<le> n \<and> n < 9 \<and> n - 6 + 6 \<in> perm_set m}"
    "perm_set (syscall_mode m AND s_irwxg) = {n. 3 \<le> n \<and> n < 6 \<and> n - 3 + 3 \<in> perm_set m}"
    "perm_set (syscall_mode m AND s_irwxo) = {n. n < 3 \<and> n \<in> perm_set m}"
    by (auto simp: perm_set_def bit_class_copy)
  show
    "perm_set (push_bit 3 (syscall_mode m AND s_irwxg)) = {n. 6 \<le> n \<and> n < 9 \<and> n - 6 + 3 \<in> perm_set m}"
    "perm_set (push_bit 6 (syscall_mode m AND s_irwxo)) = {n. 6 \<le> n \<and> n < 9 \<and> n - 6 \<in> perm_set m}"
    "perm_set (push_bit 3 (syscall_mode m AND s_irwxo)) = {n. 3 \<le> n \<and> n < 6 \<and> n - 3 \<in> perm_set m}"
    "perm_set (drop_bit 3 (syscall_mode m AND s_irwxu)) = {n. 3 \<le> n \<and> n < 6 \<and> n - 3 + 6 \<in> perm_set m}"
    "perm_set (drop_bit 6 (syscall_mode m AND s_irwxu)) = {n. n < 3 \<and> n + 6 \<in> perm_set m}"
    "perm_set (drop_bit 3 (syscall_mode m AND s_irwxg)) = {n. n < 3 \<and> n + 3 \<in> perm_set m}"
    unfolding perm_set_shift unfolding bit_class_copy unfolding perm_set_def
    using up by (auto simp: add.commute)
qed

text \<open>Each entry of the table is the meaning of its letter.\<close>

lemma user_perms_perm_set:
  assumes "user \<in> set ''ugo''"
  shows "perm_set (user_perms_to_mode stat umask use_umask user perm)
           = letter_bits stat umask use_umask user perm"
proof -
  have allowed: "perm_set (reversed_umask use_umask umask AND w)
      = perm_set w \<inter> (if use_umask then - perm_set umask else UNIV)" for w :: file_mode
    by (auto simp: reversed_umask_def perm_set_and perm_set_rev_umask dest: perm_set_bound)
  note rules = allowed perm_set_letters perm_set_0 perm_set_copy exec_bits_iff
  consider "user = CHR ''u''" | "user = CHR ''g''" | "user = CHR ''o''" using assms by auto
  then show ?thesis
    by cases (simp_all add: user_perms_to_mode_def letter_bits_def Let_def class_base_def rules
        numeral_2_eq_2 [symmetric] del: push_bit_and drop_bit_and)
qed

section \<open>Clauses\<close>

text \<open>A clause as a user writes it: classes, then operators with their letters.\<close>

type_synonym mode_clause = "string \<times> (char \<times> string) list"

definition render_clause :: "mode_clause \<Rightarrow> string" where
  "render_clause cl = fst cl @ concat (map (\<lambda>(oper, perms). oper # perms) (snd cl))"

definition classes :: "string \<Rightarrow> string" where
  "classes users = (if users = [] \<or> users = ''a'' then ''ugo'' else users)"

definition clause_wf :: "mode_clause \<Rightarrow> bool" where
  "clause_wf cl \<longleftrightarrow>
     \<not> wrong_user (classes (fst cl))
     \<and> (\<forall>(oper, perms) \<in> set (snd cl). is_operator oper \<and> \<not> illegal_perm perms)"

text \<open>Its meaning on sets of permissions, after chmod(1).\<close>

definition letters_bits :: "file_info \<Rightarrow> file_mode \<Rightarrow> bool \<Rightarrow> char \<Rightarrow> string \<Rightarrow> nat set" where
  "letters_bits stat umask use_umask user perms =
     (\<Union>perm \<in> set perms. letter_bits stat umask use_umask user perm)"

definition chmod_clause :: "file_info \<Rightarrow> file_mode \<Rightarrow> mode_clause \<Rightarrow> nat set \<Rightarrow> nat set" where
  "chmod_clause stat umask cl =
     fold (\<lambda>(oper, perms). fold (\<lambda>user. chmod_op user oper
             (letters_bits stat umask (fst cl = []) user perms)) (classes (fst cl))) (snd cl)"

text \<open>No clause assigns to the class of others.\<close>

definition no_assign_others :: "mode_clause \<Rightarrow> bool" where
  "no_assign_others cl \<longleftrightarrow>
     CHR ''o'' \<notin> set (classes (fst cl)) \<or> CHR ''='' \<notin> set (map fst (snd cl))"

lemma split_operators_ne [simp]: "split_operators s \<noteq> []"
  by (cases s) (auto split: list.splits)

lemma split_operators_plain: "\<forall>c \<in> set w. \<not> is_operator c \<Longrightarrow> split_operators w = [w]"
  by (induction w) auto

lemma split_operators_append:
  "\<forall>c \<in> set w. \<not> is_operator c \<Longrightarrow> is_operator x \<Longrightarrow> split_operators (w @ x # s) = w # split_operators s"
  by (induction w) auto

lemma split_operators_length: "length (split_operators s) = Suc (length (find_operators s))"
  by (induction s) (auto simp: find_operators_def split: list.splits)

lemma not_wrong_user: "\<not> wrong_user us \<longleftrightarrow> set us \<subseteq> set ''ugo''"
  unfolding wrong_user_def by blast

lemma plain_letter: "c \<in> set ''augorwxXst'' \<Longrightarrow> \<not> is_operator c \<and> c \<noteq> CHR '',''"
  by (auto simp: is_operator_def)

lemma class_not_operator:
  assumes "\<not> wrong_user (classes us)" "c \<in> set us"
  shows "\<not> is_operator c \<and> c \<noteq> CHR '',''"
proof (rule plain_letter)
  show "c \<in> set ''augorwxXst''"
  proof (cases "us = ''a''")
    case True
    with assms(2) show ?thesis by simp
  next
    case False
    have "us \<noteq> []" using assms(2) by (cases us) simp_all
    with False have "classes us = us" by (simp add: classes_def)
    then have "c \<in> set ''ugo''" using assms unfolding not_wrong_user by auto
    moreover have "set ''ugo'' \<subseteq> set ''augorwxXst''" by simp
    ultimately show ?thesis by (rule rev_subsetD)
  qed
qed

lemma perm_not_operator:
  assumes "\<not> illegal_perm p" "c \<in> set p"
  shows "\<not> is_operator c \<and> c \<noteq> CHR '',''"
proof (rule plain_letter)
  have "c \<in> set ''rwxXstugo''" using assms unfolding illegal_perm_def by blast
  moreover have "set ''rwxXstugo'' \<subseteq> set ''augorwxXst''" by simp
  ultimately show "c \<in> set ''augorwxXst''" by (rule rev_subsetD)
qed

lemma split_rendered:
  assumes "\<forall>c \<in> set us. \<not> is_operator c" "\<forall>(x, p) \<in> set ops. is_operator x \<and> (\<forall>c \<in> set p. \<not> is_operator c)"
  shows "split_operators (us @ concat (map (\<lambda>(x, p). x # p) ops)) = us # map snd ops
       \<and> find_operators (us @ concat (map (\<lambda>(x, p). x # p) ops)) = map fst ops"
  using assms
proof (induction ops arbitrary: us)
  case Nil
  then show ?case by (auto simp: split_operators_plain find_operators_def filter_empty_conv)
next
  case (Cons xp ops)
  obtain x p where xp: "xp = (x, p)" by force
  from Cons.IH [of p] Cons.prems show ?case
    by (auto simp: xp split_operators_append find_operators_def filter_empty_conv)
qed

lemma parse_rendered:
  assumes "clause_wf cl"
  shows "split_operators (render_clause cl) = fst cl # map snd (snd cl)"
    and "find_operators (render_clause cl) = map fst (snd cl)"
    and "CHR '','' \<notin> set (render_clause cl)"
proof -
  have u: "\<forall>c \<in> set (fst cl). \<not> is_operator c \<and> c \<noteq> CHR '',''"
    using assms class_not_operator unfolding clause_wf_def by blast
  have p: "\<forall>(x, p) \<in> set (snd cl). is_operator x \<and> (\<forall>c \<in> set p. \<not> is_operator c \<and> c \<noteq> CHR '','')"
    using assms perm_not_operator by (fastforce simp: clause_wf_def)
  show "split_operators (render_clause cl) = fst cl # map snd (snd cl)"
    "find_operators (render_clause cl) = map fst (snd cl)"
  proof -
    have 1: "\<forall>(x, p) \<in> set (snd cl). is_operator x \<and> (\<forall>c \<in> set p. \<not> is_operator c)" using p by blast
    have 2: "\<forall>c \<in> set (fst cl). \<not> is_operator c" using u by blast
    note * = split_rendered [OF 2 1]
    show "split_operators (render_clause cl) = fst cl # map snd (snd cl)"
      unfolding render_clause_def using * by (rule conjunct1)
    show "find_operators (render_clause cl) = map fst (snd cl)"
      unfolding render_clause_def using * by (rule conjunct2)
  qed
  have "\<not> is_operator (CHR '','')" by (simp add: is_operator_def)
  then have "CHR '','' \<notin> set (x # q)" if "(x, q) \<in> set (snd cl)" for x q
  proof -
    have "is_operator x" "CHR '','' \<notin> set q" using p that by blast+
    with \<open>\<not> is_operator (CHR '','')\<close> show ?thesis by (metis set_ConsD)
  qed
  then show "CHR '','' \<notin> set (render_clause cl)"
    using u unfolding render_clause_def by fastforce
qed

lemma letters_perm_set:
  assumes "user \<in> set ''ugo''"
  shows "perm_set (get_octal_mode_from_symbolic_perms stat umask user perms um)
           = letters_bits stat umask um user perms"
proof -
  have "perm_set (fold (\<lambda>p m. m OR user_perms_to_mode stat umask um user p) perms m0)
          = perm_set m0 \<union> letters_bits stat umask um user perms" for m0
    by (induction perms arbitrary: m0)
      (auto simp: letters_bits_def perm_set_or user_perms_perm_set [OF assms])
  from this [of 0] show ?thesis
    by (simp add: get_octal_mode_from_symbolic_perms_def perm_set_0)
qed

lemma apply_users_perm_set:
  assumes "set users \<subseteq> set ''ugo''" "is_operator oper" "CHR ''o'' \<notin> set users \<or> oper \<noteq> CHR ''=''"
  shows "perm_set (apply_users stat umask users um oper perms m)
           = fold (\<lambda>user. chmod_op user oper (letters_bits stat umask um user perms)) users (perm_set m)"
  using assms
proof (induction users arbitrary: m)
  case (Cons u us)
  then have "perm_set (apply_operation_to_mode u oper
      (get_octal_mode_from_symbolic_perms stat umask u perms um) m)
    = chmod_op u oper (letters_bits stat umask um u perms) (perm_set m)"
    by (auto simp: apply_operation_perm_set letters_perm_set)
  moreover have "perm_set (apply_users stat umask us um oper perms m')
      = fold (\<lambda>user. chmod_op user oper (letters_bits stat umask um user perms)) us (perm_set m')" for m'
    using Cons.prems by (intro Cons.IH) auto
  ultimately show ?case by (simp add: apply_users_def)
qed (simp add: apply_users_def)

lemma apply_perms_refine:
  assumes "\<forall>(oper, perms) \<in> set ops. is_operator oper \<and> \<not> illegal_perm perms"
    and "set users \<subseteq> set ''ugo''" "CHR ''o'' \<notin> set users \<or> CHR ''='' \<notin> set (map fst ops)"
  shows "\<exists>m'. ofold (apply_perm stat umask mode users um) ops m = Ok m'
           \<and> perm_set m' = fold (\<lambda>(oper, perms). fold (\<lambda>user. chmod_op user oper
                              (letters_bits stat umask um user perms)) users) ops (perm_set m)"
  using assms
proof (induction ops arbitrary: m)
  case (Cons xp ops)
  obtain x p where xp: "xp = (x, p)" by force
  have "perm_set (apply_users stat umask users um x p m)
          = fold (\<lambda>user. chmod_op user x (letters_bits stat umask um user p)) users (perm_set m)"
    using Cons.prems by (intro apply_users_perm_set) (auto simp: xp)
  with Cons.IH [of "apply_users stat umask users um x p m"] Cons.prems
  show ?case by (auto simp: xp apply_perm_def)
qed simp

lemma apply_single_refine:
  assumes "clause_wf cl" "no_assign_others cl"
  shows "\<exists>m'. apply_single_mode stat umask (render_clause cl) m = Ok m'
           \<and> perm_set m' = chmod_clause stat umask cl (perm_set m)"
proof -
  have "apply_single_mode stat umask (render_clause cl) m
          = ofold (apply_perm stat umask (render_clause cl) (classes (fst cl)) (fst cl = [])) (snd cl) m"
    using assms(1)
    by (simp add: apply_single_mode_def parse_rendered Let_def clause_wf_def flip: classes_def)
      (simp add: zip_map_fst_snd)
  then show ?thesis
    using apply_perms_refine [of "snd cl" "classes (fst cl)"] assms
    by (simp add: clause_wf_def no_assign_others_def not_wrong_user chmod_clause_def)
qed


section \<open>Errors and bounds\<close>

text \<open>A raw clause is accepted when its class and letters are legal.\<close>

definition clause_ok :: "string \<Rightarrow> bool" where
  "clause_ok c \<longleftrightarrow>
     \<not> wrong_user (classes (hd (split_operators c)))
     \<and> list_all (\<lambda>p. \<not> illegal_perm p) (tl (split_operators c))"

lemma apply_perms_outcome:
  "ofold (apply_perm stat umask mode users um) ops m =
     (if list_all (\<lambda>(_, p). \<not> illegal_perm p) ops
      then Ok (fold (\<lambda>(oper, p). apply_users stat umask users um oper p) ops m)
      else Err (BadPermission mode))"
proof (induction ops arbitrary: m)
  case (Cons xp ops)
  then show ?case by (cases xp) (auto simp: apply_perm_def)
qed simp

lemma apply_single_outcome:
  "if clause_ok c then \<exists>m'. apply_single_mode stat umask c m = Ok m'
   else apply_single_mode stat umask c m = Err (BadPermission c)"
proof -
  obtain us ps where sp: "split_operators c = us # ps" by (cases "split_operators c") auto
  have len: "length (find_operators c) = length ps"
    using split_operators_length [of c] by (simp add: sp)
  have "list_all (\<lambda>(_, p). \<not> illegal_perm p) (zip (find_operators c) ps) = list_all (\<lambda>p. \<not> illegal_perm p) ps"
    using len by (metis (mono_tags, lifting) case_prod_conv case_prod_eta list.pred_map
        list_all_cong map_snd_zip o_def split_beta)
  then show ?thesis
    by (simp add: clause_ok_def sp apply_single_mode_def Let_def len apply_perms_outcome flip: classes_def)
qed

text \<open>
  A symbolic mode string is rejected exactly when one of its comma-separated clauses has
  an illegal class or letter, and the error names the first such clause; the tests for a
  missing operator and for unequal lengths never fire.
\<close>

theorem symbolic_mode_errors:
  "case find (\<lambda>c. \<not> clause_ok c) (split_on (CHR '','') s) of
     Some c \<Rightarrow> symbolic_mode_to_octal stat umask s = Err (BadPermission c)
   | None \<Rightarrow> \<exists>m. symbolic_mode_to_octal stat umask s = Ok m"
proof -
  have "case find (\<lambda>c. \<not> clause_ok c) cs of
          Some c \<Rightarrow> ofold (apply_single_mode stat umask) cs m = Err (BadPermission c)
        | None \<Rightarrow> \<exists>m'. ofold (apply_single_mode stat umask) cs m = Ok m'" for cs m
  proof (induction cs arbitrary: m)
    case (Cons c cs)
    show ?case
    proof (cases "clause_ok c")
      case True
      with apply_single_outcome [of c stat umask m] obtain m1
        where "apply_single_mode stat umask c m = Ok m1" by auto
      with Cons.IH [of m1] True show ?thesis by (simp split: option.splits)
    next
      case False
      with apply_single_outcome [of c stat umask m] show ?thesis by simp
    qed
  qed simp
  from this [of "split_on (CHR '','') s" "syscall_mode (fi_mode stat)"]
  show ?thesis unfolding symbolic_mode_to_octal_def .
qed

definition within_12 :: "file_mode \<Rightarrow> bool" where
  "within_12 m \<longleftrightarrow> (\<forall>n. bit m n \<longrightarrow> n < 12)"

lemma within_12_ops:
  "within_12 a \<Longrightarrow> within_12 b \<Longrightarrow> within_12 (a OR b)" "within_12 a \<Longrightarrow> within_12 (a AND b)"
  "within_12 b \<Longrightarrow> within_12 (a AND b)" "within_12 a \<Longrightarrow> within_12 (a - (a AND b))" "within_12 0"
  by (auto simp: within_12_def bit_simps minus_and_eq)

lemma within_12_upt: "list_all (\<lambda>n. \<not> bit m n) [12 ..< 32] \<Longrightarrow> within_12 m"
  unfolding within_12_def list_all_iff set_upt using bit_imp_less32 [of m] by (metis atLeastLessThan_iff linorder_not_less)

lemma within_12_consts:
  "within_12 perm_bits" "within_12 s_isuid" "within_12 s_isgid" "within_12 s_isvtx"
  "within_12 0x100" "within_12 0x80" "within_12 0x40" "within_12 0x20" "within_12 0x10"
  "within_12 8" "within_12 4" "within_12 2" "within_12 1"
  by (rule within_12_upt, code_simp, rule within_12_upt, code_simp, rule within_12_upt, code_simp,
      rule within_12_upt, code_simp, rule within_12_upt, code_simp, rule within_12_upt, code_simp,
      rule within_12_upt, code_simp, rule within_12_upt, code_simp, rule within_12_upt, code_simp,
      rule within_12_upt, code_simp, rule within_12_upt, code_simp, rule within_12_upt, code_simp,
      rule within_12_upt, code_simp)

lemma within_12_syscall: "within_12 (syscall_mode m)"
  by (simp add: syscall_mode_def within_12_ops within_12_consts)

lemma within_12_copy:
  "within_12 (syscall_mode m AND s_irwxu)" "within_12 (syscall_mode m AND s_irwxg)"
  "within_12 (syscall_mode m AND s_irwxo)"
  "within_12 (push_bit 3 (syscall_mode m AND s_irwxg))" "within_12 (push_bit 6 (syscall_mode m AND s_irwxo))"
  "within_12 (push_bit 3 (syscall_mode m AND s_irwxo))" "within_12 (drop_bit 3 (syscall_mode m AND s_irwxu))"
  "within_12 (drop_bit 6 (syscall_mode m AND s_irwxu))" "within_12 (drop_bit 3 (syscall_mode m AND s_irwxg))"
  unfolding within_12_def bit_push_bit_iff bit_drop_bit_eq comp_def unfolding bit_class_copy by auto

lemma within_12_user_perms: "within_12 (user_perms_to_mode stat umask um user perm)"
  unfolding user_perms_to_mode_def Let_def
  by (simp add: within_12_copy within_12_consts within_12_ops del: push_bit_and drop_bit_and)

lemma within_12_letters: "within_12 (get_octal_mode_from_symbolic_perms stat umask user perms um)"
proof -
  have "within_12 (fold (\<lambda>p m. m OR user_perms_to_mode stat umask um user p) perms m0)" if "within_12 m0" for m0
    using that by (induction perms arbitrary: m0) (simp_all add: within_12_ops within_12_user_perms)
  then show ?thesis by (simp add: get_octal_mode_from_symbolic_perms_def within_12_ops)
qed

lemma within_12_apply_users: "within_12 m \<Longrightarrow> within_12 (apply_users stat umask users um oper perms m)"
  unfolding apply_users_def
  by (induction users arbitrary: m)
    (simp_all add: apply_operation_to_mode_def Let_def within_12_ops within_12_letters)

text \<open>
  Whatever the file's mode, the umask and the string, a symbolic mode that is accepted
  yields only the twelve permission bits.
\<close>

theorem symbolic_mode_bound:
  assumes "symbolic_mode_to_octal stat umask s = Ok m"
  shows "unat m < 2 ^ 12"
proof -
  have perm: "within_12 m2" if "within_12 m1" "apply_perm stat umask md us um xp m1 = Ok m2" for m1 m2 md us um xp
    using that by (auto simp: apply_perm_def within_12_apply_users split: prod.splits if_splits)
  have single: "within_12 m2" if "within_12 m1" "apply_single_mode stat umask c m1 = Ok m2" for m1 m2 c
    using that unfolding apply_single_mode_def Let_def
    by (auto split: list.splits if_splits elim!: ofold_invariant [rotated -1] intro: perm)
  have "within_12 m"
    using assms unfolding symbolic_mode_to_octal_def
    by (rule ofold_invariant [rotated -1]) (auto intro: single within_12_syscall)
  then have "take_bit 12 m = m"
    by (intro bit_word_eqI) (auto simp: within_12_def bit_take_bit_iff)
  then show ?thesis
    by (metis take_bit_nat_less_exp unsigned_take_bit_eq)
qed

section \<open>Witnesses and limits\<close>

definition plain_file :: file_info where
  "plain_file = \<lparr>fi_mode = 0x1A4, fi_is_dir = False\<rparr>"


lemma symbolic_mode_bound_witness: "unat (0x1ED :: file_mode) < 2 ^ 12"
  by (rule symbolic_mode_bound [of plain_file 0 "''a+x''"]) code_simp

text \<open>
  Three departures from chmod(1): assigning to others clears nothing, a set-user-ID bit of the
  file is dropped by every symbolic mode, and a set-group-ID bit brings the other one along.
\<close>

lemma assign_others_keeps:
  "symbolic_mode_to_octal \<lparr>fi_mode = 0x1FF, fi_is_dir = False\<rparr> 0x12 ''o=r'' = Ok 0x1FF"
  by code_simp

lemma setuid_dropped:
  "symbolic_mode_to_octal \<lparr>fi_mode = mode_setuid OR 0x1ED, fi_is_dir = False\<rparr> 0x12 ''a+r'' = Ok 0x1ED"
  by code_simp

lemma setgid_becomes_setuid:
  "symbolic_mode_to_octal \<lparr>fi_mode = mode_setgid OR 0x1ED, fi_is_dir = False\<rparr> 0x12 ''a+r''
     = Ok (s_isuid OR s_isgid OR 0x1ED)"
  by code_simp

text \<open>An octal string is a number whatever its digits mean to chmod(1), signs included.\<close>

lemma parse_mode_octal:
  "parse_mode stat um (ModeString ''0644'') = Ok 0x1A4" "parse_mode stat um (ModeString ''-1'') = Ok (- 1)"
  by (simp_all add: parse_mode_def parse_int_def digit_val_def Let_def)

section \<open>Attributes\<close>

lemma format_attributes_append: "format_attributes (a @ b) = format_attributes a @ format_attributes b"
  by (simp add: format_attributes_def map_filter_def)

lemma format_attributes_set:
  "set (format_attributes a) = {n. \<exists>c \<in> set a. map_of file_attributes c = Some n}"
  by (auto simp: format_attributes_def map_filter_def image_iff) (metis option.sel)

end
