(* ===== verification/Splitter.thy ===== *)
theory Splitter
  imports Go_Prelude "HOL-Library.AList"
begin

text \<open>
  The tokenizer of free-form task arguments, \<open>parsing/splitter.go\<close> and
  \<open>parsing/quoting.go\<close>: splitting on blanks outside quotes and Jinja2 blocks, reading
  \<open>key=value\<close> words, and joining the rest into \<open>_raw_params\<close>.  A depth counter is an
  \<open>int\<close>; \<open>quoteChar\<close>, a string of at most one character, is a \<open>char option\<close>;
  \<open>params[len(params)-1]\<close> panics on an empty slice.
\<close>

section \<open>Quotes\<close>

definition is_quoted :: "string \<Rightarrow> bool" where
  "is_quoted s =
     (if length s < 2 then False
      else let same_first_last = (s ! 0 = s ! (length s - 1));
               first_is_quote = (s ! 0 = dquote \<or> s ! 0 = squote);
               last_not_escaped = (s ! (length s - 2) \<noteq> bslash)
           in same_first_last \<and> first_is_quote \<and> last_not_escaped)"

definition unquote :: "string \<Rightarrow> string" where
  "unquote s = (if is_quoted s then take (length s - 2) (drop 1 s) else s)"

text \<open>\<open>getQuoteState\<close>: \<open>prev\<close> says whether the byte before is a backslash.\<close>

fun quote_scan :: "bool \<Rightarrow> string \<Rightarrow> char option \<Rightarrow> char option" where
  "quote_scan prev [] q = q"
| "quote_scan prev (c # cs) q =
     quote_scan (c = bslash) cs
       (if (c = dquote \<or> c = squote) \<and> \<not> prev
        then (case q of Some k \<Rightarrow> if c = k then None else q | None \<Rightarrow> Some c)
        else q)"

definition get_quote_state :: "string \<Rightarrow> char option \<Rightarrow> char option" where
  "get_quote_state token quote_char = quote_scan False token quote_char"

definition count_jinja2_blocks :: "string \<Rightarrow> int \<Rightarrow> string \<Rightarrow> string \<Rightarrow> int" where
  "count_jinja2_blocks token cur_depth open_token close_token =
     (let num_open = int (count_sub open_token token);
          num_close = int (count_sub close_token token)
      in if num_open \<noteq> num_close
         then (if cur_depth + (num_open - num_close) < 0 then 0
               else cur_depth + (num_open - num_close))
         else cur_depth)"

section \<open>Splitting\<close>

datatype split_error = Unbalanced string

record split_state =
  params :: "string list"
  quote_char :: "char option"
  inside_quotes :: bool
  print_depth :: int
  block_depth :: int
  comment_depth :: int

definition split_init :: split_state where
  "split_init = \<lparr>params = [], quote_char = None, inside_quotes = False,
                 print_depth = 0, block_depth = 0, comment_depth = 0\<rparr>"

text \<open>\<open>params[len(params)-1] = f (params[len(params)-1])\<close>\<close>

definition modify_last :: "(string \<Rightarrow> string) \<Rightarrow> string list \<Rightarrow> (split_error, string list) outcome" where
  "modify_last f ps = (if ps = [] then Panic else Ok (butlast ps @ [f (last ps)]))"

definition in_block :: "split_state \<Rightarrow> bool" where
  "in_block st \<longleftrightarrow> print_depth st > 0 \<or> block_depth st > 0 \<or> comment_depth st > 0"

text \<open>The first decision about a token: append it, attach it to the last one, or neither.\<close>

definition place_token ::
  "nat \<Rightarrow> nat \<Rightarrow> string \<Rightarrow> bool \<Rightarrow> bool \<Rightarrow> bool \<Rightarrow> string list \<Rightarrow> (split_error, string list \<times> bool) outcome" where
  "place_token n_tokens idx token was inside block ps =
     (if inside \<and> \<not> was \<and> \<not> block then Ok (ps @ [token], True)
      else if block \<or> inside \<or> was then
        omap (\<lambda>ps. (ps, True))
          (if idx = 0 \<and> was then modify_last (\<lambda>p. p @ token) ps
           else if n_tokens > 1 then
             modify_last (\<lambda>p. p @ (if idx > 0 then '' '' else []) @ token) ps
           else modify_last (\<lambda>p. p @ [nl] @ token) ps)
      else Ok (ps, False))"

definition append_once :: "bool \<Rightarrow> string \<Rightarrow> string list \<times> bool \<Rightarrow> string list \<times> bool" where
  "append_once changed token pa =
     (if changed \<and> \<not> snd pa then (fst pa @ [token], True) else pa)"

text \<open>One pass of the loop over the tokens of a line; the flag is \<open>lineContinuation\<close>.\<close>

definition split_token ::
  "nat \<Rightarrow> nat \<Rightarrow> string \<Rightarrow> split_state \<times> bool \<Rightarrow> (split_error, split_state \<times> bool) outcome" where
  "split_token n_tokens idx token = (\<lambda>(st, cont).
     if token = [] \<and> idx \<noteq> 0 then
       omap (\<lambda>ps. (st\<lparr>params := ps\<rparr>, cont)) (modify_last (\<lambda>p. p @ '' '') (params st))
     else if token = [bslash] \<and> \<not> inside_quotes st then Ok (st, True)
     else
       let q = get_quote_state token (quote_char st);
           inside = (q \<noteq> None);
           pd = count_jinja2_blocks token (print_depth st) ''{{'' ''}}'';
           bd = count_jinja2_blocks token (block_depth st) ''{%'' ''%}'';
           cd = count_jinja2_blocks token (comment_depth st) ''{#'' ''#}''
       in omap
            (\<lambda>pa. let pa = append_once (pd \<noteq> print_depth st) token pa;
                      pa = append_once (bd \<noteq> block_depth st) token pa;
                      pa = append_once (cd \<noteq> comment_depth st) token pa;
                      ps = (if \<not> (pd > 0 \<or> bd > 0 \<or> cd > 0) \<and> \<not> inside \<and> \<not> snd pa \<and> token \<noteq> []
                            then fst pa @ [token] else fst pa)
                  in (\<lparr>params = ps, quote_char = q, inside_quotes = inside,
                       print_depth = pd, block_depth = bd, comment_depth = cd\<rparr>, cont))
            (place_token n_tokens idx token (inside_quotes st) inside (in_block st) (params st)))"

definition split_tokens ::
  "string list \<Rightarrow> split_state \<Rightarrow> (split_error, split_state \<times> bool) outcome" where
  "split_tokens tokens st =
     ofold (\<lambda>(idx, token). split_token (length tokens) idx token) (List.enumerate 0 tokens) (st, False)"

definition split_item ::
  "nat \<Rightarrow> nat \<times> string \<Rightarrow> split_state \<Rightarrow> (split_error, split_state) outcome" where
  "split_item n_items = (\<lambda>(item_idx, item) st.
     obind (split_tokens (split_on spc item) st)
       (\<lambda>(st, cont).
          if n_items > 1 \<and> item_idx \<noteq> n_items - 1 \<and> \<not> cont
          then omap (\<lambda>ps. st\<lparr>params := ps\<rparr>) (modify_last (\<lambda>p. p @ [nl]) (params st))
          else Ok st))"

definition split_args :: "string \<Rightarrow> (split_error, string list) outcome" where
  "split_args args =
     (let items = split_on nl args in
      obind (ofold (split_item (length items)) (List.enumerate 0 items) split_init)
        (\<lambda>st. if print_depth st \<noteq> 0 \<or> block_depth st \<noteq> 0 \<or> comment_depth st \<noteq> 0 \<or> inside_quotes st
              then Err (Unbalanced args) else Ok (params st)))"

section \<open>Key and value words\<close>

definition ignored_from_raw_params :: "string list" where
  "ignored_from_raw_params =
     [''creates'', ''removes'', ''chdir'', ''executable'', ''warn'', ''stdin'',
      ''stdin_add_newline'', ''strip_empty_ends'']"

definition is_ignored_from_raw_params :: "string \<Rightarrow> bool" where
  "is_ignored_from_raw_params k \<longleftrightarrow> k \<in> set ignored_from_raw_params"

definition decode_escapes :: "string \<Rightarrow> string" where
  "decode_escapes x =
     replace_all [bslash, dquote] [dquote]
       (replace_all [bslash, squote] [squote] (replace_all [bslash, bslash] [bslash] x))"

text \<open>\<open>strings.Index (s, c)\<close>; \<open>None\<close> is \<open>-1\<close>.\<close>

fun index_of :: "char \<Rightarrow> string \<Rightarrow> nat option" where
  "index_of c [] = None"
| "index_of c (x # xs) = (if x = c then Some 0 else map_option Suc (index_of c xs))"

lemma index_of_Some: "index_of c s = Some i \<Longrightarrow> i < length s \<and> s ! i = c \<and> (\<forall>j < i. s ! j \<noteq> c)"
proof (induction s arbitrary: i)
  case (Cons x s)
  show ?case
  proof (cases "x = c")
    case False
    with Cons.prems obtain k where k: "index_of c s = Some k" "i = Suc k" by auto
    from Cons.IH [OF k(1)] False k(2) show ?thesis
      by (auto simp: nth_Cons split: nat.splits)
  qed (use Cons.prems in simp)
qed simp

lemma index_of_None: "index_of c s = None \<longleftrightarrow> c \<notin> set s"
  by (induction s) auto

text \<open>The loop of \<open>findUnescapedEqualsSignPos\<close>, from the position \<open>pos\<close> of the last round.\<close>

function find_equals_from :: "string \<Rightarrow> nat \<Rightarrow> nat option" where
  "find_equals_from x pos =
     (let offset = pos + 1 in
      case index_of (CHR ''='') (drop offset x) of
        None \<Rightarrow> None
      | Some i \<Rightarrow>
          if x ! (i + offset - 1) \<noteq> bslash then Some (i + offset)
          else find_equals_from x (i + offset))"
  by pat_completeness auto
termination
proof (relation "measure (\<lambda>(x, pos). length x - pos)")
  fix x pos offset i
  assume "offset = pos + 1" "index_of (CHR ''='') (drop offset x) = Some i"
  with index_of_Some [of "CHR ''=''" "drop offset x" i]
  show "((x, i + offset), (x, pos)) \<in> measure (\<lambda>(x, pos). length x - pos)" by auto
qed simp

declare find_equals_from.simps [simp del]

text \<open>The position, or \<open>None\<close> and the word with its escaped signs for the raw parameters.\<close>

definition find_unescaped_equals_sign_pos :: "string \<Rightarrow> string list \<Rightarrow> nat option \<times> string list" where
  "find_unescaped_equals_sign_pos x raw_params =
     (case find_equals_from x 0 of
        None \<Rightarrow> (None, raw_params @ [replace_all [bslash, CHR ''=''] ''='' x])
      | Some pos \<Rightarrow> (Some pos, raw_params))"

definition join_step :: "string \<Rightarrow> string \<Rightarrow> string" where
  "join_step result p = (if result = [] \<or> last result = nl then result @ p else result @ '' '' @ p)"

definition join_args :: "string list \<Rightarrow> string" where
  "join_args s = foldl join_step [] s"

text \<open>
  A map of strings that the program later ranges over, or counts: its entries, with
  distinct keys.  \<open>AList.update\<close> assigns an entry.
\<close>

type_synonym pairs = "(string \<times> string) list"

definition parse_word ::
  "bool \<Rightarrow> string \<Rightarrow> pairs \<times> string list \<Rightarrow> pairs \<times> string list" where
  "parse_word check_raw raw_arg = (\<lambda>(options, raw_params).
     let x = decode_escapes raw_arg in
     if contains x ''='' then
       (case find_unescaped_equals_sign_pos x raw_params of
          (None, raw_params) \<Rightarrow> (options, raw_params)
        | (Some pos, raw_params) \<Rightarrow>
            let k = take pos x; v = drop (pos + 1) x
            in if check_raw \<and> \<not> is_ignored_from_raw_params k
               then (options, raw_params @ [raw_arg])
               else (AList.update (trim_space k) (unquote (trim_space v)) options, raw_params))
     else (options, raw_params @ [raw_arg]))"

text \<open>
  \<open>ParseKeyValuePairsString\<close>: \<open>Ok None\<close> is the nil map it returns when the splitting
  fails.
\<close>

definition parse_key_value_pairs_string ::
  "string \<Rightarrow> bool \<Rightarrow> (split_error, pairs option) outcome" where
  "parse_key_value_pairs_string args check_raw =
     (case split_args args of
        Panic \<Rightarrow> Panic
      | Err e \<Rightarrow> Ok None
      | Ok vargs \<Rightarrow>
          (case fold (parse_word check_raw) vargs ([], []) of
             (options, raw_params) \<Rightarrow>
               Ok (Some (if raw_params \<noteq> [] then AList.update ''_raw_params'' (join_args raw_params) options
                         else options))))"

section \<open>Unquoting\<close>

lemma unquote_quoted:
  assumes "q = dquote \<or> q = squote" "s = [] \<or> last s \<noteq> bslash"
  shows "unquote (q # s @ [q]) = s"
proof -
  have "(q # s @ [q]) ! length s = (if s = [] then q else last s)"
    by (cases s rule: rev_cases) (auto simp: nth_append nth_Cons split: nat.splits)
  then have "is_quoted (q # s @ [q])"
    using assms by (auto simp: is_quoted_def nth_append)
  then show ?thesis by (simp add: unquote_def)
qed

lemma unquote_plain: "dquote \<notin> set s \<Longrightarrow> squote \<notin> set s \<Longrightarrow> unquote s = s"
  by (cases s) (auto simp: unquote_def is_quoted_def)

section \<open>The equals sign\<close>

text \<open>The search returns the first sign after position 0 that no backslash precedes.\<close>

definition unescaped_at :: "string \<Rightarrow> nat \<Rightarrow> bool" where
  "unescaped_at x p \<longleftrightarrow> 0 < p \<and> p < length x \<and> x ! p = CHR ''='' \<and> x ! (p - 1) \<noteq> bslash"

lemma find_equals_from_spec:
  "pos \<le> length x \<Longrightarrow>
   (case find_equals_from x pos of
      Some p \<Rightarrow> pos < p \<and> unescaped_at x p \<and> (\<forall>j. pos < j \<and> j < p \<longrightarrow> \<not> unescaped_at x j)
    | None \<Rightarrow> \<forall>j > pos. \<not> unescaped_at x j)"
proof (induction x pos rule: find_equals_from.induct)
  case (1 x pos)
  show ?case
  proof (cases "index_of (CHR ''='') (drop (pos + 1) x)")
    case None
    have "\<not> unescaped_at x j" if "pos < j" for j
    proof
      assume "unescaped_at x j"
      then have "drop (pos + 1) x ! (j - (pos + 1)) = CHR ''=''" "j - (pos + 1) < length (drop (pos + 1) x)"
        using that by (auto simp: unescaped_at_def)
      with None show False unfolding index_of_None by (metis nth_mem)
    qed
    with None show ?thesis by (subst find_equals_from.simps) simp
  next
    case (Some i)
    define p where "p = i + (pos + 1)"
    have i: "p < length x" "x ! p = CHR ''=''"
      and min: "\<And>j. pos < j \<Longrightarrow> j < p \<Longrightarrow> x ! j \<noteq> CHR ''=''"
    proof -
      from index_of_Some [OF Some]
      have 1: "i < length x - (pos + 1)" "x ! p = CHR ''=''"
        and 2: "\<forall>j<i. drop (pos + 1) x ! j \<noteq> CHR ''=''"
        using "1.prems" by (auto simp: p_def add.commute)
      from 1 show "p < length x" "x ! p = CHR ''=''" by (auto simp: p_def)
      show "x ! j \<noteq> CHR ''=''" if "pos < j" "j < p" for j
        using 2 [rule_format, of "j - (pos + 1)"] that 1 by (simp add: p_def)
    qed
    show ?thesis
    proof (cases "x ! (p - 1) = bslash")
      case True
      have step: "find_equals_from x pos = find_equals_from x p"
        using Some True by (subst find_equals_from.simps) (simp add: p_def)
      have np: "\<not> unescaped_at x j" if "pos < j" "j \<le> p" for j
        using that min [of j] True by (cases "j = p") (auto simp: unescaped_at_def)
      have "case find_equals_from x p of
              Some p' \<Rightarrow> p < p' \<and> unescaped_at x p' \<and> (\<forall>j. p < j \<and> j < p' \<longrightarrow> \<not> unescaped_at x j)
            | None \<Rightarrow> \<forall>j > p. \<not> unescaped_at x j"
        using "1.IH" [OF refl Some] True i by (simp add: p_def split: option.splits)
      with np show ?thesis
        by (auto simp: step p_def split: option.splits) (meson not_le_imp_less)+
    next
      case False
      then have "find_equals_from x pos = Some p"
        using Some by (subst find_equals_from.simps) (simp add: p_def)
      with False i min show ?thesis by (auto simp: unescaped_at_def p_def)
    qed
  qed
qed

lemma find_equals_first:
  assumes "k \<noteq> []" "CHR ''='' \<notin> set k" "last k \<noteq> bslash"
  shows "find_equals_from (k @ CHR ''='' # v) 0 = Some (length k)"
proof -
  let ?x = "k @ CHR ''='' # v"
  have at: "unescaped_at ?x (length k)"
    using assms by (auto simp: unescaped_at_def nth_append last_conv_nth)
  have bel: "\<not> unescaped_at ?x j" if "j < length k" for j
    using that assms by (auto simp: unescaped_at_def nth_append) (metis nth_mem)
  from find_equals_from_spec [of 0 ?x] at bel show ?thesis
    by (auto split: option.splits) (metis linorder_neqE_nat unescaped_at_def)+
qed

section \<open>Tokens as steps of a lexical state\<close>

text \<open>
  What a token does apart from \<open>params\<close> is a step of the lexical state: the open quote
  and the three depths.  \<open>inside_quotes\<close> only repeats whether a quote is open.
\<close>

type_synonym lex = "char option \<times> int \<times> int \<times> int"

definition lex0 :: lex where
  "lex0 = (None, 0, 0, 0)"

fun lex_step :: "string \<Rightarrow> lex \<Rightarrow> lex" where
  "lex_step token (q, p, b, c) =
     (get_quote_state token q, count_jinja2_blocks token p ''{{'' ''}}'',
      count_jinja2_blocks token b ''{%'' ''%}'', count_jinja2_blocks token c ''{#'' ''#}'')"

fun lex_open :: "lex \<Rightarrow> bool" where
  "lex_open (q, p, b, c) \<longleftrightarrow> q \<noteq> None \<or> p > 0 \<or> b > 0 \<or> c > 0"

fun lex_ok :: "lex \<Rightarrow> bool" where
  "lex_ok (q, p, b, c) \<longleftrightarrow> p \<ge> 0 \<and> b \<ge> 0 \<and> c \<ge> 0"

fun mk_state :: "string list \<Rightarrow> lex \<Rightarrow> split_state" where
  "mk_state ps (q, p, b, c) =
     \<lparr>params = ps, quote_char = q, inside_quotes = (q \<noteq> None),
      print_depth = p, block_depth = b, comment_depth = c\<rparr>"

lemma count_sub_Nil [simp]: "count_sub sub [] = 0"
  by (subst count_sub.simps) simp

lemma lex_step_Nil [simp]: "lex_step [] l = l"
  by (cases l) (simp add: get_quote_state_def count_jinja2_blocks_def)

lemma count_jinja2_ge: "0 \<le> d \<Longrightarrow> 0 \<le> count_jinja2_blocks t d x y"
  by (simp add: count_jinja2_blocks_def Let_def)

lemma lex_step_ok: "lex_ok l \<Longrightarrow> lex_ok (lex_step t l)"
  by (cases l) (simp add: count_jinja2_ge)

lemma lex_closed_iff: "lex_ok l \<Longrightarrow> \<not> lex_open l \<longleftrightarrow> l = lex0"
  by (cases l) (auto simp: lex0_def)

lemma split_init_mk: "split_init = mk_state [] lex0"
  by (simp add: split_init_def lex0_def)

lemma params_mk [simp]: "params (mk_state ps l) = ps" "(mk_state ps l)\<lparr>params := ps'\<rparr> = mk_state ps' l"
  by (cases l; simp)+

lemma inside_mk [simp]: "inside_quotes (mk_state ps l) \<longleftrightarrow> fst l \<noteq> None"
  by (cases l) simp

text \<open>A non-empty token outside quotes and blocks starts a new parameter.\<close>

lemma split_token_new:
  assumes "t \<noteq> []" "t \<noteq> [bslash]"
  shows "split_token n i t (mk_state ps lex0, c) = Ok (mk_state (ps @ [t]) (lex_step t lex0), c)"
proof -
  have ge: "count_jinja2_blocks t 0 x y \<ge> 0" for x y by (rule count_jinja2_ge) simp
  show ?thesis
    using assms ge [of "''{{''" "''}}''"] ge [of "''{%''" "''%}''"] ge [of "''{#''" "''#}''"]
    by (auto simp: split_token_def lex0_def place_token_def in_block_def append_once_def Let_def)
qed

text \<open>Inside quotes or blocks, every later token of the line is attached with its blank.\<close>

lemma split_token_attach:
  assumes "lex_open l" "i \<noteq> 0" "n > 1" "t = [bslash] \<Longrightarrow> fst l \<noteq> None" "ps \<noteq> []"
  shows "split_token n i t (mk_state ps l, c)
           = Ok (mk_state (butlast ps @ [last ps @ spc # t]) (lex_step t l), c)"
proof (cases "t = []")
  case True
  then show ?thesis using assms by (simp add: split_token_def modify_last_def)
next
  case False
  obtain q p b cd where l: "l = (q, p, b, cd)" by (cases l)
  have "place_token n i t (q \<noteq> None) ins (in_block (mk_state ps l)) ps
          = Ok (butlast ps @ [last ps @ spc # t], True)" for ins
    using assms by (auto simp: place_token_def l in_block_def modify_last_def)
  moreover have "\<not> (t = [bslash] \<and> q = None)" using assms(4) by (auto simp: l)
  ultimately show ?thesis
    using False by (auto simp: split_token_def l append_once_def Let_def)
qed

text \<open>Outside quotes and blocks an empty token keeps a repeated blank.\<close>

lemma split_token_blank:
  "i \<noteq> 0 \<Longrightarrow> ps \<noteq> [] \<Longrightarrow>
     split_token n i [] (mk_state ps l, c) = Ok (mk_state (butlast ps @ [last ps @ '' '']) l, c)"
  by (simp add: split_token_def modify_last_def)

lemma split_token_blank_start: "split_token n 0 [] (mk_state ps lex0, c) = Ok (mk_state ps lex0, c)"
  by (simp add: split_token_def place_token_def in_block_def append_once_def lex0_def
      get_quote_state_def count_jinja2_blocks_def Let_def)

section \<open>Absence of panics\<close>

lemma modify_last_ok: "ps \<noteq> [] \<Longrightarrow> \<exists>ps'. modify_last f ps = Ok ps' \<and> ps' \<noteq> []"
  by (simp add: modify_last_def)

lemma place_token_ok:
  "ps \<noteq> [] \<Longrightarrow> \<exists>ps' a. place_token n i t w ins b ps = Ok (ps', a) \<and> ps' \<noteq> []"
  by (auto simp: place_token_def modify_last_def)

lemma append_once_ne: "fst pa \<noteq> [] \<Longrightarrow> fst (append_once ch t pa) \<noteq> []"
  by (simp add: append_once_def)

lemma split_token_ok:
  assumes "params st \<noteq> []"
  shows "\<exists>st' c'. split_token n i t (st, c) = Ok (st', c') \<and> params st' \<noteq> []"
proof -
  obtain ps a where *:
    "place_token n i t (inside_quotes st) (get_quote_state t (quote_char st) \<noteq> None) (in_block st) (params st)
       = Ok (ps, a)" "ps \<noteq> []"
    using place_token_ok [OF assms] by blast
  then show ?thesis
    using assms by (auto simp: split_token_def modify_last_def Let_def append_once_ne)
qed

lemma split_tokens_ok:
  "params st \<noteq> [] \<Longrightarrow>
     \<exists>st' c'. ofold (\<lambda>(i, t). split_token n i t) its (st, c) = Ok (st', c') \<and> params st' \<noteq> []"
proof (induction its arbitrary: st c)
  case (Cons it its)
  obtain i t where it: "it = (i, t)" by force
  from split_token_ok [OF Cons.prems, of n i t c] obtain st1 c1
    where "split_token n i t (st, c) = Ok (st1, c1)" "params st1 \<noteq> []" by blast
  with Cons.IH [of st1 c1] show ?case by (simp add: it)
qed simp

lemma split_item_rest_ok:
  assumes "params st \<noteq> []"
  shows "\<exists>st'. (if B c then omap (\<lambda>ps. st\<lparr>params := ps\<rparr>) (modify_last f (params st)) else Ok st) = Ok st'
           \<and> params st' \<noteq> []"
  using assms by (auto simp: modify_last_def)

lemma split_item_ok:
  assumes "params st \<noteq> []"
  shows "\<exists>st'. split_item n it st = Ok st' \<and> params st' \<noteq> []"
proof -
  obtain i item where it: "it = (i, item)" by force
  obtain st1 c1 where 1: "split_tokens (split_on spc item) st = Ok (st1, c1)" "params st1 \<noteq> []"
    unfolding split_tokens_def using split_tokens_ok [OF assms] by blast
  then show ?thesis
    using split_item_rest_ok [of st1 "\<lambda>c. n > 1 \<and> i \<noteq> n - 1 \<and> \<not> c" c1] by (simp add: split_item_def it)
qed

lemma split_items_ok:
  "params st \<noteq> [] \<Longrightarrow> \<exists>st'. ofold (split_item n) its st = Ok st' \<and> params st' \<noteq> []"
proof (induction its arbitrary: st)
  case (Cons it its)
  from split_item_ok [OF Cons.prems, of n it] Cons.IH show ?case by auto
qed simp

lemma split_tokens_first_ok:
  assumes "t \<noteq> []" "t \<noteq> [bslash]"
  shows "\<exists>st' c'. split_tokens (t # ts) split_init = Ok (st', c') \<and> params st' \<noteq> []"
proof -
  have "params (mk_state [t] (lex_step t lex0)) \<noteq> []" by simp
  from split_tokens_ok [OF this] show ?thesis
    using split_token_new [OF assms, of "Suc (length ts)" 0 "[]"]
    by (simp add: split_tokens_def split_init_mk)
qed

text \<open>
  An argument string that does not begin with a blank, a newline or a backslash never
  makes the tokenizer index an empty slice: it returns parameters or the error for unbalanced
  quotes or blocks.
\<close>

theorem split_args_no_panic:
  assumes "args \<noteq> []" "hd args \<notin> {spc, nl, bslash}"
  shows "split_args args \<noteq> Panic"
proof -
  obtain x xs where args: "args = x # xs" "x \<noteq> spc" "x \<noteq> nl" "x \<noteq> bslash"
    using assms by (cases args) auto
  obtain l ls where ls: "split_on nl args = (x # l) # ls"
    using args by (cases "split_on nl xs") auto
  obtain t ts where ts: "split_on spc (x # l) = (x # t) # ts"
    using args by (cases "split_on spc l") auto
  obtain st1 c1 where 1: "split_tokens (split_on spc (x # l)) split_init = Ok (st1, c1)" "params st1 \<noteq> []"
    unfolding ts using split_tokens_first_ok [of "x # t" ts] args by auto
  obtain st2 where 2: "split_item (length (split_on nl args)) (0, x # l) split_init = Ok st2" "params st2 \<noteq> []"
    using 1 split_item_rest_ok [of st1 "\<lambda>c. length (split_on nl args) > 1 \<and> 0 \<noteq> length (split_on nl args) - 1 \<and> \<not> c" c1]
    by (auto simp: split_item_def)
  have "ofold (split_item n) its st2 \<noteq> Panic" for n its
    using split_items_ok [OF 2(2), of n its] by auto
  with 2(1) show ?thesis
    by (auto simp: split_args_def ls Let_def obind_Panic_iff split: if_splits)
qed

text \<open>
  A leading newline, or two leading blanks, does: the first token is empty and there is no
  parameter yet to extend.
\<close>

lemma split_args_panics:
  "split_args (nl # rest) = Panic" "split_args (spc # spc # rest) = Panic"
proof -
  obtain l ls where ls: "split_on nl rest = l # ls" by (cases "split_on nl rest") auto
  have "split_item (Suc (length (l # ls))) (0, []) split_init = Panic"
    by (simp add: split_item_def split_tokens_def split_init_mk split_token_blank_start modify_last_def)
  then show "split_args (nl # rest) = Panic"
    by (simp add: split_args_def ls)
  obtain l' ts where l': "split_on nl (spc # spc # rest) = (spc # spc # l') # ts"
    by (cases "split_on nl rest") auto
  have "split_token n 1 [] (mk_state [] lex0, False) = Panic" for n
    by (simp add: split_token_def modify_last_def)
  then have "split_item n (0, spc # spc # l') split_init = Panic" for n
    by (cases "split_on spc l'")
      (simp_all add: split_item_def split_tokens_def split_init_mk split_token_blank_start)
  then show "split_args (spc # spc # rest) = Panic"
    unfolding split_args_def l' Let_def by simp
qed

section \<open>Words that survive splitting\<close>

text \<open>
  A self-contained word has blanks only inside quotes or Jinja2 blocks, leaves none of
  them open, and has no lone backslash outside quotes.
\<close>

fun rest_ok :: "lex \<Rightarrow> string list \<Rightarrow> bool" where
  "rest_ok l [] \<longleftrightarrow> \<not> lex_open l"
| "rest_ok l (t # ts) \<longleftrightarrow> lex_open l \<and> (t = [bslash] \<longrightarrow> fst l \<noteq> None) \<and> rest_ok (lex_step t l) ts"

definition self_contained :: "string \<Rightarrow> bool" where
  "self_contained w \<longleftrightarrow>
     nl \<notin> set w \<and>
     (case split_on spc w of
        [] \<Rightarrow> False
      | t # ts \<Rightarrow> t \<noteq> [] \<and> t \<noteq> [bslash] \<and> rest_ok (lex_step t lex0) ts)"

lemma self_contained_ne: "self_contained w \<Longrightarrow> w \<noteq> []"
  by (auto simp: self_contained_def)

lemma split_on_append_sep: "split_on c (a @ c # b) = split_on c a @ split_on c b"
  by (induction a) (auto split: list.splits)

lemma split_on_join_all: "ws \<noteq> [] \<Longrightarrow> split_on c (join [c] ws) = concat (map (split_on c) ws)"
  by (induction "[c]" ws rule: join.induct) (simp_all add: split_on_append_sep)

lemma join_Cons_concat: "join [c] (t # ts) = t @ concat (map ((#) c) ts)"
  by (induction ts arbitrary: t) auto

lemma lex0_ok [simp]: "lex_ok lex0" "fst lex0 = None"
  by (simp_all add: lex0_def)

text \<open>The rest of a word's tokens are attached to its first.\<close>

lemma attach_rest:
  assumes "rest_ok l ts" "lex_ok l" "0 < k" "k + length ts \<le> n"
  shows "ofold (\<lambda>(i, t). split_token n i t) (List.enumerate k ts) (mk_state (ps @ [w]) l, c)
           = Ok (mk_state (ps @ [w @ concat (map ((#) spc) ts)]) lex0, c)"
  using assms
proof (induction ts arbitrary: l w k)
  case Nil
  then show ?case using lex_closed_iff by simp
next
  case (Cons t ts)
  have "split_token n k t (mk_state (ps @ [w]) l, c)
          = Ok (mk_state (ps @ [w @ spc # t]) (lex_step t l), c)"
    using Cons.prems by (subst split_token_attach) auto
  with Cons.IH [of "lex_step t l" "Suc k" "w @ spc # t"] Cons.prems lex_step_ok show ?case by simp
qed

lemma split_word:
  assumes "self_contained w" "k + length (split_on spc w) \<le> n"
  shows "ofold (\<lambda>(i, t). split_token n i t) (List.enumerate k (split_on spc w)) (mk_state ps lex0, c)
           = Ok (mk_state (ps @ [w]) lex0, c)"
proof -
  obtain t ts where ts: "split_on spc w = t # ts" "t \<noteq> []" "t \<noteq> [bslash]" "rest_ok (lex_step t lex0) ts"
    using assms(1) by (auto simp: self_contained_def split: list.splits)
  have k: "Suc k + length ts \<le> n" using assms(2) ts(1) by simp
  have w: "w = t @ concat (map ((#) spc) ts)"
    using join_split_on [of spc w] by (simp add: ts join_Cons_concat)
  have "ofold (\<lambda>(i, t). split_token n i t) (List.enumerate (Suc k) ts) (mk_state (ps @ [t]) (lex_step t lex0), c)
          = Ok (mk_state (ps @ [w]) lex0, c)"
    using attach_rest [OF ts(4) lex_step_ok _ k, of ps t c] by (simp flip: w)
  then show ?thesis by (simp add: ts split_token_new)
qed

lemma split_words:
  assumes "\<forall>w \<in> set ws. self_contained w" "k + length (concat (map (split_on spc) ws)) \<le> n"
  shows "ofold (\<lambda>(i, t). split_token n i t) (List.enumerate k (concat (map (split_on spc) ws)))
           (mk_state ps lex0, c) = Ok (mk_state (ps @ ws) lex0, c)"
  using assms
proof (induction ws arbitrary: ps k)
  case (Cons w ws)
  have "ofold (\<lambda>(i, t). split_token n i t) (List.enumerate k (split_on spc w)) (mk_state ps lex0, c)
          = Ok (mk_state (ps @ [w]) lex0, c)"
    using Cons.prems by (intro split_word) auto
  with Cons show ?case by (simp add: enumerate_append_eq ofold_append)
qed simp

lemma depths_mk_lex0:
  "params (mk_state ps lex0) = ps" "print_depth (mk_state ps lex0) = 0" "block_depth (mk_state ps lex0) = 0"
  "comment_depth (mk_state ps lex0) = 0" "\<not> inside_quotes (mk_state ps lex0)"
  by (simp_all add: lex0_def)

lemma split_args_words:
  assumes "\<forall>w \<in> set ws. self_contained w"
  shows "split_args (join '' '' ws) = Ok ws"
proof -
  have nonl: "nl \<notin> set (join '' '' ws)"
    using assms by (auto dest!: set_join simp: self_contained_def)
  have tok: "split_tokens (split_on spc (join '' '' ws)) split_init = Ok (mk_state ws lex0, False)"
  proof (cases "ws = []")
    case True
    then show ?thesis by (simp add: split_tokens_def split_init_mk split_token_blank_start)
  next
    case False
    then show ?thesis
      using split_words [OF assms, of 0 _ "[]" False]
      by (simp add: split_tokens_def split_on_join_all split_init_mk)
  qed
  have "split_item (Suc 0) (0, join '' '' ws) split_init = Ok (mk_state ws lex0)"
    by (simp add: split_item_def tok)
  then show ?thesis
    by (simp add: split_args_def split_on_single [OF nonl] depths_mk_lex0)
qed

section \<open>Free-form text\<close>

lemma join_args_snoc: "join_args (ps @ [p]) = join_step (join_args ps) p"
  by (simp add: join_args_def)

lemma join_args_extend: "ps \<noteq> [] \<Longrightarrow> join_args (butlast ps @ [last ps @ x]) = join_args ps @ x"
  by (cases ps rule: rev_cases) (simp_all add: join_args_snoc join_step_def)

lemma join_args_ne: "ps \<noteq> [] \<Longrightarrow> [] \<notin> set ps \<Longrightarrow> join_args ps \<noteq> []"
  by (cases ps rule: rev_cases) (auto simp: join_args_snoc join_step_def)

lemma set_join_args: "p \<in> set ps \<Longrightarrow> set p \<subseteq> set (join_args ps)"
  by (induction ps rule: rev_induct) (auto simp: join_args_snoc join_step_def join_args_def)

lemma join_args_words:
  assumes "\<forall>w \<in> set ws. w \<noteq> [] \<and> last w \<noteq> nl"
  shows "join_args ws = join '' '' ws"
proof (cases ws)
  case Nil
  then show ?thesis by (simp add: join_args_def)
next
  case (Cons v vs)
  have "foldl join_step u us = u @ concat (map ((#) spc) us)"
    if "u \<noteq> []" "last u \<noteq> nl" "\<forall>w \<in> set us. w \<noteq> [] \<and> last w \<noteq> nl" for u us
    using that
  proof (induction us arbitrary: u)
    case (Cons w us)
    then show ?case by (simp add: join_step_def)
  qed simp
  then show ?thesis using assms by (simp add: Cons join_args_def join_Cons_concat join_step_def)
qed

definition plain_char :: "char \<Rightarrow> bool" where
  "plain_char x \<longleftrightarrow> x \<notin> {dquote, squote, bslash, CHR ''{'', CHR ''}''}"

lemma quote_scan_plain: "\<forall>x \<in> set t. plain_char x \<Longrightarrow> quote_scan False t None = None"
  by (induction t) (auto simp: plain_char_def)

lemma count_sub_absent: "\<not> contains s sub \<Longrightarrow> count_sub sub s = 0"
proof (induction s)
  case (Cons c s)
  then show ?case by (subst count_sub.simps) (auto simp: contains.simps)
qed simp

lemma contains_set: "contains s sub \<Longrightarrow> set sub \<subseteq> set s"
  unfolding contains_iff by (rule set_mono_sublist)

lemma lex_step_plain:
  assumes "\<forall>x \<in> set t. plain_char x"
  shows "lex_step t lex0 = lex0"
proof -
  have brace: "\<not> contains t sub" if "CHR ''{'' \<in> set sub \<or> CHR ''}'' \<in> set sub" for sub
    using assms that contains_set [of t sub] by (auto simp: plain_char_def)
  show ?thesis
    using quote_scan_plain [OF assms]
    by (simp add: lex0_def get_quote_state_def count_jinja2_blocks_def count_sub_absent brace)
qed

text \<open>
  Plain text: no quotes, braces or backslashes, no blank or newline at the start, and no line
  that starts with exactly one blank (its blank would be lost, see below).
\<close>

fun line_ok :: "string list \<Rightarrow> bool" where
  "line_ok (t # t' # ts) \<longleftrightarrow> t \<noteq> [] \<or> t' = []"
| "line_ok ts \<longleftrightarrow> True"

definition plain_text :: "string \<Rightarrow> bool" where
  "plain_text s \<longleftrightarrow>
     s \<noteq> [] \<and> hd s \<noteq> spc \<and> hd s \<noteq> nl \<and> list_all plain_char s
     \<and> list_all (\<lambda>l. line_ok (split_on spc l)) (split_on nl s)"

definition good_params :: "string list \<Rightarrow> bool" where
  "good_params ps \<longleftrightarrow> ps \<noteq> [] \<and> [] \<notin> set ps"

lemma good_params_snoc: "t \<noteq> [] \<Longrightarrow> ps = [] \<or> good_params ps \<Longrightarrow> good_params (ps @ [t])"
  by (auto simp: good_params_def)

lemma good_params_extend: "good_params ps \<Longrightarrow> good_params (butlast ps @ [last ps @ x])"
proof -
  assume "good_params ps"
  moreover from this obtain qs q where "ps = qs @ [q]"
    unfolding good_params_def by (metis rev_exhaust)
  ultimately show ?thesis by (auto simp: good_params_def)
qed

lemma plain_not_bslash:
  assumes "\<forall>x \<in> set t. plain_char x"
  shows "t \<noteq> [bslash]"
proof
  assume "t = [bslash]"
  with assms show False by (simp add: plain_char_def)
qed

lemma plain_rest:
  assumes "\<forall>t \<in> set ts. (\<forall>x \<in> set t. plain_char x) \<and> nl \<notin> set t" "0 < k" "good_params ps"
    and "last (join_args ps) \<noteq> nl \<or> ts = [] \<or> hd ts = []"
  shows "\<exists>ps'. ofold (\<lambda>(i, t). split_token n i t) (List.enumerate k ts) (mk_state ps lex0, c)
                 = Ok (mk_state ps' lex0, c)
               \<and> good_params ps' \<and> join_args ps' = join_args ps @ concat (map ((#) spc) ts)"
  using assms
proof (induction ts arbitrary: ps k)
  case (Cons t ts)
  define ps1 where "ps1 = (if t = [] then butlast ps @ [last ps @ '' ''] else ps @ [t])"
  have ne: "ps \<noteq> []" using Cons.prems(3) by (simp add: good_params_def)
  have g1: "good_params ps1"
    using Cons.prems(3) by (simp add: ps1_def good_params_snoc good_params_extend)
  have J: "join_args ps1 = join_args ps @ spc # t"
  proof (cases "t = []")
    case True
    with ne show ?thesis by (simp add: ps1_def join_args_extend)
  next
    case False
    with Cons.prems(3,4) join_args_ne [of ps] show ?thesis
      by (simp add: ps1_def join_args_snoc join_step_def good_params_def)
  qed
  have "split_token n k t (mk_state ps lex0, c) = Ok (mk_state ps1 lex0, c)"
    using Cons.prems ne
    by (simp add: ps1_def split_token_blank split_token_new plain_not_bslash lex_step_plain)
  moreover have "last (join_args ps1) \<noteq> nl"
  proof -
    have "last (join_args ps1) \<in> set (spc # t)" by (simp add: J)
    with Cons.prems(1) show ?thesis by auto
  qed
  ultimately show ?case
    using Cons.IH [of "Suc k" ps1] Cons.prems g1 by (auto simp: J)
qed auto

lemma plain_line:
  assumes "\<forall>x \<in> set l. plain_char x" "nl \<notin> set l" "line_ok (split_on spc l)"
    and "good_params ps \<and> last (join_args ps) = nl \<or> ps = [] \<and> l \<noteq> [] \<and> hd l \<noteq> spc"
  shows "\<exists>ps'. split_tokens (split_on spc l) (mk_state ps lex0) = Ok (mk_state ps' lex0, False)
               \<and> good_params ps' \<and> join_args ps' = join_args ps @ l"
proof -
  obtain t ts where ts: "split_on spc l = t # ts" by (cases "split_on spc l") auto
  have l: "l = t @ concat (map ((#) spc) ts)"
    using join_split_on [of spc l] by (simp add: ts join_Cons_concat)
  have each: "\<forall>t \<in> set (t # ts). (\<forall>x \<in> set t. plain_char x) \<and> nl \<notin> set t"
    using assms(1,2) set_split_on [of _ spc l] unfolding ts by blast
  define ps1 where "ps1 = (if t = [] then ps else ps @ [t])"
  have g1: "good_params ps1"
    using assms(4) by (cases ts) (auto simp: ps1_def l good_params_def)
  have J: "join_args ps1 = join_args ps @ t"
    using assms(4) by (auto simp: ps1_def join_args_snoc join_step_def join_args_def)
  have first: "split_token n 0 t (mk_state ps lex0, False) = Ok (mk_state ps1 lex0, False)" for n
    using each by (simp add: ps1_def split_token_blank_start split_token_new plain_not_bslash lex_step_plain)
  have "last (join_args ps1) \<noteq> nl \<or> ts = [] \<or> hd ts = []"
  proof (cases "t = []")
    case True
    then show ?thesis using assms(3) by (cases ts) (auto simp: ts)
  next
    case False
    then have "last (join_args ps1) \<in> set t" by (simp add: J)
    then show ?thesis using each by auto
  qed
  from plain_rest [OF _ _ g1 this, of 1 "Suc (length ts)" False] each obtain ps' where
    "ofold (\<lambda>(i, t). split_token (Suc (length ts)) i t) (List.enumerate 1 ts) (mk_state ps1 lex0, False)
       = Ok (mk_state ps' lex0, False)" "good_params ps'" "join_args ps' = join_args ps @ l"
    by (auto simp: J l)
  then show ?thesis by (auto simp: split_tokens_def ts first)
qed

lemma plain_lines:
  assumes "\<forall>l \<in> set ls. (\<forall>x \<in> set l. plain_char x) \<and> nl \<notin> set l \<and> line_ok (split_on spc l)"
    and "ls \<noteq> []" "k + length ls = n"
    and "good_params ps \<and> last (join_args ps) = nl \<or> ps = [] \<and> hd ls \<noteq> [] \<and> hd (hd ls) \<noteq> spc"
  shows "\<exists>ps'. ofold (split_item n) (List.enumerate k ls) (mk_state ps lex0) = Ok (mk_state ps' lex0)
               \<and> join_args ps' = join_args ps @ join [nl] ls"
  using assms
proof (induction ls arbitrary: k ps)
  case (Cons l ls)
  from plain_line [of l ps] Cons.prems obtain ps1 where
    1: "split_tokens (split_on spc l) (mk_state ps lex0) = Ok (mk_state ps1 lex0, False)"
       "good_params ps1" "join_args ps1 = join_args ps @ l" by auto
  show ?case
  proof (cases ls)
    case Nil
    with 1 Cons.prems show ?thesis by (auto simp: split_item_def)
  next
    case (Cons l' ls')
    let ?ps2 = "butlast ps1 @ [last ps1 @ [nl]]"
    have ne: "ps1 \<noteq> []" using 1(2) by (simp add: good_params_def)
    have "split_item n (k, l) (mk_state ps lex0) = Ok (mk_state ?ps2 lex0)"
      using 1 Cons.prems(3) ne Cons by (auto simp: split_item_def modify_last_def)
    moreover have "good_params ?ps2" "join_args ?ps2 = join_args ps @ l @ [nl]"
      using 1 ne by (simp_all add: good_params_extend join_args_extend)
    ultimately show ?thesis
      using Cons.IH [of "Suc k" ?ps2] Cons.prems Cons by auto
  qed
qed simp

lemma split_args_plain:
  assumes "plain_text s"
  shows "\<exists>ps. split_args s = Ok ps \<and> join_args ps = s"
proof -
  have mem: "\<forall>l \<in> set (split_on nl s). set l \<subseteq> set s"
    using set_split_on by blast
  obtain l ls where ls: "split_on nl s = l # ls" by (cases "split_on nl s") auto
  have "s = join [nl] (l # ls)" using join_split_on [of nl s] by (simp add: ls)
  then have "l \<noteq> [] \<and> hd l \<noteq> spc"
    using assms by (cases l; cases ls) (auto simp: plain_text_def)
  moreover have "\<forall>l \<in> set (l # ls). (\<forall>x \<in> set l. plain_char x) \<and> nl \<notin> set l \<and> line_ok (split_on spc l)"
    using assms mem split_on_no_sep [of _ nl s] unfolding ls plain_text_def list_all_iff by blast
  ultimately obtain ps where
    "ofold (split_item (Suc (length ls))) (List.enumerate 0 (l # ls)) (mk_state [] lex0) = Ok (mk_state ps lex0)"
    "join_args ps = s"
    using plain_lines [of "l # ls" 0 "Suc (length ls)" "[]"] join_split_on [of nl s]
    by (auto simp: ls join_args_def)
  then show ?thesis
    by (auto simp: split_args_def ls split_init_mk depths_mk_lex0 simp del: enumerate_simps)
qed

section \<open>Reading key and value words\<close>

lemma decode_escapes_id:
  assumes "bslash \<notin> set x"
  shows "decode_escapes x = x"
proof -
  have "\<not> contains x (bslash # u)" for u
    using assms contains_set [of x "bslash # u"] by auto
  then show ?thesis by (simp add: decode_escapes_def replace_all_absent)
qed

lemma parse_word_raw:
  assumes "bslash \<notin> set w" "CHR ''='' \<notin> set w"
  shows "parse_word cr w (opts, raws) = (opts, raws @ [w])"
  using assms by (simp add: parse_word_def decode_escapes_id)

lemma parse_words_raw:
  assumes "\<forall>w \<in> set ws. bslash \<notin> set w \<and> CHR ''='' \<notin> set w"
  shows "fold (parse_word cr) ws (opts, raws) = (opts, raws @ ws)"
  using assms by (induction ws arbitrary: raws) (simp_all add: parse_word_raw)


definition kv_word :: "string \<times> string \<Rightarrow> string" where
  "kv_word kv = fst kv @ ''='' @ snd kv"

definition is_option :: "bool \<Rightarrow> string \<times> string \<Rightarrow> bool" where
  "is_option check_raw kv \<longleftrightarrow> \<not> check_raw \<or> is_ignored_from_raw_params (fst kv)"

text \<open>A key and a value that can be written as one word.\<close>

definition writable :: "string \<times> string \<Rightarrow> bool" where
  "writable kv \<longleftrightarrow>
     self_contained (kv_word kv) \<and> bslash \<notin> set (fst kv) \<and> bslash \<notin> set (snd kv)
     \<and> fst kv \<noteq> [] \<and> CHR ''='' \<notin> set (fst kv)
     \<and> trim_space (fst kv) = fst kv \<and> trim_space (snd kv) = snd kv"

lemma parse_word_kv:
  assumes "writable kv"
  shows "parse_word cr (kv_word kv) (opts, raws) =
           (if is_option cr kv then (AList.update (fst kv) (unquote (snd kv)) opts, raws)
            else (opts, raws @ [kv_word kv]))"
proof -
  have "find_equals_from (fst kv @ CHR ''='' # snd kv) 0 = Some (length (fst kv))"
    using assms by (intro find_equals_first last_neq) (simp_all add: writable_def)
  moreover have "decode_escapes (kv_word kv) = kv_word kv"
    using assms by (intro decode_escapes_id) (auto simp: writable_def kv_word_def)
  ultimately show ?thesis
    using assms
    by (auto simp: parse_word_def find_unescaped_equals_sign_pos_def kv_word_def writable_def is_option_def)
qed

definition update_pairs :: "(string \<times> string) list \<Rightarrow> pairs \<Rightarrow> pairs" where
  "update_pairs kvs opts = fold (\<lambda>(k, v). AList.update k v) kvs opts"

lemma map_of_update_pairs: "map_of (update_pairs kvs opts) = map_of opts ++ map_of (rev kvs)"
  by (induction kvs arbitrary: opts) (auto simp: update_pairs_def update_conv' map_add_assoc [symmetric])

lemma distinct_update_pairs: "distinct (map fst opts) \<Longrightarrow> distinct (map fst (update_pairs kvs opts))"
  by (induction kvs arbitrary: opts) (auto simp: update_pairs_def distinct_update)

lemma parse_words_kv:
  assumes "\<forall>kv \<in> set kvs. writable kv"
  shows "fold (parse_word cr) (map kv_word kvs) (opts, raws) =
           (update_pairs (map (map_prod id unquote) (filter (is_option cr) kvs)) opts,
            raws @ map kv_word (filter (\<lambda>kv. \<not> is_option cr kv) kvs))"
  using assms
  by (induction kvs arbitrary: opts raws) (auto simp: parse_word_kv update_pairs_def)

text \<open>
  C17.  Writing options as \<open>key=value\<close> words and parsing them gives the options back,
  unquoted, the last of equal keys winning; values may hold quoted blanks and further equals
  signs.  With \<open>checkRaw\<close> only the eight reserved keys are options and the other words are
  joined, in order, into \<open>_raw_params\<close>.
\<close>

theorem parse_key_value_roundtrip:
  assumes "\<forall>kv \<in> set kvs. writable kv"
  shows "\<exists>opts. parse_key_value_pairs_string (join '' '' (map kv_word kvs)) check_raw = Ok (Some opts) \<and>
           distinct (map fst opts) \<and>
           map_of opts =
             (let named = map_of (rev (map (map_prod id unquote) (filter (is_option check_raw) kvs)));
                  raw = map kv_word (filter (\<lambda>kv. \<not> is_option check_raw kv) kvs)
              in if raw = [] then named else named(''_raw_params'' \<mapsto> join '' '' raw))"
proof -
  have "split_args (join '' '' (map kv_word kvs)) = Ok (map kv_word kvs)"
    using assms(1) by (intro split_args_words) (auto simp: writable_def)
  moreover have "join_args (map kv_word xs) = join '' '' (map kv_word xs)" if "set xs \<subseteq> set kvs" for xs
  proof (rule join_args_words, intro ballI)
    fix w
    assume "w \<in> set (map kv_word xs)"
    then have "self_contained w" using assms(1) that by (auto simp: writable_def)
    with self_contained_ne [OF this] show "w \<noteq> [] \<and> last w \<noteq> nl"
      using last_neq [of w nl] by (simp add: self_contained_def)
  qed
  ultimately show ?thesis
    using parse_words_kv [OF assms(1), of check_raw "[]" "[]"]
    by (auto simp: parse_key_value_pairs_string_def Let_def map_of_update_pairs update_conv'
        intro!: distinct_update distinct_update_pairs)
qed

section \<open>Witnesses and limits\<close>

lemma split_args_no_panic_witness:
  "(''a=b'' \<noteq> [] \<and> hd ''a=b'' \<notin> {spc, nl, bslash}) \<and> split_args ''a=b'' \<noteq> Panic"
proof -
  have *: "''a=b'' \<noteq> []" "hd ''a=b'' \<notin> {spc, nl, bslash}" by simp_all
  from split_args_no_panic [OF *] * show ?thesis by blast
qed

definition script_text :: string where
  "script_text = ''cd /tmp'' @ [nl, nl] @ ''   ls  -l'' @ [nl]"


definition sample_kvs :: "(string \<times> string) list" where
  "sample_kvs =
     [(''creates'', dquote # ''/tmp/a  b'' @ [dquote]), (''x'', ''y=z''), (''chdir'', ''{{ d }}'')]"

lemma parse_key_value_roundtrip_witness:
  "\<exists>opts. parse_key_value_pairs_string (join '' '' (map kv_word sample_kvs)) True = Ok (Some opts) \<and>
     map_of opts = [''creates'' \<mapsto> ''/tmp/a  b'', ''chdir'' \<mapsto> ''{{ d }}'', ''_raw_params'' \<mapsto> ''x=y=z'']"
proof -
  have w: "\<forall>kv \<in> set sample_kvs. writable kv" by code_simp
  have o: "map (map_prod id unquote) (filter (is_option True) sample_kvs)
             = [(''creates'', ''/tmp/a  b''), (''chdir'', ''{{ d }}'')]" by code_simp
  have r: "map kv_word (filter (\<lambda>kv. \<not> is_option True kv) sample_kvs) = [''x=y=z'']" by code_simp
  from parse_key_value_roundtrip [OF w, of True] obtain opts where
    "parse_key_value_pairs_string (join '' '' (map kv_word sample_kvs)) True = Ok (Some opts)"
    "map_of opts = (map_of (rev [(''creates'', ''/tmp/a  b''), (''chdir'', ''{{ d }}'')]))(''_raw_params'' \<mapsto> ''x=y=z'')"
    by (auto simp: o r Let_def)
  then show ?thesis by (auto simp: fun_upd_twist)
qed

text \<open>
  Where the text is not plain, joining does not always give the original back: the only blank
  at the start of a line is lost, and a newline between single-token lines of a block is doubled.
\<close>

lemma single_blank_lost:
  "omap join_args (split_args (''a'' @ [nl] @ '' b'')) = Ok (''a'' @ [nl] @ ''b'')"
  by code_simp

lemma block_newline_doubled:
  "omap join_args (split_args (''{{'' @ [nl] @ ''b'' @ [nl] @ ''}}''))
     = Ok (''{{'' @ [nl, nl] @ ''b'' @ [nl, nl] @ ''}}'')"
  by code_simp

end
