(* ===== verification/Go_Values.thy ===== *)
theory Go_Values
  imports Go_Prelude
begin

text \<open>
  Dynamically typed values: what the program keeps in an \<open>interface{}\<close>.  Variables
  (\<open>utils/types/types.go\<close>, \<open>types.Vars\<close>) are maps from names to such values; the
  two shapes of YAML mappings and the ordered \<open>yaml.MapSlice\<close> and
  \<open>yaml.MapItem\<close> are constructors of their own, as the code tells them apart by type switches.  \<open>GNum\<close>
  stands for the numbers of the other numeric types and \<open>GOther\<close> for values of any other
  type, by identifiers.  \<open>GExec v\<close> is a value of the template engine that wraps \<open>v\<close>, which a
  type switch does not look through.
\<close>

datatype gval =
    GNil
  | GBool bool
  | GInt int
  | GNum nat
  | GStr string
  | GStrs "string list"
  | GList "gval list"
  | GMap "(string \<times> gval) list"
  | GIMap "(gval \<times> gval) list"
  | GMapSlice "(gval \<times> gval) list"
  | GMapItem gval gval
  | GExec gval
  | GOther nat

type_synonym vars = "string \<rightharpoonup> gval"

text \<open>
  Ranging over a map of variables visits its keys in an order the run chooses: an oracle
  \<open>visit\<close> that lists the domain of the map, once each.
\<close>

type_synonym visit = "vars \<Rightarrow> string list"

definition visits :: "visit \<Rightarrow> vars \<Rightarrow> bool" where
  "visits visit m \<longleftrightarrow> distinct (visit m) \<and> set (visit m) = dom m"

text \<open>The order that follows a given list of names.\<close>

definition list_visit :: "string list \<Rightarrow> visit" where
  "list_visit ks m = filter (\<lambda>k. m k \<noteq> None) ks"

lemma visits_list_visit: "distinct ks \<Longrightarrow> dom m \<subseteq> set ks \<Longrightarrow> visits (list_visit ks) m"
  by (auto simp: visits_def list_visit_def)

text \<open>Type assertions with the comma-ok form.\<close>

fun as_string :: "gval \<Rightarrow> string option" where
  "as_string (GStr s) = Some s"
| "as_string _ = None"

fun as_bool :: "gval \<Rightarrow> bool option" where
  "as_bool (GBool b) = Some b"
| "as_bool _ = None"

fun as_map_slice :: "gval \<Rightarrow> (gval \<times> gval) list option" where
  "as_map_slice (GMapSlice xs) = Some xs"
| "as_map_slice _ = None"

lemma as_string_Some [simp]: "as_string v = Some s \<longleftrightarrow> v = GStr s"
  by (cases v) auto

lemma as_bool_Some [simp]: "as_bool v = Some b \<longleftrightarrow> v = GBool b"
  by (cases v) auto

lemma as_map_slice_Some [simp]: "as_map_slice v = Some xs \<longleftrightarrow> v = GMapSlice xs"
  by (cases v) auto

section \<open>Entries of a map by key\<close>

text \<open>
  A Go map of pointers is an association list with distinct keys; assigning through a
  pointer rewrites the entry in place.
\<close>

definition amap :: "'k \<Rightarrow> ('v \<Rightarrow> 'v) \<Rightarrow> ('k \<times> 'v) list \<Rightarrow> ('k \<times> 'v) list" where
  "amap k f xs = map (\<lambda>(k', v). (k', if k' = k then f v else v)) xs"

lemma keys_amap [simp]: "map fst (amap k f xs) = map fst xs"
  by (simp add: amap_def case_prod_beta comp_def)

lemma keys_set_amap [simp]: "fst ` set (amap k f xs) = fst ` set xs"
  by (metis keys_amap list.set_map)

lemma length_amap [simp]: "length (amap k f xs) = length xs"
  by (simp add: amap_def)

lemma map_of_amap: "map_of (amap k f xs) k' = (if k' = k then map_option f (map_of xs k) else map_of xs k')"
  by (induction xs) (auto simp: amap_def)

section \<open>Overlaying variables\<close>

text \<open>
  The contract of every function that merges variables: the second argument wins, and
  nothing else appears or is lost.
\<close>

locale overlay =
  fixes merge :: "vars \<Rightarrow> vars \<Rightarrow> vars"
  assumes merge_apply: "merge base new k = (case new k of Some v \<Rightarrow> Some v | None \<Rightarrow> base k)"
begin

lemma merge_eq: "merge base new = base ++ new"
  by (rule ext) (simp add: merge_apply map_add_def)

lemma merge_wins: "new k = Some v \<Longrightarrow> merge base new k = Some v"
  by (simp add: merge_apply)

lemma merge_keeps: "new k = None \<Longrightarrow> merge base new k = base k"
  by (simp add: merge_apply)

lemma merge_assoc: "merge (merge a b) c = merge a (merge b c)"
  by (simp add: merge_eq map_add_assoc)

lemma merge_idem: "merge (merge a b) b = merge a b"
  by (rule ext) (simp add: merge_apply split: option.splits)

lemma merge_fold_last:
  "fold (\<lambda>n b. merge b n) news base k =
     (case find (\<lambda>n. n k \<noteq> None) (rev news) of Some n \<Rightarrow> n k | None \<Rightarrow> base k)"
proof (induction news rule: rev_induct)
  case (snoc n news)
  then show ?case by (cases "n k") (auto simp: merge_apply)
qed simp

end

end
