(* ===== verification/Sequence.thy ===== *)
theory Sequence
  imports Splitter Go_Values "HOL-Library.Signed_Division"
begin

text \<open>
  The lookup plugin \<open>sequence\<close> (\<open>plugins/lookup/sequence/sequence.go\<close>): its two argument
  syntaxes, its checks, and the loop that counts.  An \<open>int64\<close> is an \<open>int\<close> whose sums and
  products are wrapped to 64 bits by \<open>i64\<close>; the loop is a partial function, with \<open>None\<close>
  for a loop that does not end.
\<close>

section \<open>64-bit integers\<close>

definition i64 :: "int \<Rightarrow> int" where
  "i64 i = (i + 2 ^ 63) mod 2 ^ 64 - 2 ^ 63"

definition fits64 :: "int \<Rightarrow> bool" where
  "fits64 i \<longleftrightarrow> - (2 ^ 63) \<le> i \<and> i < 2 ^ 63"

lemma i64_id [simp]: "fits64 i \<Longrightarrow> i64 i = i"
  by (simp add: i64_def fits64_def)

text \<open>
  \<open>strconv.ParseInt (s, 0, 64)\<close>: the base follows the prefix, and underscores may separate
  digits.
\<close>

definition uscore :: char where "uscore = CHR 0x5F"

fun underscores_ok :: "bool \<Rightarrow> string \<Rightarrow> bool" where
  "underscores_ok after_digit [] = True"
| "underscores_ok after_digit [c] = (c \<noteq> uscore)"
| "underscores_ok after_digit (c # d # s) =
     (if c = uscore then after_digit \<and> d \<noteq> uscore \<and> underscores_ok False (d # s)
      else underscores_ok True (d # s))"

definition base_prefix :: "string \<Rightarrow> nat \<times> string \<times> bool" where
  "base_prefix s =
     (if s \<noteq> [] \<and> hd s = CHR ''0'' then
        (if length s \<ge> 3 \<and> lower_char (s ! 1) = CHR ''b'' then (2, drop 2 s, True)
         else if length s \<ge> 3 \<and> lower_char (s ! 1) = CHR ''o'' then (8, drop 2 s, True)
         else if length s \<ge> 3 \<and> lower_char (s ! 1) = CHR ''x'' then (16, drop 2 s, True)
         else (8, tl s, True))
      else (10, s, False))"

definition parse_int0 :: "string \<Rightarrow> int option" where
  "parse_int0 s =
     (let neg = (s \<noteq> [] \<and> hd s = CHR ''-'');
          body = (if s \<noteq> [] \<and> (hd s = CHR ''-'' \<or> hd s = CHR ''+'') then tl s else s)
      in if body = [] then None
         else case base_prefix body of
           (base, digits, prefixed) \<Rightarrow>
             (case digits_val base 0 (filter (\<lambda>c. c \<noteq> uscore) digits) of
                None \<Rightarrow> None
              | Some n \<Rightarrow>
                  (let i = (if neg then - int n else int n)
                   in if underscores_ok prefixed digits \<and> fits64 i then Some i else None)))"

section \<open>State and arguments\<close>

record seq =
  seq_start :: int
  seq_count :: int
  seq_end :: int
  seq_stride :: int
  seq_format :: string

datatype seq_error =
    BadInteger string string
  | Unrecognized
  | NoCountOrEnd
  | CountAndEnd
  | BackwardsStride
  | ForwardStride
  | BadFormat string

definition seq_reset :: seq where
  "seq_reset = \<lparr>seq_start = 1, seq_count = -1, seq_end = -1, seq_stride = 1, seq_format = ''%d''\<rparr>"

definition set_field :: "string \<Rightarrow> int \<Rightarrow> seq \<Rightarrow> seq" where
  "set_field k v s =
     (if k = ''start'' then s\<lparr>seq_start := v\<rparr>
      else if k = ''count'' then s\<lparr>seq_count := v\<rparr>
      else if k = ''end'' then s\<lparr>seq_end := v\<rparr>
      else s\<lparr>seq_stride := v\<rparr>)"

definition kv_step :: "string \<Rightarrow> seq \<times> pairs \<Rightarrow> (seq_error, seq \<times> pairs) outcome" where
  "kv_step k = (\<lambda>(s, args).
     case map_of args k of
       None \<Rightarrow> Ok (s, args)
     | Some r \<Rightarrow>
         (case parse_int0 r of
            None \<Rightarrow> Err (BadInteger k r)
          | Some v \<Rightarrow> Ok (set_field k v s, AList.delete k args)))"

definition parse_kv_args :: "go_order \<Rightarrow> pairs \<Rightarrow> seq \<Rightarrow> (seq_error, seq) outcome" where
  "parse_kv_args ord args s =
     obind (ofold kv_step (ord [''start'', ''count'', ''end'', ''stride'']) (s, args)) (\<lambda>(s, args).
       let (s, args) = (case map_of args ''format'' of
                          Some f \<Rightarrow> (s\<lparr>seq_format := f\<rparr>, AList.delete ''format'' args)
                        | None \<Rightarrow> (s, args))
       in if args \<noteq> [] then Err Unrecognized else Ok s)"

text \<open>
  The regular expression \<open>shortcut\<close>.  No character of the class of numbers is a delimiter,
  so each number ends at the next delimiter and the match is unique.
\<close>

definition hex_digit :: "char \<Rightarrow> bool" where
  "hex_digit c =
     (let n = of_char (lower_char c) :: nat in (48 \<le> n \<and> n \<le> 57) \<or> (97 \<le> n \<and> n \<le> 102))"

definition num_char :: "char \<Rightarrow> bool" where
  "num_char c \<longleftrightarrow> hex_digit c \<or> lower_char c = CHR ''x''"

text \<open>\<open>0?x?[0-9a-f]+\<close>.\<close>

definition is_num :: "string \<Rightarrow> bool" where
  "is_num w \<longleftrightarrow>
     (let w = (if w \<noteq> [] \<and> hd w = CHR ''0'' \<and> length w \<ge> 2 \<and> lower_char (w ! 1) = CHR ''x''
               then tl w else w);
          w = (if w \<noteq> [] \<and> lower_char (hd w) = CHR ''x'' then tl w else w)
      in w \<noteq> [] \<and> list_all hex_digit w)"

text \<open>An optional number after a delimiter: what the group with the delimiter and the group inside match.\<close>

definition opt_num_after :: "char \<Rightarrow> string \<Rightarrow> string \<times> string \<times> string" where
  "opt_num_after c s =
     (if s \<noteq> [] \<and> hd s = c \<and> is_num (takeWhile num_char (tl s))
      then (c # takeWhile num_char (tl s), takeWhile num_char (tl s), dropWhile num_char (tl s))
      else ([], [], s))"

text \<open>The groups of the match, as \<open>FindStringSubmatch\<close> numbers them: 0 is the whole match.\<close>

definition match_shortcut :: "string \<Rightarrow> string list option" where
  "match_shortcut term =
     (let w = takeWhile num_char term; r = dropWhile num_char term;
          (g1, g2, r1) = (if is_num w \<and> r \<noteq> [] \<and> hd r = CHR ''-''
                          then (w @ ''-'', w, tl r) else ([], [], term));
          g3 = takeWhile num_char r1;
          (g4, g5, r2) = opt_num_after (CHR ''/'') (dropWhile num_char r1);
          (g6, g7, r3) = (if length r2 \<ge> 2 \<and> hd r2 = CHR '':'' \<and> nl \<notin> set (tl r2)
                          then (r2, tl r2, []) else ([], [], r2))
      in if is_num g3 \<and> r3 = [] then Some [term, g1, g2, g3, g4, g5, g6, g7] else None)"

definition set_number :: "string \<Rightarrow> string \<Rightarrow> seq \<Rightarrow> (seq_error, seq) outcome" where
  "set_number k r s =
     (if r = [] then Ok s
      else case parse_int0 r of None \<Rightarrow> Err (BadInteger k r) | Some v \<Rightarrow> Ok (set_field k v s))"

text \<open>\<open>Ok None\<close>: the term does not have the short syntax.\<close>

definition parse_simple_args :: "string \<Rightarrow> seq \<Rightarrow> (seq_error, seq option) outcome" where
  "parse_simple_args term s =
     (case match_shortcut term of
        None \<Rightarrow> Ok None
      | Some m \<Rightarrow>
          obind (set_number ''start'' (m ! 1) s) (\<lambda>s.
          obind (set_number ''end'' (m ! 2) s) (\<lambda>s.
          obind (set_number ''stride'' (m ! 4) s) (\<lambda>s.
            Ok (Some (if m ! 6 \<noteq> [] then s\<lparr>seq_format := m ! 6\<rparr> else s))))))"

section \<open>Checks and counting\<close>

definition count_to_end :: "seq \<Rightarrow> seq" where
  "count_to_end s =
     (if seq_count s \<noteq> -1 then
        (if seq_count s = 0 then s\<lparr>seq_start := 0, seq_end := 0, seq_stride := 0\<rparr>
         else s\<lparr>seq_end := i64 (i64 (seq_start s + i64 (seq_count s * seq_stride s)) - 1)\<rparr>)
      else s)"

definition format_ok :: "string \<Rightarrow> bool" where
  "format_ok f \<longleftrightarrow> count_sub ''%'' f = 1 \<and> contains f ''%d''"

definition sanity_check :: "seq \<Rightarrow> (seq_error, seq) outcome" where
  "sanity_check s =
     (if seq_count s = -1 \<and> seq_end s = -1 then Err NoCountOrEnd
      else if seq_count s \<noteq> -1 \<and> seq_end s \<noteq> -1 then Err CountAndEnd
      else
        let s = count_to_end s
        in if seq_stride s > 0 \<and> seq_end s < seq_start s then Err BackwardsStride
           else if seq_stride s < 0 \<and> seq_end s > seq_start s then Err ForwardStride
           else if \<not> format_ok (seq_format s) then Err (BadFormat (seq_format s))
           else Ok s)"

text \<open>\<open>fmt.Sprintf\<close> with a format whose only verb is one \<open>%d\<close>.\<close>

definition format_int :: "string \<Rightarrow> int \<Rightarrow> string" where
  "format_int f i = replace_all ''%d'' (itoa i) f"

partial_function (option) seq_loop :: "int \<Rightarrow> int \<Rightarrow> int \<Rightarrow> int list option" where
  "seq_loop i stop stride =
     (if stride > 0 \<and> i < stop \<or> stride < 0 \<and> i > stop
      then Option.bind (seq_loop (i64 (i + stride)) stop stride) (\<lambda>ns. Some (i # ns))
      else Some [])"

text \<open>
  \<open>make ([]string, 0, n)\<close> panics for a negative capacity and for one beyond the address
  space, 48 bits of bytes at 16 bytes a string.
\<close>

definition cap_ok :: "int \<Rightarrow> bool" where
  "cap_ok n \<longleftrightarrow> 0 \<le> n \<and> n \<le> 2 ^ 44"

definition generate_sequence :: "seq \<Rightarrow> (seq_error, string list) outcome option" where
  "generate_sequence s =
     (let stop = (if seq_stride s < 1 then i64 (seq_end s - 1) else i64 (seq_end s + 1))
      in if \<not> cap_ok (i64 (i64 (stop - seq_start s) sdiv seq_stride s)) then Some Panic
         else map_option (\<lambda>ns. Ok (map (format_int (seq_format s)) ns))
                (seq_loop (seq_start s) stop (seq_stride s)))"

definition sequence_term :: "go_order \<Rightarrow> string \<Rightarrow> (seq_error, seq) outcome" where
  "sequence_term ord term =
     obind (parse_simple_args term seq_reset) (\<lambda>m.
     obind (case m of
              Some s \<Rightarrow> Ok s
            | None \<Rightarrow>
                (case parse_key_value_pairs_string term False of
                   Panic \<Rightarrow> Panic
                 | Ok (Some args) \<Rightarrow> parse_kv_args ord args seq_reset
                 | _ \<Rightarrow> parse_kv_args ord [] seq_reset))
       sanity_check)"

fun sequence_run :: "go_order \<Rightarrow> string list \<Rightarrow> (seq_error, string list) outcome option" where
  "sequence_run ord [] = Some (Ok [])"
| "sequence_run ord (term # terms) =
     (case sequence_term ord term of
        Err e \<Rightarrow> Some (Err e)
      | Panic \<Rightarrow> Some Panic
      | Ok s \<Rightarrow>
          (case (if seq_stride s = 0 then Some (Ok []) else generate_sequence s) of
             None \<Rightarrow> None
           | Some r \<Rightarrow>
               (case r of
                  Err e \<Rightarrow> Some (Err e)
                | Panic \<Rightarrow> Some Panic
                | Ok ns \<Rightarrow> map_option (omap (\<lambda>rest. ns @ rest)) (sequence_run ord terms))))"

declare seq_loop.simps [code]

section \<open>Counting\<close>

text \<open>The numbers from \<open>a\<close> to \<open>b\<close>, both included, in steps of \<open>d\<close>.\<close>

definition stepped :: "int \<Rightarrow> int \<Rightarrow> int \<Rightarrow> int list" where
  "stepped a b d =
     (if d > 0 then filter (\<lambda>x. d dvd (x - a)) [a..b]
      else map uminus (filter (\<lambda>x. d dvd (x + a)) [- a..- b]))"

lemma step_filter:
  assumes "0 < d" "i \<le> (b :: int)"
  shows "filter (\<lambda>x. d dvd (x - i)) [i..b] = i # filter (\<lambda>x. d dvd (x - (i + d))) [i + d..b]"
proof -
  have none: "\<not> d dvd (x - i)" if "i < x" "x < i + d" for x
    using that zdvd_not_zless [of "x - i" d] by simp
  have dv: "d dvd (x - (i + d)) \<longleftrightarrow> d dvd (x - i)" for x
    using dvd_add_right_iff [of d d "x - (i + d)"] by (simp add: algebra_simps)
  have "filter (\<lambda>x. d dvd (x - i)) [i + 1..b] = filter (\<lambda>x. d dvd (x - i)) [i + d..b]"
  proof (cases "i + d \<le> b")
    case True
    have "[i + 1..b] = [i + 1..i + d - 1] @ [i + d..b]"
      using True assms upto_split1 [of "i + 1" "i + d" b] by simp
    then show ?thesis using none by (auto simp: filter_empty_conv)
  next
    case False
    then show ?thesis using none by (auto simp: filter_empty_conv)
  qed
  then show ?thesis using assms dv by (simp add: upto_rec1)
qed

lemma stepped_unfold:
  "0 < d \<Longrightarrow> a \<le> b \<Longrightarrow> stepped a b d = a # stepped (a + d) b d"
  "d < 0 \<Longrightarrow> b \<le> a \<Longrightarrow> stepped a b d = a # stepped (a + d) b d"
  using step_filter [of d a b] step_filter [of "- d" "- a" "- b"]
  by (simp_all add: stepped_def algebra_simps)

lemma stepped_empty: "0 < d \<Longrightarrow> b < a \<Longrightarrow> stepped a b d = []" "d < 0 \<Longrightarrow> a < b \<Longrightarrow> stepped a b d = []"
  by (simp_all add: stepped_def)

lemma set_stepped_up: "0 < d \<Longrightarrow> set (stepped a b d) = {x. d dvd (x - a) \<and> a \<le> x \<and> x \<le> b}"
  by (auto simp: stepped_def)

lemma set_stepped_down: "d < 0 \<Longrightarrow> set (stepped a b d) = {x. d dvd (x - a) \<and> b \<le> x \<and> x \<le> a}"
proof -
  assume d: "d < 0"
  have "x \<in> set (stepped a b d) \<longleftrightarrow> d dvd (x - a) \<and> b \<le> x \<and> x \<le> a" for x
  proof -
    have "x \<in> set (stepped a b d) \<longleftrightarrow> d dvd (a - x) \<and> b \<le> x \<and> x \<le> a"
      using d by (auto simp: stepped_def image_iff add.commute intro: exI [of _ "- x"])
    then show ?thesis by (simp add: dvd_diff_commute)
  qed
  then show ?thesis by blast
qed

lemma seq_loop_up:
  assumes "0 < d" "fits64 i" "fits64 (b + d)"
  shows "seq_loop i (b + 1) d = Some (stepped i b d)"
  using assms
proof (induction "nat (b + 1 - i)" arbitrary: i rule: less_induct)
  case less
  show ?case
  proof (cases "i \<le> b")
    case False
    then show ?thesis using less.prems by (subst seq_loop.simps) (simp add: stepped_empty)
  next
    case True
    then have "fits64 (i + d)" using less.prems by (auto simp: fits64_def)
    then show ?thesis using True less.prems less.hyps [of "i + d"]
      by (subst seq_loop.simps) (simp add: stepped_unfold)
  qed
qed

lemma seq_loop_down:
  assumes "d < 0" "fits64 i" "fits64 (b + d)"
  shows "seq_loop i (b - 1) d = Some (stepped i b d)"
  using assms
proof (induction "nat (i + 1 - b)" arbitrary: i rule: less_induct)
  case less
  show ?case
  proof (cases "b \<le> i")
    case False
    then show ?thesis using less.prems by (subst seq_loop.simps) (simp add: stepped_empty)
  next
    case True
    then have "fits64 (i + d)" using less.prems by (auto simp: fits64_def)
    then show ?thesis using True less.prems less.hyps [of "i + d"]
      by (subst seq_loop.simps) (simp add: stepped_unfold)
  qed
qed

lemma sanity_ok:
  assumes "sanity_check s0 = Ok s"
  shows "seq_stride s > 0 \<Longrightarrow> seq_start s \<le> seq_end s" "seq_stride s < 0 \<Longrightarrow> seq_end s \<le> seq_start s"
    and "format_ok (seq_format s)"
  using assms by (auto simp: sanity_check_def Let_def split: if_splits)

lemma sdiv_same_sign:
  "0 \<le> x \<Longrightarrow> 0 < y \<Longrightarrow> x sdiv y = x div y" for x y :: int
  by (cases "x = 0") (simp_all add: signed_divide_int_def)

lemma sdiv_both_neg:
  "x \<le> 0 \<Longrightarrow> y < 0 \<Longrightarrow> x sdiv y = (- x) div (- y)" for x y :: int
  by (cases "x = 0") (simp_all add: signed_divide_int_def)

lemma div_le_self: "0 \<le> x \<Longrightarrow> 0 < y \<Longrightarrow> x div y \<le> x \<and> 0 \<le> x div y" for x y :: int
  using zdiv_mono2 [of x 1 y] by (auto simp: pos_imp_zdiv_nonneg_iff)


section \<open>The short syntax\<close>

lemma digits_val_bad: "c \<in> set w \<Longrightarrow> digit_val c = None \<Longrightarrow> digits_val b acc w = None"
  by (induction w arbitrary: acc) (auto split: option.splits)

lemma digits_val_delims: "digit_val (CHR ''-'') = None" "digit_val (CHR ''/'') = None"
  by (simp_all add: digit_val_def)

lemma parse_int0_slash: "parse_int0 (CHR ''/'' # w) = None"
  by (simp add: parse_int0_def base_prefix_def uscore_def digits_val_delims)

lemma parse_int0_dash:
  assumes "is_num w" "list_all num_char w"
  shows "parse_int0 (w @ ''-'') = None"
proof -
  obtain c v where w: "w = c # v" using assms(1) by (cases w) (auto simp: is_num_def)
  have "num_char c" using assms(2) w by simp
  then have c: "c \<noteq> CHR ''-''" "c \<noteq> CHR ''+''"
    by (auto simp: num_char_def hex_digit_def lower_char_def)
  have "CHR ''-'' \<in> set (fst (snd (base_prefix (w @ ''-''))))"
    using w by (cases v) (auto simp: base_prefix_def)
  then have "digits_val b 0 (filter (\<lambda>c. c \<noteq> uscore) (fst (snd (base_prefix (w @ ''-''))))) = None" for b
    by (intro digits_val_bad [OF _ digits_val_delims(1)]) (simp add: uscore_def)
  then show ?thesis
    using c w by (cases "base_prefix (w @ ''-'')") (simp add: parse_int0_def)
qed

lemma shortcut_groups:
  assumes "match_shortcut term = Some m"
  shows "m ! 1 = [] \<and> m ! 2 = [] \<or> (\<exists>w. m ! 1 = w @ ''-'' \<and> is_num w \<and> list_all num_char w)"
    and "m ! 4 = [] \<or> (\<exists>v. m ! 4 = CHR ''/'' # v)"
proof -
  define w where "w = takeWhile num_char term"
  define r where "r = dropWhile num_char term"
  define X where "X = (if is_num w \<and> r \<noteq> [] \<and> hd r = CHR ''-'' then (w @ ''-'', w, tl r) else ([], [], term))"
  define Y where "Y = opt_num_after (CHR ''/'') (dropWhile num_char (snd (snd X)))"
  have "list_all num_char w" by (auto simp: w_def list_all_iff dest: set_takeWhileD)
  moreover have "\<exists>g3 g5 g6 g7. m = [term, fst X, fst (snd X), g3, fst Y, g5, g6, g7]"
    using assms unfolding match_shortcut_def Let_def case_prod_beta w_def [symmetric] r_def [symmetric]
      X_def [symmetric] Y_def [symmetric] by (auto split: if_splits)
  moreover have "fst X = [] \<and> fst (snd X) = [] \<or> fst X = w @ ''-'' \<and> is_num w" by (simp add: X_def)
  moreover have "fst Y = [] \<or> (\<exists>v. fst Y = CHR ''/'' # v)" by (simp add: Y_def opt_num_after_def)
  ultimately show "m ! 1 = [] \<and> m ! 2 = [] \<or> (\<exists>w. m ! 1 = w @ ''-'' \<and> is_num w \<and> list_all num_char w)"
    "m ! 4 = [] \<or> (\<exists>v. m ! 4 = CHR ''/'' # v)"
    by auto
qed

text \<open>
  The short syntax \<open>[start-]end[/stride][:format]\<close> is never usable: every term
  that the regular expression matches is answered with an error, because the groups are
  numbered one too low and start keeps its dash, end is the group of start, stride keeps its
  slash.
\<close>

theorem shortcut_rejected:
  assumes "match_shortcut term = Some m"
  shows "\<exists>e. sequence_term ord term = Err e"
proof -
  consider w where "m ! 1 = w @ ''-''" "is_num w" "list_all num_char w"
    | "m ! 1 = []" "m ! 2 = []" "m ! 4 = []"
    | v where "m ! 1 = []" "m ! 2 = []" "m ! 4 = CHR ''/'' # v"
    using shortcut_groups [OF assms] by blast
  then show ?thesis
    using assms
    by cases (simp_all add: sequence_term_def parse_simple_args_def set_number_def parse_int0_dash
        parse_int0_slash sanity_check_def seq_reset_def)
qed

section \<open>Witnesses and limits\<close>

definition odd_seq :: seq where
  "odd_seq = \<lparr>seq_start = 1, seq_count = -1, seq_end = 7, seq_stride = 2, seq_format = ''n%d''\<rparr>"


lemma shortcut_rejected_witness:
  "match_shortcut ''1-7/2'' = Some [''1-7/2'', ''1-'', ''1'', ''7'', ''/2'', ''2'', [], []] \<and>
   (\<exists>e. sequence_term (\<lambda>xs. xs) ''1-7/2'' = Err e)"
proof -
  have "match_shortcut ''1-7/2'' = Some [''1-7/2'', ''1-'', ''1'', ''7'', ''/2'', ''2'', [], []]"
    by code_simp
  with shortcut_rejected show ?thesis by blast
qed

text \<open>A count with a negative stride is off: three numbers are asked for and five come.\<close>

lemma negative_count_wrong:
  "sequence_run (\<lambda>xs. xs) [''start=5 count=3 stride=-1''] = Some (Ok [''5'', ''4'', ''3'', ''2'', ''1''])"
  by code_simp

text \<open>Near the largest number the sum wraps around, and the loop never ends.\<close>

definition wrap_orbit :: "int set" where
  "wrap_orbit = {1, 2 ^ 62 + 1, - (2 ^ 63) + 1, - (2 ^ 62) + 1}"

lemma wrap_orbit_step: "i \<in> wrap_orbit \<Longrightarrow> i64 (i + 2 ^ 62) \<in> wrap_orbit"
  by (auto simp: wrap_orbit_def i64_def)

lemma wrap_orbit_below: "i \<in> wrap_orbit \<Longrightarrow> i < 2 ^ 63 - 1"
  by (auto simp: wrap_orbit_def)

definition wraps :: "int \<Rightarrow> int \<Rightarrow> int \<Rightarrow> bool" where
  "wraps i stop d \<longleftrightarrow> i \<in> wrap_orbit \<and> stop = 2 ^ 63 - 1 \<and> d = 2 ^ 62"

lemma wraps_step: "wraps i stop d \<Longrightarrow> wraps (i64 (i + d)) stop d \<and> i < stop \<and> d > 0"
  using wrap_orbit_step wrap_orbit_below by (auto simp: wraps_def)

lemma wrapping_loop:
  assumes "seq_loop i stop d = Some ns"
  shows "\<not> wraps i stop d"
proof (rule seq_loop.raw_induct [OF _ assms, where P = "\<lambda>i stop d _. \<not> wraps i stop d"])
  fix loop :: "int \<Rightarrow> int \<Rightarrow> int \<Rightarrow> int list option" and i stop d :: int and ns :: "int list"
  assume IH: "\<And>i stop d ns. loop i stop d = Some ns \<Longrightarrow> \<not> wraps i stop d"
    and e: "(if 0 < d \<and> i < stop \<or> d < 0 \<and> stop < i
             then Option.bind (loop (i64 (i + d)) stop d) (\<lambda>ns. Some (i # ns)) else Some []) = Some ns"
  show "\<not> wraps i stop d"
  proof
    assume w: "wraps i stop d"
    from wraps_step [OF w] e obtain y where "loop (i64 (i + d)) stop d = Some y"
      by (auto simp: bind_eq_Some_conv)
    from IH [OF this] wraps_step [OF w] show False by blast
  qed
qed

definition wrapping_term :: string where
  "wrapping_term = ''end=9223372036854775806 stride=4611686018427387904''"

lemma sequence_diverges: "sequence_run (\<lambda>xs. xs) [wrapping_term] = None"
proof -
  have s: "match_shortcut wrapping_term = None" by code_simp
  have kv: "parse_key_value_pairs_string wrapping_term False =
      Ok (Some [(''end'', ''9223372036854775806''), (''stride'', ''4611686018427387904'')])" by code_simp
  have n: "parse_int0 ''9223372036854775806'' = Some 9223372036854775806"
    "parse_int0 ''4611686018427387904'' = Some 4611686018427387904"
    by (simp_all add: parse_int0_def base_prefix_def uscore_def digit_val_def fits64_def)
  have t: "sequence_term (\<lambda>xs. xs) wrapping_term =
      Ok \<lparr>seq_start = 1, seq_count = -1, seq_end = 2 ^ 63 - 2, seq_stride = 2 ^ 62, seq_format = ''%d''\<rparr>"
  proof -
    have "format_ok ''%d''" by code_simp
    then show ?thesis
      by (simp add: sequence_term_def parse_simple_args_def s kv parse_kv_args_def kv_step_def n
          seq_reset_def set_field_def sanity_check_def count_to_end_def)
  qed
  have "seq_loop 1 (2 ^ 63 - 1) (2 ^ 62) = None"
    using wrapping_loop [of 1 "2 ^ 63 - 1" "2 ^ 62"]
    by (cases "seq_loop 1 (2 ^ 63 - 1) (2 ^ 62)") (auto simp: wraps_def wrap_orbit_def)
  then show ?thesis
    by (simp add: t generate_sequence_def i64_def cap_ok_def signed_divide_int_def)
qed

end
