(* ===== verification/Inventory.thy ===== *)
theory Inventory
  imports Go_Values
begin

text \<open>
  The inventory: hosts, groups and their graph (\<open>inventory/data_types.go\<close> and
  \<open>inventory/common.go\<close>).  The program never replaces a host or group it has entered
  under a name, so a pointer is the name: \<open>*Group\<close> in a list is a \<open>string\<close>.  A
  loop over a Go map visits the keys in the order an oracle chooses for that loop; a recursive
  walk of the graph takes fuel, and \<open>None\<close> is a walk that has not returned.
\<close>

section \<open>Data\<close>

record host =
  host_name :: string
  host_vars :: vars
  host_groups :: "string list"

record group =
  group_name :: string
  group_children :: "string list"
  group_hosts :: "string list"
  group_vars :: vars
  group_parents :: "string list"
  initialized :: bool

record inventory =
  inv_hosts :: "(string \<times> host) list"
  inv_groups :: "(string \<times> group) list"

datatype inv_error =
    NotInitialized string
  | CircularReference
  | NoSuchGroup string
  | NoSuchHost string
  | NoSuchHostOrGroup string
  | BadLine string
  | UnexpectedType
  | Unmarshal
  | OpenFailed
  | UnknownFormat

definition new_data :: inventory where
  "new_data = \<lparr>inv_hosts = [], inv_groups = []\<rparr>"

definition new_host :: "string \<Rightarrow> host" where
  "new_host name = \<lparr>host_name = name, host_vars = Map.empty, host_groups = []\<rparr>"

definition new_group :: "string \<Rightarrow> group" where
  "new_group name =
     \<lparr>group_name = name, group_children = [], group_hosts = [], group_vars = Map.empty,
      group_parents = [], initialized = False\<rparr>"

text \<open>Assigning to a field through a pointer.\<close>

definition upd_host :: "string \<Rightarrow> (host \<Rightarrow> host) \<Rightarrow> inventory \<Rightarrow> inventory" where
  "upd_host n f d = d\<lparr>inv_hosts := amap n f (inv_hosts d)\<rparr>"

definition upd_group :: "string \<Rightarrow> (group \<Rightarrow> group) \<Rightarrow> inventory \<Rightarrow> inventory" where
  "upd_group n f d = d\<lparr>inv_groups := amap n f (inv_groups d)\<rparr>"

definition get_group :: "inventory \<Rightarrow> string \<Rightarrow> group" where
  "get_group d n = (case map_of (inv_groups d) n of Some g \<Rightarrow> g | None \<Rightarrow> new_group n)"

definition get_host :: "inventory \<Rightarrow> string \<Rightarrow> host" where
  "get_host d n = (case map_of (inv_hosts d) n of Some h \<Rightarrow> h | None \<Rightarrow> new_host n)"

definition group_by_name :: "string \<Rightarrow> inventory \<Rightarrow> inventory" where
  "group_by_name name d =
     (if name \<in> fst ` set (inv_groups d) then d
      else d\<lparr>inv_groups := inv_groups d @ [(name, new_group name)]\<rparr>)"

definition host_by_name :: "string \<Rightarrow> inventory \<Rightarrow> inventory" where
  "host_by_name name d =
     (if name \<in> fst ` set (inv_hosts d) then d
      else d\<lparr>inv_hosts := inv_hosts d @ [(name, new_host name)]\<rparr>)"

definition merge_vars :: "vars \<Rightarrow> vars \<Rightarrow> vars" where
  "merge_vars base new = base ++ new"

definition add_vars_to_host :: "string \<Rightarrow> vars \<Rightarrow> inventory \<Rightarrow> inventory" where
  "add_vars_to_host name vs d =
     upd_host name (\<lambda>h. h\<lparr>host_vars := host_vars h ++ vs\<rparr>) (host_by_name name d)"

section \<open>Formatting\<close>

text \<open>An oracle for the order of each map iteration, by the name of the loop.\<close>

type_synonym orders = "string \<Rightarrow> go_order"

definition perm_oracles :: "orders \<Rightarrow> bool" where
  "perm_oracles ord \<longleftrightarrow> (\<forall>t. perm_oracle (ord t))"

definition add_ungrouped_group :: "inventory \<Rightarrow> inventory" where
  "add_ungrouped_group d =
     (let d = upd_group ''ungrouped'' (\<lambda>g. g\<lparr>initialized := True\<rparr>) (group_by_name ''ungrouped'' d);
          d = group_by_name ''all'' d;
          d = upd_group ''ungrouped''
                (\<lambda>g. g\<lparr>group_hosts := group_hosts g @ group_hosts (get_group d ''all'')\<rparr>) d
      in upd_group ''all'' (\<lambda>g. g\<lparr>group_hosts := []\<rparr>) d)"

definition add_to_all_step :: "string \<Rightarrow> inventory \<Rightarrow> inventory" where
  "add_to_all_step name d =
     (if group_parents (get_group d name) = [] \<and> name \<noteq> ''all''
      then upd_group name (\<lambda>g. g\<lparr>group_parents := group_parents g @ [''all'']\<rparr>)
             (upd_group ''all'' (\<lambda>g. g\<lparr>group_children := group_children g @ [name]\<rparr>) d)
      else d)"

definition add_to_all_group :: "orders \<Rightarrow> inventory \<Rightarrow> inventory" where
  "add_to_all_group ord d =
     (let d = group_by_name ''all'' d
      in fold add_to_all_step (ord ''addToAllGroup'' (map fst (inv_groups d))) d)"

text \<open>A slice through a set of pointers and back: the order is the set's.\<close>

definition deduplicate :: "go_order \<Rightarrow> string list \<Rightarrow> string list" where
  "deduplicate ord array = ord (remdups array)"

definition deduplicate_groups :: "orders \<Rightarrow> host \<Rightarrow> host" where
  "deduplicate_groups ord h =
     h\<lparr>host_groups := deduplicate (ord (''host '' @ host_name h)) (host_groups h)\<rparr>"

definition deduplicate_parents :: "orders \<Rightarrow> group \<Rightarrow> group" where
  "deduplicate_parents ord g =
     g\<lparr>group_parents := deduplicate (ord (''group '' @ group_name g)) (group_parents g)\<rparr>"

definition simplify_inventory :: "orders \<Rightarrow> inventory \<Rightarrow> inventory" where
  "simplify_inventory ord d =
     d\<lparr>inv_hosts := map (map_prod id (deduplicate_groups ord)) (inv_hosts d),
       inv_groups := map (map_prod id (deduplicate_parents ord)) (inv_groups d)\<rparr>"

definition remove_all_group_from_hosts :: "inventory \<Rightarrow> inventory" where
  "remove_all_group_from_hosts d =
     (let d = group_by_name ''all'' d
      in d\<lparr>inv_hosts := map (map_prod id (\<lambda>h. h\<lparr>host_groups := remove1 ''all'' (host_groups h)\<rparr>))
                          (inv_hosts d)\<rparr>)"

section \<open>Validation\<close>

definition validate_group_initialization :: "orders \<Rightarrow> inventory \<Rightarrow> (inv_error, unit) outcome" where
  "validate_group_initialization ord d =
     (case find (\<lambda>n. \<not> initialized (get_group d n)) (ord ''validateInit'' (map fst (inv_groups d))) of
        Some n \<Rightarrow> Err (NotInitialized n)
      | None \<Rightarrow> Ok ())"

fun circular_reference :: "inventory \<Rightarrow> string list \<Rightarrow> string \<Rightarrow> nat \<Rightarrow> bool" where
  "circular_reference d parents grp 0 = True"
| "circular_reference d parents grp (Suc max_depth) =
     list_ex (\<lambda>parent. parent = grp
                 \<or> circular_reference d (group_parents (get_group d parent)) grp max_depth) parents"

definition validate_no_circular_references :: "orders \<Rightarrow> inventory \<Rightarrow> (inv_error, unit) outcome" where
  "validate_no_circular_references ord d =
     (if list_ex (\<lambda>n. circular_reference d (group_parents (get_group d n)) n (length (inv_groups d)))
           (ord ''validateCircular'' (map fst (inv_groups d)))
      then Err CircularReference else Ok ())"

definition validate_inventory :: "orders \<Rightarrow> inventory \<Rightarrow> (inv_error, unit) outcome" where
  "validate_inventory ord d =
     obind (validate_group_initialization ord d) (\<lambda>_. validate_no_circular_references ord d)"

definition format_inventory :: "orders \<Rightarrow> inventory \<Rightarrow> inventory" where
  "format_inventory ord d =
     remove_all_group_from_hosts (simplify_inventory ord (add_to_all_group ord (add_ungrouped_group d)))"

definition validated_inventory :: "orders \<Rightarrow> inventory \<Rightarrow> (inv_error, inventory) outcome" where
  "validated_inventory ord d = omap (\<lambda>_. d) (validate_inventory ord d)"

definition format_and_validate :: "orders \<Rightarrow> inventory \<Rightarrow> (inv_error, inventory) outcome" where
  "format_and_validate ord d = validated_inventory ord (format_inventory ord d)"

section \<open>Queries\<close>

text \<open>\<open>Group.AllVars\<close>: the parents in order, then the group's own.\<close>

fun group_all_vars :: "nat \<Rightarrow> inventory \<Rightarrow> string \<Rightarrow> vars option" where
  "group_all_vars 0 d n = None"
| "group_all_vars (Suc fuel) d n =
     map_option (\<lambda>vs. merge_vars vs (group_vars (get_group d n)))
       (fold (\<lambda>p acc. Option.bind acc (\<lambda>vs. map_option (merge_vars vs) (group_all_vars fuel d p)))
          (group_parents (get_group d n)) (Some Map.empty))"

definition host_all_vars :: "nat \<Rightarrow> inventory \<Rightarrow> string \<Rightarrow> vars option" where
  "host_all_vars fuel d n =
     map_option (\<lambda>vs. merge_vars vs (host_vars (get_host d n)))
       (fold (\<lambda>g acc. Option.bind acc (\<lambda>vs. map_option (merge_vars vs) (group_all_vars fuel d g)))
          (host_groups (get_host d n)) (Some Map.empty))"

text \<open>\<open>GetHosts\<close>: a map from a host's name to the host, so the set of its keys.\<close>

fun get_hosts :: "nat \<Rightarrow> inventory \<Rightarrow> string \<Rightarrow> string set option" where
  "get_hosts 0 d n = None"
| "get_hosts (Suc fuel) d n =
     fold (\<lambda>c acc. Option.bind acc (\<lambda>hs. map_option ((\<union>) hs) (get_hosts fuel d c)))
       (group_children (get_group d n)) (Some (set (group_hosts (get_group d n))))"

section \<open>Host patterns\<close>

text \<open>One term of a colon-separated pattern; the result of the walk may be missing.\<close>

definition pattern_term ::
  "nat \<Rightarrow> inventory \<Rightarrow> string \<Rightarrow> string set \<Rightarrow> (inv_error, string set) outcome option" where
  "pattern_term fuel d term0 hosts =
     (if term0 = [] then Some (Err (NoSuchGroup term0))
      else
        let exclude = (hd term0 = CHR ''!'');
            intersect = (\<not> exclude \<and> hd term0 = CHR ''&'');
            name = (if exclude \<or> intersect then tl term0 else term0)
        in if name \<in> fst ` set (inv_groups d)
           then map_option
                  (\<lambda>ghosts. Ok (if exclude then hosts - ghosts
                                else if intersect then hosts \<inter> ghosts else hosts \<union> ghosts))
                  (get_hosts fuel d name)
           else Some (Err (NoSuchGroup name)))"

fun groups_pattern ::
  "nat \<Rightarrow> inventory \<Rightarrow> string list \<Rightarrow> string set \<Rightarrow> (inv_error, string set) outcome option" where
  "groups_pattern fuel d [] hosts = Some (Ok hosts)"
| "groups_pattern fuel d (t # ts) hosts =
     (case pattern_term fuel d t hosts of
        Some (Ok hosts) \<Rightarrow> groups_pattern fuel d ts hosts
      | r \<Rightarrow> r)"

definition determine_hosts_from_groups_pattern ::
  "nat \<Rightarrow> inventory \<Rightarrow> string \<Rightarrow> (inv_error, string set) outcome option" where
  "determine_hosts_from_groups_pattern fuel d pat =
     groups_pattern fuel d (split_on (CHR '':'') pat) {}"

fun hosts_list :: "inventory \<Rightarrow> string list \<Rightarrow> string set \<Rightarrow> (inv_error, string set) outcome" where
  "hosts_list d [] hosts = Ok hosts"
| "hosts_list d (n # ns) hosts =
     (if n \<in> fst ` set (inv_hosts d) then hosts_list d ns (insert n hosts) else Err (NoSuchHost n))"

definition determine_hosts ::
  "nat \<Rightarrow> inventory \<Rightarrow> string \<Rightarrow> (inv_error, string set) outcome option" where
  "determine_hosts fuel d pattern0 =
     (let pat = trim_space pattern0;
          has_commas = contains pat '','';
          has_colons = contains pat '':''
      in if pat = [] then Some (Ok {})
         else if pat = ''all'' then Some (Ok (fst ` set (inv_hosts d)))
         else if \<not> has_commas \<and> \<not> has_colons then
           (if pat \<in> fst ` set (inv_hosts d) then Some (Ok {pat})
            else if pat \<in> fst ` set (inv_groups d) then map_option Ok (get_hosts fuel d pat)
            else Some (Err (NoSuchHostOrGroup pat)))
         else if has_commas then Some (hosts_list d (split_on (CHR '','') pat) {})
         else determine_hosts_from_groups_pattern fuel d pat)"

section \<open>Reading through updates\<close>

abbreviation group_names :: "inventory \<Rightarrow> string set" where
  "group_names d \<equiv> fst ` set (inv_groups d)"

abbreviation host_names :: "inventory \<Rightarrow> string set" where
  "host_names d \<equiv> fst ` set (inv_hosts d)"

named_theorems inv_simps \<open>reading hosts and groups through updates of the inventory\<close>

lemma key_iff: "k \<in> fst ` set xs \<longleftrightarrow> map_of xs k \<noteq> None"
  by (simp add: map_of_eq_None_iff)

lemma get_group_upd [inv_simps]:
  "get_group (upd_group n f d) m = (if m = n \<and> n \<in> group_names d then f (get_group d n) else get_group d m)"
  unfolding key_iff by (auto simp: get_group_def upd_group_def map_of_amap split: option.splits)

lemma get_host_upd [inv_simps]:
  "get_host (upd_host n f d) m = (if m = n \<and> n \<in> host_names d then f (get_host d n) else get_host d m)"
  unfolding key_iff by (auto simp: get_host_def upd_host_def map_of_amap split: option.splits)

lemma names_upd [inv_simps]:
  "group_names (upd_group n f d) = group_names d" "host_names (upd_group n f d) = host_names d"
  "group_names (upd_host n h d) = group_names d" "host_names (upd_host n h d) = host_names d"
  "length (inv_groups (upd_group n f d)) = length (inv_groups d)"
  "map fst (inv_groups (upd_group n f d)) = map fst (inv_groups d)"
  "map fst (inv_hosts (upd_host n h d)) = map fst (inv_hosts d)"
  by (simp_all add: upd_group_def upd_host_def)

lemma get_other [inv_simps]:
  "get_host (upd_group n f d) m = get_host d m" "get_group (upd_host n h d) m = get_group d m"
  by (simp_all add: get_host_def get_group_def upd_group_def upd_host_def)

lemma inv_hosts_upd [inv_simps]:
  "inv_hosts (upd_group n f d) = inv_hosts d" "inv_hosts (group_by_name n d) = inv_hosts d"
  "inv_groups (upd_host n h d) = inv_groups d" "inv_groups (host_by_name n d) = inv_groups d"
  by (simp_all add: upd_group_def upd_host_def group_by_name_def host_by_name_def)

lemma get_group_by_name [inv_simps]: "get_group (group_by_name n d) m = get_group d m"
  unfolding group_by_name_def key_iff by (auto simp: get_group_def map_add_def split: option.splits)

lemma get_host_by_name [inv_simps]: "get_host (host_by_name n d) m = get_host d m"
  unfolding host_by_name_def key_iff by (auto simp: get_host_def map_add_def split: option.splits)

lemma names_by_name [inv_simps]:
  "group_names (group_by_name n d) = insert n (group_names d)" "host_names (group_by_name n d) = host_names d"
  "host_names (host_by_name n d) = insert n (host_names d)" "group_names (host_by_name n d) = group_names d"
  "get_host (group_by_name n d) m = get_host d m" "get_group (host_by_name n d) k = get_group d k"
  by (auto simp: group_by_name_def host_by_name_def get_host_def get_group_def)

lemma distinct_by_name:
  "distinct (map fst (inv_groups d)) \<Longrightarrow> distinct (map fst (inv_groups (group_by_name n d)))"
  "distinct (map fst (inv_hosts d)) \<Longrightarrow> distinct (map fst (inv_hosts (host_by_name n d)))"
  by (auto simp: group_by_name_def host_by_name_def)

lemma new_group_sel [inv_simps]:
  "group_name (new_group n) = n" "group_children (new_group n) = []" "group_hosts (new_group n) = []"
  "group_vars (new_group n) = Map.empty" "group_parents (new_group n) = []" "\<not> initialized (new_group n)"
  by (simp_all add: new_group_def)

lemma new_host_sel [inv_simps]:
  "host_name (new_host n) = n" "host_vars (new_host n) = Map.empty" "host_groups (new_host n) = []"
  by (simp_all add: new_host_def)

lemma get_absent: "n \<notin> group_names d \<Longrightarrow> get_group d n = new_group n"
  by (simp add: get_group_def map_of_eq_None_iff [THEN iffD2])

section \<open>The graph of groups\<close>

definition parent_rel :: "inventory \<Rightarrow> (string \<times> string) set" where
  "parent_rel d = {(g, p). p \<in> set (group_parents (get_group d g))}"

definition child_rel :: "inventory \<Rightarrow> (string \<times> string) set" where
  "child_rel d = {(g, c). c \<in> set (group_children (get_group d g))}"

text \<open>Links stay inside the inventory, and the two directions agree.\<close>

definition graph_ok :: "inventory \<Rightarrow> bool" where
  "graph_ok d \<longleftrightarrow>
     distinct (map fst (inv_groups d))
     \<and> parent_rel d \<subseteq> group_names d \<times> group_names d
     \<and> child_rel d = (parent_rel d)\<inverse>"

lemma parent_rel_dom: "(g, p) \<in> parent_rel d \<Longrightarrow> g \<in> group_names d"
  using get_absent [of g d] by (cases "g \<in> group_names d") (auto simp: parent_rel_def new_group_def)

lemma child_rel_dom: "(g, c) \<in> child_rel d \<Longrightarrow> g \<in> group_names d"
  using get_absent [of g d] by (cases "g \<in> group_names d") (auto simp: child_rel_def new_group_def)

text \<open>Nodes below a node get strictly fewer along an edge of a finite acyclic relation.\<close>

definition below :: "('a \<times> 'a) set \<Rightarrow> 'a \<Rightarrow> 'a set" where
  "below R x = {y. (x, y) \<in> R\<^sup>*}"

lemma below_subset: "R \<subseteq> A \<times> A \<Longrightarrow> below R x \<subseteq> insert x A"
proof
  fix y
  assume "R \<subseteq> A \<times> A" "y \<in> below R x"
  from this(2) have "(x, y) \<in> R\<^sup>*" by (simp add: below_def)
  then show "y \<in> insert x A" using \<open>R \<subseteq> A \<times> A\<close> by cases auto
qed

lemma below_finite: "finite A \<Longrightarrow> R \<subseteq> A \<times> A \<Longrightarrow> finite (below R x)"
  by (rule finite_subset [OF below_subset]) auto

lemma below_edge:
  assumes "acyclic R" "finite (below R x)" "(x, z) \<in> R"
  shows "card (below R z) < card (below R x)"
proof (rule psubset_card_mono [OF assms(2)], rule psubsetI)
  show "below R z \<subseteq> below R x"
    using assms(3) by (auto simp: below_def intro: converse_rtrancl_into_rtrancl)
  have "x \<notin> below R z"
    using assms(1,3) by (auto simp: below_def acyclic_def dest: rtrancl_into_trancl2)
  moreover have "x \<in> below R x" by (simp add: below_def)
  ultimately show "below R z \<noteq> below R x" by blast
qed

lemma below_self [simp]: "x \<in> below R x"
  by (simp add: below_def)

lemma relpow_below:
  assumes "acyclic R" "\<And>x. finite (below R x)"
  shows "(x, y) \<in> R ^^ n \<Longrightarrow> n < card (below R x)"
proof (induction n arbitrary: x)
  case 0
  then show ?case using assms(2) by (metis below_self card_gt_0_iff empty_iff)
next
  case (Suc n)
  then obtain z where z: "(x, z) \<in> R" "(z, y) \<in> R ^^ n" by (meson relpow_Suc_E2)
  from Suc.IH [OF z(2)] below_edge [OF assms(1) assms(2) z(1)] show ?case by simp
qed

lemma circular_reference_iff:
  "circular_reference d (group_parents (get_group d x)) g n \<longleftrightarrow>
     (\<exists>k. 1 \<le> k \<and> k \<le> n \<and> (x, g) \<in> parent_rel d ^^ k) \<or> (\<exists>y. (x, y) \<in> parent_rel d ^^ n)"
proof (induction n arbitrary: x)
  case 0
  then show ?case by simp
next
  case (Suc n)
  have step: "(\<exists>k. 1 \<le> k \<and> k \<le> Suc n \<and> (x, g) \<in> parent_rel d ^^ k) \<longleftrightarrow>
      (\<exists>p. (x, p) \<in> parent_rel d \<and> (p = g \<or> (\<exists>k. 1 \<le> k \<and> k \<le> n \<and> (p, g) \<in> parent_rel d ^^ k)))"
  proof
    assume "\<exists>k. 1 \<le> k \<and> k \<le> Suc n \<and> (x, g) \<in> parent_rel d ^^ k"
    then obtain k where k: "k \<le> n" "(x, g) \<in> parent_rel d ^^ Suc k"
      by (metis One_nat_def Suc_le_D Suc_le_mono)
    then obtain p where p: "(x, p) \<in> parent_rel d" "(p, g) \<in> parent_rel d ^^ k" by (meson relpow_Suc_E2)
    show "\<exists>p. (x, p) \<in> parent_rel d \<and> (p = g \<or> (\<exists>k. 1 \<le> k \<and> k \<le> n \<and> (p, g) \<in> parent_rel d ^^ k))"
    proof (cases k)
      case 0
      with p show ?thesis by auto
    next
      case (Suc j)
      with k(1) have "1 \<le> k" "k \<le> n" by simp_all
      with p show ?thesis by blast
    qed
  next
    assume "\<exists>p. (x, p) \<in> parent_rel d \<and> (p = g \<or> (\<exists>k. 1 \<le> k \<and> k \<le> n \<and> (p, g) \<in> parent_rel d ^^ k))"
    then obtain p k where "(x, p) \<in> parent_rel d" "k \<le> n" "(p, g) \<in> parent_rel d ^^ k"
      by (metis relpow_0_I le0)
    then have "(x, g) \<in> parent_rel d ^^ Suc k" by (meson relpow_Suc_I2)
    with \<open>k \<le> n\<close> show "\<exists>k. 1 \<le> k \<and> k \<le> Suc n \<and> (x, g) \<in> parent_rel d ^^ k"
      by (metis One_nat_def Suc_le_mono le0)
  qed
  have far: "(\<exists>y. (x, y) \<in> parent_rel d ^^ Suc n) \<longleftrightarrow>
      (\<exists>p. (x, p) \<in> parent_rel d \<and> (\<exists>y. (p, y) \<in> parent_rel d ^^ n))"
    by (meson relpow_Suc_E2 relpow_Suc_I2)
  have "circular_reference d (group_parents (get_group d x)) g (Suc n) \<longleftrightarrow>
      (\<exists>p. (x, p) \<in> parent_rel d \<and>
         (p = g \<or> circular_reference d (group_parents (get_group d p)) g n))"
    by (auto simp: list_ex_iff parent_rel_def)
  then show ?case unfolding Suc.IH step far by blast
qed

lemma cyclic_long_path:
  assumes "(x, x) \<in> R ^^ Suc k"
  shows "\<exists>y. (x, y) \<in> R ^^ n"
proof -
  have "(x, x) \<in> R ^^ (Suc k * m)" for m
  proof (induction m)
    case (Suc m)
    with assms have "(x, x) \<in> R ^^ (Suc k * m) O R ^^ Suc k" by blast
    then show ?case by (metis mult_Suc_right add.commute relpow_add)
  qed simp
  then have "(x, x) \<in> R ^^ (n + k * n)" by (metis mult_Suc)
  then show ?thesis by (auto simp: relpow_add)
qed

text \<open>
  C14.  The bounded search for circular references is exact: whatever the iteration order, it
  reports an error precisely when the parent relation of the groups has a cycle, provided
  every parent link leads to a group of the inventory.
\<close>

theorem circular_check_exact:
  assumes "perm_oracles ord" "parent_rel d \<subseteq> group_names d \<times> group_names d"
  shows "validate_no_circular_references ord d = Err CircularReference \<longleftrightarrow> \<not> acyclic (parent_rel d)"
proof -
  let ?R = "parent_rel d" and ?N = "length (inv_groups d)"
  have fin: "finite (below ?R x)" for x
    by (rule below_finite [OF _ assms(2)]) simp
  have "validate_no_circular_references ord d = Err CircularReference \<longleftrightarrow>
      (\<exists>g \<in> group_names d. circular_reference d (group_parents (get_group d g)) g ?N)"
    using assms(1) perm_oracle_set [of "ord ''validateCircular''" "map fst (inv_groups d)"]
    by (auto simp: validate_no_circular_references_def list_ex_iff perm_oracles_def)
  also have "\<dots> \<longleftrightarrow> \<not> acyclic ?R"
  proof
    assume "\<exists>g \<in> group_names d. circular_reference d (group_parents (get_group d g)) g ?N"
    then obtain g where g: "g \<in> group_names d"
      and c: "(\<exists>k. 1 \<le> k \<and> k \<le> ?N \<and> (g, g) \<in> ?R ^^ k) \<or> (\<exists>y. (g, y) \<in> ?R ^^ ?N)"
      unfolding circular_reference_iff by blast
    show "\<not> acyclic ?R"
    proof
      assume ac: "acyclic ?R"
      have "(g, g) \<notin> ?R ^^ k" if "1 \<le> k" for k
        using ac that by (metis acyclic_def less_le_trans trancl_power zero_less_one)
      with c obtain y where "(g, y) \<in> ?R ^^ ?N" by blast
      from relpow_below [OF ac fin this] have "?N < card (below ?R g)" .
      moreover have "below ?R g \<subseteq> group_names d"
        using below_subset [OF assms(2), of g] g by auto
      then have "card (below ?R g) \<le> card (group_names d)" by (intro card_mono) auto
      moreover have "card (group_names d) \<le> ?N"
        by (metis card_length length_map list.set_map)
      ultimately show False by simp
    qed
  next
    assume "\<not> acyclic ?R"
    then obtain g k where gk: "(g, g) \<in> ?R ^^ Suc k"
      by (metis acyclic_def gr0_implies_Suc trancl_power)
    then obtain p where "(g, p) \<in> ?R" by (meson relpow_Suc_E2)
    with parent_rel_dom have "g \<in> group_names d" by blast
    moreover have "circular_reference d (group_parents (get_group d g)) g ?N"
      unfolding circular_reference_iff using cyclic_long_path [OF gk] by blast
    ultimately show "\<exists>g \<in> group_names d. circular_reference d (group_parents (get_group d g)) g ?N" by blast
  qed
  finally show ?thesis .
qed

lemma graph_ok_finite: "graph_ok d \<Longrightarrow> finite (below (parent_rel d) x)" "graph_ok d \<Longrightarrow> finite (below (child_rel d) x)"
  unfolding graph_ok_def by (rule below_finite [of "group_names d"]; auto)+

lemma graph_ok_acyclic_child: "graph_ok d \<Longrightarrow> acyclic (parent_rel d) \<Longrightarrow> acyclic (child_rel d)"
  by (simp add: graph_ok_def acyclic_converse)

lemma graph_ok_fuel:
  assumes "graph_ok d" "n \<in> group_names d"
  shows "card (below (parent_rel d) n) \<le> length (inv_groups d)"
    "card (below (child_rel d) n) \<le> length (inv_groups d)"
proof -
  have len: "card (group_names d) = length (inv_groups d)"
    using assms(1) unfolding graph_ok_def by (metis distinct_card length_map list.set_map)
  have "below (parent_rel d) n \<subseteq> group_names d" "below (child_rel d) n \<subseteq> group_names d"
    using below_subset [of "parent_rel d" "group_names d" n] below_subset [of "child_rel d" "group_names d" n]
      assms unfolding graph_ok_def by auto
  then show "card (below (parent_rel d) n) \<le> length (inv_groups d)"
    "card (below (child_rel d) n) \<le> length (inv_groups d)"
    using card_mono [of "group_names d"] len by auto
qed

section \<open>What the walks return\<close>

text \<open>Folding a walk over a list collects the results when each call returns.\<close>

lemma fold_bind_Some:
  assumes "\<And>c. c \<in> set cs \<Longrightarrow> f c = Some (r c)"
  shows "fold (\<lambda>c acc. Option.bind acc (\<lambda>a. map_option (g a) (f c))) cs (Some a0) = Some (fold (\<lambda>c a. g a (r c)) cs a0)"
  using assms by (induction cs arbitrary: a0) auto

lemma fold_union: "fold (\<lambda>c hs. hs \<union> r c) cs h0 = h0 \<union> (\<Union>c \<in> set cs. r c)"
  by (induction cs arbitrary: h0) auto

definition hosts_below :: "inventory \<Rightarrow> string \<Rightarrow> string set" where
  "hosts_below d n = (\<Union>g \<in> below (child_rel d) n. set (group_hosts (get_group d g)))"

lemma below_unfold: "below R x = insert x (\<Union>z \<in> R `` {x}. below R z)"
  by (auto simp: below_def intro: converse_rtrancl_into_rtrancl elim: converse_rtranclE)

lemma hosts_below_unfold:
  "hosts_below d n = set (group_hosts (get_group d n)) \<union> (\<Union>c \<in> set (group_children (get_group d n)). hosts_below d c)"
  unfolding hosts_below_def by (subst below_unfold) (auto simp: child_rel_def)

lemma get_hosts_below:
  assumes "acyclic (child_rel d)" "\<And>x. finite (below (child_rel d) x)"
  shows "card (below (child_rel d) n) \<le> fuel \<Longrightarrow> get_hosts fuel d n = Some (hosts_below d n)"
proof (induction fuel arbitrary: n)
  case 0
  then show ?case using assms(2) [of n] by (metis below_self card_0_eq empty_iff le_zero_eq)
next
  case (Suc fuel)
  have "get_hosts fuel d c = Some (hosts_below d c)" if "c \<in> set (group_children (get_group d n))" for c
  proof (rule Suc.IH)
    have "(n, c) \<in> child_rel d" using that by (simp add: child_rel_def)
    from below_edge [OF assms(1) assms(2) this] Suc.prems show "card (below (child_rel d) c) \<le> fuel" by simp
  qed
  then show ?case
    by (simp add: fold_bind_Some [where g = "(\<union>)" and r = "hosts_below d"] fold_union)
      (subst hosts_below_unfold, rule refl)
qed

interpretation inventory_vars: overlay merge_vars
  by unfold_locales (simp add: merge_vars_def map_add_def)

lemma merge_fold_dom:
  "dom (fold (\<lambda>p vs. merge_vars vs (r p)) ps v0) = dom v0 \<union> (\<Union>p \<in> set ps. dom (r p))"
  by (induction ps arbitrary: v0) (auto simp: merge_vars_def)

lemma merge_fold_from:
  "fold (\<lambda>p vs. merge_vars vs (r p)) ps v0 k = Some v \<Longrightarrow> v0 k = Some v \<or> (\<exists>p \<in> set ps. r p k = Some v)"
proof (induction ps arbitrary: v0)
  case (Cons p ps)
  from Cons.IH [of "merge_vars v0 (r p)"] Cons.prems
  have "merge_vars v0 (r p) k = Some v \<or> (\<exists>p \<in> set ps. r p k = Some v)" by simp
  then show ?case by (auto simp: merge_vars_def map_add_Some_iff)
qed simp

text \<open>The variables of a group: its own win, and all come from it or its ancestors.\<close>

definition inherited :: "inventory \<Rightarrow> string \<Rightarrow> vars \<Rightarrow> bool" where
  "inherited d n vs \<longleftrightarrow>
     (\<forall>k v. group_vars (get_group d n) k = Some v \<longrightarrow> vs k = Some v)
     \<and> (\<forall>g \<in> below (parent_rel d) n. dom (group_vars (get_group d g)) \<subseteq> dom vs)
     \<and> (\<forall>k v. vs k = Some v \<longrightarrow> (\<exists>g \<in> below (parent_rel d) n. group_vars (get_group d g) k = Some v))"

lemma inherited_step:
  assumes "\<And>p. p \<in> set (group_parents (get_group d n)) \<Longrightarrow> inherited d p (r p)"
  shows "inherited d n (merge_vars (fold (\<lambda>p vs. merge_vars vs (r p)) (group_parents (get_group d n)) Map.empty)
           (group_vars (get_group d n)))" (is "inherited d n ?vs")
proof -
  let ?ps = "group_parents (get_group d n)"
  have unf: "below (parent_rel d) n = insert n (\<Union>p \<in> set ?ps. below (parent_rel d) p)"
    by (subst below_unfold) (auto simp: parent_rel_def)
  have own: "?vs k = Some v" if "group_vars (get_group d n) k = Some v" for k v
    using that by (rule inventory_vars.merge_wins)
  have dom: "dom ?vs = dom (group_vars (get_group d n)) \<union> (\<Union>p \<in> set ?ps. dom (r p))"
    unfolding inventory_vars.merge_eq [of _ "group_vars _"] dom_map_add merge_fold_dom by simp
  have "dom (group_vars (get_group d g)) \<subseteq> dom ?vs" if "g \<in> below (parent_rel d) n" for g
  proof -
    from that consider "g = n" | p where "p \<in> set ?ps" "g \<in> below (parent_rel d) p" unfolding unf by blast
    then show ?thesis
    proof cases
      case 1
      then show ?thesis unfolding dom by blast
    next
      case (2 p)
      with assms [OF 2(1)] have "dom (group_vars (get_group d g)) \<subseteq> dom (r p)" by (simp add: inherited_def)
      with 2(1) show ?thesis unfolding dom by blast
    qed
  qed
  moreover have "\<exists>g \<in> below (parent_rel d) n. group_vars (get_group d g) k = Some v" if "?vs k = Some v" for k v
  proof (cases "group_vars (get_group d n) k")
    case None
    with that have "fold (\<lambda>p vs. merge_vars vs (r p)) ?ps Map.empty k = Some v"
      by (simp add: inventory_vars.merge_keeps)
    from merge_fold_from [OF this] obtain p where "p \<in> set ?ps" "r p k = Some v" by auto
    with assms [of p] have "\<exists>g \<in> below (parent_rel d) p. group_vars (get_group d g) k = Some v"
      by (simp add: inherited_def)
    with \<open>p \<in> set ?ps\<close> show ?thesis unfolding unf by blast
  next
    case (Some w)
    from own [OF Some] that have "w = v" by simp
    with Some show ?thesis by (intro bexI [of _ n]) simp_all
  qed
  ultimately show ?thesis unfolding inherited_def using own by blast
qed

lemma group_all_vars_returns:
  assumes "acyclic (parent_rel d)" "\<And>x. finite (below (parent_rel d) x)"
  shows "card (below (parent_rel d) n) \<le> fuel \<Longrightarrow> \<exists>vs. group_all_vars fuel d n = Some vs \<and> inherited d n vs"
proof (induction fuel arbitrary: n)
  case 0
  then show ?case using assms(2) [of n] by (metis below_self card_0_eq empty_iff le_zero_eq)
next
  case (Suc fuel)
  let ?ps = "group_parents (get_group d n)"
  have "\<forall>p \<in> set ?ps. \<exists>vs. group_all_vars fuel d p = Some vs \<and> inherited d p vs"
  proof
    fix p
    assume "p \<in> set ?ps"
    then have "(n, p) \<in> parent_rel d" by (simp add: parent_rel_def)
    from below_edge [OF assms(1) assms(2) this] Suc.prems
    show "\<exists>vs. group_all_vars fuel d p = Some vs \<and> inherited d p vs" by (intro Suc.IH) simp
  qed
  then obtain r where r: "\<And>p. p \<in> set ?ps \<Longrightarrow> group_all_vars fuel d p = Some (r p) \<and> inherited d p (r p)"
    by metis
  then have "group_all_vars (Suc fuel) d n
      = Some (merge_vars (fold (\<lambda>p vs. merge_vars vs (r p)) ?ps Map.empty) (group_vars (get_group d n)))"
    by (simp add: fold_bind_Some [where g = merge_vars and r = r])
  then show ?case using inherited_step [of d n r] r by blast
qed

text \<open>
  C39.  In an inventory whose group graph is consistent and acyclic, a host's variables can be
  computed with fuel for one level more than there are groups; the host's own values win, and
  every other variable is one of a group of the host or of one of their ancestors, none missing.
\<close>

theorem host_all_vars_spec:
  assumes "graph_ok d" "acyclic (parent_rel d)" "set (host_groups (get_host d h)) \<subseteq> group_names d"
    and "length (inv_groups d) \<le> fuel"
  shows "\<exists>vs. host_all_vars fuel d h = Some vs
     \<and> (\<forall>k v. host_vars (get_host d h) k = Some v \<longrightarrow> vs k = Some v)
     \<and> (\<forall>k v. vs k = Some v \<longrightarrow> host_vars (get_host d h) k = Some v
            \<or> (\<exists>g \<in> set (host_groups (get_host d h)). \<exists>a \<in> below (parent_rel d) g.
                 group_vars (get_group d a) k = Some v))
     \<and> (\<forall>g \<in> set (host_groups (get_host d h)). \<forall>a \<in> below (parent_rel d) g.
          dom (group_vars (get_group d a)) \<subseteq> dom vs)"
proof -
  let ?gs = "host_groups (get_host d h)"
  have "\<forall>g \<in> set ?gs. \<exists>vs. group_all_vars fuel d g = Some vs \<and> inherited d g vs"
  proof
    fix g
    assume "g \<in> set ?gs"
    with assms(3) have "g \<in> group_names d" by blast
    from graph_ok_fuel(1) [OF assms(1) this] assms(4)
    show "\<exists>vs. group_all_vars fuel d g = Some vs \<and> inherited d g vs"
      by (intro group_all_vars_returns assms(2) graph_ok_finite(1) [OF assms(1)]) simp
  qed
  then obtain r where r: "\<And>g. g \<in> set ?gs \<Longrightarrow> group_all_vars fuel d g = Some (r g) \<and> inherited d g (r g)"
    by metis
  define vs where "vs = merge_vars (fold (\<lambda>g vs. merge_vars vs (r g)) ?gs Map.empty) (host_vars (get_host d h))"
  have ret: "host_all_vars fuel d h = Some vs"
    using r by (simp add: host_all_vars_def fold_bind_Some [where g = merge_vars and r = r] vs_def)
  have dom: "dom vs = dom (host_vars (get_host d h)) \<union> (\<Union>g \<in> set ?gs. dom (r g))"
    unfolding vs_def inventory_vars.merge_eq [of _ "host_vars _"] dom_map_add merge_fold_dom by simp
  show ?thesis
  proof (intro exI [of _ vs] conjI allI impI ballI)
    show "host_all_vars fuel d h = Some vs" by (rule ret)
    show "vs k = Some v" if "host_vars (get_host d h) k = Some v" for k v
      using that unfolding vs_def by (rule inventory_vars.merge_wins)
    show "host_vars (get_host d h) k = Some v
            \<or> (\<exists>g \<in> set ?gs. \<exists>a \<in> below (parent_rel d) g. group_vars (get_group d a) k = Some v)"
      if "vs k = Some v" for k v
    proof (cases "host_vars (get_host d h) k")
      case None
      with that have "fold (\<lambda>g vs. merge_vars vs (r g)) ?gs Map.empty k = Some v"
        unfolding vs_def by (simp add: inventory_vars.merge_keeps)
      from merge_fold_from [OF this] obtain g where "g \<in> set ?gs" "r g k = Some v" by auto
      with r [of g] show ?thesis unfolding inherited_def by blast
    next
      case (Some w)
      with that show ?thesis unfolding vs_def by (simp add: inventory_vars.merge_wins)
    qed
    show "dom (group_vars (get_group d a)) \<subseteq> dom vs" if "g \<in> set ?gs" "a \<in> below (parent_rel d) g" for g a
      using that r [OF that(1)] unfolding dom inherited_def by blast
  qed
qed

section \<open>Links\<close>

lemma rel_upd_other [inv_simps]:
  "(\<And>g. group_parents (f g) = group_parents g) \<Longrightarrow> parent_rel (upd_group n f d) = parent_rel d"
  "(\<And>g. group_children (f g) = group_children g) \<Longrightarrow> child_rel (upd_group n f d) = child_rel d"
  by (auto simp: parent_rel_def child_rel_def get_group_upd split: if_splits)

lemma rel_other [inv_simps]:
  "parent_rel (upd_host h k d) = parent_rel d" "child_rel (upd_host h k d) = child_rel d"
  "parent_rel (group_by_name n d) = parent_rel d" "child_rel (group_by_name n d) = child_rel d"
  "parent_rel (host_by_name n d) = parent_rel d" "child_rel (host_by_name n d) = child_rel d"
  by (auto simp: parent_rel_def child_rel_def inv_simps)

lemma parent_rel_add [inv_simps]:
  "c \<in> group_names d \<Longrightarrow>
     parent_rel (upd_group c (\<lambda>g. g\<lparr>group_parents := group_parents g @ ps\<rparr>) d) = parent_rel d \<union> {c} \<times> set ps"
  by (auto simp: parent_rel_def get_group_upd split: if_splits)

lemma child_rel_add [inv_simps]:
  "p \<in> group_names d \<Longrightarrow>
     child_rel (upd_group p (\<lambda>g. g\<lparr>group_children := group_children g @ cs\<rparr>) d) = child_rel d \<union> {p} \<times> set cs"
  by (auto simp: child_rel_def get_group_upd split: if_splits)

lemma graph_okI:
  "graph_ok d \<Longrightarrow> map fst (inv_groups d') = map fst (inv_groups d) \<Longrightarrow> parent_rel d' = parent_rel d \<union> X \<Longrightarrow>
   child_rel d' = child_rel d \<union> X\<inverse> \<Longrightarrow> X \<subseteq> group_names d \<times> group_names d \<Longrightarrow> graph_ok d'"
  unfolding graph_ok_def by (metis Un_subset_iff converse_Un list.set_map)

lemma graph_ok_same:
  "graph_ok d \<Longrightarrow> map fst (inv_groups d') = map fst (inv_groups d) \<Longrightarrow> parent_rel d' = parent_rel d \<Longrightarrow>
   child_rel d' = child_rel d \<Longrightarrow> graph_ok d'"
  by (rule graph_okI [where X = "{}"]) simp_all

lemma graph_ok_by_name:
  "graph_ok d \<Longrightarrow> graph_ok (group_by_name n d)" "graph_ok d \<Longrightarrow> graph_ok (host_by_name n d)"
  unfolding graph_ok_def by (auto simp: inv_simps distinct_by_name)

lemma graph_ok_link:
  assumes "graph_ok d" "p \<in> group_names d" "c \<in> group_names d"
  shows "graph_ok (upd_group p (\<lambda>g. g\<lparr>group_children := group_children g @ [c]\<rparr>)
                    (upd_group c (\<lambda>g. g\<lparr>group_parents := group_parents g @ [p]\<rparr>) d))"
    and "graph_ok (upd_group c (\<lambda>g. g\<lparr>group_parents := group_parents g @ [p]\<rparr>)
                    (upd_group p (\<lambda>g. g\<lparr>group_children := group_children g @ [c]\<rparr>) d))"
proof -
  have *: "graph_ok d'" if "map fst (inv_groups d') = map fst (inv_groups d)"
    "parent_rel d' = parent_rel d \<union> {c} \<times> {p}" "child_rel d' = child_rel d \<union> {p} \<times> {c}" for d'
    using assms that by (intro graph_okI [OF assms(1), where X = "{(c, p)}"]) auto
  show "graph_ok (upd_group p (\<lambda>g. g\<lparr>group_children := group_children g @ [c]\<rparr>)
                    (upd_group c (\<lambda>g. g\<lparr>group_parents := group_parents g @ [p]\<rparr>) d))"
    and "graph_ok (upd_group c (\<lambda>g. g\<lparr>group_parents := group_parents g @ [p]\<rparr>)
                    (upd_group p (\<lambda>g. g\<lparr>group_children := group_children g @ [c]\<rparr>) d))"
    using assms by (intro *; simp add: inv_simps)+
qed

lemma graph_ok_upd:
  "graph_ok d \<Longrightarrow> (\<And>g. group_parents (f g) = group_parents g) \<Longrightarrow> (\<And>g. group_children (f g) = group_children g)
     \<Longrightarrow> graph_ok (upd_group n f d)"
  by (rule graph_ok_same) (simp_all add: inv_simps)

section \<open>Formatting keeps the graph and roots it\<close>

lemma add_ungrouped_simps [inv_simps]:
  "group_names (add_ungrouped_group d) = insert ''all'' (insert ''ungrouped'' (group_names d))"
  "parent_rel (add_ungrouped_group d) = parent_rel d" "child_rel (add_ungrouped_group d) = child_rel d"
  "group_parents (get_group (add_ungrouped_group d) n) = group_parents (get_group d n)"
  "group_vars (get_group (add_ungrouped_group d) n) = group_vars (get_group d n)"
  "group_hosts (get_group (add_ungrouped_group d) n) =
     (if n = ''all'' then [] else if n = ''ungrouped'' then group_hosts (get_group d n) @ group_hosts (get_group d ''all'')
      else group_hosts (get_group d n))"
  "inv_hosts (add_ungrouped_group d) = inv_hosts d"
  by (auto simp: add_ungrouped_group_def Let_def inv_simps)

lemma graph_ok_add_ungrouped: "graph_ok d \<Longrightarrow> graph_ok (add_ungrouped_group d)"
  unfolding add_ungrouped_group_def Let_def by (intro graph_ok_upd graph_ok_by_name) simp_all

lemma graph_ok_step: "graph_ok d \<Longrightarrow> ''all'' \<in> group_names d \<Longrightarrow> n \<in> group_names d \<Longrightarrow> graph_ok (add_to_all_step n d)"
  unfolding add_to_all_step_def by (simp add: graph_ok_link)

lemma step_simps [inv_simps]:
  "map fst (inv_groups (add_to_all_step n d)) = map fst (inv_groups d)"
  "inv_hosts (add_to_all_step n d) = inv_hosts d"
  "group_vars (get_group (add_to_all_step n d) m) = group_vars (get_group d m)"
  "group_hosts (get_group (add_to_all_step n d) m) = group_hosts (get_group d m)"
  by (simp_all add: add_to_all_step_def inv_simps)

lemma step_parents:
  assumes "n \<in> group_names d"
  shows "group_parents (get_group (add_to_all_step n d) m) =
     (if m = n \<and> n \<noteq> ''all'' \<and> group_parents (get_group d n) = [] then [''all''] else group_parents (get_group d m))"
  using assms by (auto simp: add_to_all_step_def inv_simps)

text \<open>After the loop each group other than \<open>all\<close> that had no parent has \<open>all\<close> for one.\<close>

lemma add_to_all_fold:
  assumes "graph_ok d" "''all'' \<in> group_names d" "set ns \<subseteq> group_names d" "distinct ns"
  shows "graph_ok (fold add_to_all_step ns d)
    \<and> map fst (inv_groups (fold add_to_all_step ns d)) = map fst (inv_groups d)
    \<and> inv_hosts (fold add_to_all_step ns d) = inv_hosts d
    \<and> (\<forall>m. group_parents (get_group (fold add_to_all_step ns d) m) =
         (if m \<in> set ns \<and> m \<noteq> ''all'' \<and> group_parents (get_group d m) = [] then [''all'']
          else group_parents (get_group d m))
        \<and> group_vars (get_group (fold add_to_all_step ns d) m) = group_vars (get_group d m)
        \<and> group_hosts (get_group (fold add_to_all_step ns d) m) = group_hosts (get_group d m))"
  using assms
proof (induction ns arbitrary: d)
  case (Cons n ns)
  let ?d1 = "add_to_all_step n d"
  have n: "n \<in> group_names d" using Cons.prems by simp
  have names: "group_names ?d1 = group_names d" by (metis list.set_map step_simps(1))
  have "graph_ok ?d1" using Cons.prems n by (intro graph_ok_step) auto
  moreover have "set ns \<subseteq> group_names ?d1" "''all'' \<in> group_names ?d1" "distinct ns" "n \<notin> set ns"
    using Cons.prems unfolding names by auto
  ultimately show ?case
    using Cons.IH [of ?d1] by (auto simp: step_parents [OF n] inv_simps)
qed simp

lemma map_of_map_values: "map_of (map (map_prod id f) xs) k = map_option f (map_of xs k)"
  by (induction xs) auto

lemma keys_map_values [simp]: "map fst (map (map_prod id f) xs) = map fst xs"
  by simp

lemma simplify_simps [inv_simps]:
  "map fst (inv_groups (simplify_inventory ord d)) = map fst (inv_groups d)"
  "map fst (inv_hosts (simplify_inventory ord d)) = map fst (inv_hosts d)"
  "group_vars (get_group (simplify_inventory ord d) n) = group_vars (get_group d n)"
  "group_hosts (get_group (simplify_inventory ord d) n) = group_hosts (get_group d n)"
  "group_children (get_group (simplify_inventory ord d) n) = group_children (get_group d n)"
  "host_vars (get_host (simplify_inventory ord d) h) = host_vars (get_host d h)"
  by (auto simp: simplify_inventory_def get_group_def get_host_def map_of_map_values
      deduplicate_parents_def deduplicate_groups_def split: option.splits)

lemma deduplicate_set: "perm_oracle ord \<Longrightarrow> set (deduplicate ord xs) = set xs \<and> distinct (deduplicate ord xs)"
  by (simp add: deduplicate_def perm_oracle_set perm_oracle_distinct)

lemma simplify_sets:
  assumes "perm_oracles ord"
  shows "set (group_parents (get_group (simplify_inventory ord d) n)) = set (group_parents (get_group d n))"
    and "set (host_groups (get_host (simplify_inventory ord d) h)) = set (host_groups (get_host d h))"
    and "distinct (host_groups (get_host (simplify_inventory ord d) h))"
  using assms
  by (auto simp: simplify_inventory_def get_group_def get_host_def map_of_map_values new_host_def
      deduplicate_parents_def deduplicate_groups_def deduplicate_set perm_oracles_def split: option.splits)

lemma remove_all_simps [inv_simps]:
  "''all'' \<in> group_names d \<Longrightarrow> inv_groups (remove_all_group_from_hosts d) = inv_groups d"
  "map fst (inv_hosts (remove_all_group_from_hosts d)) = map fst (inv_hosts d)"
  "host_vars (get_host (remove_all_group_from_hosts d) h) = host_vars (get_host d h)"
  "host_groups (get_host (remove_all_group_from_hosts d) h) = remove1 ''all'' (host_groups (get_host d h))"
  by (auto simp: remove_all_group_from_hosts_def group_by_name_def get_host_def map_of_map_values
      new_host_def split: option.splits)

text \<open>The inventory after formatting, in terms of the one before.\<close>

lemma format_inventory_spec:
  assumes "graph_ok d" "perm_oracles ord"
  defines "d' \<equiv> format_inventory ord d"
  shows "graph_ok d'" "group_names d' = insert ''all'' (insert ''ungrouped'' (group_names d))"
    and "map fst (inv_hosts d') = map fst (inv_hosts d)"
    and "set (group_parents (get_group d' n)) =
           (if n \<in> group_names d' \<and> n \<noteq> ''all'' \<and> group_parents (get_group d n) = [] then {''all''}
            else set (group_parents (get_group d n)))"
    and "group_vars (get_group d' n) = group_vars (get_group d n)"
    and "group_hosts (get_group d' n) =
      (if n = ''all'' then [] else if n = ''ungrouped'' then group_hosts (get_group d n) @ group_hosts (get_group d ''all'')
       else group_hosts (get_group d n))"
    and "set (host_groups (get_host d' h)) = set (host_groups (get_host d h)) - {''all''}"
    and "host_vars (get_host d' h) = host_vars (get_host d h)"
proof -
  define d1 where "d1 = add_ungrouped_group d"
  define ns where "ns = ord ''addToAllGroup'' (map fst (inv_groups d1))"
  define d2 where "d2 = add_to_all_group ord d1"
  define d3 where "d3 = simplify_inventory ord d2"
  have ok1: "graph_ok d1" unfolding d1_def by (rule graph_ok_add_ungrouped [OF assms(1)])
  have n1: "group_names d1 = insert ''all'' (insert ''ungrouped'' (group_names d))"
    by (simp add: d1_def inv_simps)
  have all1: "''all'' \<in> group_names d1" by (simp add: n1)
  then have d2: "d2 = fold add_to_all_step ns d1"
    by (simp add: d2_def add_to_all_group_def group_by_name_def ns_def)
  have po: "perm_oracle (ord t)" for t using assms(2) by (simp add: perm_oracles_def)
  have ns: "set ns = group_names d1" "distinct ns"
    using ok1 by (simp_all add: ns_def perm_oracle_set [OF po] perm_oracle_distinct [OF po] graph_ok_def)
  note f = add_to_all_fold [OF ok1 all1 equalityD1 [OF ns(1)] ns(2), folded d2]
  have n2: "group_names d2 = group_names d1" using f by (metis list.set_map)
  have n3: "group_names d3 = group_names d1" unfolding d3_def by (metis list.set_map n2 simplify_simps(1))
  have ok3: "graph_ok d3"
  proof (rule graph_ok_same)
    show "graph_ok d2" using f by (rule conjunct1)
    show "map fst (inv_groups d3) = map fst (inv_groups d2)" by (simp add: d3_def inv_simps)
    show "parent_rel d3 = parent_rel d2" "child_rel d3 = child_rel d2"
      by (simp_all add: d3_def parent_rel_def child_rel_def simplify_sets(1) [OF assms(2)] simplify_simps)
  qed
  have d': "d' = remove_all_group_from_hosts d3"
    by (simp add: d'_def format_inventory_def d3_def d2_def d1_def)
  have g': "inv_groups d' = inv_groups d3" using all1 by (simp add: d' inv_simps n3)
  then have gg: "get_group d' m = get_group d3 m" for m by (simp add: get_group_def)
  show "graph_ok d'" using ok3 by (rule graph_ok_same) (auto simp: g' gg parent_rel_def child_rel_def)
  show names': "group_names d' = insert ''all'' (insert ''ungrouped'' (group_names d))" by (simp add: g' n3 n1)
  show "map fst (inv_hosts d') = map fst (inv_hosts d)" using f by (simp add: d' d3_def inv_simps d1_def)
  show "set (group_parents (get_group d' n)) =
           (if n \<in> group_names d' \<and> n \<noteq> ''all'' \<and> group_parents (get_group d n) = [] then {''all''}
            else set (group_parents (get_group d n)))"
    using f by (simp add: gg d3_def simplify_sets assms(2) names' ns(1) n1) (simp add: d1_def inv_simps)
  show "group_vars (get_group d' n) = group_vars (get_group d n)"
    using f by (simp add: gg d3_def inv_simps) (simp add: d1_def inv_simps)
  show "group_hosts (get_group d' n) =
      (if n = ''all'' then [] else if n = ''ungrouped'' then group_hosts (get_group d n) @ group_hosts (get_group d ''all'')
       else group_hosts (get_group d n))"
    using f by (simp add: gg d3_def inv_simps) (simp add: d1_def inv_simps)
  have "get_host d2 h = get_host d h" using f by (simp add: get_host_def d1_def inv_simps)
  then show "set (host_groups (get_host d' h)) = set (host_groups (get_host d h)) - {''all''}"
    "host_vars (get_host d' h) = host_vars (get_host d h)"
    using simplify_sets(2,3) [OF assms(2), of d2 h] by (simp_all add: d' d3_def inv_simps)
qed

lemma validated:
  assumes "graph_ok d" "perm_oracles ord" "format_and_validate ord d = Ok d'"
  shows "d' = format_inventory ord d" "graph_ok d'" "acyclic (parent_rel d')"
    and "\<forall>n \<in> group_names d'. initialized (get_group d' n)"
proof -
  show d': "d' = format_inventory ord d"
    using assms(3) by (auto simp: format_and_validate_def validated_inventory_def)
  then show ok: "graph_ok d'" using format_inventory_spec(1) [OF assms(1,2)] by simp
  have v: "validate_group_initialization ord d' = Ok ()" "validate_no_circular_references ord d' = Ok ()"
    using assms(3) d' by (auto simp: format_and_validate_def validated_inventory_def validate_inventory_def)
  from v(2) have "validate_no_circular_references ord d' \<noteq> Err CircularReference" by simp
  then show "acyclic (parent_rel d')"
    using circular_check_exact [OF assms(2), of d'] ok by (simp add: graph_ok_def)
  have "set (ord ''validateInit'' (map fst (inv_groups d'))) = group_names d'"
    using assms(2) by (simp add: perm_oracles_def perm_oracle_set)
  with v(1) show "\<forall>n \<in> group_names d'. initialized (get_group d' n)"
    by (auto simp: validate_group_initialization_def find_None_iff split: option.splits)
qed

lemma all_is_root:
  assumes "graph_ok d" "acyclic (parent_rel d)"
    and "\<And>g. g \<in> group_names d \<Longrightarrow> g \<noteq> ''all'' \<Longrightarrow> group_parents (get_group d g) \<noteq> []"
  shows "g \<in> group_names d \<Longrightarrow> g \<in> below (child_rel d) ''all''"
proof (induction "card (below (parent_rel d) g)" arbitrary: g rule: less_induct)
  case less
  show ?case
  proof (cases "g = ''all''")
    case False
    have "hd (group_parents (get_group d g)) \<in> set (group_parents (get_group d g))"
      using assms(3) [OF less.prems False] by simp
    then obtain p where p: "(g, p) \<in> parent_rel d" by (auto simp: parent_rel_def)
    have "card (below (parent_rel d) p) < card (below (parent_rel d) g)"
      by (rule below_edge [OF assms(2) graph_ok_finite(1) [OF assms(1)] p])
    moreover have "p \<in> group_names d" using assms(1) p unfolding graph_ok_def by blast
    ultimately have "p \<in> below (child_rel d) ''all''" by (rule less.hyps)
    moreover have "(p, g) \<in> child_rel d" using assms(1) p by (simp add: graph_ok_def)
    ultimately show ?thesis unfolding below_def by (simp add: rtrancl_into_rtrancl)
  qed simp
qed

lemma validated_rooted:
  assumes "graph_ok d" "perm_oracles ord" "format_and_validate ord d = Ok d'"
  shows "graph_ok d' \<and> acyclic (parent_rel d') \<and> group_names d' \<subseteq> below (child_rel d') ''all''
    \<and> (\<forall>g \<in> group_names d'. get_hosts (length (inv_groups d')) d' g = Some (hosts_below d' g))
    \<and> get_hosts (length (inv_groups d')) d' ''all''
        = Some (\<Union>g \<in> group_names d'. set (group_hosts (get_group d' g)))"
proof -
  note v = validated [OF assms]
  note f = format_inventory_spec [OF assms(1,2), folded v(1)]
  have ne: "group_parents (get_group d' g) \<noteq> []" if "g \<in> group_names d'" "g \<noteq> ''all''" for g
  proof
    assume "group_parents (get_group d' g) = []"
    with f(4) [of g] that show False by (cases "group_parents (get_group d g) = []") simp_all
  qed
  note root = all_is_root [OF v(2,3) ne]
  have hosts: "get_hosts (length (inv_groups d')) d' g = Some (hosts_below d' g)" if "g \<in> group_names d'" for g
    by (rule get_hosts_below [OF graph_ok_acyclic_child [OF v(2,3)] graph_ok_finite(2) [OF v(2)]
          graph_ok_fuel(2) [OF v(2) that]])
  have all: "''all'' \<in> group_names d'" by (simp add: f(2))
  have "below (child_rel d') ''all'' \<subseteq> group_names d'"
    using below_subset [of "child_rel d'" "group_names d'" "''all''"] v(2) all by (auto simp: graph_ok_def)
  with root have "below (child_rel d') ''all'' = group_names d'" by blast
  with hosts [OF all] have "get_hosts (length (inv_groups d')) d' ''all''
        = Some (\<Union>g \<in> group_names d'. set (group_hosts (get_group d' g)))"
    by (simp add: hosts_below_def)
  with v(2,3) root hosts show ?thesis by blast
qed

text \<open>
  C37.  An inventory that passes formatting and validation has an acyclic group graph rooted at
  \<open>all\<close>: every group is below \<open>all\<close>, listing the hosts of any group returns within as
  many levels as there are groups, and the hosts of \<open>all\<close> are the hosts of every group.
\<close>

theorem validated_inventory_rooted:
  assumes "graph_ok d" "perm_oracles ord" "format_and_validate ord d = Ok d'"
  shows "graph_ok d' \<and> acyclic (parent_rel d') \<and> group_names d' \<subseteq> below (child_rel d') ''all''
    \<and> (\<forall>g \<in> group_names d'. get_hosts (length (inv_groups d')) d' g = Some (hosts_below d' g))
    \<and> get_hosts (length (inv_groups d')) d' ''all''
        = Some (\<Union>g \<in> group_names d'. set (group_hosts (get_group d' g)))"
  by (rule validated_rooted [OF assms])

text \<open>
  A host listed only at the top level of the inventory ends up in no group: formatting takes
  \<open>all\<close> out of its groups and never enters it into \<open>ungrouped\<close>, so its variables are
  its own and those of \<open>all\<close> and \<open>ungrouped\<close> are lost, while the group \<open>ungrouped\<close> lists the host.
\<close>

theorem ungrouped_host_vars:
  assumes "graph_ok d" "perm_oracles ord" "set (host_groups (get_host d h)) \<subseteq> {''all''}"
    and "h \<in> set (group_hosts (get_group d ''all''))"
  shows "host_groups (get_host (format_inventory ord d) h) = []
    \<and> host_all_vars fuel (format_inventory ord d) h = Some (host_vars (get_host d h))
    \<and> h \<in> set (group_hosts (get_group (format_inventory ord d) ''ungrouped''))"
proof -
  note f = format_inventory_spec [OF assms(1,2)]
  have "set (host_groups (get_host (format_inventory ord d) h)) = {}" 
    unfolding f(7) using assms(3) by (simp add: subset_singleton_iff)
  then have e: "host_groups (get_host (format_inventory ord d) h) = []" by simp
  have "host_all_vars fuel (format_inventory ord d) h = Some (host_vars (get_host d h))"
    by (simp add: host_all_vars_def e f(8) inventory_vars.merge_eq)
  moreover have "h \<in> set (group_hosts (get_group (format_inventory ord d) ''ungrouped''))"
    using f(6) [of "''ungrouped''"] assms(4) by simp
  ultimately show ?thesis using e by blast
qed

section \<open>Host patterns\<close>

definition term_name :: "string \<Rightarrow> string" where
  "term_name t = (if hd t = CHR ''!'' \<or> hd t = CHR ''&'' then tl t else t)"

text \<open>Whether a host is selected, term by term.\<close>

fun selected :: "inventory \<Rightarrow> string \<Rightarrow> string list \<Rightarrow> bool \<Rightarrow> bool" where
  "selected d h [] b = b"
| "selected d h (t # ts) b =
     selected d h ts
       (if hd t = CHR ''!'' then b \<and> h \<notin> hosts_below d (tl t)
        else if hd t = CHR ''&'' then b \<and> h \<in> hosts_below d (tl t)
        else b \<or> h \<in> hosts_below d t)"

definition term_ok :: "inventory \<Rightarrow> string \<Rightarrow> bool" where
  "term_ok d t \<longleftrightarrow> t \<noteq> [] \<and> term_name t \<in> group_names d"

lemma pattern_term_ok:
  assumes "term_ok d t" "\<And>g. g \<in> group_names d \<Longrightarrow> get_hosts fuel d g = Some (hosts_below d g)"
  shows "\<exists>hs'. pattern_term fuel d t hs = Some (Ok hs')
     \<and> (\<forall>h. h \<in> hs' \<longleftrightarrow> selected d h [t] (h \<in> hs))"
  using assms by (auto simp: term_ok_def term_name_def pattern_term_def Let_def split: if_splits)

lemma pattern_term_err:
  "\<not> term_ok d t \<Longrightarrow> pattern_term fuel d t hs = Some (Err (NoSuchGroup (if t = [] then [] else term_name t)))"
  by (cases "t = []"; cases "hd t = CHR ''!''"; cases "hd t = CHR ''&''")
    (simp_all add: term_ok_def term_name_def pattern_term_def Let_def)

lemma groups_pattern_ok:
  assumes "\<And>g. g \<in> group_names d \<Longrightarrow> get_hosts fuel d g = Some (hosts_below d g)"
  shows "list_all (term_ok d) ts \<Longrightarrow>
     \<exists>hs'. groups_pattern fuel d ts hs = Some (Ok hs') \<and> (\<forall>h. h \<in> hs' \<longleftrightarrow> selected d h ts (h \<in> hs))"
proof (induction ts arbitrary: hs)
  case (Cons t ts)
  then have "term_ok d t" by simp
  from pattern_term_ok [OF this assms, of hs] obtain hs1
    where 1: "pattern_term fuel d t hs = Some (Ok hs1)" "\<And>h. h \<in> hs1 \<longleftrightarrow> selected d h [t] (h \<in> hs)" by blast
  from Cons.IH [of hs1] Cons.prems obtain hs'
    where "groups_pattern fuel d ts hs1 = Some (Ok hs')" "\<And>h. h \<in> hs' \<longleftrightarrow> selected d h ts (h \<in> hs1)" by auto
  with 1 show ?case by auto
qed simp

lemma groups_pattern_err:
  assumes "\<And>g. g \<in> group_names d \<Longrightarrow> get_hosts fuel d g = Some (hosts_below d g)"
    and "list_all (term_ok d) us" "\<not> term_ok d t"
  shows "groups_pattern fuel d (us @ t # ts) hs = Some (Err (NoSuchGroup (if t = [] then [] else term_name t)))"
  using assms(2)
proof (induction us arbitrary: hs)
  case Nil
  with pattern_term_err [OF assms(3)] show ?case by simp
next
  case (Cons u us)
  then have "term_ok d u" by simp
  from pattern_term_ok [OF this assms(1), of hs] Cons show ?case by fastforce
qed

text \<open>
  C40.  On a validated inventory a colon-separated pattern always returns.  When every term
  names a group, a host is in the result exactly when the terms select it from left to right:
  a plain term adds the hosts below the group, \<open>!\<close> takes them away, \<open>&\<close> keeps only
  them; otherwise the error names the first term that is no group.
\<close>

theorem determine_hosts_groups_spec:
  assumes "graph_ok d" "acyclic (parent_rel d)"
  shows "case dropWhile (term_ok d) (split_on (CHR '':'') pat) of
      [] \<Rightarrow> \<exists>hs. determine_hosts_from_groups_pattern (length (inv_groups d)) d pat = Some (Ok hs)
               \<and> (\<forall>h. h \<in> hs \<longleftrightarrow> selected d h (split_on (CHR '':'') pat) False)
    | t # _ \<Rightarrow> determine_hosts_from_groups_pattern (length (inv_groups d)) d pat
               = Some (Err (NoSuchGroup (if t = [] then [] else term_name t)))"
proof -
  have hosts: "get_hosts (length (inv_groups d)) d g = Some (hosts_below d g)" if "g \<in> group_names d" for g
    by (rule get_hosts_below [OF graph_ok_acyclic_child [OF assms] graph_ok_finite(2) [OF assms(1)]
          graph_ok_fuel(2) [OF assms(1) that]])
  let ?ts = "split_on (CHR '':'') pat"
  show ?thesis
  proof (cases "dropWhile (term_ok d) ?ts")
    case Nil
    then have "list_all (term_ok d) ?ts" by (simp add: list_all_iff)
    from groups_pattern_ok [OF hosts this, of "{}"] show ?thesis
      unfolding Nil by (simp add: determine_hosts_from_groups_pattern_def)
  next
    case (Cons t us)
    then have "?ts = takeWhile (term_ok d) ?ts @ t # us" by (metis takeWhile_dropWhile_id)
    moreover have "\<not> term_ok d t" using Cons by (metis hd_dropWhile list.discI list.sel(1))
    moreover have "list_all (term_ok d) (takeWhile (term_ok d) ?ts)"
      by (simp add: list_all_iff) (meson set_takeWhileD)
    ultimately have "groups_pattern (length (inv_groups d)) d ?ts {}
        = Some (Err (NoSuchGroup (if t = [] then [] else term_name t)))"
      using groups_pattern_err [OF hosts, where us = "takeWhile (term_ok d) ?ts" and t = t and ts = us] by metis
    then show ?thesis unfolding Cons by (simp add: determine_hosts_from_groups_pattern_def)
  qed
qed

section \<open>What a source of inventories owes\<close>

text \<open>
  Besides the graph of groups: the membership of hosts is recorded on both sides, and every
  host is in a group.
\<close>

definition membership_ok :: "inventory \<Rightarrow> bool" where
  "membership_ok d \<longleftrightarrow>
     (\<forall>g h. h \<in> set (group_hosts (get_group d g)) \<longleftrightarrow> g \<in> set (host_groups (get_host d h)))
     \<and> (\<forall>h. h \<in> host_names d \<longleftrightarrow> host_groups (get_host d h) \<noteq> [])"

lemma membership_upd_group [inv_simps]:
  "(\<And>g. group_hosts (f g) = group_hosts g) \<Longrightarrow> membership_ok (upd_group n f d) = membership_ok d"
proof -
  assume "\<And>g. group_hosts (f g) = group_hosts g"
  then have "group_hosts (get_group (upd_group n f d) m) = group_hosts (get_group d m)" for m
    by (simp add: get_group_upd)
  then show ?thesis unfolding membership_ok_def by (simp add: inv_simps)
qed

lemma membership_by_name [inv_simps]: "membership_ok (group_by_name n d) = membership_ok d"
  unfolding membership_ok_def by (simp add: inv_simps)

lemma add_vars_simps [inv_simps]:
  "group_names (add_vars_to_host n vs d) = group_names d"
  "get_group (add_vars_to_host n vs d) g = get_group d g"
  "host_names (add_vars_to_host n vs d) = insert n (host_names d)"
  "host_groups (get_host (add_vars_to_host n vs d) h) = host_groups (get_host d h)"
  "inv_groups (add_vars_to_host n vs d) = inv_groups d"
  by (auto simp: add_vars_to_host_def inv_simps)

text \<open>A host line enters the host into the group on both sides.\<close>

lemma membership_host_line:
  assumes "membership_ok d" "g \<in> group_names d"
  shows "membership_ok (upd_group g (\<lambda>x. x\<lparr>group_hosts := group_hosts x @ [n]\<rparr>)
           (upd_host n (\<lambda>h. h\<lparr>host_groups := host_groups h @ [g]\<rparr>) (add_vars_to_host n vs d)))"
  using assms unfolding membership_ok_def by (auto simp: inv_simps)

lemma graph_ok_groups: "inv_groups d' = inv_groups d \<Longrightarrow> graph_ok d' = graph_ok d"
  by (simp add: graph_ok_def parent_rel_def child_rel_def get_group_def)

text \<open>
  The contract between the two file formats and the rest: before formatting, links and
  memberships agree on both sides.  Formatting and validation turn that into a consistent
  inventory.
\<close>

locale inventory_source =
  fixes raw :: "'i \<Rightarrow> (inv_error, inventory) outcome"
  assumes raw_graph: "raw i = Ok d \<Longrightarrow> graph_ok d"
    and raw_membership: "raw i = Ok d \<Longrightarrow> membership_ok d"
begin

lemma consistent:
  assumes "perm_oracles ord" "obind (raw i) (format_and_validate ord) = Ok d"
  shows "graph_ok d \<and> acyclic (parent_rel d)
    \<and> get_hosts (length (inv_groups d)) d ''all'' = Some (host_names d)
    \<and> (\<forall>g h. g \<noteq> ''all'' \<longrightarrow> g \<noteq> ''ungrouped'' \<longrightarrow>
          (h \<in> set (group_hosts (get_group d g)) \<longleftrightarrow> g \<in> set (host_groups (get_host d h))))"
proof -
  obtain d0 where d0: "raw i = Ok d0" "format_and_validate ord d0 = Ok d"
    using assms(2) by auto
  have ok: "graph_ok d0" "membership_ok d0" using raw_graph [OF d0(1)] raw_membership [OF d0(1)] by auto
  note v = validated [OF ok(1) assms(1) d0(2)]
  note f = format_inventory_spec [OF ok(1) assms(1), folded v(1)]
  have link: "h \<in> set (group_hosts (get_group d0 g)) \<longleftrightarrow> g \<in> set (host_groups (get_host d0 h))" for g h
    using ok(2) by (simp add: membership_ok_def)
  have names: "host_names d = host_names d0" using f(3) by (metis list.set_map)
  have "(\<Union>g \<in> group_names d. set (group_hosts (get_group d g))) = host_names d"
  proof (intro equalityI subsetI)
    fix h
    assume "h \<in> (\<Union>g \<in> group_names d. set (group_hosts (get_group d g)))"
    then obtain g where "h \<in> set (group_hosts (get_group d g))" by blast
    then obtain g' where "h \<in> set (group_hosts (get_group d0 g'))"
      unfolding f(6) by (auto split: if_splits)
    then have "host_groups (get_host d0 h) \<noteq> []" unfolding link by auto
    then show "h \<in> host_names d" using ok(2) unfolding names membership_ok_def by blast
  next
    fix h
    assume "h \<in> host_names d"
    then have "host_groups (get_host d0 h) \<noteq> []" using ok(2) unfolding names membership_ok_def by blast
    then obtain g where "g \<in> set (host_groups (get_host d0 h))" by (meson last_in_set)
    then have g: "h \<in> set (group_hosts (get_group d0 g))" unfolding link .
    then have "h \<in> set (group_hosts (get_group d (if g = ''all'' then ''ungrouped'' else g)))"
      unfolding f(6) by auto
    moreover have "g \<in> group_names d0"
      using g get_absent [of g d0] by (cases "g \<in> group_names d0") (auto simp: inv_simps)
    ultimately show "h \<in> (\<Union>g \<in> group_names d. set (group_hosts (get_group d g)))"
      unfolding f(2) by (auto split: if_splits)
  qed
  moreover have "h \<in> set (group_hosts (get_group d g)) \<longleftrightarrow> g \<in> set (host_groups (get_host d h))"
    if "g \<noteq> ''all''" "g \<noteq> ''ungrouped''" for g h
    unfolding f(6,7) using that link by simp
  moreover have "get_hosts (length (inv_groups d)) d ''all''
        = Some (\<Union>g \<in> group_names d. set (group_hosts (get_group d g)))"
    using validated_rooted [OF ok(1) assms(1) d0(2)] by blast
  ultimately show ?thesis using v(2,3) by simp
qed

end

end
