(* ===== verification/Inventory_Ini.thy ===== *)
theory Inventory_Ini
  imports Inventory
begin

text \<open>
  The INI form of the inventory, \<open>inventory/ini.go\<close>: a state machine over the lines that
  \<open>bufio.Scanner\<close> delivers.  Its regular expressions are over single bytes, so each is
  written out as the function that decides it or finds its leftmost match.
\<close>

section \<open>Regular expressions\<close>

text \<open>\<open>(\w|-|_)\<close> and \<open>\S\<close>.\<close>

definition name_char :: "char \<Rightarrow> bool" where
  "name_char c \<longleftrightarrow>
     (let n = of_char c :: nat in
      48 \<le> n \<and> n \<le> 57 \<or> 65 \<le> n \<and> n \<le> 90 \<or> 97 \<le> n \<and> n \<le> 122 \<or> c = CHR ''_'' \<or> c = CHR ''-'')"

definition is_ws :: "char \<Rightarrow> bool" where
  "is_ws c \<longleftrightarrow> c \<in> {CHR 0x20, CHR 0x09, CHR 0x0A, CHR 0x0C, CHR 0x0D}"

text \<open>\<open>sectionRegex\<close>: brackets around at least one character, none of them white space.\<close>

definition is_section :: "string \<Rightarrow> bool" where
  "is_section line \<longleftrightarrow>
     length line \<ge> 3 \<and> hd line = CHR ''['' \<and> last line = CHR '']''
     \<and> list_all (\<lambda>c. \<not> is_ws c) (butlast (tl line))"

text \<open>\<open>nameLineRegex\<close>\<close>

definition is_name :: "string \<Rightarrow> bool" where
  "is_name s \<longleftrightarrow> s \<noteq> [] \<and> list_all name_char s"

text \<open>A value between quotes \<open>q\<close>, with at least one character inside and no newline.\<close>

definition quoted_by :: "char \<Rightarrow> string \<Rightarrow> bool" where
  "quoted_by q v \<longleftrightarrow> length v \<ge> 3 \<and> hd v = q \<and> last v = q \<and> nl \<notin> set (butlast (tl v))"

definition is_value :: "string \<Rightarrow> bool" where
  "is_value v \<longleftrightarrow> quoted_by squote v \<or> quoted_by dquote v \<or> (v \<noteq> [] \<and> list_all (\<lambda>c. \<not> is_ws c) v)"

text \<open>\<open>dataRegex.MatchString\<close>: somewhere a name character, an equals sign and a non-blank.\<close>

fun has_data :: "string \<Rightarrow> bool" where
  "has_data (a # b # c # s) \<longleftrightarrow> (name_char a \<and> b = CHR ''='' \<and> \<not> is_ws c) \<or> has_data (b # c # s)"
| "has_data _ \<longleftrightarrow> False"

text \<open>
  \<open>hostRegex\<close>: a name, then any number of blanks followed by a name, an equals sign and a
  value.  A name ends where its characters do, so only the end of each value is a choice.
\<close>

function match_host_vars :: "string \<Rightarrow> bool" where
  "match_host_vars s =
     (if s = [] then True
      else
        let rest = dropWhile is_ws s;
            name = takeWhile name_char rest;
            after = dropWhile name_char rest
        in is_ws (hd s) \<and> name \<noteq> [] \<and> after \<noteq> [] \<and> hd after = CHR ''=''
           \<and> list_ex (\<lambda>n. is_value (take (Suc n) (tl after)) \<and> match_host_vars (drop (Suc n) (tl after)))
               [0 ..< length (tl after)])"
  by pat_completeness auto
termination
proof (relation "measure length")
  fix s rest name after n
  assume *: "s \<noteq> []" "rest = dropWhile is_ws s" "after = dropWhile name_char rest"
    "n \<in> set [0 ..< length (tl after)]"
  have "length (tl after) \<le> length s"
    using *(2,3) length_dropWhile_le [of is_ws s] length_dropWhile_le [of name_char rest] by simp
  with *(4) show "(drop (Suc n) (tl after), s) \<in> measure length" by simp
qed simp

declare match_host_vars.simps [simp del]

definition match_host :: "string \<Rightarrow> bool" where
  "match_host line \<longleftrightarrow> takeWhile name_char line \<noteq> [] \<and> match_host_vars (dropWhile name_char line)"

text \<open>
  The leftmost match of the value at the front of a text: greedily up to the last quote if it
  opens with one that is closed, else the longest run without white space.
\<close>

definition last_index :: "char \<Rightarrow> string \<Rightarrow> nat" where
  "last_index q s = length s - length (takeWhile (\<lambda>c. c \<noteq> q) (rev s))"

definition value_prefix :: "string \<Rightarrow> string" where
  "value_prefix r =
     (let line = takeWhile (\<lambda>c. c \<noteq> nl) r;
          quoted = (\<lambda>q. take (last_index q line) line)
      in if quoted_by squote (quoted squote) then quoted squote
         else if quoted_by dquote (quoted dquote) then quoted dquote
         else takeWhile (\<lambda>c. \<not> is_ws c) r)"

text \<open>\<open>dataRegex.FindAllString\<close>, each match as its name and value.\<close>

function find_all_data :: "string \<Rightarrow> (string \<times> string) list" where
  "find_all_data s =
     (let s1 = dropWhile (\<lambda>c. \<not> name_char c) s;
          name = takeWhile name_char s1;
          after = dropWhile name_char s1
      in if s1 = [] then []
         else if after \<noteq> [] \<and> hd after = CHR ''='' \<and> value_prefix (tl after) \<noteq> []
         then (name, value_prefix (tl after)) # find_all_data (drop (length (value_prefix (tl after))) (tl after))
         else find_all_data after)"
  by pat_completeness auto
termination
proof (relation "measure length")
  fix s s1 name after
  assume *: "s1 = dropWhile (\<lambda>c. \<not> name_char c) s" "after = dropWhile name_char s1" "s1 \<noteq> []"
  have le: "length s1 \<le> length s" using * by (simp add: length_dropWhile_le)
  obtain c cs where s1: "s1 = c # cs" using *(3) by (cases s1) auto
  have "\<not> \<not> name_char c"
    using hd_dropWhile [of "\<lambda>c. \<not> name_char c" s] *(3) unfolding *(1) [symmetric] s1 by simp
  then have "length after \<le> length cs"
    unfolding *(2) s1 by (simp add: length_dropWhile_le)
  then have lt: "length after < length s" using le s1 by simp
  then show "(after, s) \<in> measure length" by simp
  show "(drop (length (value_prefix (tl after))) (tl after), s) \<in> measure length" using lt by simp
qed simp

declare find_all_data.simps [simp del]

section \<open>Lines\<close>

datatype section_type = Section | Vars | Children

record ini_state =
  cur_group :: string
  ini_data :: inventory
  ini_typ :: section_type

definition new_state :: ini_state where
  "new_state =
     \<lparr>cur_group = ''all'',
      ini_data = \<lparr>inv_hosts = [], inv_groups = [(''all'', (new_group ''all'')\<lparr>initialized := True\<rparr>)]\<rparr>,
      ini_typ = Section\<rparr>"

definition get_child :: "string \<Rightarrow> (inv_error, string) outcome" where
  "get_child line = (if is_name line then Ok line else Err (BadLine line))"

definition get_var :: "string \<Rightarrow> (inv_error, string \<times> string) outcome" where
  "get_var line =
     (if \<not> has_data line then Err (BadLine line)
      else case splitn2 (CHR ''='') line of
             [k, v] \<Rightarrow> Ok (k, v)
           | _ \<Rightarrow> Panic)"

definition get_host_data :: "string \<Rightarrow> (inv_error, string \<times> vars) outcome" where
  "get_host_data line =
     (if \<not> match_host line then Err (BadLine line)
      else Ok (takeWhile name_char (dropWhile (\<lambda>c. \<not> name_char c) line),
               fold (\<lambda>(k, v) m. m(k \<mapsto> GStr v)) (find_all_data line) Map.empty))"

definition get_section_data :: "string \<Rightarrow> string \<times> section_type" where
  "get_section_data trimmed =
     (let parts = split_on (CHR '':'') (trim_set ''[]'' trimmed);
          typ = (if length parts = 2 then
                   (if parts ! 1 = ''vars'' then Vars else if parts ! 1 = ''children'' then Children else Section)
                 else Section)
      in (parts ! 0, typ))"

definition handle_section_line :: "string \<Rightarrow> ini_state \<Rightarrow> ini_state" where
  "handle_section_line line st =
     (let (name, typ) = get_section_data line;
          d = group_by_name name (ini_data st)
      in st\<lparr>cur_group := name, ini_typ := typ,
            ini_data := (if typ = Section \<or> typ = Children
                         then upd_group name (\<lambda>g. g\<lparr>initialized := True\<rparr>) d else d)\<rparr>)"

definition handle_data_line :: "string \<Rightarrow> ini_state \<Rightarrow> (inv_error, ini_state) outcome" where
  "handle_data_line line st =
     (case ini_typ st of
        Section \<Rightarrow>
          omap (\<lambda>(name, vs).
              st\<lparr>ini_data :=
                   upd_group (cur_group st) (\<lambda>g. g\<lparr>group_hosts := group_hosts g @ [name]\<rparr>)
                     (upd_host name (\<lambda>h. h\<lparr>host_groups := host_groups h @ [cur_group st]\<rparr>)
                        (add_vars_to_host name vs (ini_data st)))\<rparr>)
            (get_host_data line)
      | Vars \<Rightarrow>
          omap (\<lambda>(name, value).
              st\<lparr>ini_data :=
                   upd_group (cur_group st) (\<lambda>g. g\<lparr>group_vars := (group_vars g)(name \<mapsto> GStr value)\<rparr>)
                     (ini_data st)\<rparr>)
            (get_var line)
      | Children \<Rightarrow>
          omap (\<lambda>name.
              st\<lparr>ini_data :=
                   upd_group (cur_group st) (\<lambda>g. g\<lparr>group_children := group_children g @ [name]\<rparr>)
                     (upd_group name (\<lambda>g. g\<lparr>group_parents := group_parents g @ [cur_group st]\<rparr>)
                        (group_by_name name (ini_data st)))\<rparr>)
            (get_child line))"

definition handle_line :: "string \<Rightarrow> ini_state \<Rightarrow> (inv_error, ini_state) outcome" where
  "handle_line line st =
     (let trimmed = trim_space line
      in if trimmed = [] then Ok st
         else if is_section trimmed then Ok (handle_section_line trimmed st)
         else handle_data_line trimmed st)"

text \<open>\<open>parseIni\<close> on the lines of the file, \<open>None\<close> when it cannot be opened.\<close>

definition finish_ini :: "orders \<Rightarrow> ini_state \<Rightarrow> (inv_error, inventory) outcome" where
  "finish_ini ord st = format_and_validate ord (ini_data st)"

definition parse_ini :: "orders \<Rightarrow> string list option \<Rightarrow> (inv_error, inventory) outcome" where
  "parse_ini ord file =
     (case file of
        None \<Rightarrow> Err OpenFailed
      | Some ls \<Rightarrow> obind (ofold handle_line ls new_state) (finish_ini ord))"

section \<open>The invariant of the line machine\<close>

definition ini_ok :: "ini_state \<Rightarrow> bool" where
  "ini_ok st \<longleftrightarrow>
     graph_ok (ini_data st) \<and> membership_ok (ini_data st)
     \<and> cur_group st \<in> group_names (ini_data st) \<and> ''all'' \<in> group_names (ini_data st)"

lemma ini_ok_new: "ini_ok new_state"
proof -
  let ?d = "ini_data new_state"
  have g: "get_group ?d n = (if n = ''all'' then (new_group n)\<lparr>initialized := True\<rparr> else new_group n)" for n
    by (simp add: get_group_def new_state_def)
  have h: "get_host ?d n = new_host n" for n
    by (simp add: get_host_def new_state_def)
  have "parent_rel ?d = {}" "child_rel ?d = {}"
    unfolding parent_rel_def child_rel_def g by (auto simp: inv_simps split: if_splits)
  moreover have "membership_ok ?d"
    unfolding membership_ok_def g h by (simp add: inv_simps) (simp add: new_state_def)
  ultimately show ?thesis
    unfolding ini_ok_def graph_ok_def by (simp add: new_state_def)
qed

lemma ini_ok_section: "ini_ok st \<Longrightarrow> ini_ok (handle_section_line line st)"
  by (simp add: ini_ok_def handle_section_line_def Let_def inv_simps graph_ok_upd graph_ok_by_name split: prod.split)

lemma ini_ok_data:
  assumes "ini_ok st" "handle_data_line line st = Ok st'"
  shows "ini_ok st'"
proof (cases "ini_typ st")
  case Section
  with assms(2) obtain name vs where st': "st' = st\<lparr>ini_data :=
      upd_group (cur_group st) (\<lambda>g. g\<lparr>group_hosts := group_hosts g @ [name]\<rparr>)
        (upd_host name (\<lambda>h. h\<lparr>host_groups := host_groups h @ [cur_group st]\<rparr>)
          (add_vars_to_host name vs (ini_data st)))\<rparr>"
    by (auto simp: handle_data_line_def)
  have "graph_ok (upd_host name (\<lambda>h. h\<lparr>host_groups := host_groups h @ [cur_group st]\<rparr>)
          (add_vars_to_host name vs (ini_data st)))"
    using assms(1) by (subst graph_ok_groups [of _ "ini_data st"]) (simp_all add: inv_simps ini_ok_def)
  then show ?thesis
    using assms(1) unfolding st' ini_ok_def
    by (simp add: membership_host_line graph_ok_upd inv_simps)
next
  case Vars
  with assms(2) obtain n v where st': "st' = st\<lparr>ini_data :=
      upd_group (cur_group st) (\<lambda>g. g\<lparr>group_vars := (group_vars g)(n \<mapsto> GStr v)\<rparr>) (ini_data st)\<rparr>"
    by (auto simp: handle_data_line_def)
  then show ?thesis using assms(1) by (simp add: ini_ok_def graph_ok_upd inv_simps)
next
  case Children
  with assms(2) obtain name where st': "st' = st\<lparr>ini_data :=
      upd_group (cur_group st) (\<lambda>g. g\<lparr>group_children := group_children g @ [name]\<rparr>)
        (upd_group name (\<lambda>g. g\<lparr>group_parents := group_parents g @ [cur_group st]\<rparr>)
          (group_by_name name (ini_data st)))\<rparr>"
    by (auto simp: handle_data_line_def)
  then show ?thesis
    using assms(1) by (simp add: ini_ok_def inv_simps graph_ok_link graph_ok_by_name)
qed

lemma ini_ok_line: "ini_ok st \<Longrightarrow> handle_line line st = Ok st' \<Longrightarrow> ini_ok st'"
  unfolding handle_line_def Let_def by (auto simp: ini_ok_section ini_ok_data split: if_splits)

text \<open>The parser as a state machine over lines.\<close>

interpretation ini: invariant_machine "\<lambda>s. s = new_state" "\<lambda>s t. \<exists>line. handle_line line s = Ok t" ini_ok
  by unfold_locales (auto intro: ini_ok_new ini_ok_line)

lemma ini_reach:
  "ofold handle_line ls st = Ok st' \<Longrightarrow>
     reach (\<lambda>s. s = new_state) (\<lambda>s t. \<exists>line. handle_line line s = Ok t) st \<Longrightarrow>
     reach (\<lambda>s. s = new_state) (\<lambda>s t. \<exists>line. handle_line line s = Ok t) st'"
proof (induction ls arbitrary: st)
  case (Cons l ls)
  then obtain st1 where st1: "handle_line l st = Ok st1" "ofold handle_line ls st1 = Ok st'" by auto
  with Cons.prems(2) have "reach (\<lambda>s. s = new_state) (\<lambda>s t. \<exists>line. handle_line line s = Ok t) st1"
    by (blast intro: reach_step)
  from Cons.IH [OF st1(2) this] show ?case .
qed simp

lemma parsed_lines_ok: "ofold handle_line ls new_state = Ok st \<Longrightarrow> ini_ok st"
  by (rule ini.always, erule ini_reach) (simp add: reach_init)

interpretation ini_source: inventory_source "\<lambda>ls. omap ini_data (ofold handle_line ls new_state)"
  by unfold_locales (auto dest!: parsed_lines_ok simp: ini_ok_def)

text \<open>
  A file that \<open>parseIni\<close> accepts yields a consistent inventory, whatever its lines and
  the iteration orders: the group graph is acyclic and links agree in both directions, the hosts
  below \<open>all\<close> are exactly the hosts of the inventory, and outside \<open>all\<close> and
  \<open>ungrouped\<close> a host is in a group's list precisely when the group is in the host's.
\<close>

lemma parse_ini_consistent:
  assumes "perm_oracles ord" "parse_ini ord (Some ls) = Ok d"
  shows "graph_ok d \<and> acyclic (parent_rel d)
    \<and> get_hosts (length (inv_groups d)) d ''all'' = Some (host_names d)
    \<and> (\<forall>g h. g \<noteq> ''all'' \<longrightarrow> g \<noteq> ''ungrouped'' \<longrightarrow>
          (h \<in> set (group_hosts (get_group d g)) \<longleftrightarrow> g \<in> set (host_groups (get_host d h))))"
proof (rule ini_source.consistent [OF assms(1)])
  show "obind (omap ini_data (ofold handle_line ls new_state)) (format_and_validate ord) = Ok d"
    using assms(2) by (auto simp: parse_ini_def finish_ini_def)
qed

section \<open>Host lines\<close>

definition host_var_ok :: "string \<times> string \<Rightarrow> bool" where
  "host_var_ok kv \<longleftrightarrow>
     is_name (fst kv) \<and> snd kv \<noteq> [] \<and> hd (snd kv) \<noteq> squote \<and> hd (snd kv) \<noteq> dquote
     \<and> list_all (\<lambda>c. \<not> is_ws c) (snd kv)"

fun render_vars :: "(string \<times> string) list \<Rightarrow> string" where
  "render_vars [] = []"
| "render_vars (kv # kvs) = spc # fst kv @ CHR ''='' # snd kv @ render_vars kvs"

lemma name_char_not_ws: "name_char c \<Longrightarrow> \<not> is_ws c"
  by (auto simp: name_char_def is_ws_def)

lemma special_not_name [simp]: "\<not> name_char (CHR ''='')" "\<not> name_char spc" "is_ws spc"
  by (simp_all add: name_char_def is_ws_def)

lemma is_name_span:
  assumes "is_name k" "rest = [] \<or> \<not> name_char (hd rest)"
  shows "takeWhile name_char (k @ rest) = k" "dropWhile name_char (k @ rest) = rest"
    "dropWhile is_ws (k @ rest) = k @ rest" "dropWhile (\<lambda>c. \<not> name_char c) (k @ rest) = k @ rest" "k \<noteq> []"
proof -
  have all: "\<And>c. c \<in> set k \<Longrightarrow> name_char c" "k \<noteq> []"
    using assms(1) by (auto simp: is_name_def list_all_iff)
  then show "takeWhile name_char (k @ rest) = k" "dropWhile name_char (k @ rest) = rest"
    using assms(2) by (cases rest; simp add: takeWhile_append dropWhile_append)+
  obtain c cs where "k = c # cs" using all(2) by (cases k) auto
  then show "dropWhile is_ws (k @ rest) = k @ rest" "dropWhile (\<lambda>c. \<not> name_char c) (k @ rest) = k @ rest"
    using all(1) [of c] name_char_not_ws [of c] by simp_all
  show "k \<noteq> []" by (rule all(2))
qed

lemma render_vars_start: "render_vars kvs = [] \<or> hd (render_vars kvs) = spc"
  by (cases kvs) auto

lemma render_vars_not_name: "render_vars kvs = [] \<or> \<not> name_char (hd (render_vars kvs))"
  using render_vars_start [of kvs] by auto

lemma match_rendered: "list_all host_var_ok kvs \<Longrightarrow> match_host_vars (render_vars kvs)"
proof (induction kvs)
  case Nil
  then show ?case by (simp add: match_host_vars.simps)
next
  case (Cons kv kvs)
  obtain k v where kv: "kv = (k, v)" by force
  have ok: "is_name k" "v \<noteq> []" "list_all (\<lambda>c. \<not> is_ws c) v"
    using Cons.prems by (auto simp: kv host_var_ok_def)
  note sp = is_name_span [OF ok(1), of "CHR ''='' # v @ render_vars kvs"]
  have "is_value (take (Suc (length v - 1)) (v @ render_vars kvs))
      \<and> match_host_vars (drop (Suc (length v - 1)) (v @ render_vars kvs))"
    using ok Cons by (simp add: is_value_def)
  moreover have "length v - 1 \<in> set [0 ..< length (v @ render_vars kvs)]"
    using ok(2) by (cases v) auto
  ultimately have ex: "list_ex (\<lambda>n. is_value (take (Suc n) (v @ render_vars kvs))
      \<and> match_host_vars (drop (Suc n) (v @ render_vars kvs))) [0 ..< length (v @ render_vars kvs)]"
    unfolding list_ex_iff by blast
  show ?case
    unfolding kv render_vars.simps fst_conv snd_conv
    by (subst match_host_vars.simps) (use sp ex in \<open>simp add: Let_def\<close>)
qed

lemma value_prefix_plain:
  assumes "v \<noteq> []" "hd v \<noteq> squote" "hd v \<noteq> dquote" "list_all (\<lambda>c. \<not> is_ws c) v" "rest = [] \<or> hd rest = spc"
  shows "value_prefix (v @ rest) = v"
proof -
  have nq: "\<not> quoted_by q (take n (takeWhile (\<lambda>c. c \<noteq> nl) (v @ rest)))" if "q \<noteq> hd v" for q n
  proof (cases "take n (takeWhile (\<lambda>c. c \<noteq> nl) (v @ rest))")
    case Nil
    show ?thesis unfolding Nil by (simp add: quoted_by_def)
  next
    case (Cons a as)
    then have "a = hd v" using assms(1) by (cases v; cases n) (auto split: if_splits)
    with that show ?thesis unfolding Cons by (simp add: quoted_by_def)
  qed
  have "takeWhile (\<lambda>c. \<not> is_ws c) (v @ rest) = v"
    using assms(4,5) by (cases rest) (auto simp: list_all_iff takeWhile_append)
  with nq assms(2,3) show ?thesis by (simp add: value_prefix_def Let_def)
qed

lemma find_rendered: "list_all host_var_ok kvs \<Longrightarrow> find_all_data (render_vars kvs) = kvs"
proof (induction kvs)
  case Nil
  then show ?case by (simp add: find_all_data.simps)
next
  case (Cons kv kvs)
  obtain k v where kv: "kv = (k, v)" by force
  have ok: "is_name k" "v \<noteq> []" "hd v \<noteq> squote" "hd v \<noteq> dquote" "list_all (\<lambda>c. \<not> is_ws c) v"
    using Cons.prems by (auto simp: kv host_var_ok_def)
  note sp = is_name_span [OF ok(1), of "CHR ''='' # v @ render_vars kvs"]
  note vp = value_prefix_plain [OF ok(2-5) render_vars_start]
  show ?case
    unfolding kv render_vars.simps fst_conv snd_conv
    by (subst find_all_data.simps) (use sp vp ok(2) Cons in \<open>simp add: Let_def\<close>)
qed

text \<open>
  A host line written as a name and unquoted \<open>key=value\<close> words is read back as that
  name and those variables, the last of equal keys winning.
\<close>

theorem host_line_roundtrip:
  assumes "is_name name" "list_all host_var_ok kvs"
  shows "get_host_data (name @ render_vars kvs) = Ok (name, map_of (rev (map (map_prod id GStr) kvs)))"
proof -
  note sp = is_name_span [OF assms(1) render_vars_not_name [of kvs]]
  have "find_all_data (name @ render_vars kvs) = find_all_data (render_vars kvs)"
    using render_vars_start [of kvs]
    by (subst find_all_data.simps) (use sp in \<open>auto simp: Let_def\<close>)
  moreover have "match_host (name @ render_vars kvs)"
    by (simp add: match_host_def sp match_rendered [OF assms(2)])
  moreover have "fold (\<lambda>(k, v) m. m(k \<mapsto> GStr v)) xs m = m ++ map_of (rev (map (map_prod id GStr) xs))" for xs m
    by (induction xs arbitrary: m) (auto simp: map_add_assoc [symmetric])
  note this [of kvs Map.empty]
  ultimately show ?thesis
    using sp find_rendered [OF assms(2)] by (simp add: get_host_data_def)
qed

section \<open>Witnesses and limits\<close>

fun is_ok :: "('e, 'a) outcome \<Rightarrow> bool" where
  "is_ok (Ok a) = True"
| "is_ok _ = False"

fun from_ok :: "'a \<Rightarrow> ('e, 'a) outcome \<Rightarrow> 'a" where
  "from_ok d (Ok a) = a"
| "from_ok d _ = d"

lemma is_ok_from_ok: "is_ok m \<Longrightarrow> m = Ok (from_ok d m)"
  by (cases m) auto

definition sample_lines :: "string list" where
  "sample_lines = [''h1 a=1'', ''[g]'', ''h2 b=2'', ''[g:vars]'', ''v=2'', ''[k:children]'', ''g'']"

definition sample_state :: ini_state where
  "sample_state = from_ok new_state (ofold handle_line sample_lines new_state)"

definition sample_inventory :: inventory where
  "sample_inventory = from_ok new_data (parse_ini (\<lambda>_ xs. xs) (Some sample_lines))"

lemma id_oracles: "perm_oracles (\<lambda>_ xs. xs)"
  by (simp add: perm_oracles_def)

lemma sample_state_ok: "ini_ok sample_state" "graph_ok (ini_data sample_state)"
proof -
  have "is_ok (ofold handle_line sample_lines new_state)" by code_simp
  from is_ok_from_ok [OF this, of new_state] show "ini_ok sample_state"
    unfolding sample_state_def by (rule parsed_lines_ok)
  then show "graph_ok (ini_data sample_state)" by (simp add: ini_ok_def)
qed

lemma sample_parsed:
  "parse_ini (\<lambda>_ xs. xs) (Some sample_lines) = Ok sample_inventory"
  "format_and_validate (\<lambda>_ xs. xs) (ini_data sample_state) = Ok sample_inventory"
proof -
  have "is_ok (parse_ini (\<lambda>_ xs. xs) (Some sample_lines))" by code_simp
  from is_ok_from_ok [OF this, of new_data] show p: "parse_ini (\<lambda>_ xs. xs) (Some sample_lines) = Ok sample_inventory"
    by (simp only: sample_inventory_def)
  then show "format_and_validate (\<lambda>_ xs. xs) (ini_data sample_state) = Ok sample_inventory"
    by (auto simp: parse_ini_def finish_ini_def sample_state_def)
qed

lemma sample_valid: "graph_ok sample_inventory" "acyclic (parent_rel sample_inventory)"
  using validated [OF sample_state_ok(2) id_oracles sample_parsed(2)] by simp_all

lemma circular_check_exact_witness:
  "validate_no_circular_references (\<lambda>_ xs. xs) sample_inventory = Err CircularReference
     \<longleftrightarrow> \<not> acyclic (parent_rel sample_inventory)"
proof (rule circular_check_exact [OF id_oracles])
  show "parent_rel sample_inventory \<subseteq> group_names sample_inventory \<times> group_names sample_inventory"
    using sample_valid(1) by (simp add: graph_ok_def)
qed

lemma host_all_vars_spec_witness:
  "\<exists>vs. host_all_vars 4 sample_inventory ''h2'' = Some vs \<and> vs ''b'' = Some (GStr ''2'') \<and> ''v'' \<in> dom vs"
proof -
  have g: "host_groups (get_host sample_inventory ''h2'') = [''g'']" by code_simp
  have n: "list_ex (\<lambda>x. fst x = ''g'') (inv_groups sample_inventory)" by code_simp
  have l: "length (inv_groups sample_inventory) = 4" by code_simp
  have b: "host_vars (get_host sample_inventory ''h2'') ''b'' = Some (GStr ''2'')" by code_simp
  have v: "group_vars (get_group sample_inventory ''g'') ''v'' = Some (GStr ''2'')" by code_simp
  have sub: "set (host_groups (get_host sample_inventory ''h2'')) \<subseteq> group_names sample_inventory"
    using n unfolding g list_ex_iff by force
  from host_all_vars_spec [OF sample_valid sub, of 4] l obtain vs
    where vs: "host_all_vars 4 sample_inventory ''h2'' = Some vs"
      "\<forall>k v. host_vars (get_host sample_inventory ''h2'') k = Some v \<longrightarrow> vs k = Some v"
      "\<forall>g \<in> set (host_groups (get_host sample_inventory ''h2'')). \<forall>a \<in> below (parent_rel sample_inventory) g.
          dom (group_vars (get_group sample_inventory a)) \<subseteq> dom vs" by auto
  have "''v'' \<in> dom vs" using vs(3) v unfolding g by fastforce
  with vs(1,2) b show ?thesis by blast
qed

lemma validated_inventory_rooted_witness:
  "get_hosts (length (inv_groups sample_inventory)) sample_inventory ''all''
     = Some (\<Union>g \<in> group_names sample_inventory. set (group_hosts (get_group sample_inventory g)))"
  using validated_inventory_rooted [OF sample_state_ok(2) id_oracles sample_parsed(2)] by blast

lemma ungrouped_host_vars_witness:
  "host_all_vars 4 (format_inventory (\<lambda>_ xs. xs) (ini_data sample_state)) ''h1''
     = Some (host_vars (get_host (ini_data sample_state) ''h1''))"
proof -
  have "host_groups (get_host (ini_data sample_state) ''h1'') = [''all'']" by code_simp
  then have g: "set (host_groups (get_host (ini_data sample_state) ''h1'')) \<subseteq> {''all''}" by simp
  have "group_hosts (get_group (ini_data sample_state) ''all'') = [''h1'']" by code_simp
  then have "''h1'' \<in> set (group_hosts (get_group (ini_data sample_state) ''all''))" by simp
  from ungrouped_host_vars [OF sample_state_ok(2) id_oracles g this] show ?thesis by blast
qed

lemma determine_hosts_groups_spec_witness:
  "\<exists>hs. determine_hosts_from_groups_pattern (length (inv_groups sample_inventory)) sample_inventory ''all:!k''
          = Some (Ok hs)"
proof -
  have s: "split_on (CHR '':'') ''all:!k'' = [''all'', ''!k'']" by code_simp
  have n: "list_all (\<lambda>n. list_ex (\<lambda>x. fst x = n) (inv_groups sample_inventory)) [''all'', ''k'']" by code_simp
  have "''all'' \<in> group_names sample_inventory" "''k'' \<in> group_names sample_inventory"
    using n unfolding list_ex_iff by force+
  then have d: "dropWhile (term_ok sample_inventory) (split_on (CHR '':'') ''all:!k'') = []"
    unfolding s by (simp add: term_ok_def term_name_def)
  from determine_hosts_groups_spec [OF sample_valid, of "''all:!k''"] show ?thesis
    unfolding d list.case by blast
qed

lemma host_line_roundtrip_witness:
  "get_host_data ''web-1 port=22 port=23'' = Ok (''web-1'', [''port'' \<mapsto> GStr ''23''])"
proof -
  have "is_name ''web-1''" "list_all host_var_ok [(''port'', ''22''), (''port'', ''23'')]" by code_simp+
  from host_line_roundtrip [OF this] show ?thesis by simp
qed

text \<open>
  Two quoted values on one line run together: the greedy match of the first takes everything up to
  the last quote.  The values keep their quotes.
\<close>

lemma quoted_values_merge:
  "find_all_data (''h a='' @ [squote] @ ''x'' @ [squote] @ '' b='' @ [squote] @ ''y'' @ [squote])
     = [(''a'', [squote] @ ''x'' @ [squote] @ '' b='' @ [squote] @ ''y'' @ [squote])]"
  by code_simp

text \<open>Which of two groups wins a variable depends on the iteration order of a map.\<close>

definition conflict_lines :: "string list" where
  "conflict_lines = [''[g]'', ''h'', ''[k]'', ''h'', ''[g:vars]'', ''v=1'', ''[k:vars]'', ''v=2'']"

lemma sibling_precedence_unstable:
  "map_option (\<lambda>vs. vs ''v'') (host_all_vars 4 (from_ok new_data (parse_ini (\<lambda>_ xs. xs) (Some conflict_lines))) ''h'')
     = Some (Some (GStr ''2''))"
  "map_option (\<lambda>vs. vs ''v'') (host_all_vars 4 (from_ok new_data (parse_ini (\<lambda>_. rev) (Some conflict_lines))) ''h'')
     = Some (Some (GStr ''1''))"
  by code_simp+

end
