(* ===== verification/Inventory_Yaml.thy ===== *)
theory Inventory_Yaml
  imports Inventory_Ini
begin

text \<open>
  The YAML form of the inventory, \<open>inventory/yaml.go\<close>, and the choice of a parser,
  \<open>inventory/parser.go\<close>.  The package \<open>yaml.v2\<close> is not modelled: its two decodings of the
  file, typed and ordered, are arguments.  A decoded mapping is a \<open>GMapSlice\<close>; a
  \<open>GMapItem\<close> is what the type switch of \<open>addGroups\<close> asks for.
\<close>

datatype raw_group =
  RawGroup (raw_hosts: "(string \<times> vars) list") (raw_children: "(string \<times> raw_group) list") (raw_vars: vars)

text \<open>A missing key of a Go map reads as the zero value.\<close>

definition raw_lookup :: "(string \<times> raw_group) list \<Rightarrow> string \<Rightarrow> raw_group" where
  "raw_lookup m k = (case map_of m k of Some r \<Rightarrow> r | None \<Rightarrow> RawGroup [] [] Map.empty)"

definition initialize_group :: "string \<Rightarrow> inventory \<Rightarrow> inventory" where
  "initialize_group n d = upd_group n (\<lambda>g. g\<lparr>initialized := True\<rparr>) (group_by_name n d)"

text \<open>\<open>addHosts\<close> and the two loops that enter its result into the group and the hosts.\<close>

definition add_hosts :: "go_order \<Rightarrow> (string \<times> vars) list \<Rightarrow> inventory \<Rightarrow> string list \<times> inventory" where
  "add_hosts ord hosts d =
     (let names = ord (map fst hosts)
      in (names, fold (\<lambda>n d. add_vars_to_host n (case map_of hosts n of Some vs \<Rightarrow> vs | None \<Rightarrow> Map.empty) d) names d))"

definition append_group_hosts :: "string \<Rightarrow> string list \<Rightarrow> inventory \<Rightarrow> inventory" where
  "append_group_hosts g hs d =
     fold (\<lambda>h d. upd_host h (\<lambda>x. x\<lparr>host_groups := host_groups x @ [g]\<rparr>) d) hs
       (upd_group g (\<lambda>x. x\<lparr>group_hosts := group_hosts x @ hs\<rparr>) d)"

text \<open>
  Appending the children and entering the group into each one's parents; a nil pointer
  among them is dereferenced.
\<close>

definition append_children ::
  "string \<Rightarrow> string option list \<Rightarrow> inventory \<Rightarrow> (inv_error, inventory) outcome" where
  "append_children g cs d =
     (if None \<in> set cs then Panic
      else Ok (fold (\<lambda>c d. upd_group c (\<lambda>x. x\<lparr>group_parents := group_parents x @ [g]\<rparr>) d) (map the cs)
                 (upd_group g (\<lambda>x. x\<lparr>group_children := group_children x @ map the cs\<rparr>) d)))"

text \<open>
  \<open>addGroup\<close>, the loop over its elements with \<open>processGroupElement\<close>, and \<open>addGroups\<close>.
\<close>

function add_group ::
    "orders \<Rightarrow> raw_group \<Rightarrow> gval \<Rightarrow> gval \<Rightarrow> inventory \<Rightarrow> (inv_error, string \<times> inventory) outcome"
  and process_group_elements ::
    "orders \<Rightarrow> (gval \<times> gval) list \<Rightarrow> string \<Rightarrow> raw_group \<Rightarrow> inventory \<Rightarrow> (inv_error, inventory) outcome"
  and add_groups ::
    "orders \<Rightarrow> (string \<times> raw_group) list \<Rightarrow> (gval \<times> gval) list \<Rightarrow> inventory
       \<Rightarrow> (inv_error, string option list \<times> inventory) outcome" where
  "add_group ord raw key val d =
     (case as_string key of
        None \<Rightarrow> Err UnexpectedType
      | Some name \<Rightarrow>
          (case val of
             GMapSlice items \<Rightarrow>
               omap (\<lambda>d. (name, d)) (process_group_elements ord items name raw (initialize_group name d))
           | GNil \<Rightarrow> Ok (name, initialize_group name d)
           | _ \<Rightarrow> Err UnexpectedType))"
| "process_group_elements ord els name raw d =
     (case els of
        [] \<Rightarrow> Ok d
      | (k, v) # els \<Rightarrow>
          (case as_string k of
             None \<Rightarrow> Err UnexpectedType
           | Some key \<Rightarrow>
               (case v of
                  GMapSlice items \<Rightarrow>
                    obind
                      (if key = ''hosts'' then
                         (case add_hosts (ord (''addHosts '' @ name)) (raw_hosts raw) d of
                            (hs, d) \<Rightarrow> Ok (append_group_hosts name hs d))
                       else if key = ''vars'' then
                         Ok (upd_group name (\<lambda>g. g\<lparr>group_vars := group_vars g ++ raw_vars raw\<rparr>) d)
                       else if key = ''children'' then
                         obind (add_groups ord (raw_children raw) items d) (\<lambda>(cs, d). append_children name cs d)
                       else Ok d)
                      (\<lambda>d. process_group_elements ord els name raw d)
                | _ \<Rightarrow> Err UnexpectedType)))"
| "add_groups ord groups order d =
     (case order of
        [] \<Rightarrow> Ok ([], d)
      | (k, v) # order \<Rightarrow>
          (case as_string k of
             None \<Rightarrow> Err UnexpectedType
           | Some key \<Rightarrow>
               obind
                 (case v of
                    GNil \<Rightarrow> Ok (Some key, initialize_group key d)
                  | GMapItem k' v' \<Rightarrow> omap (\<lambda>(c, d). (Some c, d)) (add_group ord (raw_lookup groups key) k' v' d)
                  | _ \<Rightarrow> Ok (None, d))
                 (\<lambda>(c, d). omap (\<lambda>(cs, d). (c # cs, d)) (add_groups ord groups order d))))"
  by pat_completeness auto

termination
  by (relation "measure (\<lambda>x. case x of
        Inl (_, _, k, v, _) \<Rightarrow> size v
      | Inr (Inl (_, els, _, _, _)) \<Rightarrow> size_list (size_prod size size) els
      | Inr (Inr (_, _, els, _)) \<Rightarrow> size_list (size_prod size size) els)") auto

declare add_group.simps [simp del] process_group_elements.simps [simp del] add_groups.simps [simp del]

definition get_data_loop ::
  "orders \<Rightarrow> (string \<times> raw_group) list \<Rightarrow> gval \<times> gval \<Rightarrow> inventory \<Rightarrow> (inv_error, inventory) outcome" where
  "get_data_loop ord typed_raw = (\<lambda>(key, val) d.
     case as_string key of
       None \<Rightarrow> Err UnexpectedType
     | Some k \<Rightarrow> omap snd (add_group ord (raw_lookup typed_raw k) key val d))"

definition raw_yaml_data ::
  "orders \<Rightarrow> (string \<times> raw_group) list \<Rightarrow> (gval \<times> gval) list \<Rightarrow> (inv_error, inventory) outcome" where
  "raw_yaml_data ord typed_raw ordered_raw =
     ofold (get_data_loop ord typed_raw) ordered_raw (initialize_group ''all'' new_data)"

definition get_data ::
  "orders \<Rightarrow> (string \<times> raw_group) list \<Rightarrow> (gval \<times> gval) list \<Rightarrow> (inv_error, inventory) outcome" where
  "get_data ord typed_raw ordered_raw =
     obind (raw_yaml_data ord typed_raw ordered_raw) (format_and_validate ord)"

text \<open>The decodings of the file's bytes are functions that may fail.\<close>

definition parse_yaml ::
  "(string \<Rightarrow> (string \<times> raw_group) list option) \<Rightarrow> (string \<Rightarrow> (gval \<times> gval) list option) \<Rightarrow>
     orders \<Rightarrow> string option \<Rightarrow> (inv_error, inventory) outcome" where
  "parse_yaml unmarshal_typed unmarshal_ordered ord file =
     (case file of
        None \<Rightarrow> Err OpenFailed
      | Some dat \<Rightarrow>
          (case unmarshal_typed dat of
             None \<Rightarrow> Err Unmarshal
           | Some typed_raw \<Rightarrow>
               (case unmarshal_ordered dat of
                  None \<Rightarrow> Err Unmarshal
                | Some ordered_raw \<Rightarrow> get_data ord typed_raw ordered_raw)))"

text \<open>\<open>Parse\<close>: the first parser without an error; a panic is not caught.\<close>

fun first_parser :: "(unit \<Rightarrow> (inv_error, inventory) outcome) list \<Rightarrow> (inv_error, inventory) outcome" where
  "first_parser [] = Err UnknownFormat"
| "first_parser (p # ps) =
     (case p () of Ok d \<Rightarrow> Ok d | Err e \<Rightarrow> first_parser ps | Panic \<Rightarrow> Panic)"

definition parse_inventory ::
  "(string \<Rightarrow> (string \<times> raw_group) list option) \<Rightarrow> (string \<Rightarrow> (gval \<times> gval) list option) \<Rightarrow>
     (string \<Rightarrow> string list) \<Rightarrow> orders \<Rightarrow> string option \<Rightarrow> (inv_error, inventory) outcome" where
  "parse_inventory unmarshal_typed unmarshal_ordered scan_lines ord file =
     first_parser
       [\<lambda>_. parse_yaml unmarshal_typed unmarshal_ordered ord file,
        \<lambda>_. parse_ini ord (map_option scan_lines file)]"

section \<open>The YAML reader keeps the graph and the memberships\<close>

lemma initialize_simps [inv_simps]:
  "group_names (initialize_group n d) = insert n (group_names d)"
  "graph_ok d \<Longrightarrow> graph_ok (initialize_group n d)"
  "membership_ok (initialize_group n d) = membership_ok d"
  by (simp_all add: initialize_group_def inv_simps graph_ok_upd graph_ok_by_name)

lemma add_vars_fold:
  "group_names (fold (\<lambda>n d. add_vars_to_host n (f n) d) hs d) = group_names d"
  "inv_groups (fold (\<lambda>n d. add_vars_to_host n (f n) d) hs d) = inv_groups d"
  "host_names (fold (\<lambda>n d. add_vars_to_host n (f n) d) hs d) = host_names d \<union> set hs"
  "host_groups (get_host (fold (\<lambda>n d. add_vars_to_host n (f n) d) hs d) h) = host_groups (get_host d h)"
  by (induction hs arbitrary: d) (simp_all add: inv_simps)

lemma host_groups_fold:
  "host_names (fold (\<lambda>h d. upd_host h (\<lambda>x. x\<lparr>host_groups := host_groups x @ [g]\<rparr>) d) hs d) = host_names d
   \<and> inv_groups (fold (\<lambda>h d. upd_host h (\<lambda>x. x\<lparr>host_groups := host_groups x @ [g]\<rparr>) d) hs d) = inv_groups d
   \<and> (set hs \<subseteq> host_names d \<longrightarrow>
       set (host_groups (get_host (fold (\<lambda>h d. upd_host h (\<lambda>x. x\<lparr>host_groups := host_groups x @ [g]\<rparr>) d) hs d) h))
         = set (host_groups (get_host d h)) \<union> (if h \<in> set hs then {g} else {}))"
proof (induction hs arbitrary: d)
  case (Cons x hs)
  from Cons.IH [of "upd_host x (\<lambda>y. y\<lparr>host_groups := host_groups y @ [g]\<rparr>) d"]
  show ?case by (auto simp: inv_simps)
qed simp

lemma get_group_groups: "inv_groups d' = inv_groups d \<Longrightarrow> get_group d' n = get_group d n"
  by (simp add: get_group_def)

text \<open>The hosts of a group, entered on both sides.\<close>

lemma append_hosts_ok:
  assumes "graph_ok d" "membership_ok d" "g \<in> group_names d" "add_hosts ord hosts d = (hs, d1)"
  shows "graph_ok (append_group_hosts g hs d1)" "membership_ok (append_group_hosts g hs d1)"
    "group_names (append_group_hosts g hs d1) = group_names d"
proof -
  define f where "f = (\<lambda>n. case map_of hosts n of Some vs \<Rightarrow> vs | None \<Rightarrow> Map.empty)"
  have d1: "d1 = fold (\<lambda>n d. add_vars_to_host n (f n) d) hs d" and hs: "hs = ord (map fst hosts)"
    using assms(4) by (auto simp: add_hosts_def Let_def f_def)
  define d2 where "d2 = upd_group g (\<lambda>x. x\<lparr>group_hosts := group_hosts x @ hs\<rparr>) d1"
  define d3 where "d3 = append_group_hosts g hs d1"
  have d3: "d3 = fold (\<lambda>h d. upd_host h (\<lambda>x. x\<lparr>host_groups := host_groups x @ [g]\<rparr>) d) hs d2"
    by (simp add: d3_def append_group_hosts_def d2_def)
  have sub: "set hs \<subseteq> host_names d2" by (simp add: d2_def inv_simps d1 add_vars_fold)
  note hf = host_groups_fold [of g hs d2, folded d3]
  have ig: "inv_groups d3 = inv_groups d2" using hf by blast
  have i1: "inv_groups d1 = inv_groups d" by (simp add: d1 add_vars_fold)
  have g1: "graph_ok d1" using assms(1) graph_ok_groups [OF i1] by simp
  then have "graph_ok d2" unfolding d2_def by (rule graph_ok_upd) simp_all
  then show "graph_ok (append_group_hosts g hs d1)"
    using graph_ok_groups [OF ig] by (simp add: d3_def)
  have names: "group_names d3 = group_names d" by (simp add: ig d2_def inv_simps) (simp add: i1)
  then show "group_names (append_group_hosts g hs d1) = group_names d" by (simp add: d3_def)
  have gh: "set (group_hosts (get_group d3 n)) = set (group_hosts (get_group d n)) \<union> (if n = g then set hs else {})" for n
    using assms(3) by (simp add: get_group_groups [OF ig] d2_def get_group_upd get_group_groups [OF i1]) (simp add: i1)
  have hg: "set (host_groups (get_host d3 h)) = set (host_groups (get_host d h)) \<union> (if h \<in> set hs then {g} else {})" for h
    using hf sub by (simp add: d2_def inv_simps d1 add_vars_fold)
  have hn: "host_names d3 = host_names d \<union> set hs"
    using hf by (simp add: d2_def inv_simps d1 add_vars_fold)
  have mem: "h \<in> set (group_hosts (get_group d n)) \<longleftrightarrow> n \<in> set (host_groups (get_host d h))"
    "h \<in> host_names d \<longleftrightarrow> set (host_groups (get_host d h)) \<noteq> {}" for n h
    using assms(2) by (auto simp: membership_ok_def)
  have "h \<in> host_names d3 \<longleftrightarrow> set (host_groups (get_host d3 h)) \<noteq> {}" for h
    unfolding hn hg using mem(2) [of h] by auto
  moreover have "h \<in> set (group_hosts (get_group d3 n)) \<longleftrightarrow> n \<in> set (host_groups (get_host d3 h))" for n h
    unfolding gh hg using mem(1) [of h n] by auto
  ultimately have "membership_ok d3" by (simp add: membership_ok_def)
  then show "membership_ok (append_group_hosts g hs d1)" by (simp add: d3_def)
qed

lemma parents_fold:
  "set cs \<subseteq> group_names d \<Longrightarrow>
   (let d' = fold (\<lambda>c d. upd_group c (\<lambda>x. x\<lparr>group_parents := group_parents x @ [g]\<rparr>) d) cs d in
     parent_rel d' = parent_rel d \<union> set cs \<times> {g} \<and> child_rel d' = child_rel d
     \<and> map fst (inv_groups d') = map fst (inv_groups d) \<and> membership_ok d' = membership_ok d)"
proof (induction cs arbitrary: d)
  case (Cons c cs)
  have "c \<in> group_names d" using Cons.prems by simp
  with Cons.IH [of "upd_group c (\<lambda>x. x\<lparr>group_parents := group_parents x @ [g]\<rparr>) d"] Cons.prems
  show ?case by (auto simp: inv_simps Let_def)
qed simp

lemma append_children_ok:
  assumes "graph_ok d" "membership_ok d" "g \<in> group_names d" "the ` set cs \<subseteq> group_names d"
    and "append_children g cs d = Ok d'"
  shows "graph_ok d'" "membership_ok d'" "group_names d' = group_names d"
proof -
  let ?d1 = "upd_group g (\<lambda>x. x\<lparr>group_children := group_children x @ map the cs\<rparr>) d"
  have d': "d' = fold (\<lambda>c d. upd_group c (\<lambda>x. x\<lparr>group_parents := group_parents x @ [g]\<rparr>) d) (map the cs) ?d1"
    using assms(5) by (simp add: append_children_def split: if_splits)
  have "set (map the cs) \<subseteq> group_names ?d1" using assms(4) by (simp add: inv_simps)
  from parents_fold [OF this, of g, folded d', unfolded Let_def]
  have p: "parent_rel d' = parent_rel d \<union> the ` set cs \<times> {g}" "child_rel d' = child_rel d \<union> {g} \<times> the ` set cs"
    "map fst (inv_groups d') = map fst (inv_groups d)" "membership_ok d' = membership_ok d"
    using assms(3) by (auto simp: inv_simps)
  show "graph_ok d'"
    by (rule graph_okI [OF assms(1), where X = "the ` set cs \<times> {g}"]) (use p assms(3,4) in auto)
  show "membership_ok d'" using p(4) assms(2) by simp
  show "group_names d' = group_names d" using p(3) by (metis list.set_map)
qed

abbreviation source_ok :: "inventory \<Rightarrow> bool" where
  "source_ok d \<equiv> graph_ok d \<and> membership_ok d"

lemma yaml_steps_ok:
  "source_ok d \<Longrightarrow> add_group ord raw key val d = Ok (n, d')
     \<Longrightarrow> source_ok d' \<and> n \<in> group_names d' \<and> group_names d \<subseteq> group_names d'"
  "source_ok d \<Longrightarrow> name \<in> group_names d \<Longrightarrow> process_group_elements ord els name raw d = Ok d'
     \<Longrightarrow> source_ok d' \<and> group_names d \<subseteq> group_names d'"
  "source_ok d \<Longrightarrow> add_groups ord groups order d = Ok (cs, d')
     \<Longrightarrow> source_ok d' \<and> the ` (set cs - {None}) \<subseteq> group_names d' \<and> group_names d \<subseteq> group_names d'"
proof (induction ord raw key val d and ord els name raw d and ord groups order d
    arbitrary: n d' and d' and cs d'
    rule: add_group_process_group_elements_add_groups.induct)
  case (1 ord raw key val d)
  note ret = "1.prems"(2) [unfolded add_group.simps [of ord raw key val d]]
  then obtain name where key: "as_string key = Some name" by (auto split: option.splits)
  show ?case
  proof (cases val)
    case (GMapSlice items)
    with ret key have n: "n = name"
      and p: "process_group_elements ord items name raw (initialize_group name d) = Ok d'"
      by auto
    have "source_ok (initialize_group name d)" "name \<in> group_names (initialize_group name d)"
      using "1.prems"(1) by (simp_all add: inv_simps)
    from "1.IH" [OF key GMapSlice this p] show ?thesis unfolding n by (auto simp: inv_simps)
  next
    case GNil
    with ret key have "n = name" "d' = initialize_group name d" by auto
    with "1.prems"(1) show ?thesis by (simp add: inv_simps subset_insertI)
  qed (use ret key in simp_all)
next
  case (2 ord els name raw d)
  show ?case
  proof (cases els)
    case Nil
    from "2.prems"(3) have "d' = d" unfolding Nil by (simp add: process_group_elements.simps [of ord "[]"])
    with "2.prems"(1) show ?thesis by simp
  next
    case (Cons kv rest)
    obtain k v where kv: "kv = (k, v)" by force
    from "2.prems"(3) obtain key items d1 where key: "as_string k = Some key" and v: "v = GMapSlice items"
      and d1: "(if key = ''hosts'' then
                  (case add_hosts (ord (''addHosts '' @ name)) (raw_hosts raw) d of
                     (hs, d) \<Rightarrow> Ok (append_group_hosts name hs d))
                else if key = ''vars'' then
                  Ok (upd_group name (\<lambda>g. g\<lparr>group_vars := group_vars g ++ raw_vars raw\<rparr>) d)
                else if key = ''children'' then
                  obind (add_groups ord (raw_children raw) items d) (\<lambda>(cs, d). append_children name cs d)
                else Ok d) = Ok d1"
      and rest: "process_group_elements ord rest name raw d1 = Ok d'"
      unfolding Cons kv
      by (subst (asm) process_group_elements.simps) (auto split: option.splits gval.splits)
    have step: "source_ok d1 \<and> group_names d \<subseteq> group_names d1"
    proof -
      consider "key = ''hosts''" | "key = ''vars''" | "key = ''children''"
        | "key \<noteq> ''hosts''" "key \<noteq> ''vars''" "key \<noteq> ''children''" by blast
      then show ?thesis
      proof cases
        case 1
        obtain hs dh where h: "add_hosts (ord (''addHosts '' @ name)) (raw_hosts raw) d = (hs, dh)" by force
        with d1 1 have "d1 = append_group_hosts name hs dh" by simp
        with append_hosts_ok [OF _ _ "2.prems"(2) h] "2.prems"(1) show ?thesis by simp
      next
        case 2
        then have "d1 = upd_group name (\<lambda>g. g\<lparr>group_vars := group_vars g ++ raw_vars raw\<rparr>) d" using d1 by simp
        then show ?thesis using "2.prems"(1) by (simp add: inv_simps graph_ok_upd)
      next
        case 3
        with d1 obtain cs dc where c: "add_groups ord (raw_children raw) items d = Ok (cs, dc)"
          "append_children name cs dc = Ok d1" by auto
        have "source_ok dc \<and> the ` (set cs - {None}) \<subseteq> group_names dc \<and> group_names d \<subseteq> group_names dc"
          by (rule "2.IH"(1) [OF Cons kv [symmetric] key v]) (use 3 "2.prems"(1) c(1) in simp_all)
        moreover have "None \<notin> set cs" using c(2) by (auto simp: append_children_def split: if_splits)
        ultimately show ?thesis
          using append_children_ok [OF _ _ _ _ c(2)] "2.prems"(2) by (simp add: subset_iff)
      next
        case 4
        with d1 "2.prems"(1) show ?thesis by simp
      qed
    qed
    with "2.prems"(2) have n1: "name \<in> group_names d1" by blast
    have "source_ok d' \<and> group_names d1 \<subseteq> group_names d'"
      by (rule "2.IH"(2) [OF Cons kv [symmetric] key v _ _ rest]) (use step n1 in simp_all)
    with step show ?thesis by blast
  qed
next
  case (3 ord groups order d)
  show ?case
  proof (cases order)
    case Nil
    from "3.prems"(2) have "d' = d \<and> cs = []" unfolding Nil by (simp add: add_groups.simps [of ord groups "[]"])
    with "3.prems"(1) show ?thesis by simp
  next
    case (Cons kv rest)
    obtain k v where kv: "kv = (k, v)" by force
    from "3.prems"(2) obtain key c d1 cs' where key: "as_string k = Some key"
      and d1: "(case v of
                  GNil \<Rightarrow> Ok (Some key, initialize_group key d)
                | GMapItem k' v' \<Rightarrow> omap (\<lambda>(c, d). (Some c, d)) (add_group ord (raw_lookup groups key) k' v' d)
                | _ \<Rightarrow> Ok (None, d)) = Ok (c, d1)"
      and rest: "add_groups ord groups rest d1 = Ok (cs', d')" and cs: "cs = c # cs'"
      unfolding Cons kv
      by (subst (asm) add_groups.simps) (auto split: option.splits)
    have step: "source_ok d1 \<and> the ` ({c} - {None}) \<subseteq> group_names d1 \<and> group_names d \<subseteq> group_names d1"
    proof (cases v)
      case GNil
      with d1 have "c = Some key" "d1 = initialize_group key d" by simp_all
      with "3.prems"(1) show ?thesis by (simp add: inv_simps subset_insertI)
    next
      case (GMapItem k' v')
      with d1 obtain c' where c: "c = Some c'" "add_group ord (raw_lookup groups key) k' v' d = Ok (c', d1)" by auto
      from "3.IH"(1) [OF Cons kv [symmetric] key GMapItem "3.prems"(1) c(2)] c(1) show ?thesis by simp
    qed (use d1 "3.prems"(1) in auto)
    have s1: "source_ok d1" and s2: "the ` ({c} - {None}) \<subseteq> group_names d1" and s3: "group_names d \<subseteq> group_names d1"
      using step by simp_all
    have r: "source_ok d' \<and> the ` (set cs' - {None}) \<subseteq> group_names d' \<and> group_names d1 \<subseteq> group_names d'"
      by (rule "3.IH"(2) [OF Cons kv [symmetric] key s1 rest])
    have m: "group_names d1 \<subseteq> group_names d'" using r by (elim conjE)
    have "the ` (set cs - {None}) = the ` ({c} - {None}) \<union> the ` (set cs' - {None})"
      unfolding cs by auto
    with r subset_trans [OF s2 m] subset_trans [OF s3 m] show ?thesis by simp
  qed
qed

lemma raw_yaml_ok:
  assumes "raw_yaml_data ord typed_raw ordered_raw = Ok d"
  shows "source_ok d"
proof -
  have init: "source_ok (initialize_group ''all'' new_data)"
  proof -
    have "parent_rel new_data = {}" "child_rel new_data = {}" "membership_ok new_data"
      by (auto simp: parent_rel_def child_rel_def membership_ok_def get_group_def get_host_def new_data_def inv_simps)
    moreover from this(1,2) have "graph_ok new_data" by (simp add: graph_ok_def) (simp add: new_data_def)
    ultimately show ?thesis by (simp add: inv_simps)
  qed
  have step: "source_ok d2" if "source_ok d1" "get_data_loop ord typed_raw x d1 = Ok d2" for x d1 d2
  proof -
    obtain k v where x: "x = (k, v)" by force
    with that(2) obtain n where "add_group ord (raw_lookup typed_raw n) k v d1 = Ok (n, d2) \<or>
        (\<exists>m. add_group ord (raw_lookup typed_raw n) k v d1 = Ok (m, d2))"
      by (auto simp: get_data_loop_def split: option.splits)
    with yaml_steps_ok(1) [OF that(1)] show ?thesis by blast
  qed
  show ?thesis
  proof (rule ofold_invariant [where P = source_ok])
    show "source_ok s'" if "x \<in> set ordered_raw" "source_ok s" "get_data_loop ord typed_raw x s = Ok s'" for x s s'
      by (rule step [OF that(2,3)])
    show "ofold (get_data_loop ord typed_raw) ordered_raw (initialize_group ''all'' new_data) = Ok d"
      using assms by (simp add: raw_yaml_data_def)
  qed (rule init)
qed

interpretation yaml_source: inventory_source "\<lambda>(ord, typed_raw, ordered_raw). raw_yaml_data ord typed_raw ordered_raw"
  by unfold_locales (use raw_yaml_ok in auto)

lemma get_data_consistent:
  assumes "perm_oracles ord" "get_data ord typed_raw ordered_raw = Ok d"
  shows "graph_ok d \<and> acyclic (parent_rel d)
    \<and> get_hosts (length (inv_groups d)) d ''all'' = Some (host_names d)
    \<and> (\<forall>g h. g \<noteq> ''all'' \<longrightarrow> g \<noteq> ''ungrouped'' \<longrightarrow>
          (h \<in> set (group_hosts (get_group d g)) \<longleftrightarrow> g \<in> set (host_groups (get_host d h))))"
  by (rule yaml_source.consistent [OF assms(1), of "(ord, typed_raw, ordered_raw)"])
    (use assms(2) in \<open>simp add: get_data_def\<close>)



text \<open>
  A child group with a mapping of its own, as in the documentation's nested form, makes the
  reader dereference a nil group: the type switch expects a \<open>yaml.MapItem\<close> where the
  decoder yields a \<open>yaml.MapSlice\<close>.
\<close>

lemma add_groups_mapping_nil:
  "add_groups ord groups [(GStr child, GMapSlice items)] d = Ok ([None], d)"
  by (subst add_groups.simps) (simp add: add_groups.simps [of _ _ "[]"])

lemma nested_children_panic:
  "get_data ord typed_raw
     [(GStr g, GMapSlice [(GStr ''children'', GMapSlice [(GStr child, GMapSlice items)])])] = Panic"
  by (simp add: get_data_def raw_yaml_data_def get_data_loop_def add_group.simps
      process_group_elements.simps [of _ "[_]"] add_groups_mapping_nil append_children_def)

end
