(* ===== verification/Templating.thy ===== *)
theory Templating
  imports Go_Values
begin

text \<open>
  The template front end (\<open>template/templar.go\<close>) and the rendering of variables with it
  (\<open>vars/utils.go\<close>).  The template engine proper (\<open>gosible-templates\<close>, a fork of
  gonja), its lexer, its default delimiters, the JSON decoder and the expression evaluator are not
  part of the repository: they are the fields of the parameter \<open>engine\<close>.
\<close>

named_theorems tmpl_simps \<open>evaluation of the template front end\<close>

section \<open>Settings and the engine\<close>

text \<open>The settings of \<open>config.Manager ().Settings\<close> that the modelled code reads.\<close>

record settings =
  undefined_var_behavior :: bool
  null_representation :: string
  inject_facts_as_vars :: bool
  variable_precedence :: "string list"
  default_strategy :: string
  default_become_user :: string
  default_become_method :: string

datatype token =
    VariableBegin | VariableEnd | BlockBegin | BlockEnd
  | CommentBegin | CommentEnd | RawBegin | RawEnd | Whitespace | OtherToken

text \<open>
  \<open>lex\<close>: the types of the tokens before the end of the input.  \<open>render\<close>:
  \<open>FromString\<close> and \<open>Execute\<close>, with the trailing-newline option: a text and perhaps an
  error.  \<open>native\<close>:
  the value that the JSON decoder and the evaluator give for a text, if it is JSON.
\<close>

record engine =
  block_start :: string
  variable_start :: string
  variable_end :: string
  comment_start :: string
  lex :: "string \<Rightarrow> token list"
  render :: "bool \<Rightarrow> string \<Rightarrow> vars \<Rightarrow> string \<times> string option"
  native :: "string \<Rightarrow> gval option"

record do_template_options =
  preserve_trailing_newlines :: bool
  escape_backslashes :: bool
  fail_on_undefined :: bool
  overrides :: "(string \<times> gval) list"
  convert_data :: bool
  disable_lookups :: bool

record template_options = do_template_options +
  convert_bare :: bool
  use_cache :: bool

text \<open>The cache is keyed by a hash of the text and the options, here by the two themselves.\<close>

type_synonym cache_index = "string \<times> do_template_options"

record templar =
  available_variables :: vars
  tcache :: "cache_index \<rightharpoonup> gval"

definition new_options :: "settings \<Rightarrow> template_options" where
  "new_options cfg =
     \<lparr>preserve_trailing_newlines = True, escape_backslashes = True,
      fail_on_undefined = undefined_var_behavior cfg, overrides = [],
      convert_data = True, disable_lookups = False, convert_bare = False, use_cache = True\<rparr>"

definition new_templar :: "vars \<Rightarrow> templar" where
  "new_templar vs = \<lparr>available_variables = vs, tcache = Map.empty\<rparr>"

section \<open>Recognising templates\<close>

definition is_possibly_template :: "engine \<Rightarrow> string \<Rightarrow> bool" where
  "is_possibly_template eng data =
     list_ex (contains data) [block_start eng, variable_start eng, comment_start eng]"

fun begin_token :: "token \<Rightarrow> bool" where
  "begin_token VariableBegin = True" | "begin_token BlockBegin = True"
| "begin_token CommentBegin = True" | "begin_token RawBegin = True"
| "begin_token _ = False"

fun end_token :: "token \<Rightarrow> bool" where
  "end_token VariableEnd = True" | "end_token BlockEnd = True"
| "end_token CommentEnd = True" | "end_token RawEnd = True"
| "end_token _ = False"

text \<open>A type without an entry gives the zero type, which is not an end token.\<close>

fun closing_token :: "token \<Rightarrow> token option" where
  "closing_token VariableBegin = Some VariableEnd"
| "closing_token BlockBegin = Some BlockEnd"
| "closing_token CommentBegin = Some CommentEnd"
| "closing_token RawBegin = Some RawEnd"
| "closing_token _ = None"

fun scan_tokens :: "token \<Rightarrow> bool \<Rightarrow> bool \<Rightarrow> token list \<Rightarrow> bool" where
  "scan_tokens found start comment [] = False"
| "scan_tokens found start comment (t # ts) =
     (if begin_token t then scan_tokens t False (comment \<or> start \<and> t = CommentBegin) ts
      else if end_token t then
        (if closing_token found = Some t then True
         else if \<not> comment then False
         else scan_tokens found start comment ts)
      else scan_tokens found start comment ts)"

definition is_template :: "engine \<Rightarrow> string \<Rightarrow> bool" where
  "is_template eng data =
     (if \<not> is_possibly_template eng data then False
      else scan_tokens Whitespace True False (lex eng data))"

section \<open>A single variable\<close>

text \<open>
  The regular expression \<open>(?m)^{{\s*(\w*)\s*}}$\<close>: at the start of some line, the
  delimiters around one word, up to the end of a line.  The two classes are disjoint, so the
  greedy choice is the only one.
\<close>

definition word_char :: "char \<Rightarrow> bool" where
  "word_char c =
     (let n = of_char c :: nat
      in (48 \<le> n \<and> n \<le> 57) \<or> (65 \<le> n \<and> n \<le> 90) \<or> n = 95 \<or> (97 \<le> n \<and> n \<le> 122))"

definition re_space :: "char \<Rightarrow> bool" where
  "re_space c = (c \<in> set [CHR 0x09, CHR 0x0A, CHR 0x0C, CHR 0x0D, CHR 0x20])"

definition single_var_here :: "engine \<Rightarrow> string \<Rightarrow> string option" where
  "single_var_here eng s =
     (if has_prefix s (variable_start eng) then
        let s1 = dropWhile re_space (drop (length (variable_start eng)) s);
            w = takeWhile word_char s1;
            s2 = dropWhile re_space (dropWhile word_char s1);
            s3 = drop (length (variable_end eng)) s2
        in if has_prefix s2 (variable_end eng) \<and> (s3 = [] \<or> hd s3 = nl) then Some w else None
      else None)"

fun single_var_from :: "engine \<Rightarrow> bool \<Rightarrow> string \<Rightarrow> string option" where
  "single_var_from eng line_start [] =
     (if line_start then single_var_here eng [] else None)"
| "single_var_from eng line_start (c # s) =
     (case (if line_start then single_var_here eng (c # s) else None) of
        Some w \<Rightarrow> Some w
      | None \<Rightarrow> single_var_from eng (c = nl) s)"

definition single_var :: "engine \<Rightarrow> string \<Rightarrow> string option" where
  "single_var eng s = single_var_from eng True s"

section \<open>Rendering\<close>

fun is_non_templated_type :: "gval \<Rightarrow> bool" where
  "is_non_templated_type (GBool b) = True"
| "is_non_templated_type (GInt i) = True"
| "is_non_templated_type (GNum n) = True"
| "is_non_templated_type _ = False"

definition convert_bare_variable :: "engine \<Rightarrow> vars \<Rightarrow> string \<Rightarrow> string" where
  "convert_bare_variable eng vs s =
     (let first = hd (split_on (CHR ''['') (hd (split_on (CHR ''.'') (hd (split_on (CHR ''|'') s)))))
      in if (contains s ''|'' \<or> vs first \<noteq> None) \<and> \<not> contains s (variable_start eng)
         then variable_start eng @ s @ variable_end eng else s)"

definition native_value :: "engine \<Rightarrow> string \<Rightarrow> gval" where
  "native_value eng s =
     (case native eng (replace_all [squote] [dquote] s) of Some v \<Rightarrow> v | None \<Rightarrow> GStr s)"

text \<open>
  A template that is one variable gives the variable's own value when it is a number or a
  truth value, and the configured text when it is nil.
\<close>

definition direct_value :: "engine \<Rightarrow> settings \<Rightarrow> vars \<Rightarrow> string \<Rightarrow> gval option" where
  "direct_value eng cfg vs s =
     (case single_var eng s of
        None \<Rightarrow> None
      | Some w \<Rightarrow>
          (case vs w of
             None \<Rightarrow> None
           | Some v \<Rightarrow>
               if is_non_templated_type v then Some v
               else if v = GNil then Some (GStr (null_representation cfg)) else None))"

definition cache_key :: "string \<Rightarrow> template_options \<Rightarrow> cache_index" where
  "cache_key s opt = (s, do_template_options.truncate opt)"

text \<open>\<open>doTemplate\<close> and the conversion of its result, with the error it returns beside it.\<close>

definition do_template :: "engine \<Rightarrow> vars \<Rightarrow> cache_index \<Rightarrow> gval \<times> string option" where
  "do_template eng vs key =
     (case render eng (preserve_trailing_newlines (snd key)) (fst key) vs of
        (txt, None) \<Rightarrow> (native_value eng txt, None)
      | (txt, Some e) \<Rightarrow> (GStr txt, Some e))"

definition render_cached ::
  "engine \<Rightarrow> templar \<Rightarrow> string \<Rightarrow> template_options \<Rightarrow> templar \<times> (string, gval) outcome" where
  "render_cached eng T s opt =
     (let key = cache_key s opt in
      case (if use_cache opt then tcache T key else None) of
        Some v \<Rightarrow> (T, Ok v)
      | None \<Rightarrow>
          (let (v, err) = do_template eng (available_variables T) key;
               T = (if use_cache opt \<and> single_var eng s \<noteq> None
                    then T\<lparr>tcache := (tcache T)(key \<mapsto> v)\<rparr> else T)
           in (T, case err of None \<Rightarrow> Ok v | Some e \<Rightarrow> Err e)))"

definition templar_template ::
  "engine \<Rightarrow> settings \<Rightarrow> templar \<Rightarrow> string \<Rightarrow> template_options
   \<Rightarrow> templar \<times> (string, gval) outcome" where
  "templar_template eng cfg T data opt =
     (let s = (if convert_bare opt then convert_bare_variable eng (available_variables T) data
               else data)
      in if \<not> is_possibly_template eng s then (T, Ok (GStr s))
         else case direct_value eng cfg (available_variables T) s of
                Some v \<Rightarrow> (T, Ok v)
              | None \<Rightarrow> render_cached eng T s opt)"

text \<open>The package functions: a fresh templar for one text.\<close>

definition template_text ::
  "engine \<Rightarrow> settings \<Rightarrow> string \<Rightarrow> vars \<Rightarrow> template_options option \<Rightarrow> (string, gval) outcome" where
  "template_text eng cfg s env opt =
     (if \<not> is_template eng s then Ok (GStr s)
      else snd (templar_template eng cfg (new_templar env) s
                  (case opt of Some o' \<Rightarrow> o' | None \<Rightarrow> new_options cfg)))"

text \<open>\<open>sprint\<close> is \<open>fmt.Sprintf ("%v", v)\<close> on values that are not strings.\<close>

definition template_to_string ::
  "(gval \<Rightarrow> string) \<Rightarrow> engine \<Rightarrow> settings \<Rightarrow> string \<Rightarrow> vars \<Rightarrow> template_options option
   \<Rightarrow> (string, string) outcome" where
  "template_to_string sprint eng cfg s env opt =
     omap (\<lambda>v. case v of GStr t \<Rightarrow> t | _ \<Rightarrow> sprint v) (template_text eng cfg s env opt)"

section \<open>Rendering a map of variables\<close>

definition template_entry ::
  "engine \<Rightarrow> settings \<Rightarrow> template_options \<Rightarrow> templar \<Rightarrow> gval \<Rightarrow> templar \<times> (string, gval) outcome" where
  "template_entry eng cfg opt T v =
     (case v of
        GStr s \<Rightarrow> if is_template eng s then templar_template eng cfg T s opt else (T, Ok v)
      | _ \<Rightarrow> (T, Ok v))"

fun template_entries ::
  "engine \<Rightarrow> settings \<Rightarrow> template_options \<Rightarrow> vars \<Rightarrow> string list \<Rightarrow> templar \<Rightarrow> vars
   \<Rightarrow> (string, vars) outcome" where
  "template_entries eng cfg opt ts [] T acc = Ok acc"
| "template_entries eng cfg opt ts (k # ks) T acc =
     (case ts k of
        None \<Rightarrow> template_entries eng cfg opt ts ks T acc
      | Some v \<Rightarrow>
          (case template_entry eng cfg opt T v of
             (T, r) \<Rightarrow> obind r (\<lambda>t. template_entries eng cfg opt ts ks T (acc(k \<mapsto> t)))))"

definition template_vars_templates ::
  "visit \<Rightarrow> engine \<Rightarrow> settings \<Rightarrow> vars \<Rightarrow> vars \<Rightarrow> (string, vars) outcome" where
  "template_vars_templates visit eng cfg ts env =
     template_entries eng cfg (new_options cfg) ts (visit ts) (new_templar env) Map.empty"

definition template_action_args ::
  "visit \<Rightarrow> engine \<Rightarrow> settings \<Rightarrow> vars \<Rightarrow> vars \<Rightarrow> (string, vars) outcome" where
  "template_action_args visit eng cfg args vs = template_vars_templates visit eng cfg args vs"

section \<open>The cache is transparent\<close>

text \<open>Every cached value is what rendering its key gives, without an error.\<close>

definition cache_ok :: "engine \<Rightarrow> templar \<Rightarrow> bool" where
  "cache_ok eng T \<longleftrightarrow>
     (\<forall>key v. tcache T key = Some v \<longrightarrow> do_template eng (available_variables T) key = (v, None))"

lemma cache_ok_new [tmpl_simps]: "cache_ok eng (new_templar vs)"
  by (simp add: cache_ok_def new_templar_def)

lemma new_templar_vars [tmpl_simps]: "available_variables (new_templar vs) = vs"
  by (simp add: new_templar_def)

lemma render_cached_vars [tmpl_simps]:
  "available_variables (fst (render_cached eng T s opt)) = available_variables T"
  by (auto simp: render_cached_def Let_def split: option.splits prod.splits)

lemma templar_template_vars [tmpl_simps]:
  "available_variables (fst (templar_template eng cfg T s opt)) = available_variables T"
  by (auto simp: templar_template_def Let_def tmpl_simps split: option.splits)

lemma render_cached_ok:
  assumes "cache_ok eng T" "snd (render_cached eng T s opt) = Ok w"
  shows "cache_ok eng (fst (render_cached eng T s opt))"
  using assms by (auto simp: render_cached_def Let_def cache_ok_def split: option.splits prod.splits if_splits)

lemma templar_template_ok:
  assumes "cache_ok eng T" "snd (templar_template eng cfg T s opt) = Ok w"
  shows "cache_ok eng (fst (templar_template eng cfg T s opt))"
  using assms by (auto simp: templar_template_def Let_def intro: render_cached_ok split: option.splits if_splits)

text \<open>Without the cache: the value that a call on an empty cache gives.\<close>

definition rendered :: "engine \<Rightarrow> settings \<Rightarrow> vars \<Rightarrow> string \<Rightarrow> template_options \<Rightarrow> (string, gval) outcome" where
  "rendered eng cfg vs s opt = snd (templar_template eng cfg (new_templar vs) s opt)"

lemma cached_value:
  "cache_ok eng T \<Longrightarrow> tcache T key = Some v \<Longrightarrow> do_template eng (available_variables T) key = (v, None)"
  unfolding cache_ok_def by blast

lemma render_cached_value:
  assumes "cache_ok eng T"
  shows "snd (render_cached eng T s opt) =
         snd (render_cached eng (new_templar (available_variables T)) s opt)"
proof (cases "use_cache opt \<and> tcache T (cache_key s opt) \<noteq> None")
  case True
  then obtain v where v: "tcache T (cache_key s opt) = Some v" by auto
  with True cached_value [OF assms v] show ?thesis
    by (simp add: render_cached_def Let_def new_templar_def)
next
  case False
  then show ?thesis
    by (auto simp: render_cached_def Let_def new_templar_def split: option.splits prod.splits)
qed

lemma templar_template_value:
  "cache_ok eng T \<Longrightarrow> snd (templar_template eng cfg T s opt) = rendered eng cfg (available_variables T) s opt"
  by (auto simp: templar_template_def rendered_def Let_def tmpl_simps
      intro: render_cached_value split: option.splits)

lemma rendered_no_panic: "rendered eng cfg vs s opt \<noteq> Panic"
  by (auto simp: rendered_def templar_template_def render_cached_def Let_def
      split: option.splits prod.splits if_splits)

definition template_step :: "engine \<Rightarrow> settings \<Rightarrow> templar \<Rightarrow> templar \<Rightarrow> bool" where
  "template_step eng cfg T T' \<longleftrightarrow> (\<exists>s opt v. templar_template eng cfg T s opt = (T', Ok v))"

interpretation tcache: invariant_machine "\<lambda>T. \<exists>vs. T = new_templar vs" "template_step eng cfg" "cache_ok eng"
  for eng cfg
proof unfold_locales
  show "cache_ok eng T" if "\<exists>vs. T = new_templar vs" for T
    using that by (auto simp: tmpl_simps)
  show "cache_ok eng T'" if "cache_ok eng T" "template_step eng cfg T T'" for T T'
    using that templar_template_ok [of eng T cfg] unfolding template_step_def by (metis fst_conv snd_conv)
qed

text \<open>
  C21.  The cache of a templar is transparent: after any number of calls that succeeded,
  templating any text with any options gives exactly what a fresh templar over the same variables
  gives, error or value.
\<close>

theorem template_cache_transparent:
  assumes "reach (\<lambda>T. \<exists>vs. T = new_templar vs) (template_step eng cfg) T"
  shows "snd (templar_template eng cfg T s opt) =
         snd (templar_template eng cfg (new_templar (available_variables T)) s opt)"
  using templar_template_value [OF tcache.always [OF assms]] by (simp add: rendered_def)

section \<open>Rendering each entry\<close>

text \<open>What \<open>TemplateVarsTemplates\<close> promises for one entry.\<close>

definition entry_value :: "engine \<Rightarrow> settings \<Rightarrow> vars \<Rightarrow> gval \<Rightarrow> (string, gval) outcome" where
  "entry_value eng cfg env v =
     (case v of
        GStr s \<Rightarrow> if is_template eng s then rendered eng cfg env s (new_options cfg) else Ok v
      | _ \<Rightarrow> Ok v)"

lemma template_entry_value:
  assumes "cache_ok eng T" "template_entry eng cfg (new_options cfg) T v = (T', r)"
  shows "r = entry_value eng cfg (available_variables T) v"
    and "available_variables T' = available_variables T"
    and "r = Ok w \<Longrightarrow> cache_ok eng T'"
proof -
  have T': "T' = fst (template_entry eng cfg (new_options cfg) T v)"
    and r: "r = snd (template_entry eng cfg (new_options cfg) T v)" using assms(2) by auto
  show "r = entry_value eng cfg (available_variables T) v"
    using assms(1) unfolding r by (auto simp: template_entry_def entry_value_def templar_template_value split: gval.splits)
  show "available_variables T' = available_variables T"
    unfolding T' by (auto simp: template_entry_def tmpl_simps split: gval.splits)
  show "cache_ok eng T'" if "r = Ok w"
    using assms(1) that unfolding T' r
    by (auto simp: template_entry_def intro: templar_template_ok split: gval.splits if_splits)
qed

lemma entry_value_no_panic: "entry_value eng cfg env v \<noteq> Panic"
  by (auto simp: entry_value_def rendered_no_panic split: gval.splits)

lemma template_entries_iff:
  assumes "cache_ok eng T" "available_variables T = env" "distinct ks" "\<forall>k \<in> set ks. ts k \<noteq> None"
  shows "template_entries eng cfg (new_options cfg) ts ks T acc = Ok m \<longleftrightarrow>
     (\<forall>k. if k \<in> set ks then \<exists>v w. ts k = Some v \<and> entry_value eng cfg env v = Ok w \<and> m k = Some w
          else m k = acc k)"
  using assms
proof (induction ks arbitrary: T acc)
  case Nil
  then show ?case by auto
next
  case (Cons k ks)
  obtain v where v: "ts k = Some v" using Cons.prems by auto
  obtain T' r where e: "template_entry eng cfg (new_options cfg) T v = (T', r)" by fastforce
  have r: "r = entry_value eng cfg env v" and av: "available_variables T' = env"
    using template_entry_value [OF Cons.prems(1) e] Cons.prems(2) by auto
  show ?case
  proof (cases "entry_value eng cfg env v")
    case (Ok w)
    then have "cache_ok eng T'" using template_entry_value(3) [OF Cons.prems(1) e] r by simp
    then have *: "template_entries eng cfg (new_options cfg) ts ks T' (acc(k \<mapsto> w)) = Ok m \<longleftrightarrow>
      (\<forall>j. if j \<in> set ks then \<exists>v w. ts j = Some v \<and> entry_value eng cfg env v = Ok w \<and> m j = Some w
           else m j = (acc(k \<mapsto> w)) j)"
      by (rule Cons.IH [OF _ av]) (use Cons.prems(3,4) in simp_all)
    have "template_entries eng cfg (new_options cfg) ts (k # ks) T acc = Ok m \<longleftrightarrow>
          template_entries eng cfg (new_options cfg) ts ks T' (acc(k \<mapsto> w)) = Ok m"
      using v e r Ok by simp
    also note *
    also have "(\<forall>j. if j \<in> set ks then \<exists>v w. ts j = Some v \<and> entry_value eng cfg env v = Ok w \<and> m j = Some w
           else m j = (acc(k \<mapsto> w)) j) \<longleftrightarrow> (\<forall>j. if j \<in> set (k # ks)
          then \<exists>v w. ts j = Some v \<and> entry_value eng cfg env v = Ok w \<and> m j = Some w
          else m j = acc j)"
      using Cons.prems(3) v Ok by (intro all_cong1) auto
    finally show ?thesis .
  next
    case (Err x)
    then show ?thesis using v e r by (auto intro!: exI [of _ k])
  next
    case Panic
    then show ?thesis using entry_value_no_panic by blast
  qed
qed

lemma template_entries_no_panic:
  "template_entries eng cfg (new_options cfg) ts ks T acc \<noteq> Panic"
proof (induction ks arbitrary: T acc)
  case (Cons k ks)
  have "snd (template_entry eng cfg opt T v) \<noteq> Panic" for opt v
    by (auto simp: template_entry_def templar_template_def render_cached_def Let_def
        split: gval.splits option.splits prod.splits if_splits)
  then have "r \<noteq> Panic" if "template_entry eng cfg opt T v = (T', r)" for opt v T' r
    using that by (metis snd_conv)
  with Cons show ?case
    by (auto simp: obind_Panic_iff split: option.splits prod.splits)
qed simp

text \<open>
  Rendering a map of variables does not depend on the order in which the map is visited,
  nor on the cache: it succeeds exactly when every entry renders by itself, and then maps exactly
  the given names to their renderings.
\<close>

theorem template_vars_entrywise:
  assumes "visits visit ts"
  shows "template_vars_templates visit eng cfg ts env = Ok m \<longleftrightarrow>
     (\<forall>k. case ts k of
            None \<Rightarrow> m k = None
          | Some v \<Rightarrow> \<exists>w. entry_value eng cfg env v = Ok w \<and> m k = Some w)"
proof -
  have "template_vars_templates visit eng cfg ts env = Ok m \<longleftrightarrow>
     (\<forall>k. if k \<in> set (visit ts)
          then \<exists>v w. ts k = Some v \<and> entry_value eng cfg env v = Ok w \<and> m k = Some w
          else m k = None)"
    unfolding template_vars_templates_def
    using assms by (subst template_entries_iff [of _ _ env]) (auto simp: tmpl_simps visits_def)
  also have "\<dots> \<longleftrightarrow> (\<forall>k. case ts k of
            None \<Rightarrow> m k = None
          | Some v \<Rightarrow> \<exists>w. entry_value eng cfg env v = Ok w \<and> m k = Some w)"
    using assms by (intro all_cong1) (auto simp: visits_def split: option.splits)
  finally show ?thesis .
qed

lemma template_vars_no_panic: "template_vars_templates visit eng cfg ts env \<noteq> Panic"
  by (simp add: template_vars_templates_def template_entries_no_panic)

section \<open>Typed pass-through\<close>

definition default_delims :: "engine \<Rightarrow> bool" where
  "default_delims eng \<longleftrightarrow>
     block_start eng = ''{%'' \<and> variable_start eng = ''{{'' \<and> variable_end eng = ''}}'' \<and>
     comment_start eng = ''{#''"

definition spaces :: "nat \<Rightarrow> string" where
  "spaces n = replicate n spc"

definition variable_text :: "nat \<Rightarrow> string \<Rightarrow> nat \<Rightarrow> string" where
  "variable_text i name j = ''{{'' @ spaces i @ name @ spaces j @ ''}}''"

lemma drop_spaces: "s = [] \<or> \<not> re_space (hd s) \<Longrightarrow> dropWhile re_space (spaces n @ s) = s"
proof (induction n)
  case 0
  then show ?case by (cases s) (auto simp: spaces_def)
next
  case (Suc n)
  then show ?case by (simp add: spaces_def re_space_def)
qed

lemma word_char_not_space: "word_char c \<Longrightarrow> \<not> re_space c"
  by (auto simp: word_char_def re_space_def Let_def)

lemma takeWhile_word:
  assumes "\<forall>c \<in> set w. word_char c" "s = [] \<or> \<not> word_char (hd s)"
  shows "takeWhile word_char (w @ s) = w" "dropWhile word_char (w @ s) = s"
  using assms by (cases s; simp add: takeWhile_append dropWhile_append)+

lemma single_var_text:
  assumes "default_delims eng" "\<forall>c \<in> set name. word_char c"
  shows "single_var eng (variable_text i name j) = Some name"
proof -
  have close: "\<not> re_space (CHR ''}'')" "\<not> word_char (CHR ''}'')" "\<not> word_char spc"
    by (auto simp: re_space_def word_char_def Let_def)
  have tail: "spaces j @ ''}}'' = [] \<or> \<not> word_char (hd (spaces j @ ''}}''))"
    using close by (cases j) (auto simp: spaces_def)
  have head: "dropWhile re_space (spaces i @ name @ spaces j @ ''}}'') =
      (if name = [] then ''}}'' else name @ spaces j @ ''}}'')"
  proof (cases name)
    case Nil
    have "spaces i @ spaces j = spaces (i + j)" by (simp add: spaces_def replicate_add)
    then show ?thesis using Nil drop_spaces [of "''}}''" "i + j"] close by (simp flip: append_assoc)
  next
    case (Cons c w)
    then have "\<not> re_space c" using assms(2) word_char_not_space by simp
    with Cons show ?thesis by (simp add: drop_spaces)
  qed
  have "single_var_here eng (variable_text i name j) = Some name"
    using assms head takeWhile_word [OF assms(2) tail] drop_spaces [of "''}}''" j] close
    by (auto simp: single_var_here_def variable_text_def has_prefix_def Let_def default_delims_def)
  then show ?thesis by (simp add: single_var_def variable_text_def)
qed

text \<open>
  A template that consists of one variable keeps the variable's type: for the default
  delimiters and any blanks around the name, a number or truth value comes back as it is, without
  the engine being asked, whatever the cache and the options other than the bare conversion.
\<close>

theorem single_variable_typed:
  assumes "default_delims eng" "\<forall>c \<in> set name. word_char c"
    and "available_variables T name = Some v" "is_non_templated_type v" "\<not> convert_bare opt"
  shows "templar_template eng cfg T (variable_text i name j) opt = (T, Ok v)"
proof -
  have "is_possibly_template eng (variable_text i name j)"
    using assms(1) by (simp add: is_possibly_template_def default_delims_def variable_text_def
        contains.simps has_prefix_def)
  then show ?thesis
    using assms single_var_text [OF assms(1,2)] by (simp add: templar_template_def direct_value_def)
qed

section \<open>A failed rendering is cached\<close>

definition failing_engine :: engine where
  "failing_engine =
     \<lparr>block_start = ''{%'', variable_start = ''{{'', variable_end = ''}}'', comment_start = ''{#'',
      lex = (\<lambda>_. [VariableBegin, VariableEnd]),
      render = (\<lambda>_ _ _. ([], Some ''undefined'')), native = (\<lambda>_. None)\<rparr>"

definition sample_settings :: settings where
  "sample_settings =
     \<lparr>undefined_var_behavior = True, null_representation = '''', inject_facts_as_vars = True,
      variable_precedence = [''all_inventory'', ''groups_inventory''], default_strategy = ''linear'',
      default_become_user = ''root'', default_become_method = ''sudo''\<rparr>"

lemma failing_delims: "default_delims failing_engine"
  by (simp add: default_delims_def failing_engine_def)

text \<open>
  The second rendering of a text that failed answers the empty string and no error: the result
  is entered into the cache before the error is looked at.
\<close>

lemma failed_template_cached:
  assumes "opt = new_options sample_settings" "s = variable_text 1 ''x'' 1"
  shows "snd (templar_template failing_engine sample_settings (new_templar Map.empty) s opt) = Err ''undefined''"
    and "snd (templar_template failing_engine sample_settings
                (fst (templar_template failing_engine sample_settings (new_templar Map.empty) s opt)) s opt) = Ok (GStr '''')"
proof -
  have sv: "single_var failing_engine s = Some ''x''"
    unfolding assms(2) by (rule single_var_text [OF failing_delims]) (simp add: word_char_def)
  have "is_possibly_template failing_engine s"
    by (simp add: assms(2) is_possibly_template_def failing_engine_def variable_text_def contains.simps has_prefix_def)
  moreover have "do_template failing_engine vs key = (GStr [], Some ''undefined'')" for vs key
    by (simp add: do_template_def failing_engine_def)
  ultimately show "snd (templar_template failing_engine sample_settings (new_templar Map.empty) s opt) = Err ''undefined''"
    "snd (templar_template failing_engine sample_settings
        (fst (templar_template failing_engine sample_settings (new_templar Map.empty) s opt)) s opt) = Ok (GStr '''')"
    using sv by (auto simp: templar_template_def direct_value_def render_cached_def Let_def assms(1)
        new_options_def new_templar_def)
qed

section \<open>Witnesses\<close>

definition echo_engine :: engine where
  "echo_engine = failing_engine\<lparr>render := (\<lambda>_ s _. (s, None))\<rparr>"

lemma echo_delims: "default_delims echo_engine"
  by (simp add: default_delims_def echo_engine_def failing_engine_def)

lemma template_cache_transparent_witness:
  "snd (templar_template echo_engine sample_settings
     (fst (templar_template echo_engine sample_settings (new_templar [''x'' \<mapsto> GStr ''y'']) ''{{ x }}''
             (new_options sample_settings))) ''{{ x }}'' (new_options sample_settings)) =
   snd (templar_template echo_engine sample_settings (new_templar [''x'' \<mapsto> GStr ''y'']) ''{{ x }}''
          (new_options sample_settings))"
proof -
  let ?T = "new_templar [''x'' \<mapsto> GStr ''y'']"
  let ?o = "new_options sample_settings"
  have "\<exists>v. snd (templar_template echo_engine sample_settings ?T ''{{ x }}'' ?o) = Ok v"
    by (auto simp: templar_template_def direct_value_def render_cached_def do_template_def Let_def
        echo_engine_def failing_engine_def new_options_def new_templar_def split: option.splits)
  then have "template_step echo_engine sample_settings ?T
      (fst (templar_template echo_engine sample_settings ?T ''{{ x }}'' ?o))"
    unfolding template_step_def by (metis prod.collapse)
  then have r: "reach (\<lambda>T. \<exists>vs. T = new_templar vs) (template_step echo_engine sample_settings)
     (fst (templar_template echo_engine sample_settings ?T ''{{ x }}'' ?o))"
    by (blast intro: reach.intros)
  then show ?thesis
    using template_cache_transparent [OF r, of "''{{ x }}''" ?o] by (simp add: tmpl_simps)
qed

lemma template_vars_entrywise_witness:
  "template_vars_templates (\<lambda>_. [''b'', ''a'']) echo_engine sample_settings [''a'' \<mapsto> GInt 1, ''b'' \<mapsto> GStr ''t''] Map.empty =
     Ok [''a'' \<mapsto> GInt 1, ''b'' \<mapsto> GStr ''t'']"
  by (subst template_vars_entrywise)
     (auto simp: visits_def entry_value_def is_template_def is_possibly_template_def echo_engine_def
        failing_engine_def contains.simps has_prefix_def split: option.splits)

lemma single_variable_typed_witness:
  "templar_template echo_engine sample_settings (new_templar [''n'' \<mapsto> GInt 7]) (variable_text 1 ''n'' 2)
     (new_options sample_settings) = (new_templar [''n'' \<mapsto> GInt 7], Ok (GInt 7))"
  by (rule single_variable_typed [OF echo_delims])
     (simp_all add: word_char_def new_templar_def new_options_def)

end
