(* ===== verification/Playbook.thy ===== *)
theory Playbook
  imports Registries Splitter Templating
begin

text \<open>
  Playbooks: the data of plays and tasks (\<open>playbook/types/data_types.go\<close>), the reading of a
  decoded YAML document (\<open>playbook/parser.go\<close>), and the search for a task's action and
  arguments (\<open>playbook/module_args_resolver.go\<close>).  Reading the file and decoding it into
  \<open>rawPlay\<close>s is \<open>os\<close> and \<open>yaml.v2\<close>; a null entry of the list of plays
  decodes to a nil pointer.
\<close>

named_theorems play_simps \<open>evaluation of the playbook reader\<close>

section \<open>Data\<close>

record action_desc =
  act_name :: string
  act_args :: vars
  delegate_to :: string

text \<open>\<open>loop_items = None\<close> is the nil slice: the loop is a template.\<close>

record loop_desc =
  loop_template :: string
  loop_items :: "gval list option"

record with_desc =
  lookup_plugin_name :: string
  with_loop :: loop_desc

record task =
  task_name :: string
  task_args :: vars
  task_vars :: vars
  unknown_keywords :: vars
  task_action :: "action_desc option"
  task_loop :: "loop_desc option"
  task_with :: "with_desc option"
  when_conditions :: "string list"

record play =
  play_name :: string
  hosts_pattern :: string
  play_vars :: vars
  play_tasks :: "task list"
  strategy_key :: string

type_synonym map_slice = "(gval \<times> gval) list"

record raw_play =
  raw_name :: string
  raw_hosts :: string
  raw_strategy :: string
  raw_tasks :: "map_slice list"
  raw_vars :: map_slice

datatype playbook_error =
    KeyNotString
  | KeywordValue string
  | PlayVars
  | Strategy string
  | MultipleActions
  | NoAction
  | ArgNotString
  | ArgsKeyNotString
  | ActionType string
  | LoopTemplate string
  | LoopNotList
  | LookupError string
  | CondTemplate string
  | CondResult gval
  | ReadFailed
  | YamlError

definition new_task :: task where
  "new_task =
     \<lparr>task_name = [], task_args = Map.empty, task_vars = Map.empty, unknown_keywords = Map.empty,
      task_action = None, task_loop = None, task_with = None, when_conditions = []\<rparr>"

section \<open>Task keywords\<close>

fun raw_args :: "map_slice \<Rightarrow> vars \<Rightarrow> vars option" where
  "raw_args [] args = Some args"
| "raw_args ((k, v) # kvs) args =
     (case as_string k of None \<Rightarrow> None | Some key \<Rightarrow> raw_args kvs (args(key \<mapsto> v)))"

definition parse_raw_args :: "gval \<Rightarrow> vars option" where
  "parse_raw_args value = Option.bind (as_map_slice value) (\<lambda>kvs. raw_args kvs Map.empty)"

text \<open>The two shapes a loop may have.\<close>

fun parse_loop :: "gval \<Rightarrow> loop_desc option" where
  "parse_loop (GStr s) = Some \<lparr>loop_template = trim_space s, loop_items = None\<rparr>"
| "parse_loop (GList vs) = Some \<lparr>loop_template = [], loop_items = Some vs\<rparr>"
| "parse_loop _ = None"

fun parse_conditions :: "gval list \<Rightarrow> string list option" where
  "parse_conditions [] = Some []"
| "parse_conditions (v # vs) =
     (case as_string v of
        None \<Rightarrow> None
      | Some s \<Rightarrow> map_option (\<lambda>cs. trim_space s # cs) (parse_conditions vs))"

fun parse_when :: "gval \<Rightarrow> string list option" where
  "parse_when (GStr s) = Some [trim_space s]"
| "parse_when (GList vs) = parse_conditions vs"
| "parse_when _ = None"

definition parse_task_keyword :: "string \<Rightarrow> gval \<Rightarrow> task \<Rightarrow> (playbook_error, task) outcome" where
  "parse_task_keyword keyword value t =
     (if has_prefix keyword ''with_'' then
        (case parse_loop value of
           None \<Rightarrow> Err (KeywordValue keyword)
         | Some l \<Rightarrow> Ok (t\<lparr>task_with := Some \<lparr>lookup_plugin_name = drop 5 keyword, with_loop = l\<rparr>\<rparr>))
      else if keyword = ''name'' then
        (case as_string value of None \<Rightarrow> Err (KeywordValue keyword) | Some s \<Rightarrow> Ok (t\<lparr>task_name := s\<rparr>))
      else if keyword = ''args'' then
        (case parse_raw_args value of None \<Rightarrow> Err (KeywordValue keyword) | Some a \<Rightarrow> Ok (t\<lparr>task_args := a\<rparr>))
      else if keyword = ''vars'' then
        (case parse_raw_args value of None \<Rightarrow> Err (KeywordValue keyword) | Some a \<Rightarrow> Ok (t\<lparr>task_vars := a\<rparr>))
      else if keyword = ''loop'' then
        (case parse_loop value of None \<Rightarrow> Err (KeywordValue keyword) | Some l \<Rightarrow> Ok (t\<lparr>task_loop := Some l\<rparr>))
      else if keyword = ''when'' then
        (case parse_when value of
           None \<Rightarrow> Err (KeywordValue keyword)
         | Some cs \<Rightarrow> Ok (t\<lparr>when_conditions := when_conditions t @ cs\<rparr>))
      else Ok (t\<lparr>unknown_keywords := (unknown_keywords t)(keyword \<mapsto> value)\<rparr>))"

section \<open>The action of a task\<close>

definition task_keywords :: "string list" where
  "task_keywords =
     [''action'', ''any_errors_fatal'', ''args'', ''async'', ''become'', ''become_exe'',
      ''become_flags'', ''become_method'', ''become_user'', ''changed_when'', ''check_mode'',
      ''collections'', ''connection'', ''debugger'', ''delay'', ''delegate_facts'', ''delegate_to'',
      ''diff'', ''environment'', ''failed_when'', ''ignore_errors'', ''ignore_unreachable'',
      ''local_action'', ''loop'', ''loop_control'', ''module_defaults'', ''name'', ''no_log'',
      ''notify'', ''poll'', ''port'', ''register'', ''remote_user'', ''retries'', ''run_once'',
      ''tags'', ''throttle'', ''timeout'', ''until'', ''vars'', ''when'']"

definition module_require_args :: "string list" where
  "module_require_args =
     [''command'', ''win_command'', ''ansible.windows.win_command'', ''shell'', ''win_shell'',
      ''ansible.windows.win_shell'', ''raw'', ''script'']"

definition is_task_keyword :: "string \<Rightarrow> bool" where
  "is_task_keyword key \<longleftrightarrow> has_prefix key ''with_'' \<or> key \<in> set task_keywords"

definition is_freeform_action :: "string \<Rightarrow> bool" where
  "is_freeform_action action \<longleftrightarrow> action \<in> set module_require_args"

fun new_style_pairs :: "map_slice \<Rightarrow> vars \<Rightarrow> (playbook_error, vars) outcome" where
  "new_style_pairs [] args = Ok args"
| "new_style_pairs ((k, v) # kvs) args =
     (case as_string k of
        None \<Rightarrow> Err ArgsKeyNotString
      | Some key \<Rightarrow> new_style_pairs kvs (if key = ''args'' then args else args(key \<mapsto> v)))"

definition string_pairs :: "pairs option \<Rightarrow> vars" where
  "string_pairs m = (case m of None \<Rightarrow> Map.empty | Some kvs \<Rightarrow> map_option GStr \<circ> map_of kvs)"

fun normalize_new_style_args :: "string \<Rightarrow> gval \<Rightarrow> (playbook_error, vars) outcome" where
  "normalize_new_style_args action (GMapSlice kvs) = new_style_pairs kvs Map.empty"
| "normalize_new_style_args action (GStr s) =
     (case parse_key_value_pairs_string s (is_freeform_action action) of
        Panic \<Rightarrow> Panic
      | Ok m \<Rightarrow> Ok (string_pairs m)
      | Err e \<Rightarrow> Ok (string_pairs None))"
| "normalize_new_style_args action GNil = Ok Map.empty"
| "normalize_new_style_args action _ = Err (ActionType action)"

definition additional_ok :: "visit \<Rightarrow> vars \<Rightarrow> bool" where
  "additional_ok visit args \<longleftrightarrow>
     list_all (\<lambda>k. case args k of Some v \<Rightarrow> as_string v \<noteq> None | None \<Rightarrow> True) (visit args)"

definition normalize_parameters ::
  "visit \<Rightarrow> string \<Rightarrow> gval \<Rightarrow> vars \<Rightarrow> (playbook_error, vars) outcome" where
  "normalize_parameters visit action value additional =
     (if \<not> additional_ok visit additional then Err ArgNotString
      else omap (\<lambda>args. additional ++ args) (normalize_new_style_args action value))"

definition is_action :: "action_registry \<Rightarrow> module_registry \<Rightarrow> string \<Rightarrow> bool" where
  "is_action actions modules k \<longleftrightarrow> find_action k actions \<noteq> None \<or> find_module k modules \<noteq> None"

definition resolve_step ::
  "visit \<Rightarrow> action_registry \<Rightarrow> module_registry \<Rightarrow> task \<Rightarrow> string
   \<Rightarrow> string \<times> vars \<Rightarrow> (playbook_error, string \<times> vars) outcome" where
  "resolve_step visit actions modules t k = (\<lambda>(action, args).
     if is_task_keyword k \<or> \<not> is_action actions modules k then Ok (action, args)
     else if action \<noteq> [] then Err MultipleActions
     else
       omap (\<lambda>args. (k, args))
         (normalize_parameters visit k (case unknown_keywords t k of Some v \<Rightarrow> v | None \<Rightarrow> GNil) (task_args t)))"

definition resolve_module_args ::
  "visit \<Rightarrow> action_registry \<Rightarrow> module_registry \<Rightarrow> task \<Rightarrow> (playbook_error, action_desc) outcome" where
  "resolve_module_args visit actions modules t =
     obind (ofold (resolve_step visit actions modules t) (visit (unknown_keywords t)) ([], Map.empty))
       (\<lambda>(action, args).
          if action = [] then Err NoAction
          else Ok \<lparr>act_name = action, act_args = args, delegate_to = []\<rparr>)"

section \<open>Plays\<close>

fun task_items :: "map_slice \<Rightarrow> task \<Rightarrow> (playbook_error, task) outcome" where
  "task_items [] t = Ok t"
| "task_items ((k, v) # items) t =
     (case as_string k of
        None \<Rightarrow> Err KeyNotString
      | Some keyword \<Rightarrow> obind (parse_task_keyword keyword v t) (task_items items))"

definition parse_raw_task ::
  "visit \<Rightarrow> action_registry \<Rightarrow> module_registry \<Rightarrow> map_slice \<Rightarrow> (playbook_error, task) outcome" where
  "parse_raw_task visit actions modules raw =
     obind (task_items raw new_task) (\<lambda>t.
       omap (\<lambda>a. t\<lparr>task_action := Some a\<rparr>) (resolve_module_args visit actions modules t))"

fun parse_raw_tasks ::
  "visit \<Rightarrow> action_registry \<Rightarrow> module_registry \<Rightarrow> map_slice list \<Rightarrow> (playbook_error, task list) outcome" where
  "parse_raw_tasks visit actions modules [] = Ok []"
| "parse_raw_tasks visit actions modules (raw # raws) =
     obind (parse_raw_task visit actions modules raw) (\<lambda>t.
       omap (\<lambda>ts. t # ts) (parse_raw_tasks visit actions modules raws))"

definition play_strategy :: "settings \<Rightarrow> string \<Rightarrow> string" where
  "play_strategy cfg s = (if trim_space s = [] then default_strategy cfg else trim_space s)"

text \<open>The error of the variables hides an error of the tasks, but not their panic.\<close>

definition parse_raw_play ::
  "visit \<Rightarrow> action_registry \<Rightarrow> module_registry \<Rightarrow> settings \<Rightarrow> raw_play \<Rightarrow> (playbook_error, play) outcome" where
  "parse_raw_play visit actions modules cfg raw =
     (case (parse_raw_tasks visit actions modules (raw_tasks raw), parse_raw_args (GMapSlice (raw_vars raw))) of
        (Panic, _) \<Rightarrow> Panic
      | (_, None) \<Rightarrow> Err PlayVars
      | (Err e, _) \<Rightarrow> Err e
      | (Ok ts, Some vs) \<Rightarrow>
          let strategy = play_strategy cfg (raw_strategy raw)
          in if strategy \<noteq> ''linear'' \<and> strategy \<noteq> ''free'' then Err (Strategy strategy)
             else Ok \<lparr>play_name = trim_space (raw_name raw), hosts_pattern = raw_hosts raw,
                      play_vars = vs, play_tasks = ts, strategy_key = strategy\<rparr>)"

fun parse_raw_plays ::
  "visit \<Rightarrow> action_registry \<Rightarrow> module_registry \<Rightarrow> settings \<Rightarrow> raw_play option list
   \<Rightarrow> (playbook_error, play list) outcome" where
  "parse_raw_plays visit actions modules cfg [] = Ok []"
| "parse_raw_plays visit actions modules cfg (raw # raws) =
     obind (case raw of None \<Rightarrow> Panic | Some r \<Rightarrow> parse_raw_play visit actions modules cfg r) (\<lambda>p.
       omap (\<lambda>ps. p # ps) (parse_raw_plays visit actions modules cfg raws))"

text \<open>The file that could not be read is \<open>None\<close>, the text that is no list of plays \<open>Some None\<close>.\<close>

definition parse_playbook ::
  "visit \<Rightarrow> action_registry \<Rightarrow> module_registry \<Rightarrow> settings \<Rightarrow> raw_play option list option option
   \<Rightarrow> (playbook_error, play list) outcome" where
  "parse_playbook visit actions modules cfg dat =
     (case dat of
        None \<Rightarrow> Err ReadFailed
      | Some None \<Rightarrow> Err YamlError
      | Some (Some raws) \<Rightarrow> parse_raw_plays visit actions modules cfg raws)"

section \<open>Loops and conditions\<close>

text \<open>The lookup plugins, as \<open>lookup.Query\<close> runs them: a name, arguments and variables to a list.\<close>

type_synonym query = "string \<Rightarrow> gval list \<Rightarrow> vars \<Rightarrow> (string, gval list) outcome"

fun map_err :: "('e \<Rightarrow> 'f) \<Rightarrow> ('e, 'a) outcome \<Rightarrow> ('f, 'a) outcome" where
  "map_err f (Ok a) = Ok a"
| "map_err f (Err e) = Err (f e)"
| "map_err f Panic = Panic"

definition has_loop :: "task \<Rightarrow> bool" where
  "has_loop t \<longleftrightarrow> task_loop t \<noteq> None \<or> task_with t \<noteq> None"

definition loop_is_template :: "loop_desc \<Rightarrow> bool" where
  "loop_is_template l \<longleftrightarrow> loop_items l = None"

fun template_loop_items ::
  "engine \<Rightarrow> settings \<Rightarrow> gval list \<Rightarrow> templar \<Rightarrow> (playbook_error, gval list) outcome" where
  "template_loop_items eng cfg [] T = Ok []"
| "template_loop_items eng cfg (item # items) T =
     (case template_entry eng cfg (new_options cfg) T item of
        (T, r) \<Rightarrow> obind (map_err LoopTemplate r) (\<lambda>v.
                   omap (\<lambda>vs. v # vs) (template_loop_items eng cfg items T)))"

definition with_lookup_items ::
  "query \<Rightarrow> engine \<Rightarrow> settings \<Rightarrow> with_desc \<Rightarrow> vars \<Rightarrow> (playbook_error, gval list) outcome" where
  "with_lookup_items query eng cfg w env =
     obind (case loop_items (with_loop w) of
              None \<Rightarrow>
                omap (\<lambda>v. [v]) (map_err LoopTemplate
                  (snd (templar_template eng cfg (new_templar env) (loop_template (with_loop w)) (new_options cfg))))
            | Some items \<Rightarrow> template_loop_items eng cfg items (new_templar env))
       (\<lambda>args. omap (map GExec) (map_err LookupError (query (lookup_plugin_name w) args env)))"

definition get_loop_items ::
  "query \<Rightarrow> engine \<Rightarrow> settings \<Rightarrow> task \<Rightarrow> vars \<Rightarrow> (playbook_error, gval list) outcome" where
  "get_loop_items query eng cfg t env =
     (case task_with t of
        Some w \<Rightarrow> with_lookup_items query eng cfg w env
      | None \<Rightarrow>
          (case task_loop t of
             None \<Rightarrow> Panic
           | Some l \<Rightarrow>
               (case loop_items l of
                  Some items \<Rightarrow> template_loop_items eng cfg items (new_templar env)
                | None \<Rightarrow>
                    obind (map_err LoopTemplate
                      (snd (templar_template eng cfg (new_templar env) (loop_template l) (new_options cfg))))
                      (\<lambda>v. case v of GList vs \<Rightarrow> Ok vs | _ \<Rightarrow> Err LoopNotList))))"

definition wrap_condition :: "string \<Rightarrow> string" where
  "wrap_condition c = (if has_prefix c ''{{'' then c else ''{{ '' @ c @ '' }}'')"

text \<open>The results of the engine are the Python spellings of the truth values.\<close>

fun condition_result :: "gval \<Rightarrow> (playbook_error, bool) outcome" where
  "condition_result (GBool b) = Ok b"
| "condition_result (GStr s) =
     (if s = ''False'' then Ok False else if s \<noteq> ''True'' then Err (CondResult (GStr s)) else Ok True)"
| "condition_result v = Err (CondResult v)"

fun when_loop ::
  "engine \<Rightarrow> settings \<Rightarrow> string list \<Rightarrow> templar \<Rightarrow> (playbook_error, bool) outcome" where
  "when_loop eng cfg [] T = Ok True"
| "when_loop eng cfg (c # cs) T =
     (if \<not> is_template eng (wrap_condition c) then when_loop eng cfg cs T
      else case templar_template eng cfg T (wrap_condition c) (new_options cfg) of
             (T, r) \<Rightarrow>
               obind (obind (map_err CondTemplate r) condition_result)
                 (\<lambda>b. if \<not> b then Ok False else when_loop eng cfg cs T))"

definition when_conditions_satisfied ::
  "engine \<Rightarrow> settings \<Rightarrow> task \<Rightarrow> vars \<Rightarrow> (playbook_error, bool) outcome" where
  "when_conditions_satisfied eng cfg t env = when_loop eng cfg (when_conditions t) (new_templar env)"

section \<open>The action is found, whatever the order of the keywords\<close>

definition action_candidate :: "action_registry \<Rightarrow> module_registry \<Rightarrow> task \<Rightarrow> string \<Rightarrow> bool" where
  "action_candidate actions modules t k \<longleftrightarrow>
     k \<in> dom (unknown_keywords t) \<and> \<not> is_task_keyword k \<and> is_action actions modules k"

lemma ofold_filter:
  assumes "\<And>x s. x \<in> set xs \<Longrightarrow> \<not> P x \<Longrightarrow> f x s = Ok s"
  shows "ofold f xs s = ofold f (filter P xs) s"
  using assms
proof (induction xs arbitrary: s)
  case (Cons x xs)
  then have IH: "ofold f xs s1 = ofold f (filter P xs) s1" for s1 by simp
  show ?case by (cases "P x"; cases "f x s") (simp_all add: IH Cons.prems)
qed simp

lemma resolve_step_skip:
  "\<not> action_candidate actions modules t k \<Longrightarrow> k \<in> dom (unknown_keywords t)
   \<Longrightarrow> resolve_step visit actions modules t k s = Ok s"
  by (cases s) (auto simp: resolve_step_def action_candidate_def)

lemma resolve_step_candidate:
  "action_candidate actions modules t k \<Longrightarrow>
   resolve_step visit actions modules t k (action, args) =
     (if action \<noteq> [] then Err MultipleActions
      else omap (\<lambda>args. (k, args))
             (normalize_parameters visit k (the (unknown_keywords t k)) (task_args t)))"
  by (auto simp: resolve_step_def action_candidate_def)

text \<open>
  C25.  A task's action is found whatever the order in which its keywords are visited: the
  search succeeds exactly when one keyword names a known action or module, and its parameters
  can be read; that keyword is the action.
\<close>

theorem resolve_exact:
  assumes "visits visit (unknown_keywords t)" "\<not> is_action actions modules []"
  shows "resolve_module_args visit actions modules t = Ok a \<longleftrightarrow>
     (\<exists>k v args. Collect (action_candidate actions modules t) = {k} \<and> unknown_keywords t k = Some v \<and>
        normalize_parameters visit k v (task_args t) = Ok args \<and>
        a = \<lparr>act_name = k, act_args = args, delegate_to = []\<rparr>)"
proof -
  define cands where "cands = filter (action_candidate actions modules t) (visit (unknown_keywords t))"
  have dist: "distinct cands" using assms(1) by (simp add: cands_def visits_def)
  have set: "set cands = Collect (action_candidate actions modules t)"
    using assms(1) by (auto simp: cands_def visits_def action_candidate_def)
  have c: "action_candidate actions modules t k" if "k \<in> set cands" for k
    using that set by simp
  then have ne: "k \<noteq> []" if "k \<in> set cands" for k
    using that assms(2) by (auto simp: action_candidate_def)
  have fold: "ofold (resolve_step visit actions modules t) (visit (unknown_keywords t)) ([], Map.empty)
        = ofold (resolve_step visit actions modules t) cands ([], Map.empty)"
    unfolding cands_def using assms(1) by (intro ofold_filter resolve_step_skip) (auto simp: visits_def)
  show ?thesis
  proof (cases cands)
    case Nil
    with fold set show ?thesis by (auto simp: resolve_module_args_def)
  next
    case (Cons k ks)
    have k: "action_candidate actions modules t k" "k \<noteq> []" using c ne Cons by auto
    then obtain v where v: "unknown_keywords t k = Some v" by (auto simp: action_candidate_def)
    show ?thesis
    proof (cases ks)
      case Nil
      with Cons set have s: "Collect (action_candidate actions modules t) = {k}" by auto
      show ?thesis
        using fold Cons Nil k v
        by (cases "normalize_parameters visit k v (task_args t)")
           (auto simp: resolve_module_args_def resolve_step_candidate s)
    next
      case (Cons k' ks')
      then have "k' \<noteq> k" "k \<in> set cands" "k' \<in> set cands"
        using \<open>cands = k # ks\<close> dist by auto
      then have "set cands \<noteq> {j}" for j by (metis singletonD)
      then have two: "Collect (action_candidate actions modules t) \<noteq> {j}" for j
        unfolding set .
      have "action_candidate actions modules t k'" using c \<open>k' \<in> set cands\<close> by simp
      then have "ofold (resolve_step visit actions modules t) cands ([], Map.empty) \<noteq> Ok r" for r
        using k v \<open>cands = k # ks\<close> Cons
        by (cases "normalize_parameters visit k v (task_args t)") (simp_all add: resolve_step_candidate)
      then show ?thesis using fold two by (simp add: resolve_module_args_def)
    qed
  qed
qed

section \<open>What a parsed playbook satisfies\<close>

definition task_ok :: "action_registry \<Rightarrow> module_registry \<Rightarrow> task \<Rightarrow> bool" where
  "task_ok actions modules t \<longleftrightarrow>
     (case task_action t of
        None \<Rightarrow> False
      | Some a \<Rightarrow> act_name a \<noteq> [] \<and> is_action actions modules (act_name a) \<and> \<not> is_task_keyword (act_name a))"

definition play_ok :: "action_registry \<Rightarrow> module_registry \<Rightarrow> play \<Rightarrow> bool" where
  "play_ok actions modules p \<longleftrightarrow>
     strategy_key p \<in> {''linear'', ''free''} \<and> list_all (task_ok actions modules) (play_tasks p)"

lemma resolved_action:
  assumes "resolve_module_args visit actions modules t = Ok a"
  shows "act_name a \<noteq> [] \<and> is_action actions modules (act_name a) \<and> \<not> is_task_keyword (act_name a)"
proof -
  obtain s where s: "ofold (resolve_step visit actions modules t) (visit (unknown_keywords t)) ([], Map.empty) = Ok s"
    "fst s \<noteq> []" "act_name a = fst s"
    using assms by (auto simp: resolve_module_args_def split: if_splits)
  have "fst s = [] \<or> is_action actions modules (fst s) \<and> \<not> is_task_keyword (fst s)"
    by (rule ofold_invariant [OF _ _ s(1), where P = "\<lambda>s. fst s = [] \<or>
          is_action actions modules (fst s) \<and> \<not> is_task_keyword (fst s)"])
       (auto simp: resolve_step_def split: if_splits)
  with s show ?thesis by simp
qed

lemma parsed_task: "parse_raw_task visit actions modules raw = Ok t \<Longrightarrow> task_ok actions modules t"
  using resolved_action by (fastforce simp: parse_raw_task_def task_ok_def)

lemma parsed_tasks: "parse_raw_tasks visit actions modules raws = Ok ts \<Longrightarrow> list_all (task_ok actions modules) ts"
  by (induction raws arbitrary: ts) (auto intro: parsed_task)

lemma parsed_play: "parse_raw_play visit actions modules cfg raw = Ok p \<Longrightarrow> play_ok actions modules p"
  using parsed_tasks
  by (fastforce simp: parse_raw_play_def play_ok_def Let_def split: outcome.splits option.splits if_splits)

lemma parsed_plays:
  "parse_raw_plays visit actions modules cfg raws = Ok ps \<Longrightarrow> list_all (play_ok actions modules) ps"
  by (induction raws arbitrary: ps) (auto intro: parsed_play split: option.splits)

text \<open>
  In a playbook that was read, every play has the strategy linear or free, and every
  task has an action, named by a registered action or module and by no keyword of tasks.
\<close>

theorem parsed_playbook_ok:
  assumes "parse_playbook visit actions modules cfg dat = Ok ps"
  shows "list_all (play_ok actions modules) ps"
  using assms parsed_plays by (auto simp: parse_playbook_def split: option.splits)

section \<open>Loop items and conditions\<close>

lemma template_loop_items_iff:
  assumes "cache_ok eng T"
  shows "template_loop_items eng cfg items T = Ok vs \<longleftrightarrow>
     list_all2 (\<lambda>item v. entry_value eng cfg (available_variables T) item = Ok v) items vs"
  using assms
proof (induction items arbitrary: T vs)
  case (Cons item items)
  obtain T' r where e: "template_entry eng cfg (new_options cfg) T item = (T', r)" by fastforce
  note tv = template_entry_value [OF Cons.prems e]
  show ?case
  proof (cases r)
    case (Ok w)
    from Cons.IH [OF tv(3) [OF Ok]] tv(2) show ?thesis
      using e Ok tv(1) by (cases vs) auto
  qed (use e tv(1) in \<open>auto simp: list_all2_Cons1\<close>)
qed auto

text \<open>
  The items of a literal loop are its elements, in order, each rendered by itself; the
  loop fails exactly when one of them does not render.
\<close>

theorem loop_items_entrywise:
  assumes "task_with t = None" "task_loop t = Some l" "loop_items l = Some items"
  shows "get_loop_items query eng cfg t env = Ok vs \<longleftrightarrow>
     list_all2 (\<lambda>item v. entry_value eng cfg env item = Ok v) items vs"
  using assms template_loop_items_iff [OF cache_ok_new [of eng env]]
  by (simp add: get_loop_items_def tmpl_simps)

text \<open>The value of one condition, by itself.\<close>

definition condition_value ::
  "engine \<Rightarrow> settings \<Rightarrow> vars \<Rightarrow> string \<Rightarrow> (playbook_error, bool) outcome" where
  "condition_value eng cfg env c =
     (if \<not> is_template eng (wrap_condition c) then Ok True
      else obind (map_err CondTemplate (rendered eng cfg env (wrap_condition c) (new_options cfg)))
             condition_result)"

fun conj_outcome :: "('e, bool) outcome list \<Rightarrow> ('e, bool) outcome" where
  "conj_outcome [] = Ok True"
| "conj_outcome (r # rs) = obind r (\<lambda>b. if \<not> b then Ok False else conj_outcome rs)"

lemma when_loop_conj:
  assumes "cache_ok eng T" "available_variables T = env"
  shows "when_loop eng cfg cs T = conj_outcome (map (condition_value eng cfg env) cs)"
  using assms
proof (induction cs arbitrary: T)
  case (Cons c cs)
  show ?case
  proof (cases "is_template eng (wrap_condition c)")
    case False
    with Cons show ?thesis by (simp add: condition_value_def)
  next
    case True
    obtain T' r where e: "templar_template eng cfg T (wrap_condition c) (new_options cfg) = (T', r)" by fastforce
    then have r: "r = rendered eng cfg env (wrap_condition c) (new_options cfg)"
      using templar_template_value [OF Cons.prems(1), of cfg "wrap_condition c" "new_options cfg"] Cons.prems(2) by simp
    have av: "available_variables T' = env"
      using templar_template_vars [of eng cfg T] e Cons.prems(2) by (metis fst_conv)
    have cv: "condition_value eng cfg env c = obind (map_err CondTemplate r) condition_result"
      using True r by (simp add: condition_value_def)
    show ?thesis
    proof (cases r)
      case (Ok w)
      then have "cache_ok eng T'"
        using templar_template_ok [OF Cons.prems(1)] e by (metis fst_conv snd_conv)
      from Cons.IH [OF this av] show ?thesis
        using True e Ok cv by (cases "condition_result w") simp_all
    qed (use True e cv in simp_all)
  qed
qed simp

lemma conj_outcome_True: "conj_outcome rs = Ok True \<longleftrightarrow> list_all (\<lambda>r. r = Ok True) rs"
  by (induction rs) auto

lemma conj_outcome_False:
  "conj_outcome rs = Ok False \<longleftrightarrow> (\<exists>i < length rs. rs ! i = Ok False \<and> (\<forall>j < i. rs ! j = Ok True))"
proof (induction rs)
  case (Cons r rs)
  have "(\<exists>i < length (r # rs). (r # rs) ! i = Ok False \<and> (\<forall>j < i. (r # rs) ! j = Ok True)) \<longleftrightarrow>
        r = Ok False \<or> r = Ok True \<and> (\<exists>i < length rs. rs ! i = Ok False \<and> (\<forall>j < i. rs ! j = Ok True))"
    by (auto simp: Ex_less_Suc2 All_less_Suc2)
  with Cons show ?case by (cases r) auto
qed simp

text \<open>
  C27.  The conditions of a task are a conjunction evaluated from the left: it is true exactly
  when every condition is true by itself, and false exactly when some condition is false and
  all before it are true, whatever later ones would have failed with.
\<close>

theorem when_is_conjunction:
  "(when_conditions_satisfied eng cfg t env = Ok True \<longleftrightarrow>
      list_all (\<lambda>c. condition_value eng cfg env c = Ok True) (when_conditions t)) \<and>
   (when_conditions_satisfied eng cfg t env = Ok False \<longleftrightarrow>
      (\<exists>i < length (when_conditions t). condition_value eng cfg env (when_conditions t ! i) = Ok False \<and>
         list_all (\<lambda>c. condition_value eng cfg env c = Ok True) (take i (when_conditions t))))"
proof -
  have first: "list_all (\<lambda>c. f c = Ok True) (take i cs) \<longleftrightarrow> (\<forall>j < i. f (cs ! j) = Ok True)"
    if "i < length cs" for i cs and f :: "string \<Rightarrow> (playbook_error, bool) outcome"
    using that by (auto simp: list_all_length)
  have w: "when_conditions_satisfied eng cfg t env =
      conj_outcome (map (condition_value eng cfg env) (when_conditions t))"
    unfolding when_conditions_satisfied_def by (rule when_loop_conj) (simp_all add: tmpl_simps)
  have "(\<exists>i < length cs. f (cs ! i) = Ok False \<and> (\<forall>j < i. map f cs ! j = Ok True)) \<longleftrightarrow>
      (\<exists>i < length cs. f (cs ! i) = Ok False \<and> (\<forall>j < i. f (cs ! j) = Ok True))"
    for cs and f :: "string \<Rightarrow> (playbook_error, bool) outcome"
    by (metis less_trans nth_map)
  then show ?thesis
    by (simp add: w conj_outcome_True conj_outcome_False list.pred_map comp_def first cong: conj_cong)
qed

section \<open>Witnesses and limits\<close>

definition sample_modules :: module_registry where
  "sample_modules = [''command'' \<mapsto> CommandNew]"

definition sample_task :: task where
  "sample_task = new_task\<lparr>unknown_keywords := [''become'' \<mapsto> GBool True, ''command'' \<mapsto> GNil],
     when_conditions := [''a'', ''b'']\<rparr>"

definition sample_names :: "string list" where
  "sample_names = [''become'', ''command'', ''msg'']"

lemma sample_candidates:
  "Collect (action_candidate Map.empty sample_modules sample_task) = {''command''}"
  by (auto simp: action_candidate_def sample_task_def new_task_def is_task_keyword_def has_prefix_def
      task_keywords_def is_action_def find_action_def find_module_def sample_modules_def)

lemma resolve_exact_witness:
  "resolve_module_args (list_visit sample_names) Map.empty sample_modules sample_task =
     Ok \<lparr>act_name = ''command'', act_args = Map.empty, delegate_to = []\<rparr>"
proof -
  have v: "visits (list_visit sample_names) (unknown_keywords sample_task)"
    by (rule visits_list_visit) (auto simp: sample_names_def sample_task_def)
  have n: "\<not> is_action Map.empty sample_modules []"
    by (simp add: is_action_def find_action_def find_module_def sample_modules_def)
  have "normalize_parameters (list_visit sample_names) ''command'' GNil (task_args sample_task) = Ok Map.empty"
    by (simp add: normalize_parameters_def additional_ok_def list_visit_def sample_task_def new_task_def)
  with sample_candidates show ?thesis
    by (subst resolve_exact [OF v n]) (auto simp: sample_task_def)
qed

definition sample_raw :: raw_play where
  "sample_raw =
     \<lparr>raw_name = '' web '', raw_hosts = ''all'', raw_strategy = [],
      raw_tasks = [[(GStr ''name'', GStr ''list''), (GStr ''command'', GNil)]], raw_vars = []\<rparr>"

lemma parsed_playbook_ok_witness:
  "\<exists>ps. parse_playbook (list_visit sample_names) Map.empty sample_modules sample_settings
          (Some (Some [Some sample_raw])) = Ok ps \<and> length ps = 1 \<and>
        list_all (play_ok Map.empty sample_modules) ps"
proof -
  have "(case parse_playbook (list_visit sample_names) Map.empty sample_modules sample_settings
          (Some (Some [Some sample_raw])) of Ok ps \<Rightarrow> length ps = 1 | _ \<Rightarrow> False)"
    by code_simp
  then obtain ps where ps: "parse_playbook (list_visit sample_names) Map.empty sample_modules sample_settings
          (Some (Some [Some sample_raw])) = Ok ps" "length ps = 1"
    by (auto split: outcome.splits)
  from ps parsed_playbook_ok [OF ps(1)] show ?thesis by blast
qed

lemma loop_items_entrywise_witness:
  "get_loop_items (\<lambda>_ _ _. Err []) echo_engine sample_settings
     (sample_task\<lparr>task_loop := Some \<lparr>loop_template = [], loop_items = Some [GInt 1, GStr ''x'']\<rparr>\<rparr>) Map.empty =
   Ok [GInt 1, GStr ''x'']"
proof -
  have "\<not> is_template echo_engine ''x''"
    by (simp add: is_template_def is_possibly_template_def echo_engine_def failing_engine_def
        contains.simps has_prefix_def)
  then show ?thesis
    by (subst loop_items_entrywise) (auto simp: sample_task_def new_task_def entry_value_def)
qed

text \<open>
  With the default registries no keyword of the family of \<open>meta\<close> is an action, so a
  meta task is rejected by the reader, before the code for meta tasks could see it.
\<close>

lemma meta_task_rejected:
  "resolve_module_args (list_visit [''meta'']) (register_default_actions Map.empty)
     (default_modules_register_python (default_modules_register new_registry))
     (new_task\<lparr>unknown_keywords := [''meta'' \<mapsto> GStr ''noop'']\<rparr>) = Err NoAction"
  (is "?r = _")
proof -
  have "(case ?r of Err NoAction \<Rightarrow> True | _ \<Rightarrow> False)" by code_simp
  then show ?thesis by (simp split: outcome.splits playbook_error.splits)
qed

lemma null_play_panics:
  "parse_playbook visit actions modules cfg (Some (Some [None])) = Panic"
  by (simp add: parse_playbook_def)

end
