(* ===== verification/Vars_Manager.thy ===== *)
theory Vars_Manager
  imports Inventory_Yaml Playbook "HOL-Library.List_Lexorder" "HOL-Library.Char_ord"
begin

text \<open>
  The variables of a host at a task (\<open>vars/manager.go\<close>,
  \<open>constants/magic_variable_mapping.go\<close>).  A host pointer is the host's name in the
  inventory.  A map that is never made is \<open>None\<close>: reading it finds nothing and writing it
  panics.  Every operation runs under the manager's lock, so each is one step.
\<close>

named_theorems vars_simps \<open>evaluation of the variable manager\<close>

section \<open>Data\<close>

type_synonym host_store = "string \<rightharpoonup> vars"

record vars_manager =
  m_extra :: vars
  m_inventory :: inventory
  m_host_vars :: "host_store option"
  m_host_facts :: "host_store option"
  m_np_facts :: "host_store option"
  m_loop_vars :: host_store

datatype vars_error = PrependAt string | RenderFailed string

definition new_manager :: "inventory \<Rightarrow> vars_manager" where
  "new_manager inven =
     \<lparr>m_extra = Map.empty, m_inventory = inven, m_host_vars = None, m_host_facts = None,
      m_np_facts = None, m_loop_vars = Map.empty\<rparr>"

text \<open>\<open>once.Do\<close>: the first inventory stays.\<close>

definition make_manager :: "vars_manager option \<Rightarrow> inventory \<Rightarrow> vars_manager" where
  "make_manager singleton inven = (case singleton of Some m \<Rightarrow> m | None \<Rightarrow> new_manager inven)"

definition combine_vars :: "vars \<Rightarrow> vars \<Rightarrow> vars" where
  "combine_vars a b = (\<lambda>k. case b k of Some v \<Rightarrow> Some v | None \<Rightarrow> a k)"

section \<open>Operations on the stores\<close>

fun set_extra_vars :: "string list \<Rightarrow> vars_manager \<Rightarrow> vars_manager \<times> (vars_error, unit) outcome" where
  "set_extra_vars [] m = (m, Ok ())"
| "set_extra_vars ([] # evs) m = set_extra_vars evs m"
| "set_extra_vars ((c # s) # evs) m =
     (if c = CHR ''@'' then set_extra_vars evs m
      else if c = CHR ''.'' \<or> c = CHR ''/'' then (m, Err (PrependAt (c # s)))
      else if c = CHR ''['' \<or> c = CHR ''{'' then set_extra_vars evs m
      else
        case parse_key_value_pairs_string (c # s) False of
          Panic \<Rightarrow> (m, Panic)
        | Ok (Some kvs) \<Rightarrow>
            set_extra_vars evs (m\<lparr>m_extra := combine_vars (m_extra m) (string_pairs (Some kvs))\<rparr>)
        | _ \<Rightarrow> set_extra_vars evs (m\<lparr>m_extra := combine_vars (m_extra m) (string_pairs None)\<rparr>))"

definition store_get :: "host_store option \<Rightarrow> string \<Rightarrow> vars option" where
  "store_get st h = Option.bind st (\<lambda>f. f h)"

definition store_write :: "host_store option \<Rightarrow> string \<Rightarrow> vars \<Rightarrow> ('e, host_store option) outcome" where
  "store_write st h facts =
     (case st of
        None \<Rightarrow> Panic
      | Some f \<Rightarrow> Ok (Some (f(h \<mapsto> combine_vars (case f h of Some vs \<Rightarrow> vs | None \<Rightarrow> Map.empty) facts))))"

definition delete_host_facts :: "string \<Rightarrow> vars_manager \<Rightarrow> vars_manager" where
  "delete_host_facts h m = m\<lparr>m_host_facts := map_option (\<lambda>f. f(h := None)) (m_host_facts m)\<rparr>"

definition set_host_facts :: "string \<Rightarrow> vars \<Rightarrow> vars_manager \<Rightarrow> ('e, vars_manager) outcome" where
  "set_host_facts h facts m =
     omap (\<lambda>st. m\<lparr>m_host_facts := st\<rparr>) (store_write (m_host_facts m) h facts)"

definition set_host_np_facts :: "string \<Rightarrow> vars \<Rightarrow> vars_manager \<Rightarrow> ('e, vars_manager) outcome" where
  "set_host_np_facts h facts m =
     omap (\<lambda>st. m\<lparr>m_np_facts := st\<rparr>) (store_write (m_np_facts m) h facts)"

definition set_host_vars :: "string \<Rightarrow> vars \<Rightarrow> vars_manager \<Rightarrow> ('e, vars_manager) outcome" where
  "set_host_vars h facts m =
     omap (\<lambda>st. m\<lparr>m_host_vars := st\<rparr>) (store_write (m_host_vars m) h facts)"

text \<open>\<open>facts = None\<close> is the nil map.\<close>

definition save_facts :: "string \<Rightarrow> vars option \<Rightarrow> string \<Rightarrow> vars_manager \<Rightarrow> ('e, vars_manager) outcome" where
  "save_facts bucket facts h m =
     (case facts of
        None \<Rightarrow> Ok m
      | Some fs \<Rightarrow>
          if bucket = [] \<or> bucket = ''ansible_facts'' then set_host_facts h fs m
          else if bucket = ''np_ansible_facts'' then set_host_np_facts h fs m
          else if bucket = ''host_vars'' then set_host_vars h fs m
          else Ok m)"

definition reset_loop_context :: "string \<Rightarrow> vars_manager \<Rightarrow> vars_manager" where
  "reset_loop_context h m = m\<lparr>m_loop_vars := (m_loop_vars m)(h \<mapsto> Map.empty)\<rparr>"

definition set_loop_item :: "gval \<Rightarrow> string \<Rightarrow> vars_manager \<Rightarrow> ('e, vars_manager) outcome" where
  "set_loop_item item h m =
     (case m_loop_vars m h of
        None \<Rightarrow> Panic
      | Some vs \<Rightarrow> Ok (m\<lparr>m_loop_vars := (m_loop_vars m)(h \<mapsto> vs(''item'' \<mapsto> item))\<rparr>))"

section \<open>Magic variables\<close>

definition magic_mapping :: "(string \<times> string list) list" where
  "magic_mapping =
     [(''connection'', [''ansible_connection'']),
      (''module_compression'', [''ansible_module_compression'']),
      (''shell'', [''ansible_shell_type'']),
      (''executable'', [''ansible_shell_executable'']),
      (''remote_addr'', [''ansible_ssh_host'', ''ansible_host'']),
      (''remote_user'', [''ansible_ssh_user'', ''ansible_user'']),
      (''password'', [''ansible_ssh_pass'', ''ansible_password'']),
      (''port'', [''ansible_ssh_port'', ''ansible_port'']),
      (''pipelining'', [''ansible_ssh_pipelining'', ''ansible_pipelining'']),
      (''timeout'', [''ansible_ssh_timeout'', ''ansible_timeout'']),
      (''private_key_file'', [''ansible_ssh_private_key_file'', ''ansible_private_key_file'']),
      (''network_os'', [''ansible_network_os'']),
      (''connection_user'', [''ansible_connection_user'']),
      (''ssh_executable'', [''ansible_ssh_executable'']),
      (''ssh_common_args'', [''ansible_ssh_common_args'']),
      (''sftp_extra_args'', [''ansible_sftp_extra_args'']),
      (''scp_extra_args'', [''ansible_scp_extra_args'']),
      (''ssh_extra_args'', [''ansible_ssh_extra_args'']),
      (''ssh_transfer_method'', [''ansible_ssh_transfer_method'']),
      (''docker_extra_args'', [''ansible_docker_extra_args'']),
      (''become'', [''ansible_become'']),
      (''become_method'', [''ansible_become_method'']),
      (''become_user'', [''ansible_become_user'']),
      (''become_pass'', [''ansible_become_password'', ''ansible_become_pass'']),
      (''become_exe'', [''ansible_become_exe'']),
      (''become_flags'', [''ansible_become_flags''])]"

definition magic_variable_mapped_names :: "string \<Rightarrow> string list" where
  "magic_variable_mapped_names key = (case map_of magic_mapping key of Some ns \<Rightarrow> ns | None \<Rightarrow> [])"

definition set_magic_vars :: "vars \<Rightarrow> vars" where
  "set_magic_vars src attr =
     fold (\<lambda>name r. case src name of Some v \<Rightarrow> Some v | None \<Rightarrow> r) (magic_variable_mapped_names attr) None"

section \<open>The variables of a host at a task\<close>

text \<open>The sort of \<open>groupVars\<close> is in place: it reorders the groups of the shared host.\<close>

definition sort_host_groups :: "string \<Rightarrow> vars_manager \<Rightarrow> vars_manager" where
  "sort_host_groups h m =
     m\<lparr>m_inventory := upd_host h (\<lambda>x. x\<lparr>host_groups := sort (host_groups x)\<rparr>) (m_inventory m)\<rparr>"

definition no_vars_entries :: "string list" where
  "no_vars_entries =
     [''all_plugins_inventory'', ''all_plugins_play'', ''groups_plugins_inventory'',
      ''groups_plugins_play'', ''plugins_by_groups'']"

text \<open>\<open>None\<close>: the configuration names no known entry.\<close>

definition precedence_entry :: "inventory \<Rightarrow> string \<Rightarrow> string \<Rightarrow> (vars_error, vars) outcome option" where
  "precedence_entry inven h entry =
     (if entry = ''all_inventory'' then
        Some (case find (\<lambda>(_, g). group_name g = ''all'') (inv_groups inven) of
                None \<Rightarrow> Panic
              | Some (_, g) \<Rightarrow> Ok (group_vars g))
      else if entry = ''groups_inventory'' then
        Some (Ok (fold (\<lambda>g vs. combine_vars vs (group_vars (get_group inven g)))
                    (host_groups (get_host inven h)) Map.empty))
      else if entry \<in> set no_vars_entries then Some (Ok Map.empty)
      else None)"

definition group_layer :: "settings \<Rightarrow> inventory \<Rightarrow> string \<Rightarrow> vars \<Rightarrow> (vars_error, vars) outcome" where
  "group_layer cfg inven h all =
     ofold (\<lambda>entry all.
              case precedence_entry inven h entry of
                None \<Rightarrow> Ok all
              | Some r \<Rightarrow> omap (combine_vars all) r)
       (variable_precedence cfg) all"

definition host_fact_layer :: "settings \<Rightarrow> vars_manager \<Rightarrow> string \<Rightarrow> vars" where
  "host_fact_layer cfg m h =
     (case store_get (m_host_facts m) h of
        None \<Rightarrow> Map.empty
      | Some facts \<Rightarrow>
          if inject_facts_as_vars cfg then facts
          else [''ansible_local'' \<mapsto> (case facts ''ansible_local'' of Some v \<Rightarrow> v | None \<Rightarrow> GMap [])])"

definition rendered_layer ::
  "visit \<Rightarrow> engine \<Rightarrow> settings \<Rightarrow> vars option \<Rightarrow> vars \<Rightarrow> (vars_error, vars) outcome" where
  "rendered_layer visit eng cfg templates all =
     (case templates of
        None \<Rightarrow> Ok Map.empty
      | Some ts \<Rightarrow> map_err RenderFailed (template_vars_templates visit eng cfg ts all))"

definition opt_vars :: "vars option \<Rightarrow> vars" where
  "opt_vars vs = (case vs of Some v \<Rightarrow> v | None \<Rightarrow> Map.empty)"

text \<open>The layers below the play: groups, the host, its facts, and the extra variables.\<close>

definition host_layers :: "settings \<Rightarrow> vars_manager \<Rightarrow> string option \<Rightarrow> (vars_error, vars) outcome" where
  "host_layers cfg m host =
     omap (\<lambda>all. combine_vars all (m_extra m))
       (case host of
          None \<Rightarrow> Ok Map.empty
        | Some h \<Rightarrow>
            omap (\<lambda>all. combine_vars (combine_vars all (host_vars (get_host (m_inventory m) h)))
                          (host_fact_layer cfg m h))
              (group_layer cfg (m_inventory m) h Map.empty))"

text \<open>The layers above the task: included variables, set facts, extra and magic variables, the loop.\<close>

definition top_layers :: "vars_manager \<Rightarrow> string option \<Rightarrow> vars \<Rightarrow> vars" where
  "top_layers m host all =
     (let all = (case host of
                   None \<Rightarrow> all
                 | Some h \<Rightarrow> combine_vars (combine_vars all (opt_vars (store_get (m_host_vars m) h)))
                              (opt_vars (store_get (m_np_facts m) h)));
          all = combine_vars all (m_extra m);
          all = combine_vars all (set_magic_vars all)
      in case host of
           None \<Rightarrow> all
         | Some h \<Rightarrow> combine_vars all (opt_vars (m_loop_vars m h)))"

definition get_vars ::
  "visit \<Rightarrow> engine \<Rightarrow> settings \<Rightarrow> play option \<Rightarrow> string option \<Rightarrow> task option \<Rightarrow> vars_manager
   \<Rightarrow> vars_manager \<times> (vars_error, vars) outcome" where
  "get_vars visit eng cfg pl host t m0 =
     (let m = (case host of None \<Rightarrow> m0 | Some h \<Rightarrow> sort_host_groups h m0) in
      (m,
       obind (host_layers cfg m host) (\<lambda>all.
       obind (omap (\<lambda>r. combine_vars (combine_vars all r) (m_extra m))
                (rendered_layer visit eng cfg (map_option play_vars pl) all)) (\<lambda>all.
       omap (\<lambda>r. top_layers m host (combine_vars all r))
         (rendered_layer visit eng cfg (map_option task_vars t) all)))))"

section \<open>Layers\<close>

interpretation combine: overlay combine_vars
  by unfold_locales (simp add: combine_vars_def)

text \<open>The value that the first layer defining a name gives it.\<close>

fun first_some :: "vars list \<Rightarrow> vars" where
  "first_some [] k = None"
| "first_some (l # ls) k = (case l k of Some v \<Rightarrow> Some v | None \<Rightarrow> first_some ls k)"

lemma combine_first [vars_simps]: "combine_vars (first_some ls) b = first_some (b # ls)"
  by (rule ext) (simp add: combine_vars_def)

lemma combine_base: "combine_vars a b = first_some [b, a]"
  by (rule ext) (simp add: combine_vars_def split: option.splits)

lemma first_some_append: "first_some (as @ bs) k = (case first_some as k of Some v \<Rightarrow> Some v | None \<Rightarrow> first_some bs k)"
  by (induction as) (auto split: option.splits)

lemma first_some_in: "first_some ls k = Some v \<Longrightarrow> \<exists>l \<in> set ls. l k = Some v"
  by (induction ls) (auto split: option.splits)

lemma absorb_lower: "first_some (e # xs @ e # ys) = first_some (e # xs @ ys)"
  by (rule ext) (auto simp: first_some_append split: option.splits)

lemma precedence_layers:
  assumes "get_vars visit eng cfg pl (Some h) t m0 = (m, Ok all)"
  shows "\<exists>groups play_layer task_layer.
    group_layer cfg (m_inventory m) h Map.empty = Ok groups \<and>
    rendered_layer visit eng cfg (map_option play_vars pl)
      (first_some [m_extra m, host_fact_layer cfg m h, host_vars (get_host (m_inventory m) h), groups])
      = Ok play_layer \<and>
    rendered_layer visit eng cfg (map_option task_vars t)
      (first_some [m_extra m, play_layer, host_fact_layer cfg m h,
                   host_vars (get_host (m_inventory m) h), groups])
      = Ok task_layer \<and>
    (let layers = [m_extra m, opt_vars (store_get (m_np_facts m) h), opt_vars (store_get (m_host_vars m) h),
                   task_layer, play_layer, host_fact_layer cfg m h,
                   host_vars (get_host (m_inventory m) h), groups]
     in all = first_some ([opt_vars (m_loop_vars m h), set_magic_vars (first_some layers)] @ layers))"
proof -
  define hv hf ex where "hv = host_vars (get_host (m_inventory m) h)" and "hf = host_fact_layer cfg m h"
    and "ex = m_extra m"
  have m: "m = sort_host_groups h m0" using assms by (simp add: get_vars_def Let_def)
  note chain = assms [unfolded get_vars_def Let_def option.case m [symmetric] prod.inject, THEN conjunct2]
  obtain groups where g: "group_layer cfg (m_inventory m) h Map.empty = Ok groups"
    using chain by (auto simp: host_layers_def)
  have h1: "host_layers cfg m (Some h) = Ok (first_some [ex, hf, hv, groups])"
    using g by (simp add: host_layers_def combine_base [of groups] combine_first hv_def hf_def ex_def)
  obtain pr where p: "rendered_layer visit eng cfg (map_option play_vars pl) (first_some [ex, hf, hv, groups]) = Ok pr"
    using chain h1 by auto
  have e1: "first_some [ex, pr, ex, hf, hv, groups] = first_some [ex, pr, hf, hv, groups]"
    using absorb_lower [of ex "[pr]"] by simp
  obtain tr where t: "rendered_layer visit eng cfg (map_option task_vars t) (first_some [ex, pr, hf, hv, groups]) = Ok tr"
    and all: "all = top_layers m (Some h) (first_some [tr, ex, pr, hf, hv, groups])"
    using chain h1 p by (auto simp: combine_first e1 ex_def [symmetric])
  define np iv where "np = opt_vars (store_get (m_np_facts m) h)" and "iv = opt_vars (store_get (m_host_vars m) h)"
  have e2: "first_some [ex, np, iv, tr, ex, pr, hf, hv, groups] = first_some [ex, np, iv, tr, pr, hf, hv, groups]"
    using absorb_lower [of ex "[np, iv, tr]"] by simp
  have "all = first_some ([opt_vars (m_loop_vars m h), set_magic_vars (first_some [ex, np, iv, tr, pr, hf, hv, groups])]
      @ [ex, np, iv, tr, pr, hf, hv, groups])"
    by (simp add: all top_layers_def Let_def combine_first np_def [symmetric] iv_def [symmetric] ex_def [symmetric] e2)
  then show ?thesis
    using g p t unfolding Let_def hv_def [symmetric] hf_def [symmetric] ex_def [symmetric]
      np_def [symmetric] iv_def [symmetric] by blast
qed

lemma variable_precedence_loop:
  assumes "get_vars visit eng cfg pl (Some h) t m0 = (m, Ok all)"
  shows "\<exists>ls. all = first_some (opt_vars (m_loop_vars m h) # ls)"
  using precedence_layers [OF assms] unfolding Let_def append_Cons by blast

text \<open>
  C8.  The precedence of variables.  Whenever the variables of a host at a task are returned,
  each name has the value of the highest layer that defines it: the loop, the magic variables,
  the extra variables, set facts, included variables, task variables, play variables, facts,
  the host's inventory variables, and its groups.  Play and task variables are rendered in the
  environment of the layers below them with the extra variables on top, and the magic variables
  are read off everything below the loop.
\<close>

theorem variable_precedence_order:
  assumes "get_vars visit eng cfg pl (Some h) t m0 = (m, Ok all)"
  shows "\<exists>groups play_layer task_layer.
    group_layer cfg (m_inventory m) h Map.empty = Ok groups \<and>
    rendered_layer visit eng cfg (map_option play_vars pl)
      (first_some [m_extra m, host_fact_layer cfg m h, host_vars (get_host (m_inventory m) h), groups])
      = Ok play_layer \<and>
    rendered_layer visit eng cfg (map_option task_vars t)
      (first_some [m_extra m, play_layer, host_fact_layer cfg m h,
                   host_vars (get_host (m_inventory m) h), groups])
      = Ok task_layer \<and>
    (let layers = [m_extra m, opt_vars (store_get (m_np_facts m) h), opt_vars (store_get (m_host_vars m) h),
                   task_layer, play_layer, host_fact_layer cfg m h,
                   host_vars (get_host (m_inventory m) h), groups]
     in all = first_some ([opt_vars (m_loop_vars m h), set_magic_vars (first_some layers)] @ layers))"
  using assms by (rule precedence_layers)

section \<open>Groups\<close>

lemma find_map_option: "find P (map f xs) = map_option f (find (\<lambda>x. P (f x)) xs)"
  by (induction xs) auto

lemma get_host_sorted [vars_simps]:
  "host_groups (get_host (m_inventory (sort_host_groups h m)) h) = sort (host_groups (get_host (m_inventory m) h))"
  by (cases "map_of (inv_hosts (m_inventory m)) h")
     (auto simp: sort_host_groups_def upd_host_def get_host_def map_of_amap new_host_def)

lemma sorted_inventory [vars_simps]:
  "get_group (m_inventory (sort_host_groups h m)) g = get_group (m_inventory m) g"
  "inv_groups (m_inventory (sort_host_groups h m)) = inv_groups (m_inventory m)"
  by (simp_all add: sort_host_groups_def upd_host_def get_group_def)

lemma findP: "find P xs = Some x \<Longrightarrow> P x"
  by (induction xs) (auto split: if_splits)

lemma group_fold:
  "fold (\<lambda>g vs. combine_vars vs (f g)) gs base k =
     (case find (\<lambda>g. f g k \<noteq> None) (rev gs) of Some g \<Rightarrow> f g k | None \<Rightarrow> base k)"
  using combine.merge_fold_last [of "map f gs" base k]
  by (simp add: fold_map comp_def find_map_option rev_map split: option.splits)

text \<open>
  With the default precedence, a group variable of a host comes from the last of the
  host's own groups in alphabetical order that defines it, and otherwise from the group all.
\<close>

theorem group_precedence:
  assumes "variable_precedence cfg = [''all_inventory'', ''groups_inventory'']"
    and "find (\<lambda>(_, g). group_name g = ''all'') (inv_groups (m_inventory m)) = Some (n, g_all)"
  shows "group_layer cfg (m_inventory (sort_host_groups h m)) h Map.empty =
     Ok (\<lambda>k. case find (\<lambda>g. group_vars (get_group (m_inventory m) g) k \<noteq> None)
                    (rev (sort (host_groups (get_host (m_inventory m) h)))) of
              Some g \<Rightarrow> group_vars (get_group (m_inventory m) g) k
            | None \<Rightarrow> group_vars g_all k)"
proof -
  let ?f = "\<lambda>g. group_vars (get_group (m_inventory m) g)"
  let ?gs = "sort (host_groups (get_host (m_inventory m) h))"
  have "group_layer cfg (m_inventory (sort_host_groups h m)) h Map.empty =
      Ok (combine_vars (combine_vars Map.empty (group_vars g_all))
            (fold (\<lambda>g vs. combine_vars vs (?f g)) ?gs Map.empty))"
    using assms by (simp add: group_layer_def precedence_entry_def vars_simps)
  moreover have "combine_vars (combine_vars Map.empty (group_vars g_all))
        (fold (\<lambda>g vs. combine_vars vs (?f g)) ?gs Map.empty) k =
      (case find (\<lambda>g. ?f g k \<noteq> None) (rev ?gs) of Some g \<Rightarrow> ?f g k | None \<Rightarrow> group_vars g_all k)" for k
    using group_fold [of ?f ?gs Map.empty k]
    by (cases "find (\<lambda>g. ?f g k \<noteq> None) (rev ?gs)")
       (auto simp: combine_vars_def dest: findP split: option.splits)
  ultimately show ?thesis by (simp add: fun_eq_iff)
qed

section \<open>What the manager can reach\<close>

inductive manager_step :: "vars_manager \<Rightarrow> vars_manager \<Rightarrow> bool" where
  step_extra: "manager_step m (fst (set_extra_vars evs m))"
| step_delete: "manager_step m (delete_host_facts h m)"
| step_facts: "set_host_facts h fs m = (Ok m' :: (unit, vars_manager) outcome) \<Longrightarrow> manager_step m m'"
| step_np_facts: "set_host_np_facts h fs m = (Ok m' :: (unit, vars_manager) outcome) \<Longrightarrow> manager_step m m'"
| step_host_vars: "set_host_vars h fs m = (Ok m' :: (unit, vars_manager) outcome) \<Longrightarrow> manager_step m m'"
| step_get: "manager_step m (fst (get_vars visit eng cfg pl host t m))"
| step_reset: "manager_step m (reset_loop_context h m)"
| step_item: "set_loop_item item h m = (Ok m' :: (unit, vars_manager) outcome) \<Longrightarrow> manager_step m m'"

definition no_stores :: "vars_manager \<Rightarrow> bool" where
  "no_stores m \<longleftrightarrow> m_host_vars m = None \<and> m_host_facts m = None \<and> m_np_facts m = None"

lemma no_stores_write [vars_simps]: "store_write None h fs = Panic"
  by (simp add: store_write_def)

lemma no_stores_extra: "no_stores m \<Longrightarrow> no_stores (fst (set_extra_vars evs m))"
  by (induction evs m rule: set_extra_vars.induct)
     (auto simp: no_stores_def split: outcome.splits option.splits)

lemma no_stores_step: "manager_step m m' \<Longrightarrow> no_stores m \<Longrightarrow> no_stores m'"
proof (induction rule: manager_step.induct)
  case (step_extra m evs)
  then show ?case by (rule no_stores_extra)
qed (auto simp: no_stores_def delete_host_facts_def set_host_facts_def set_host_np_facts_def
       set_host_vars_def store_write_def get_vars_def Let_def sort_host_groups_def reset_loop_context_def
       set_loop_item_def split: option.splits)

interpretation manager: invariant_machine "\<lambda>m. \<exists>inven. m = new_manager inven" manager_step no_stores
proof unfold_locales
  show "no_stores m" if "\<exists>inven. m = new_manager inven" for m
    using that by (auto simp: no_stores_def new_manager_def)
qed (rule no_stores_step)

text \<open>
  C29.  Facts can never be saved: in every state the manager can reach, whatever was done
  before, saving facts for any host in any of the three buckets panics, since the maps behind
  them are never made.
\<close>

theorem saving_facts_panics:
  assumes "reach (\<lambda>m. \<exists>inven. m = new_manager inven) manager_step m"
    and "bucket \<in> {[], ''ansible_facts'', ''np_ansible_facts'', ''host_vars''}"
  shows "save_facts bucket (Some facts) h m = Panic"
  using manager.always [OF assms(1)] assms(2)
  by (auto simp: no_stores_def save_facts_def set_host_facts_def set_host_np_facts_def
      set_host_vars_def vars_simps)

section \<open>The loop variable\<close>

text \<open>
  After the loop context of a host was reset and its item set, the variables of that host
  at any task, once they are returned, hold the item under its name, whatever else defines it.
\<close>

theorem loop_item_visible:
  assumes "set_loop_item item h (reset_loop_context h m0) = Ok m1"
    and "get_vars visit eng cfg pl (Some h) t m1 = (m2, Ok all)"
  shows "all ''item'' = Some item"
proof -
  have "m_loop_vars m1 h = Some [''item'' \<mapsto> item]"
    using assms(1) by (auto simp: set_loop_item_def reset_loop_context_def)
  moreover have "m_loop_vars m2 = m_loop_vars m1"
    using assms(2) by (auto simp: get_vars_def Let_def sort_host_groups_def)
  moreover obtain ls where "all = first_some (opt_vars (m_loop_vars m2 h) # ls)"
    using variable_precedence_loop [OF assms(2)] by blast
  ultimately show ?thesis by (simp add: opt_vars_def)
qed

section \<open>Witnesses and limits\<close>

definition sample_manager :: vars_manager where
  "sample_manager = fst (set_extra_vars [''x=e''] (new_manager sample_inventory))"

definition sample_play :: play where
  "sample_play =
     \<lparr>play_name = [], hosts_pattern = ''all'', play_vars = [''x'' \<mapsto> GInt 1, ''v'' \<mapsto> GInt 3],
      play_tasks = [], strategy_key = ''linear''\<rparr>"

definition sample_get :: "vars_manager \<Rightarrow> vars_manager \<times> (vars_error, vars) outcome" where
  "sample_get = get_vars (list_visit [''v'', ''x'']) echo_engine sample_settings (Some sample_play) (Some ''h2'') None"

lemma sample_get_value:
  "case snd (sample_get sample_manager) of
     Ok all \<Rightarrow> all ''x'' = Some (GStr ''e'') \<and> all ''v'' = Some (GInt 3) \<and> all ''b'' = Some (GStr ''2'')
   | _ \<Rightarrow> False"
  by code_simp

lemma variable_precedence_order_witness:
  "\<exists>m all groups. sample_get sample_manager = (m, Ok all) \<and> all ''x'' = Some (GStr ''e'') \<and>
     group_layer sample_settings (m_inventory m) ''h2'' Map.empty = Ok groups"
proof -
  obtain m all where a: "sample_get sample_manager = (m, Ok all)" "all ''x'' = Some (GStr ''e'')"
    using sample_get_value by (cases "sample_get sample_manager") (auto split: outcome.splits)
  from variable_precedence_order [OF a(1) [unfolded sample_get_def]] a show ?thesis by blast
qed

lemma group_precedence_witness:
  "\<exists>f. group_layer sample_settings (m_inventory (sort_host_groups ''h2'' sample_manager)) ''h2'' Map.empty = Ok f"
proof -
  have "find (\<lambda>(_, g). group_name g = ''all'') (inv_groups (m_inventory sample_manager)) \<noteq> None"
    by code_simp
  then obtain n g where "find (\<lambda>(_, g). group_name g = ''all'') (inv_groups (m_inventory sample_manager)) = Some (n, g)"
    by auto
  from group_precedence [OF _ this] show ?thesis by (auto simp: sample_settings_def)
qed

lemma saving_facts_panics_witness:
  "save_facts ''np_ansible_facts'' (Some Map.empty) ''h'' (new_manager new_data) = Panic"
  by (rule saving_facts_panics) (auto intro: reach_init)

definition looped_manager :: vars_manager where
  "looped_manager =
     sample_manager\<lparr>m_loop_vars := [''h2'' \<mapsto> [''item'' \<mapsto> GInt 9]]\<rparr>"

lemma set_extra_loop: "m_loop_vars (fst (set_extra_vars evs m)) = m_loop_vars m"
  by (induction evs m rule: set_extra_vars.induct) (auto split: outcome.splits option.splits)

lemma loop_item_visible_witness:
  "\<exists>m all. sample_get looped_manager = (m, Ok all) \<and> all ''item'' = Some (GInt 9)"
proof -
  have s: "set_loop_item (GInt 9) ''h2'' (reset_loop_context ''h2'' sample_manager) = (Ok looped_manager :: (unit, vars_manager) outcome)"
  proof -
    have "m_loop_vars sample_manager = Map.empty"
      unfolding sample_manager_def set_extra_loop by (simp add: new_manager_def)
    then show ?thesis by (simp add: set_loop_item_def reset_loop_context_def looped_manager_def)
  qed
  have "is_ok (snd (sample_get looped_manager))" by code_simp
  then obtain m all where a: "sample_get looped_manager = (m, Ok all)"
    by (cases "sample_get looped_manager"; cases "snd (sample_get looped_manager)") auto
  from loop_item_visible [OF s a [unfolded sample_get_def]] a show ?thesis by blast
qed

text \<open>
  The variables of the groups above a host's own groups, other than all, never reach it: the
  inventory's own query finds \<open>w\<close> for the host \<open>h\<close>, the manager does not.
\<close>

definition nested_inventory :: inventory where
  "nested_inventory = from_ok new_data (parse_ini (\<lambda>_ xs. xs)
     (Some [''[g]'', ''h'', ''[k:children]'', ''g'', ''[k:vars]'', ''w=1'']))"

lemma ancestor_vars_lost:
  "map_option (\<lambda>vs. vs ''w'') (host_all_vars 5 nested_inventory ''h'') = Some (Some (GStr ''1''))"
  "(case snd (get_vars (list_visit []) echo_engine sample_settings None (Some ''h'') None (new_manager nested_inventory)) of
      Ok all \<Rightarrow> all ''w'' = None | _ \<Rightarrow> False)"
  by code_simp+

text \<open>Of the source names of a magic variable the last one present wins.\<close>

lemma magic_last_wins:
  "set_magic_vars [''ansible_ssh_host'' \<mapsto> GStr ''a'', ''ansible_host'' \<mapsto> GStr ''b''] ''remote_addr'' = Some (GStr ''b'')"
  by code_simp

end
