(* ===== verification/Actions.thy ===== *)
theory Actions
  imports Templating
begin

text \<open>
  What modules and actions return (\<open>modules/common.go\<close>, \<open>utils/wrappers\<close>), and the
  action plugins (\<open>plugins/action\<close>): \<open>set_fact\<close>, \<open>debug\<close>, \<open>example\<close> and
  \<open>wait_for_connection\<close>.  The decoding of \<open>mapstructure\<close> is a parameter.
\<close>

section \<open>Returns\<close>

record internal_return =
  ir_facts :: "vars option"
  ir_bucket :: string
  ir_exception :: string
  ir_warnings :: "string list"
  ir_debug :: "string list"
  ir_deprecations :: "string list"
  ir_needs_python :: bool

record mod_return =
  r_changed :: bool
  r_failed :: bool
  r_skipped :: bool
  r_msg :: string
  r_rc :: int
  r_stdout :: string
  r_stderr :: string
  r_specific :: gval
  r_internal :: "internal_return option"

definition no_internal :: internal_return where
  "no_internal =
     \<lparr>ir_facts = None, ir_bucket = [], ir_exception = [], ir_warnings = [], ir_debug = [],
      ir_deprecations = [], ir_needs_python = False\<rparr>"

definition empty_return :: mod_return where
  "empty_return =
     \<lparr>r_changed = False, r_failed = False, r_skipped = False, r_msg = [], r_rc = 0, r_stdout = [],
      r_stderr = [], r_specific = GNil, r_internal = None\<rparr>"

definition new_return :: mod_return where
  "new_return = empty_return\<lparr>r_internal := Some no_internal\<rparr>"

definition the_internal :: "mod_return \<Rightarrow> internal_return" where
  "the_internal r = (case r_internal r of Some i \<Rightarrow> i | None \<Rightarrow> no_internal)"

definition warn :: "string \<Rightarrow> mod_return \<Rightarrow> mod_return" where
  "warn msg r =
     r\<lparr>r_internal := Some ((the_internal r)\<lparr>ir_warnings := ir_warnings (the_internal r) @ [msg]\<rparr>)\<rparr>"

definition debug_msg :: "string \<Rightarrow> mod_return \<Rightarrow> mod_return" where
  "debug_msg msg r =
     r\<lparr>r_internal := Some ((the_internal r)\<lparr>ir_debug := ir_debug (the_internal r) @ [msg]\<rparr>)\<rparr>"

definition deprecate :: "string \<Rightarrow> mod_return \<Rightarrow> mod_return" where
  "deprecate d r =
     r\<lparr>r_internal := Some ((the_internal r)\<lparr>ir_deprecations := ir_deprecations (the_internal r) @ [d]\<rparr>)\<rparr>"

definition mark_return_failed :: "string \<Rightarrow> mod_return \<Rightarrow> mod_return" where
  "mark_return_failed err r =
     (let r = r\<lparr>r_failed := True\<rparr>;
          r = r\<lparr>r_internal := Some ((the_internal r)\<lparr>ir_exception := err\<rparr>)\<rparr>
      in warn err r)"

section \<open>The action set_fact\<close>

definition action_error :: "string \<Rightarrow> mod_return \<Rightarrow> mod_return" where
  "action_error text r = mark_return_failed text (warn text r)"

definition fact_bucket :: "vars \<Rightarrow> string" where
  "fact_bucket args =
     (if Option.bind (args ''cacheable'') as_bool = Some True then ''np_ansible_facts'' else ''ansible_facts'')"

text \<open>The names are rendered one by one; \<open>Inl\<close> is the return of a failure.\<close>

fun set_fact_loop ::
  "engine \<Rightarrow> settings \<Rightarrow> vars \<Rightarrow> string list \<Rightarrow> templar \<Rightarrow> vars \<Rightarrow> mod_return + vars" where
  "set_fact_loop eng cfg args [] T facts = Inr facts"
| "set_fact_loop eng cfg args (k # ks) T facts =
     (case templar_template eng cfg T k (new_options cfg) of
        (T, Ok (GStr s)) \<Rightarrow> set_fact_loop eng cfg args ks T (facts(k := args k))
      | (T, Ok v) \<Rightarrow> Inl (action_error ''Invalid key'' new_return)
      | (T, Err e) \<Rightarrow> Inl (mark_return_failed e (warn e new_return))
      | (T, Panic) \<Rightarrow> Inl new_return)"

definition set_fact_run ::
  "(mod_return \<Rightarrow> mod_return \<Rightarrow> mod_return) \<Rightarrow> visit \<Rightarrow> engine \<Rightarrow> settings \<Rightarrow> vars \<Rightarrow> vars \<Rightarrow> mod_return" where
  "set_fact_run update visit eng cfg args env =
     (if visit args = []
      then action_error ''No key/value pairs provided, at least one is required for this action to succeed'' new_return
      else case set_fact_loop eng cfg args (visit args) (new_templar env) Map.empty of
             Inl r \<Rightarrow> r
           | Inr facts \<Rightarrow>
               update new_return
                 (empty_return\<lparr>r_internal :=
                    Some (no_internal\<lparr>ir_facts := Some facts, ir_bucket := fact_bucket args\<rparr>)\<rparr>))"

section \<open>The actions debug and example\<close>

text \<open>A map entry that is missing reads as nil.\<close>

definition arg_value :: "vars \<Rightarrow> string \<Rightarrow> gval" where
  "arg_value args k = (case args k of Some v \<Rightarrow> v | None \<Rightarrow> GNil)"

fun as_int :: "gval \<Rightarrow> int option" where
  "as_int (GInt i) = Some i"
| "as_int _ = None"

text \<open>An unchecked type assertion panics.\<close>

definition assert_type :: "('v \<Rightarrow> 'a option) \<Rightarrow> 'v \<Rightarrow> ('e, 'a) outcome" where
  "assert_type f v = (case f v of Some a \<Rightarrow> Ok a | None \<Rightarrow> Panic)"

definition debug_var ::
  "(gval \<Rightarrow> string) \<Rightarrow> engine \<Rightarrow> settings \<Rightarrow> string \<Rightarrow> vars \<Rightarrow> string" where
  "debug_var sprint eng cfg name env =
     (let opt = (new_options cfg)\<lparr>convert_bare := True, fail_on_undefined := True\<rparr>;
          (T, r) = templar_template eng cfg (new_templar env) name opt;
          r = (if r = Ok (GStr name) then snd (templar_template eng cfg T (''{{'' @ name @ ''}}'') opt) else r)
      in case r of
           Ok v \<Rightarrow> sprint v
         | Err e \<Rightarrow> ''VARIABLE '' @ name @ '' IS NOT DEFINED OR CAN'' @ [squote] @ ''T BE TEMPLATED!: '' @ e
         | Panic \<Rightarrow> [])"

definition debug_run ::
  "(gval \<Rightarrow> string) \<Rightarrow> int \<Rightarrow> engine \<Rightarrow> settings \<Rightarrow> vars \<Rightarrow> vars \<Rightarrow> (unit, mod_return) outcome" where
  "debug_run sprint verbosity eng cfg args env =
     (if arg_value args ''msg'' \<noteq> GNil \<and> arg_value args ''var'' \<noteq> GNil then
        Ok (empty_return\<lparr>r_failed := True,
              r_msg := [squote] @ ''msg'' @ [squote] @ '' and '' @ [squote] @ ''var'' @ [squote] @ '' are incompatible options''\<rparr>)
      else
        obind (assert_type as_int (case args ''verbosity'' of Some v \<Rightarrow> v | None \<Rightarrow> GInt 0)) (\<lambda>v.
          if v > verbosity then Ok (empty_return\<lparr>r_skipped := True\<rparr>)
          else if arg_value args ''msg'' \<noteq> GNil then
            omap (\<lambda>m. empty_return\<lparr>r_msg := m\<rparr>) (assert_type as_string (arg_value args ''msg''))
          else if arg_value args ''var'' \<noteq> GNil then
            omap (\<lambda>name. empty_return\<lparr>r_msg := debug_var sprint eng cfg name env\<rparr>)
              (assert_type as_string (arg_value args ''var''))
          else Ok (empty_return\<lparr>r_msg := ''Hello world!''\<rparr>)))"

definition example_run :: "string \<Rightarrow> vars \<Rightarrow> mod_return" where
  "example_run host args =
     (let msg = (case Option.bind (args ''message'') as_string of
                   Some m \<Rightarrow> ''Hello world: '' @ m | None \<Rightarrow> ''Hello world'')
      in empty_return\<lparr>r_msg := ''<'' @ host @ ''> '' @ msg\<rparr>)"

section \<open>The action wait_for_connection\<close>

text \<open>
  The clock is a number of seconds; \<open>ping i\<close> is how long the \<open>i\<close>-th ping takes and what it
  gives.  The loop may run forever, so it is partial.
\<close>

datatype ping_result = PingError string | PingWrong | NotAMap | PingOk

record wait_params =
  wp_delay :: int
  wp_sleep :: int
  wp_timeout :: int

definition default_wait_params :: wait_params where
  "default_wait_params = \<lparr>wp_delay = 0, wp_sleep = 1, wp_timeout = 600\<rparr>"

fun ping_error :: "ping_result \<Rightarrow> string" where
  "ping_error (PingError e) = e"
| "ping_error PingWrong = ''ping test failed''"
| "ping_error NotAMap = ''expected module specific return to be map''"
| "ping_error PingOk = []"

text \<open>A negative sleep returns at once.\<close>

definition after_sleep :: "int \<Rightarrow> int \<Rightarrow> int" where
  "after_sleep now d = now + max 0 d"

text \<open>The result is whether a ping succeeded, the clock, and the last error.\<close>

partial_function (option) wait_loop ::
  "(nat \<Rightarrow> int \<times> ping_result) \<Rightarrow> int \<Rightarrow> int \<Rightarrow> nat \<Rightarrow> int \<Rightarrow> string \<Rightarrow> (bool \<times> int \<times> string) option" where
  "wait_loop ping sleep stop i now err =
     (if now < stop then
        (if snd (ping i) = PingOk then Some (True, now + fst (ping i), err)
         else wait_loop ping sleep stop (Suc i) (after_sleep (now + fst (ping i)) sleep) (ping_error (snd (ping i))))
      else Some (False, now, err))"

declare wait_loop.simps [code]

definition wait_for_connection_run ::
  "(mod_return \<Rightarrow> mod_return \<Rightarrow> mod_return) \<Rightarrow> (vars \<Rightarrow> (string, wait_params) outcome)
   \<Rightarrow> (nat \<Rightarrow> int \<times> ping_result) \<Rightarrow> int \<Rightarrow> vars \<Rightarrow> mod_return option" where
  "wait_for_connection_run update parse ping start args =
     (case parse args of
        Err e \<Rightarrow> Some (mark_return_failed e new_return)
      | Panic \<Rightarrow> None
      | Ok p \<Rightarrow>
          map_option (\<lambda>(ok, now, err).
             if \<not> ok then mark_return_failed (''timed out waiting for ping module test: '' @ err) new_return
             else update new_return (empty_return\<lparr>r_specific := GInt (now - start)\<rparr>))
            (wait_loop ping (wp_sleep p) (start + wp_timeout p) 0
               (if wp_delay p \<noteq> 0 then after_sleep start (wp_delay p) else start) []))"

section \<open>What set_fact stores\<close>

lemma set_fact_loop_plain:
  assumes "\<forall>k \<in> set ks. \<not> is_possibly_template eng k"
  shows "set_fact_loop eng cfg args ks T facts = Inr (\<lambda>k. if k \<in> set ks then args k else facts k)"
  using assms
  by (induction ks arbitrary: facts) (auto simp: templar_template_def new_options_def fun_eq_iff)

lemma fact_bucket_eq:
  "fact_bucket args = (if args ''cacheable'' = Some (GBool True) then ''np_ansible_facts'' else ''ansible_facts'')"
  by (cases "args ''cacheable''") (simp_all add: fact_bucket_def)

text \<open>
  When no argument name is a template, set_fact returns exactly its arguments as facts,
  the argument cacheable among them, and names the bucket of the facts that do not persist
  exactly when cacheable is true.
\<close>

theorem set_fact_stores:
  assumes "visits visit args" "args \<noteq> Map.empty" "\<forall>k \<in> dom args. \<not> is_possibly_template eng k"
  shows "set_fact_run update visit eng cfg args env =
     update new_return (empty_return\<lparr>r_internal := Some (no_internal\<lparr>ir_facts := Some args,
        ir_bucket := (if args ''cacheable'' = Some (GBool True) then ''np_ansible_facts'' else ''ansible_facts'')\<rparr>)\<rparr>)"
proof -
  have d: "set (visit args) = dom args" using assms(1) by (simp add: visits_def)
  then have "visit args \<noteq> []" using assms(2) dom_eq_empty_conv [of args] by fastforce
  moreover have "set_fact_loop eng cfg args (visit args) (new_templar env) Map.empty = Inr args"
    using assms(3) by (subst set_fact_loop_plain) (auto simp: d fun_eq_iff domIff)
  moreover have "fact_bucket args = (if args ''cacheable'' = Some (GBool True) then ''np_ansible_facts'' else ''ansible_facts'')"
    by (rule fact_bucket_eq)
  ultimately show ?thesis by (simp add: set_fact_run_def)
qed

section \<open>Waiting for a connection\<close>

text \<open>When the \<open>i\<close>-th ping starts, if none before it succeeded.\<close>

fun ping_start :: "(nat \<Rightarrow> int \<times> ping_result) \<Rightarrow> int \<Rightarrow> int \<Rightarrow> nat \<Rightarrow> int" where
  "ping_start ping sleep now 0 = now"
| "ping_start ping sleep now (Suc i) = after_sleep (ping_start ping sleep now i + fst (ping i)) sleep"

lemma ping_start_mono:
  assumes "\<forall>i. 0 \<le> fst (ping i)" "i \<le> j"
  shows "ping_start ping sleep now i \<le> ping_start ping sleep now j"
  using assms(2)
proof (induction rule: dec_induct)
  case (step n)
  then show ?case using assms(1) by (simp add: after_sleep_def) (smt (verit))
qed simp

lemma wait_loop_from:
  assumes "\<forall>i. 0 \<le> fst (ping i)" "1 \<le> sleep"
  shows "\<exists>r. wait_loop ping sleep stop i (ping_start ping sleep now i) err = Some r \<and>
     (fst r \<longleftrightarrow> (\<exists>j \<ge> i. snd (ping j) = PingOk \<and> ping_start ping sleep now j < stop))"
proof (induction "nat (stop - ping_start ping sleep now i)" arbitrary: i err rule: less_induct)
  case less
  let ?t = "ping_start ping sleep now"
  show ?case
  proof (cases "?t i < stop")
    case False
    have "\<not> ?t j < stop" if "j \<ge> i" for j
      using False ping_start_mono [OF assms(1) that, of sleep now] by linarith
    with False show ?thesis by (subst wait_loop.simps) auto
  next
    case True
    show ?thesis
    proof (cases "snd (ping i) = PingOk")
      case True
      with \<open>?t i < stop\<close> show ?thesis by (subst wait_loop.simps) auto
    next
      case fail: False
      have "?t (Suc i) > ?t i" using assms by (simp add: after_sleep_def) (smt (verit))
      then have "nat (stop - ?t (Suc i)) < nat (stop - ?t i)" using True by linarith
      from less.hyps [OF this, of "ping_error (snd (ping i))"] obtain r where
        r: "wait_loop ping sleep stop (Suc i) (?t (Suc i)) (ping_error (snd (ping i))) = Some r"
          "fst r \<longleftrightarrow> (\<exists>j \<ge> Suc i. snd (ping j) = PingOk \<and> ?t j < stop)" by blast
      have "(\<exists>j \<ge> Suc i. snd (ping j) = PingOk \<and> ?t j < stop) \<longleftrightarrow> (\<exists>j \<ge> i. snd (ping j) = PingOk \<and> ?t j < stop)"
        using fail by (metis Suc_leD le_eq_less_or_eq Suc_leI)
      with r True fail show ?thesis by (subst wait_loop.simps) simp
    qed
  qed
qed

text \<open>
  C33.  Waiting for a connection ends, and succeeds exactly when some ping that starts before
  the deadline succeeds: for a sleep of at least a second between the pings, however long each
  ping takes.
\<close>

theorem wait_returns:
  assumes "\<forall>i. 0 \<le> fst (ping i)" "1 \<le> sleep"
  shows "\<exists>r. wait_loop ping sleep stop 0 now err = Some r \<and>
     (fst r \<longleftrightarrow> (\<exists>j. snd (ping j) = PingOk \<and> ping_start ping sleep now j < stop))"
  using wait_loop_from [OF assms, where i = 0 and now = now] by simp

section \<open>Witnesses and limits\<close>

lemma set_fact_stores_witness:
  "set_fact_run (\<lambda>_ u. u) (list_visit [''a'', ''cacheable'']) echo_engine sample_settings
     [''a'' \<mapsto> GInt 1, ''cacheable'' \<mapsto> GBool True] Map.empty =
   empty_return\<lparr>r_internal := Some (no_internal\<lparr>ir_facts := Some [''a'' \<mapsto> GInt 1, ''cacheable'' \<mapsto> GBool True],
        ir_bucket := ''np_ansible_facts''\<rparr>)\<rparr>" (is "set_fact_run _ ?v _ _ ?args _ = _")
proof -
  have "visits ?v ?args" by (rule visits_list_visit) auto
  moreover have "?args \<noteq> Map.empty" by (rule map_upd_nonempty)
  moreover have "\<forall>k \<in> dom ?args. \<not> is_possibly_template echo_engine k"
    by (auto simp: is_possibly_template_def echo_engine_def failing_engine_def contains.simps has_prefix_def)
  ultimately show ?thesis by (subst set_fact_stores) simp_all
qed

definition sample_ping :: "nat \<Rightarrow> int \<times> ping_result" where
  "sample_ping i = (2, if i = 3 then PingOk else PingWrong)"

lemma wait_returns_witness: "\<exists>r. wait_loop sample_ping 1 600 0 0 [] = Some r \<and> fst r"
proof -
  have "\<forall>i. 0 \<le> fst (sample_ping i)" by (simp add: sample_ping_def)
  from wait_returns [OF this, of 1 600 0 "[]"] obtain r where
    r: "wait_loop sample_ping 1 600 0 0 [] = Some r"
      "fst r \<longleftrightarrow> (\<exists>j. snd (sample_ping j) = PingOk \<and> ping_start sample_ping 1 0 j < 600)" by auto
  have "snd (sample_ping 3) = PingOk \<and> ping_start sample_ping 1 0 3 < 600"
    by (simp add: numeral_eq_Suc after_sleep_def sample_ping_def)
  with r show ?thesis by blast
qed

text \<open>The message of debug must be a text: a number, as a template of one variable gives it, panics.\<close>

lemma debug_number_panics:
  "debug_run sprint verbosity eng cfg [''msg'' \<mapsto> GInt 5] env = (if 0 > verbosity then Ok (empty_return\<lparr>r_skipped := True\<rparr>) else Panic)"
  by (simp add: debug_run_def arg_value_def assert_type_def)

text \<open>Every failure of set_fact is warned about twice.\<close>

lemma error_warned_twice: "ir_warnings (the_internal (action_error e new_return)) = [e, e]"
  by (simp add: action_error_def mark_return_failed_def warn_def the_internal_def new_return_def
      no_internal_def empty_return_def Let_def)

end
