(* ===== verification/Become.thy ===== *)
theory Become
  imports Templating
begin

text \<open>
  Becoming another user: the plugins \<open>su\<close> and \<open>sudo\<close> (\<open>plugins/become\<close>) and
  the dialogue that starts a command under them (\<open>connection/connection.go\<close>).  Shell
  quoting, flag splitting and translated messages are the fields of the parameter
  \<open>tools\<close>; the random identifier is an argument.
\<close>

section \<open>Arguments and plugins\<close>

record become_args =
  ba_user :: string
  ba_become :: bool
  ba_method :: string
  ba_flags :: string
  ba_password :: string

definition empty_become_args :: become_args where
  "empty_become_args =
     \<lparr>ba_user = [], ba_become = False, ba_method = [], ba_flags = [], ba_password = []\<rparr>"

definition new_become_args :: "settings \<Rightarrow> become_args" where
  "new_become_args cfg =
     empty_become_args\<lparr>ba_user := default_become_user cfg, ba_method := default_become_method cfg\<rparr>"

record tools =
  quote :: "string \<Rightarrow> string"
  quote_command :: "string list \<Rightarrow> string"
  split_flags :: "string \<Rightarrow> string list option"
  translate :: "string \<Rightarrow> string \<Rightarrow> string"
  sh_executable :: string

datatype become_kind = Su | Sudo

record become_base =
  b_kind :: become_kind
  b_args :: become_args
  b_id :: string
  b_name :: string
  b_fail :: "string list"
  b_missing :: "string list"
  b_prompt :: string
  b_success :: string

definition new_su :: "become_args \<Rightarrow> become_base" where
  "new_su args =
     \<lparr>b_kind = Su, b_args = args, b_id = [], b_name = ''su'', b_fail = [''Authentication failure''],
      b_missing = [], b_prompt = [], b_success = []\<rparr>"

definition new_sudo :: "become_args \<Rightarrow> become_base" where
  "new_sudo args =
     \<lparr>b_kind = Sudo, b_args = args, b_id = [], b_name = ''sudo'', b_fail = [''Sorry, try again.''],
      b_missing = [''Sorry, a password is required to run sudo'', ''sudo: a password is required''],
      b_prompt = [], b_success = []\<rparr>"

text \<open>\<open>GNil\<close> is the nil interface.\<close>

definition get_option :: "become_base \<Rightarrow> string \<Rightarrow> gval" where
  "get_option b name =
     (if name = ''become_user'' then GStr (ba_user (b_args b))
      else if name = ''become_pass'' then GStr (ba_password (b_args b))
      else if name = ''become_flags'' then GStr (ba_flags (b_args b))
      else GNil)"

definition string_option :: "become_base \<Rightarrow> string \<Rightarrow> string" where
  "string_option b name = (case as_string (get_option b name) of Some s \<Rightarrow> s | None \<Rightarrow> [])"

definition expect_prompt :: "become_base \<Rightarrow> bool" where
  "expect_prompt b \<longleftrightarrow> b_prompt b \<noteq> [] \<and> get_option b ''become_pass'' \<noteq> GNil"

definition build_become_cmd_hook :: "string \<Rightarrow> become_base \<Rightarrow> become_base" where
  "build_become_cmd_hook ident b = b\<lparr>b_id := ident, b_success := ''BECOME-SUCCESS-'' @ ident\<rparr>"

definition build_success_command :: "tools \<Rightarrow> become_base \<Rightarrow> string \<Rightarrow> bool \<Rightarrow> string" where
  "build_success_command tls b cmd no_exe =
     (if cmd = [] \<or> b_success b = [] then cmd
      else
        let cmd = quote tls (''echo '' @ b_success b @ '' >&2 ; '' @ cmd)
        in if sh_executable tls \<noteq> [] \<and> \<not> no_exe then sh_executable tls @ '' -c '' @ cmd else cmd)"

definition su_prompt :: string where
  "su_prompt = ''Prompt handling for ``su`` is more complicated, this is used to satisfy the connection plugin''"

definition build_su :: "tools \<Rightarrow> string \<Rightarrow> become_base \<Rightarrow> string \<Rightarrow> become_base \<times> (string, string \<times> nat) outcome" where
  "build_su tls ident b cmd =
     (let b = (build_become_cmd_hook ident b)\<lparr>b_prompt := su_prompt\<rparr> in
      (b, if cmd = [] then Ok (cmd, 0)
          else Ok (b_name b @ '' '' @ string_option b ''become_flags'' @ '' '' @ string_option b ''become_user''
                     @ '' -c '' @ quote tls (build_success_command tls b cmd False), 1)))"

text \<open>The new slice starts with as many empty strings as there are flags.\<close>

definition reflag :: "string list \<Rightarrow> string list" where
  "reflag flags =
     replicate (length flags) [] @ filter (\<lambda>f. f \<noteq> ''-n'' \<and> f \<noteq> ''--non-interactive'') flags"

definition sudo_prompt :: "string \<Rightarrow> string" where
  "sudo_prompt ident = ''[sudo via ansible, key='' @ ident @ ''] password:''"

definition build_sudo :: "tools \<Rightarrow> string \<Rightarrow> become_base \<Rightarrow> string \<Rightarrow> become_base \<times> (string, string \<times> nat) outcome" where
  "build_sudo tls ident b0 cmd =
     (let b = build_become_cmd_hook ident b0 in
      if cmd = [] then (b, Ok (cmd, 0))
      else
        let pass = string_option b ''become_pass'';
            flags = string_option b ''become_flags'';
            user = string_option b ''become_user'';
            user = (if user \<noteq> [] then ''-u '' @ user else user);
            finish = (\<lambda>b flags prompt.
              join '' '' [b_name b, ''-S '' @ flags, prompt, user, build_success_command tls b cmd False])
        in if pass = [] then (b, Ok (finish b flags [], length (b_success b) + 1))
           else
             let b = b\<lparr>b_prompt := sudo_prompt ident\<rparr>
             in case split_flags tls flags of
                  None \<Rightarrow> (b, Err ''bad flags'')
                | Some fs \<Rightarrow>
                    (b, Ok (finish b (quote_command tls (reflag fs)) (''-p '' @ [dquote] @ b_prompt b @ [dquote]),
                            length (b_success b) + 1)))"

definition build_become_command ::
  "tools \<Rightarrow> string \<Rightarrow> become_base \<Rightarrow> string \<Rightarrow> become_base \<times> (string, string \<times> nat) outcome" where
  "build_become_command tls ident b cmd =
     (case b_kind b of Su \<Rightarrow> build_su tls ident b cmd | Sudo \<Rightarrow> build_sudo tls ident b cmd)"

section \<open>The prompts of su\<close>

text \<open>
  The source matches \<open>(?i)(\w+\'s )?P1|...|(\w+\'s )?Pn ?(:|...) ?\<close> anywhere in the output, where
  the second colon is the full-width one.  Alternation binds weakest, so the colon belongs to
  the last prompt only; what is optional at either end does not change whether there is a
  match.  No option of the plugin is a list of strings, so the prompts are those of the source.
  Strings are the bytes of UTF-8.
\<close>

definition su_prompt_localizations :: "string list" where
  "su_prompt_localizations =
     [
      ''Password'', [CHR 0xEC, CHR 0x95, CHR 0x94, CHR 0xED, CHR 0x98, CHR 0xB8],
      [CHR 0xE3, CHR 0x83, CHR 0x91, CHR 0xE3, CHR 0x82, CHR 0xB9, CHR 0xE3, CHR 0x83, CHR 0xAF, CHR 0xE3, CHR 0x83, CHR 0xBC, CHR 0xE3, CHR 0x83, CHR 0x89],
      ''Adgangskode'', ''Contrase'' @ [CHR 0xC3, CHR 0xB1] @ ''a'', ''Contrasenya'', ''Has'' @ [CHR 0xC5, CHR 0x82] @ ''o'', ''Heslo'',
      ''Jelsz'' @ [CHR 0xC3, CHR 0xB3], ''L'' @ [CHR 0xC3, CHR 0xB6] @ ''senord'',
      ''M'' @ [CHR 0xE1, CHR 0xBA, CHR 0xAD] @ ''t kh'' @ [CHR 0xE1, CHR 0xBA, CHR 0xA9] @ ''u'', ''Mot de passe'', ''Parola'', ''Parool'',
      ''Pasahitza'', ''Passord'', ''Passwort'', ''Salasana'', ''Sandi'', ''Senha'', ''Wachtwoord'',
      [CHR 0xD7, CHR 0xA1, CHR 0xD7, CHR 0xA1, CHR 0xD7, CHR 0x9E, CHR 0xD7, CHR 0x94],
      [CHR 0xD0, CHR 0x9B, CHR 0xD0, CHR 0xBE, CHR 0xD0, CHR 0xB7, CHR 0xD0, CHR 0xB8, CHR 0xD0, CHR 0xBD, CHR 0xD0, CHR 0xBA, CHR 0xD0, CHR 0xB0],
      [CHR 0xD0, CHR 0x9F, CHR 0xD0, CHR 0xB0, CHR 0xD1, CHR 0x80, CHR 0xD0, CHR 0xBE, CHR 0xD0, CHR 0xBB, CHR 0xD0, CHR 0xB0],
      [CHR 0xD0, CHR 0x9F, CHR 0xD0, CHR 0xB0, CHR 0xD1, CHR 0x80, CHR 0xD0, CHR 0xBE, CHR 0xD0, CHR 0xBB, CHR 0xD1, CHR 0x8C],
      [CHR 0xE0, CHR 0xA4, CHR 0x97, CHR 0xE0, CHR 0xA5, CHR 0x81, CHR 0xE0, CHR 0xA4, CHR 0xAA, CHR 0xE0, CHR 0xA5, CHR 0x8D, CHR 0xE0, CHR 0xA4, CHR 0xA4, CHR 0xE0, CHR 0xA4, CHR 0xB6, CHR 0xE0, CHR 0xA4, CHR 0xAC, CHR 0xE0, CHR 0xA5, CHR 0x8D, CHR 0xE0, CHR 0xA4, CHR 0xA6],
      [CHR 0xE0, CHR 0xA4, CHR 0xB6, CHR 0xE0, CHR 0xA4, CHR 0xAC, CHR 0xE0, CHR 0xA5, CHR 0x8D, CHR 0xE0, CHR 0xA4, CHR 0xA6, CHR 0xE0, CHR 0xA4, CHR 0x95, CHR 0xE0, CHR 0xA5, CHR 0x82, CHR 0xE0, CHR 0xA4, CHR 0x9F],
      [CHR 0xE0, CHR 0xB0, CHR 0xB8, CHR 0xE0, CHR 0xB0, CHR 0x82, CHR 0xE0, CHR 0xB0, CHR 0x95, CHR 0xE0, CHR 0xB1, CHR 0x87, CHR 0xE0, CHR 0xB0, CHR 0xA4, CHR 0xE0, CHR 0xB0, CHR 0xAA, CHR 0xE0, CHR 0xB0, CHR 0xA6, CHR 0xE0, CHR 0xB0, CHR 0xAE, CHR 0xE0, CHR 0xB1, CHR 0x81],
      [CHR 0xE0, CHR 0xB7, CHR 0x84, CHR 0xE0, CHR 0xB7, CHR 0x83, CHR 0xE0, CHR 0xB7, CHR 0x8A, CHR 0xE0, CHR 0xB6, CHR 0xB4, CHR 0xE0, CHR 0xB6, CHR 0xAF, CHR 0xE0, CHR 0xB6, CHR 0xBA],
      [CHR 0xE5, CHR 0xAF, CHR 0x86, CHR 0xE7, CHR 0xA0, CHR 0x81], [CHR 0xE5, CHR 0xAF, CHR 0x86, CHR 0xE7, CHR 0xA2, CHR 0xBC],
      [CHR 0xE5, CHR 0x8F, CHR 0xA3, CHR 0xE4, CHR 0xBB, CHR 0xA4]]"

definition full_width_colon :: string where
  "full_width_colon = [CHR 0xEF, CHR 0xBC, CHR 0x9A]"

text \<open>A rune is a byte with the continuation bytes after it.\<close>

definition continuation_byte :: "char \<Rightarrow> bool" where
  "continuation_byte c \<longleftrightarrow> (let n = of_char c :: nat in 128 \<le> n \<and> n < 192)"

fun runes :: "string \<Rightarrow> string list" where
  "runes [] = []"
| "runes (c # s) =
     (case runes s of
        (d # r) # rs \<Rightarrow> if continuation_byte d then (c # d # r) # rs else [c] # (d # r) # rs
      | _ \<Rightarrow> [[c]])"

text \<open>
  What a rune of the prompts matches under \<open>(?i)\<close>: the letters that fold to the same one.  The
  table lists the letters with a partner outside ASCII.
\<close>

definition wide_foldings :: "string list list" where
  "wide_foldings =
     [
      [''S'', ''s'', [CHR 0xC5, CHR 0xBF]], [''K'', ''k'', [CHR 0xE2, CHR 0x84, CHR 0xAA]], [[CHR 0xC3, CHR 0x91], [CHR 0xC3, CHR 0xB1]],
      [[CHR 0xC3, CHR 0x93], [CHR 0xC3, CHR 0xB3]], [[CHR 0xC3, CHR 0x96], [CHR 0xC3, CHR 0xB6]], [[CHR 0xC5, CHR 0x81], [CHR 0xC5, CHR 0x82]],
      [[CHR 0xD0, CHR 0x9B], [CHR 0xD0, CHR 0xBB]], [[CHR 0xD0, CHR 0x9F], [CHR 0xD0, CHR 0xBF]], [[CHR 0xD0, CHR 0x90], [CHR 0xD0, CHR 0xB0]],
      [[CHR 0xD0, CHR 0x97], [CHR 0xD0, CHR 0xB7]], [[CHR 0xD0, CHR 0x98], [CHR 0xD0, CHR 0xB8]], [[CHR 0xD0, CHR 0x9A], [CHR 0xD0, CHR 0xBA]],
      [[CHR 0xD0, CHR 0x9D], [CHR 0xD0, CHR 0xBD]], [[CHR 0xD0, CHR 0x9E], [CHR 0xD0, CHR 0xBE], [CHR 0xE1, CHR 0xB2, CHR 0x82]],
      [[CHR 0xD0, CHR 0xA0], [CHR 0xD1, CHR 0x80]], [[CHR 0xD0, CHR 0xAC], [CHR 0xD1, CHR 0x8C]],
      [[CHR 0xE1, CHR 0xBA, CHR 0xA8], [CHR 0xE1, CHR 0xBA, CHR 0xA9]], [[CHR 0xE1, CHR 0xBA, CHR 0xAC], [CHR 0xE1, CHR 0xBA, CHR 0xAD]]]"

definition same_letters :: "string \<Rightarrow> string list" where
  "same_letters r =
     (case List.find (\<lambda>orbit. r \<in> set orbit) wide_foldings of
        Some orbit \<Rightarrow> orbit
      | None \<Rightarrow> [map lower_char r, map upper_char r])"

fun match_fold :: "string list \<Rightarrow> string \<Rightarrow> string option" where
  "match_fold [] s = Some s"
| "match_fold (r # rs) s =
     (case List.find (has_prefix s) (same_letters r) of
        Some v \<Rightarrow> match_fold rs (drop (length v) s)
      | None \<Rightarrow> None)"

definition starts_with_colon :: "string \<Rightarrow> bool" where
  "starts_with_colon s \<longleftrightarrow>
     (let s = (if has_prefix s '' '' then drop 1 s else s) in has_prefix s '':'' \<or> has_prefix s full_width_colon)"

fun prompt_here :: "string list \<Rightarrow> string \<Rightarrow> bool" where
  "prompt_here [] s \<longleftrightarrow> False"
| "prompt_here [p] s \<longleftrightarrow> (case match_fold (runes p) s of Some rest \<Rightarrow> starts_with_colon rest | None \<Rightarrow> False)"
| "prompt_here (p # ps) s \<longleftrightarrow> match_fold (runes p) s \<noteq> None \<or> prompt_here ps s"

fun prompt_somewhere :: "string list \<Rightarrow> string \<Rightarrow> bool" where
  "prompt_somewhere ps [] \<longleftrightarrow> prompt_here ps []"
| "prompt_somewhere ps (c # s) \<longleftrightarrow> prompt_here ps (c # s) \<or> prompt_somewhere ps s"

definition su_prompt_match :: "string \<Rightarrow> bool" where
  "su_prompt_match output \<longleftrightarrow> prompt_somewhere su_prompt_localizations output"

text \<open>A prompt is found exactly where one starts, whatever comes before it.\<close>

lemma prompt_somewhere_iff: "prompt_somewhere ps s \<longleftrightarrow> (\<exists>before rest. s = before @ rest \<and> prompt_here ps rest)"
proof (induction s)
  case Nil
  then show ?case by simp
next
  case (Cons c s)
  have "(\<exists>before rest. c # s = before @ rest \<and> prompt_here ps rest) \<longleftrightarrow>
      prompt_here ps (c # s) \<or> (\<exists>before rest. s = before @ rest \<and> prompt_here ps rest)"
    by (auto simp: Cons_eq_append_conv)
  with Cons show ?case by simp
qed

lemma runes_concat: "concat (runes s) = s \<and> [] \<notin> set (runes s)"
proof (induction s)
  case Nil
  then show ?case by simp
next
  case (Cons c s)
  show ?case
  proof (cases "runes s")
    case Nil
    then show ?thesis using Cons by simp
  next
    case (Cons r rs)
    then obtain d r' where "r = d # r'" using Cons.IH by (cases r) auto
    then show ?thesis using Cons Cons.IH by auto
  qed
qed

text \<open>The word alone is taken for a prompt: no colon has to follow.\<close>

lemma password_word_is_prompt: "su_prompt_match (before @ ''password'' @ rest)"
proof -
  have letters: "runes ''Password'' = [''P'', ''a'', ''s'', ''s'', ''w'', ''o'', ''r'', ''d'']"
    "same_letters ''P'' = [''p'', ''P'']" "same_letters ''a'' = [''a'', ''A'']"
    "same_letters ''s'' = [''S'', ''s'', [CHR 0xC5, CHR 0xBF]]" "same_letters ''w'' = [''w'', ''W'']"
    "same_letters ''o'' = [''o'', ''O'']" "same_letters ''r'' = [''r'', ''R'']" "same_letters ''d'' = [''d'', ''D'']"
    by code_simp+
  have "match_fold (runes ''Password'') (''password'' @ rest) = Some rest"
    unfolding letters(1) by (simp add: letters has_prefix_def del: runes.simps)
  then have "prompt_here su_prompt_localizations (''password'' @ rest)"
    unfolding su_prompt_localizations_def by simp
  then show ?thesis unfolding su_prompt_match_def prompt_somewhere_iff by blast
qed

lemma su_prompt_examples:
  "su_prompt_match ''PASSWORD: ''"
  "last su_prompt_localizations = [CHR 0xE5, CHR 0x8F, CHR 0xA3, CHR 0xE4, CHR 0xBB, CHR 0xA4]"
  "prompt_here [last su_prompt_localizations] (last su_prompt_localizations @ full_width_colon)"
  "\<not> prompt_here [last su_prompt_localizations] (last su_prompt_localizations)"
  by code_simp+

section \<open>Reading the dialogue\<close>

definition some_line_contains :: "string \<Rightarrow> string \<Rightarrow> bool" where
  "some_line_contains output text \<longleftrightarrow> list_ex (\<lambda>line. contains line text) (split_on nl output)"

definition check_success :: "become_base \<Rightarrow> string \<Rightarrow> bool" where
  "check_success b output \<longleftrightarrow> some_line_contains output (b_success b)"

definition check_password_prompt :: "become_base \<Rightarrow> string \<Rightarrow> bool" where
  "check_password_prompt b output \<longleftrightarrow>
     (case b_kind b of
        Su \<Rightarrow> su_prompt_match output
      | Sudo \<Rightarrow> b_prompt b \<noteq> [] \<and> some_line_contains output (b_prompt b))"

definition check_password_error :: "tools \<Rightarrow> become_base \<Rightarrow> string \<Rightarrow> string \<Rightarrow> bool" where
  "check_password_error tls b output msg \<longleftrightarrow>
     translate tls (b_name b) msg \<noteq> [] \<and> contains output (translate tls (b_name b) msg)"

definition check_incorrect_password :: "tools \<Rightarrow> become_base \<Rightarrow> string \<Rightarrow> bool" where
  "check_incorrect_password tls b output \<longleftrightarrow> list_ex (check_password_error tls b output) (b_fail b)"

definition check_missing_password :: "tools \<Rightarrow> become_base \<Rightarrow> string \<Rightarrow> bool" where
  "check_missing_password tls b output \<longleftrightarrow> list_ex (check_password_error tls b output) (b_missing b)"

text \<open>
  One read fills the front of the buffer, and the whole buffer, with what earlier reads left
  behind it, is appended to the output.  The reads of the standard error are a list; after it
  reading fails.  The result is the output, the buffer and the reads left.
\<close>

fun read_until ::
  "(string \<Rightarrow> bool) \<Rightarrow> string \<Rightarrow> string \<Rightarrow> string list \<Rightarrow> (string, string \<times> string \<times> string list) outcome" where
  "read_until found buffer output [] = (if found output then Ok (output, buffer, []) else Err ''EOF'')"
| "read_until found buffer output (c # cs) =
     (if found output then Ok (output, buffer, c # cs)
      else
        let buffer = c @ drop (length c) buffer
        in read_until found buffer (output @ buffer) cs)"

record session =
  s_reads :: "string list"
  s_written :: string
  s_started :: "string option"

text \<open>\<open>start\<close> and \<open>write\<close> are the errors of \<open>session.Start\<close> and of writing the input.\<close>

definition become_dialogue ::
  "tools \<Rightarrow> become_base \<Rightarrow> nat \<Rightarrow> string option \<Rightarrow> session \<Rightarrow> session \<times> (string, unit) outcome" where
  "become_dialogue tls b len write s =
     (let buffer = replicate len (CHR 0x00) in
      case read_until (\<lambda>out. check_success b out \<or> check_password_prompt b out) buffer [] (s_reads s) of
        Err e \<Rightarrow> (s\<lparr>s_reads := []\<rparr>, Err e)
      | Panic \<Rightarrow> (s, Panic)
      | Ok (out, buffer, rest) \<Rightarrow>
          if check_success b out then (s\<lparr>s_reads := rest\<rparr>, Ok ())
          else case write of
                 Some e \<Rightarrow> (s\<lparr>s_reads := rest\<rparr>, Err e)
               | None \<Rightarrow>
                   let s = s\<lparr>s_reads := rest, s_written := s_written s @ ba_password (b_args b) @ [nl]\<rparr>
                   in case read_until (check_success b) buffer [] rest of
                        Err e \<Rightarrow> (s\<lparr>s_reads := []\<rparr>, Err e)
                      | Panic \<Rightarrow> (s, Panic)
                      | Ok (out, buffer, rest) \<Rightarrow> (s\<lparr>s_reads := rest\<rparr>, Ok ()))"

definition start_become ::
  "tools \<Rightarrow> (string \<Rightarrow> (become_args \<Rightarrow> become_base) option) \<Rightarrow> string \<Rightarrow> string option \<Rightarrow> string option
   \<Rightarrow> string \<Rightarrow> become_args \<Rightarrow> session \<Rightarrow> session \<times> (string, unit) outcome" where
  "start_become tls plugins ident start write cmd args s =
     (case plugins (ba_method args) of
        None \<Rightarrow> (s, Err (''become plugin `'' @ ba_method args @ ''` not found''))
      | Some constructor \<Rightarrow>
          (case build_become_command tls ident (constructor args) cmd of
             (b, Err e) \<Rightarrow> (s, Err e)
           | (b, Panic) \<Rightarrow> (s, Panic)
           | (b, Ok (become_cmd, len)) \<Rightarrow>
               (case start of
                  Some e \<Rightarrow> (s, Err e)
                | None \<Rightarrow>
                    let s = s\<lparr>s_started := Some become_cmd\<rparr>
                    in if expect_prompt b then become_dialogue tls b len write s else (s, Ok ()))))"

section \<open>Lines and substrings\<close>

lemma contains_append_sep:
  assumes "nl \<notin> set text"
  shows "contains (w @ nl # s) text \<longleftrightarrow> contains w text \<or> contains s text"
proof -
  have "sublist text w \<or> sublist text s" if "sublist text (w @ nl # s)"
  proof -
    from that obtain p q where pq: "w @ nl # s = p @ text @ q" by (auto simp: sublist_def)
    then consider us where "w = p @ us" "us @ nl # s = text @ q"
      | us where "w @ us = p" "nl # s = us @ text @ q"
      by (auto simp: append_eq_append_conv2)
    then show ?thesis
    proof cases
      case (1 us)
      then consider zs where "us = text @ zs" | zs where "us @ zs = text" "nl # s = zs @ q"
        by (auto simp: append_eq_append_conv2)
      then show ?thesis
      proof cases
        case (2 zs)
        then have "zs = []" using assms by (cases zs) auto
        with 2 1(1) show ?thesis by auto
      qed (use 1(1) in \<open>auto simp: sublist_def\<close>)
    next
      case (2 us)
      then show ?thesis using assms by (cases us; cases "text") (auto simp: sublist_def)
    qed
  qed
  moreover have "sublist text (w @ nl # s)" if "sublist text w \<or> sublist text s"
    using that by (metis sublist_append sublist_Cons_right)
  ultimately show ?thesis by (auto simp: contains_iff)
qed

text \<open>
  Looking for a text line by line is looking for it in the whole output, when the text is
  itself on one line.
\<close>

theorem line_search_is_search:
  assumes "nl \<notin> set text"
  shows "some_line_contains out text \<longleftrightarrow> contains out text"
proof (induction "length out" arbitrary: out rule: less_induct)
  case less
  show ?case
  proof (cases "nl \<in> set out")
    case False
    then show ?thesis by (simp add: some_line_contains_def split_on_single)
  next
    case True
    then obtain w s where o: "out = w @ nl # s" "nl \<notin> set w" by (metis split_list_first)
    with less [of s] show ?thesis
      by (simp add: some_line_contains_def split_on_append contains_append_sep [OF assms])
  qed
qed

section \<open>The dialogue\<close>

text \<open>The first number of full reads after which the output has the property, if any.\<close>

definition seen :: "string list \<Rightarrow> nat \<Rightarrow> string" where
  "seen cs n = concat (take n cs)"

lemma read_until_full:
  assumes "\<forall>c \<in> set cs. length c = length buffer"
  shows "case read_until found buffer out cs of
      Ok (out', buffer', rest) \<Rightarrow> \<exists>n \<le> length cs. out' = out @ seen cs n \<and> rest = drop n cs \<and> found out' \<and>
         length buffer' = length buffer \<and> (\<forall>k < n. \<not> found (out @ seen cs k))
    | Err e \<Rightarrow> \<forall>n \<le> length cs. \<not> found (out @ seen cs n)
    | Panic \<Rightarrow> False"
  using assms
proof (induction cs arbitrary: buffer out)
  case Nil
  then show ?case by (simp add: seen_def)
next
  case (Cons c cs)
  show ?case
  proof (cases "found out")
    case True
    then show ?thesis by (auto simp: seen_def intro!: exI [of _ 0])
  next
    case False
    have b: "c @ drop (length c) buffer = c" using Cons.prems by simp
    have s: "out @ seen (c # cs) (Suc n) = (out @ c) @ seen cs n" for n by (simp add: seen_def)
    have z: "out @ seen (c # cs) 0 = out" by (simp add: seen_def)
    from Cons.IH [of c "out @ c"] Cons.prems
    have IH: "case read_until found c (out @ c) cs of
      Ok (out', buffer', rest) \<Rightarrow> \<exists>n \<le> length cs. out' = (out @ c) @ seen cs n \<and> rest = drop n cs \<and> found out' \<and>
         length buffer' = length c \<and> (\<forall>k < n. \<not> found ((out @ c) @ seen cs k))
    | Err e \<Rightarrow> \<forall>n \<le> length cs. \<not> found ((out @ c) @ seen cs n)
    | Panic \<Rightarrow> False" by simp
    show ?thesis
    proof (cases "read_until found c (out @ c) cs")
      case (Ok r)
      obtain o' b' rest where r: "r = (o', b', rest)" by (cases r)
      with IH Ok obtain n where n: "n \<le> length cs" "o' = out @ seen (c # cs) (Suc n)" "rest = drop (Suc n) (c # cs)"
        "found o'" "length b' = length c" "\<forall>k < n. \<not> found (out @ seen (c # cs) (Suc k))"
        unfolding s by auto
      have "\<forall>k < Suc n. \<not> found (out @ seen (c # cs) k)"
        using n(6) False z by (auto simp: less_Suc_eq_0_disj)
      with n Cons.prems Ok r False b show ?thesis
        by (auto intro!: exI [of _ "Suc n"])
    next
      case (Err e)
      with IH have "\<forall>n \<le> length cs. \<not> found (out @ seen (c # cs) (Suc n))" unfolding s by simp
      then have "\<forall>n \<le> length (c # cs). \<not> found (out @ seen (c # cs) n)"
        using False z by (metis Suc_le_mono length_Cons not0_implies_Suc)
      with Err False b show ?thesis by simp
    next
      case Panic
      with IH show ?thesis by simp
    qed
  qed
qed

text \<open>
  C35.  When every read fills the buffer, the password is sent only if a password prompt is in
  the output read so far and the success marker is in none of it, and then it is sent once, as
  one line; without such a prompt nothing is written.
\<close>

theorem password_after_prompt:
  assumes "\<forall>c \<in> set (s_reads s). length c = len"
  shows "s_written (fst (become_dialogue tls b len write s)) = s_written s \<or>
     s_written (fst (become_dialogue tls b len write s)) = s_written s @ ba_password (b_args b) @ [nl] \<and>
     (\<exists>n \<le> length (s_reads s). check_password_prompt b (seen (s_reads s) n) \<and>
        (\<forall>k \<le> n. \<not> check_success b (seen (s_reads s) k)))"
proof -
  let ?found = "\<lambda>out. check_success b out \<or> check_password_prompt b out"
  let ?buf = "replicate len (CHR 0x00)"
  have full: "\<forall>c \<in> set (s_reads s). length c = length ?buf" using assms by simp
  show ?thesis
  proof (cases "read_until ?found ?buf [] (s_reads s)")
    case (Ok r)
    obtain out buffer rest where r: "r = (out, buffer, rest)" by (cases r)
    from read_until_full [OF full, where found = ?found and out = "[]"] Ok r obtain n where n: "n \<le> length (s_reads s)"
      "out = seen (s_reads s) n" "?found out" "\<forall>k < n. \<not> ?found (seen (s_reads s) k)" by auto
    show ?thesis
    proof (cases "check_success b out \<or> write \<noteq> None")
      case True
      with Ok r show ?thesis by (auto simp: become_dialogue_def)
    next
      case False
      then have "check_password_prompt b (seen (s_reads s) n) \<and> (\<forall>k \<le> n. \<not> check_success b (seen (s_reads s) k))"
        using n by (auto simp: le_less)
      moreover have "s_written (fst (become_dialogue tls b len write s)) = s_written s @ ba_password (b_args b) @ [nl]"
        using Ok r False by (auto simp: become_dialogue_def Let_def split: outcome.splits)
      ultimately show ?thesis using n(1) by blast
    qed
  next
    case (Err e)
    then show ?thesis by (simp add: become_dialogue_def)
  next
    case Panic
    then show ?thesis by (simp add: become_dialogue_def)
  qed
qed

section \<open>Witnesses and limits\<close>

definition plain_tools :: tools where
  "plain_tools =
     \<lparr>quote = (\<lambda>s. [squote] @ s @ [squote]), quote_command = join '' '', split_flags = (\<lambda>s. Some (split_on spc s)),
      translate = (\<lambda>_ m. m), sh_executable = ''/bin/sh''\<rparr>"

definition become_bob :: become_args where
  "become_bob = empty_become_args\<lparr>ba_user := ''bob'', ba_password := ''pw'', ba_flags := ''-H''\<rparr>"

lemma line_search_is_search_witness:
  "some_line_contains (''a'' @ [nl] @ ''bcd'') ''c'' \<longleftrightarrow> contains (''a'' @ [nl] @ ''bcd'') ''c''"
  by (rule line_search_is_search) simp

definition sample_session :: session where
  "sample_session =
     \<lparr>s_reads = [''Password: '', ''BECOME-SUC'', ''CESS-x'' @ [nl, nl, nl, nl]], s_written = [], s_started = None\<rparr>"

lemma password_after_prompt_witness:
  "s_written (fst (become_dialogue plain_tools (fst (build_su plain_tools ''x'' (new_su become_bob) ''ls'')) 10 None sample_session)) = ''pw'' @ [nl] \<and>
   (\<exists>n \<le> length (s_reads sample_session).
      check_password_prompt (fst (build_su plain_tools ''x'' (new_su become_bob) ''ls'')) (seen (s_reads sample_session) n))"
proof -
  have full: "\<forall>c \<in> set (s_reads sample_session). length c = 10" by (simp add: sample_session_def)
  have w: "s_written (fst (become_dialogue plain_tools (fst (build_su plain_tools ''x'' (new_su become_bob) ''ls'')) 10 None sample_session)) = ''pw'' @ [nl]"
    by code_simp
  have "s_written sample_session = []" by (simp add: sample_session_def)
  with password_after_prompt [OF full, of plain_tools "fst (build_su plain_tools ''x'' (new_su become_bob) ''ls'')" None] w
  show ?thesis by auto
qed

text \<open>A message of su that only mentions the password is answered with it.\<close>

lemma mention_gets_password:
  "s_written (fst (become_dialogue plain_tools (fst (build_su plain_tools ''x'' (new_su become_bob) ''ls'')) 20 None
     \<lparr>s_reads = [''Password expired, us''], s_written = [], s_started = None\<rparr>)) = ''pw'' @ [nl]"
  by code_simp

text \<open>
  A read that does not fill the buffer leaves bytes of earlier reads behind it, and the marker
  that arrives in two such reads is not recognised: the start of the command fails.
\<close>

lemma short_read_breaks_marker:
  "snd (become_dialogue plain_tools (build_become_cmd_hook ''x'' (new_sudo become_bob)) 17 None
          \<lparr>s_reads = [''BECOME-'', ''SUCCESS-x'' @ [nl]], s_written = [], s_started = None\<rparr>) = Err ''EOF''"
  "check_success (build_become_cmd_hook ''x'' (new_sudo become_bob)) (''BECOME-'' @ ''SUCCESS-x'' @ [nl])"
  by code_simp+

text \<open>With a password, the flags of sudo are preceded by as many empty arguments as there are flags.\<close>

lemma reflag_leading_empty: "reflag [''-H''] = [[], ''-H'']"
  by code_simp

text \<open>The flag for no interaction stays when it is combined with another.\<close>

lemma combined_flag_kept: "''-nH'' \<in> set (reflag [''-nH''])"
  by code_simp

end
