(* ===== verification/Executor.thy ===== *)
theory Executor
  imports Vars_Manager Actions Become
begin

text \<open>
  Running a playbook (\<open>executor/playbook_executor.go\<close>): the connections of each host
  (\<open>executor/conn\<close>), meta tasks (\<open>plugins/meta\<close>), the remote execution of modules
  (\<open>executor/moduleExecutor\<close>) and the strategies.  What lies outside the program, dialling,
  closing, remote calls and the engine, is the parameter \<open>externals\<close>; what it answers may
  depend on everything that happened at that host before.
\<close>

named_theorems exec_simps \<open>evaluation of executor steps\<close>

section \<open>State\<close>

text \<open>A connection is a number, counted per manager; \<open>cm_dials\<close> counts them.\<close>

record conn_manager =
  cm_host :: string
  cm_vars :: vars
  cm_default :: "nat option"
  cm_become :: "(string \<times> nat) list"
  cm_dials :: nat

datatype event =
    Dialed become_args nat
  | RanAction string nat vars
  | RanModule string nat vars bool
  | Closed nat

record world =
  w_vm :: vars_manager
  w_hosts :: "string list"
  w_conns :: "string \<rightharpoonup> conn_manager"
  w_log :: "string \<Rightarrow> event list"

datatype exec_error =
    VarsError vars_error
  | TemplateError string
  | HostsError inv_error
  | DialError string
  | CloseError string
  | LoopError playbook_error
  | WhenError playbook_error
  | UnknownStrategy string
  | UnknownMeta string
  | OnTask string exec_error
  | OnHost string exec_error
  | Closing exec_error
  | Joined exec_error exec_error

record externals =
  x_visit :: visit
  x_engine :: engine
  x_settings :: settings
  x_query :: query
  x_sprint :: "gval \<Rightarrow> string"
  x_actions :: action_registry
  x_order :: "string set \<Rightarrow> string list"
  x_dial :: "string \<Rightarrow> event list \<Rightarrow> vars \<Rightarrow> become_args \<Rightarrow> string option"
  x_close :: "string \<Rightarrow> event list \<Rightarrow> nat \<Rightarrow> string option"
  x_update :: "mod_return \<Rightarrow> mod_return \<Rightarrow> mod_return"
  x_verbosity :: int
  x_wait :: "string \<Rightarrow> event list \<Rightarrow> vars \<Rightarrow> mod_return"
  x_marshal :: "vars \<Rightarrow> string option"
  x_runtime :: "string option"
  x_rpc :: "string \<Rightarrow> event list \<Rightarrow> string \<Rightarrow> vars \<Rightarrow> bool \<Rightarrow> (string, mod_return) outcome"

type_synonym 'a exec = "world \<Rightarrow> world \<times> (exec_error, 'a) outcome"

definition xret :: "'a \<Rightarrow> 'a exec" where
  "xret a w = (w, Ok a)"

definition xbind :: "'a exec \<Rightarrow> ('a \<Rightarrow> 'b exec) \<Rightarrow> 'b exec" where
  "xbind f g w =
     (case f w of
        (w, Ok a) \<Rightarrow> g a w
      | (w, Err e) \<Rightarrow> (w, Err e)
      | (w, Panic) \<Rightarrow> (w, Panic))"

definition xlift :: "(exec_error, 'a) outcome \<Rightarrow> 'a exec" where
  "xlift r w = (w, r)"

definition xmap_err :: "(exec_error \<Rightarrow> exec_error) \<Rightarrow> 'a exec \<Rightarrow> 'a exec" where
  "xmap_err f m w = (case m w of (w, r) \<Rightarrow> (w, map_err f r))"

definition log_event :: "string \<Rightarrow> event \<Rightarrow> unit exec" where
  "log_event h e w = (w\<lparr>w_log := (w_log w)(h := w_log w h @ [e])\<rparr>, Ok ())"

definition vars_of :: "externals \<Rightarrow> play option \<Rightarrow> string option \<Rightarrow> task option \<Rightarrow> vars exec" where
  "vars_of x pl host t w =
     (case get_vars (x_visit x) (x_engine x) (x_settings x) pl host t (w_vm w) of
        (vm, r) \<Rightarrow> (w\<lparr>w_vm := vm\<rparr>, map_err VarsError r))"

definition on_manager :: "(vars_manager \<Rightarrow> (exec_error, vars_manager) outcome) \<Rightarrow> unit exec" where
  "on_manager f w =
     (case f (w_vm w) of
        Ok vm \<Rightarrow> (w\<lparr>w_vm := vm\<rparr>, Ok ())
      | Err e \<Rightarrow> (w, Err e)
      | Panic \<Rightarrow> (w, Panic))"

section \<open>Connections\<close>

definition new_conn_manager :: "string \<Rightarrow> vars \<Rightarrow> conn_manager" where
  "new_conn_manager h vs =
     \<lparr>cm_host = h, cm_vars = vs, cm_default = None, cm_become = [], cm_dials = 0\<rparr>"

definition update_opts :: "vars \<Rightarrow> conn_manager \<Rightarrow> conn_manager" where
  "update_opts vs cm = cm\<lparr>cm_vars := vs\<rparr>"

definition get_become_args :: "settings \<Rightarrow> conn_manager \<Rightarrow> task \<Rightarrow> become_args" where
  "get_become_args cfg cm t =
     (let args = new_become_args cfg;
          str = (\<lambda>k. Option.bind (unknown_keywords t k) as_string);
          args = (case Option.bind (cm_vars cm ''become_pass'') as_string of
                    Some p \<Rightarrow> args\<lparr>ba_password := p\<rparr> | None \<Rightarrow> args);
          args = (case Option.bind (unknown_keywords t ''become'') as_bool of
                    Some b \<Rightarrow> args\<lparr>ba_become := b\<rparr> | None \<Rightarrow> args);
          args = (case str ''become_user'' of Some v \<Rightarrow> args\<lparr>ba_user := v\<rparr> | None \<Rightarrow> args);
          args = (case str ''become_method'' of Some v \<Rightarrow> args\<lparr>ba_method := v\<rparr> | None \<Rightarrow> args)
      in case str ''become_flags'' of Some v \<Rightarrow> args\<lparr>ba_flags := v\<rparr> | None \<Rightarrow> args)"

text \<open>Dialling: the new connection, or the error; the history is the log of the host.\<close>

definition create_connection ::
  "externals \<Rightarrow> become_args \<Rightarrow> conn_manager \<Rightarrow> event list
   \<Rightarrow> conn_manager \<times> event list \<times> (exec_error, nat) outcome" where
  "create_connection x args cm hist =
     (case x_dial x (cm_host cm) hist (cm_vars cm) args of
        Some e \<Rightarrow> (cm, hist, Err (DialError e))
      | None \<Rightarrow> (cm\<lparr>cm_dials := Suc (cm_dials cm)\<rparr>, hist @ [Dialed args (cm_dials cm)], Ok (cm_dials cm)))"

definition get_default_conn ::
  "externals \<Rightarrow> conn_manager \<Rightarrow> event list \<Rightarrow> conn_manager \<times> event list \<times> (exec_error, nat) outcome" where
  "get_default_conn x cm hist =
     (case cm_default cm of
        Some c \<Rightarrow> (cm, hist, Ok c)
      | None \<Rightarrow>
          (case create_connection x empty_become_args cm hist of
             (cm, hist, Ok c) \<Rightarrow> (cm\<lparr>cm_default := Some c\<rparr>, hist, Ok c)
           | r \<Rightarrow> r))"

definition get_become_conn ::
  "externals \<Rightarrow> become_args \<Rightarrow> conn_manager \<Rightarrow> event list
   \<Rightarrow> conn_manager \<times> event list \<times> (exec_error, nat) outcome" where
  "get_become_conn x args cm hist =
     (case map_of (cm_become cm) (ba_user args) of
        Some c \<Rightarrow> (cm, hist, Ok c)
      | None \<Rightarrow>
          (case create_connection x args cm hist of
             (cm, hist, Ok c) \<Rightarrow> (cm\<lparr>cm_become := AList.update (ba_user args) c (cm_become cm)\<rparr>, hist, Ok c)
           | r \<Rightarrow> r))"

definition get_conn_for_task ::
  "externals \<Rightarrow> task \<Rightarrow> conn_manager \<Rightarrow> event list
   \<Rightarrow> conn_manager \<times> event list \<times> (exec_error, nat) outcome" where
  "get_conn_for_task x t cm hist =
     (let args = get_become_args (x_settings x) cm t
      in if ba_become args then get_become_conn x args cm hist else get_default_conn x cm hist)"

text \<open>\<open>Errors.Combine\<close>: the first error innermost.\<close>

definition combine_errors :: "exec_error option list \<Rightarrow> exec_error option" where
  "combine_errors es =
     fold (\<lambda>c err. case c of
                     None \<Rightarrow> err
                   | Some e \<Rightarrow> Some (case err of None \<Rightarrow> e | Some e' \<Rightarrow> Joined e e'))
       es None"

fun close_all :: "externals \<Rightarrow> string \<Rightarrow> nat list \<Rightarrow> event list \<Rightarrow> event list \<times> exec_error option list" where
  "close_all x h [] hist = (hist, [])"
| "close_all x h (c # cs) hist =
     (case close_all x h cs (hist @ [Closed c]) of
        (hist', es) \<Rightarrow> (hist', map_option CloseError (x_close x h hist c) # es))"

text \<open>\<open>Manager.Close\<close> closes the connections that became another user, and keeps them.\<close>

definition close_manager :: "externals \<Rightarrow> string \<Rightarrow> unit exec" where
  "close_manager x h w =
     (case w_conns w h of
        None \<Rightarrow> (w, Panic)
      | Some cm \<Rightarrow>
          (case close_all x h (map snd (cm_become cm)) (w_log w h) of
             (hist, es) \<Rightarrow>
               (w\<lparr>w_log := (w_log w)(h := hist)\<rparr>,
                case combine_errors es of None \<Rightarrow> Ok () | Some e \<Rightarrow> Err (Closing e))))"

section \<open>Every host\<close>

text \<open>
  \<open>parallel.ForAll\<close>, the hosts one after another: each goroutine touches only its own host,
  so the order does not matter, which is proved below.  The result lists the errors.
\<close>

fun for_all :: "'h list \<Rightarrow> ('h \<Rightarrow> unit exec) \<Rightarrow> exec_error option list exec" where
  "for_all [] f w = (w, Ok [])"
| "for_all (h # hs) f w =
     (case f h w of
        (w, Panic) \<Rightarrow> (w, Panic)
      | (w, r) \<Rightarrow>
          (case for_all hs f w of
             (w, Ok es) \<Rightarrow> (w, Ok ((case r of Err e \<Rightarrow> Some e | _ \<Rightarrow> None) # es))
           | (w, Err e) \<Rightarrow> (w, Err e)
           | (w, Panic) \<Rightarrow> (w, Panic)))"

definition for_all_combined :: "'h list \<Rightarrow> ('h \<Rightarrow> unit exec) \<Rightarrow> unit exec" where
  "for_all_combined hs f =
     xbind (for_all hs f) (\<lambda>es. xlift (case combine_errors es of None \<Rightarrow> Ok () | Some e \<Rightarrow> Err e))"

definition close_conn_mgrs :: "externals \<Rightarrow> unit exec" where
  "close_conn_mgrs x w =
     xmap_err Closing (for_all_combined (filter (\<lambda>h. w_conns w h \<noteq> None) (w_hosts w)) (close_manager x)) w"

section \<open>Meta tasks\<close>

definition is_meta_task :: "task \<Rightarrow> bool" where
  "is_meta_task t \<longleftrightarrow>
     (case task_action t of Some a \<Rightarrow> act_name a \<in> set (to_internal_fqcns ''meta'') | None \<Rightarrow> False)"

definition remove_hosts :: "externals \<Rightarrow> string list \<Rightarrow> unit exec" where
  "remove_hosts x hs =
     xbind (for_all_combined hs (close_manager x)) (\<lambda>_ w.
       (w\<lparr>w_hosts := filter (\<lambda>h. h \<notin> set hs) (w_hosts w),
          w_conns := (\<lambda>h. if h \<in> set hs then None else w_conns w h)\<rparr>, Ok ()))"

definition when_satisfied :: "externals \<Rightarrow> task \<Rightarrow> vars \<Rightarrow> bool exec" where
  "when_satisfied x t env =
     xlift (map_err WhenError (when_conditions_satisfied (x_engine x) (x_settings x) t env))"

fun hosts_to_end :: "externals \<Rightarrow> play \<Rightarrow> task \<Rightarrow> string list \<Rightarrow> string list exec" where
  "hosts_to_end x p t [] = xret []"
| "hosts_to_end x p t (h # hs) =
     xbind (vars_of x (Some p) (Some h) (Some t)) (\<lambda>env.
     xbind (xmap_err (OnHost h) (when_satisfied x t env)) (\<lambda>b.
     xbind (hosts_to_end x p t hs) (\<lambda>ended. xret (if b then h # ended else ended))))"

definition end_host :: "externals \<Rightarrow> play \<Rightarrow> task \<Rightarrow> unit exec" where
  "end_host x p t w = xbind (hosts_to_end x p t (w_hosts w)) (remove_hosts x) w"

definition end_play :: "externals \<Rightarrow> unit exec" where
  "end_play x w = remove_hosts x (w_hosts w) w"

definition clear_facts :: "unit exec" where
  "clear_facts w = (w\<lparr>w_vm := fold delete_host_facts (w_hosts w) (w_vm w)\<rparr>, Ok ())"

text \<open>The loop of \<open>resetConnection\<close> stops at the first error.\<close>

fun close_each :: "externals \<Rightarrow> string list \<Rightarrow> unit exec" where
  "close_each x [] = xret ()"
| "close_each x (h # hs) = xbind (close_manager x h) (\<lambda>_. close_each x hs)"

definition reset_connection :: "externals \<Rightarrow> unit exec" where
  "reset_connection x w = close_each x (filter (\<lambda>h. w_conns w h \<noteq> None) (w_hosts w)) w"

definition meta_names :: "string list" where
  "meta_names =
     [''clear_facts'', ''clear_host_errors'', ''end_host'', ''end_play'', ''flush_handlers'', ''noop'',
      ''refresh_inventory'', ''reset_connection'', ''end_batch'']"

definition meta_execute :: "externals \<Rightarrow> play \<Rightarrow> task \<Rightarrow> unit exec" where
  "meta_execute x p t =
     (case task_action t of
        None \<Rightarrow> xlift Panic
      | Some a \<Rightarrow>
          if act_name a \<notin> set meta_names then xlift (Err (UnknownMeta (act_name a)))
          else if act_name a = ''clear_facts'' then clear_facts
          else if act_name a = ''end_host'' then end_host x p t
          else if act_name a = ''end_play'' then end_play x
          else if act_name a = ''reset_connection'' then reset_connection x
          else xret ())"

section \<open>One task on one host\<close>

definition task_banner :: "externals \<Rightarrow> play \<Rightarrow> task \<Rightarrow> unit exec" where
  "task_banner x p t =
     xbind (vars_of x (Some p) None (Some t)) (\<lambda>env.
       xlift (omap (\<lambda>_. ()) (map_err TemplateError
         (template_to_string (x_sprint x) (x_engine x) (x_settings x) (task_name t) env None))))"

definition connect :: "externals \<Rightarrow> task \<Rightarrow> string \<Rightarrow> vars \<Rightarrow> nat exec" where
  "connect x t h opts w =
     (case w_conns w h of
        None \<Rightarrow> (w, Panic)
      | Some cm \<Rightarrow>
          (case get_conn_for_task x t (update_opts opts cm) (w_log w h) of
             (cm, hist, r) \<Rightarrow>
               (w\<lparr>w_conns := (w_conns w)(h \<mapsto> cm), w_log := (w_log w)(h := hist)\<rparr>, r)))"

definition setup_connection :: "externals \<Rightarrow> play \<Rightarrow> task \<Rightarrow> string \<Rightarrow> nat exec" where
  "setup_connection x p t h =
     xbind (xmap_err (OnHost h) (vars_of x (Some p) (Some h) (Some t))) (connect x t h)"

definition keep_facts :: "string \<Rightarrow> mod_return \<Rightarrow> unit exec" where
  "keep_facts h r =
     (case r_internal r of
        None \<Rightarrow> xret ()
      | Some i \<Rightarrow> on_manager (save_facts (ir_bucket i) (ir_facts i) h))"

definition run_action :: "externals \<Rightarrow> action_fn \<Rightarrow> string \<Rightarrow> event list \<Rightarrow> vars \<Rightarrow> vars \<Rightarrow> (unit, mod_return) outcome" where
  "run_action x fn h hist args env =
     (case fn of
        ExampleNew \<Rightarrow> Ok (example_run h args)
      | DebugNew \<Rightarrow> debug_run (x_sprint x) (x_verbosity x) (x_engine x) (x_settings x) args env
      | WaitForConnectionNew \<Rightarrow> Ok (x_wait x h hist args)
      | SetFactNew \<Rightarrow> Ok (set_fact_run (x_update x) (x_visit x) (x_engine x) (x_settings x) args env))"

definition execute_plugin :: "externals \<Rightarrow> action_fn \<Rightarrow> string \<Rightarrow> string \<Rightarrow> nat \<Rightarrow> vars \<Rightarrow> vars \<Rightarrow> mod_return exec" where
  "execute_plugin x fn name h c args env w =
     (case log_event h (RanAction name c args) w of
        (w', _) \<Rightarrow> (w', map_err (\<lambda>_. TemplateError []) (run_action x fn h (w_log w h) args env)))"

text \<open>The remote call, tried again with the Python runtime when the module asks for it.\<close>

fun remote_module :: "externals \<Rightarrow> string \<Rightarrow> string \<Rightarrow> nat \<Rightarrow> vars \<Rightarrow> bool list \<Rightarrow> mod_return exec" where
  "remote_module x name h c args [] w = (w, Panic)"
| "remote_module x name h c args (upload # uploads) w =
     (case x_marshal x args of
        Some e \<Rightarrow> (w, Err (TemplateError e))
      | None \<Rightarrow>
          if upload \<and> x_runtime x \<noteq> None then (w, Err (TemplateError (the (x_runtime x))))
          else
            case log_event h (RanModule name c args upload) w of
              (w', _) \<Rightarrow>
                (case x_rpc x h (w_log w h) name args upload of
                   Err e \<Rightarrow> (w', Err (TemplateError e))
                 | Panic \<Rightarrow> (w', Panic)
                 | Ok r \<Rightarrow>
                     if r_internal r \<noteq> None \<and> ir_needs_python (the_internal r) \<and> \<not> upload
                     then remote_module x name h c args uploads w'
                     else (w', Ok r)))"

definition execute_remote_module_task :: "externals \<Rightarrow> action_desc \<Rightarrow> string \<Rightarrow> nat \<Rightarrow> vars \<Rightarrow> mod_return exec" where
  "execute_remote_module_task x a h c env =
     xbind (xlift (map_err TemplateError (template_action_args (x_visit x) (x_engine x) (x_settings x) (act_args a) env)))
       (\<lambda>args. remote_module x (act_name a) h c args [False, True])"

text \<open>Errors of the run are dropped; only those of templating a plugin's arguments are returned.\<close>

definition execute_action :: "externals \<Rightarrow> task \<Rightarrow> string \<Rightarrow> nat \<Rightarrow> vars \<Rightarrow> unit exec" where
  "execute_action x t h c env =
     (case task_action t of
        None \<Rightarrow> xlift Panic
      | Some a \<Rightarrow>
          (case find_action (act_name a) (x_actions x) of
             Some fn \<Rightarrow>
               xbind (xlift (map_err TemplateError
                        (template_action_args (x_visit x) (x_engine x) (x_settings x) (act_args a) env))) (\<lambda>args.
               xbind (execute_plugin x fn (act_name a) h c args env) (keep_facts h))
           | None \<Rightarrow>
               (\<lambda>w. case execute_remote_module_task x a h c env w of
                      (w, Ok r) \<Rightarrow> keep_facts h r w
                    | (w, Err e) \<Rightarrow> (w, Ok ())
                    | (w, Panic) \<Rightarrow> (w, Panic))))"

definition execute_when_satisfied :: "externals \<Rightarrow> play \<Rightarrow> task \<Rightarrow> string \<Rightarrow> nat \<Rightarrow> unit exec" where
  "execute_when_satisfied x p t h c =
     xbind (xmap_err (OnHost h) (vars_of x (Some p) (Some h) (Some t))) (\<lambda>env.
     xbind (when_satisfied x t env) (\<lambda>b. if b then execute_action x t h c env else xret ()))"

fun loop_body :: "externals \<Rightarrow> play \<Rightarrow> task \<Rightarrow> string \<Rightarrow> nat \<Rightarrow> gval list \<Rightarrow> unit exec" where
  "loop_body x p t h c [] = xret ()"
| "loop_body x p t h c (item # items) =
     xbind (on_manager (set_loop_item item h)) (\<lambda>_.
     xbind (execute_when_satisfied x p t h c) (\<lambda>_. loop_body x p t h c items))"

text \<open>The deferred reset runs however the loop ends.\<close>

definition run_loop :: "externals \<Rightarrow> play \<Rightarrow> task \<Rightarrow> string \<Rightarrow> nat \<Rightarrow> unit exec" where
  "run_loop x p t h c w =
     (case xbind (on_manager (\<lambda>m. Ok (reset_loop_context h m))) (\<lambda>_.
           xbind (xmap_err (OnHost h) (vars_of x (Some p) (Some h) (Some t))) (\<lambda>env.
           xbind (xlift (map_err (OnHost h \<circ> LoopError) (get_loop_items (x_query x) (x_engine x) (x_settings x) t env)))
             (loop_body x p t h c))) w of
        (w, r) \<Rightarrow> (w\<lparr>w_vm := reset_loop_context h (w_vm w)\<rparr>, r))"

definition execute_task :: "externals \<Rightarrow> play \<Rightarrow> string \<Rightarrow> task \<Rightarrow> unit exec" where
  "execute_task x p h t =
     xbind (task_banner x p t) (\<lambda>_.
     xmap_err (OnHost h)
       (xbind (setup_connection x p t h) (\<lambda>c.
          if has_loop t then run_loop x p t h c else execute_when_satisfied x p t h c)))"

fun execute_tasks_on_host :: "externals \<Rightarrow> play \<Rightarrow> task list \<Rightarrow> string \<Rightarrow> unit exec" where
  "execute_tasks_on_host x p [] h = xret ()"
| "execute_tasks_on_host x p (t # ts) h =
     (if is_meta_task t then execute_tasks_on_host x p ts h
      else xbind (xmap_err (OnTask (task_name t)) (execute_task x p h t))
             (\<lambda>_. execute_tasks_on_host x p ts h))"

section \<open>Plays\<close>

fun run_meta_tasks :: "externals \<Rightarrow> play \<Rightarrow> task list \<Rightarrow> unit exec" where
  "run_meta_tasks x p [] = xret ()"
| "run_meta_tasks x p (t # ts) =
     (if is_meta_task t
      then xbind (xmap_err (OnTask (task_name t)) (meta_execute x p t)) (\<lambda>_. run_meta_tasks x p ts)
      else run_meta_tasks x p ts)"

definition execute_tasks :: "externals \<Rightarrow> play \<Rightarrow> task list \<Rightarrow> unit exec" where
  "execute_tasks x p ts =
     xbind (run_meta_tasks x p ts) (\<lambda>_ w. for_all_combined (w_hosts w) (execute_tasks_on_host x p ts) w)"

fun execute_linear :: "externals \<Rightarrow> play \<Rightarrow> task list \<Rightarrow> unit exec" where
  "execute_linear x p [] = xret ()"
| "execute_linear x p (t # ts) = xbind (execute_tasks x p [t]) (\<lambda>_. execute_linear x p ts)"

definition execute_strategy :: "externals \<Rightarrow> play \<Rightarrow> unit exec" where
  "execute_strategy x p =
     (if strategy_key p = ''linear'' then execute_linear x p (play_tasks p)
      else if strategy_key p = ''free'' then execute_tasks x p (play_tasks p)
      else xlift (Err (UnknownStrategy (strategy_key p))))"

definition play_banner :: "externals \<Rightarrow> play \<Rightarrow> unit exec" where
  "play_banner x p =
     xbind (vars_of x (Some p) None None) (\<lambda>env.
       if play_name p \<noteq> []
       then xlift (omap (\<lambda>_. ()) (map_err TemplateError
              (template_to_string (x_sprint x) (x_engine x) (x_settings x) (play_name p) env None)))
       else xret ())"

text \<open>A walk of the host graph that does not return overflows the stack, which is fatal.\<close>

definition play_hosts :: "externals \<Rightarrow> play \<Rightarrow> unit exec" where
  "play_hosts x p w =
     (case determine_hosts (length (inv_groups (m_inventory (w_vm w)))) (m_inventory (w_vm w)) (hosts_pattern p) of
        None \<Rightarrow> (w, Panic)
      | Some Panic \<Rightarrow> (w, Panic)
      | Some (Err e) \<Rightarrow> (w, Err (HostsError e))
      | Some (Ok hs) \<Rightarrow> (w\<lparr>w_hosts := x_order x hs\<rparr>, Ok ()))"

fun add_conn_managers :: "externals \<Rightarrow> play \<Rightarrow> string list \<Rightarrow> unit exec" where
  "add_conn_managers x p [] = xret ()"
| "add_conn_managers x p (h # hs) =
     xbind (vars_of x (Some p) (Some h) None) (\<lambda>opts.
     xbind (\<lambda>w. (w\<lparr>w_conns := (w_conns w)(h \<mapsto> new_conn_manager h opts)\<rparr>, Ok ()))
       (\<lambda>_. add_conn_managers x p hs))"

definition setup_conn_managers :: "externals \<Rightarrow> play \<Rightarrow> unit exec" where
  "setup_conn_managers x p w = add_conn_managers x p (w_hosts w) (w\<lparr>w_conns := Map.empty\<rparr>)"

text \<open>
  The deferred function closes the managers; the error it assigns is that of a local
  variable, so the caller does not see it.
\<close>

definition execute_play :: "externals \<Rightarrow> play \<Rightarrow> unit exec" where
  "execute_play x p =
     xbind (play_banner x p) (\<lambda>_.
     xbind (play_hosts x p) (\<lambda>_ w.
       case xbind (setup_conn_managers x p) (\<lambda>_. execute_strategy x p) w of
         (w, r) \<Rightarrow> (case close_conn_mgrs x w of (w, Panic) \<Rightarrow> (w, Panic) | (w, _) \<Rightarrow> (w, r))))"

fun execute_playbook :: "externals \<Rightarrow> play list \<Rightarrow> unit exec" where
  "execute_playbook x [] = xret ()"
| "execute_playbook x (p # ps) = xbind (execute_play x p) (\<lambda>_. execute_playbook x ps)"

end
