(* ===== verification/Executor_Isolation.thy ===== *)
theory Executor_Isolation
  imports Executor
begin

text \<open>
  Hosts do not interfere.  A program is local to a host when its result and what it does to
  the host's part of the state depend on that part alone, and it leaves every other host's part
  as it is.  Running the tasks of a play on one host is local to it, so running them on all hosts
  is the same in every order, and for each host the same as running it alone.
\<close>

section \<open>The part of the state that belongs to a host\<close>

definition vm_view ::
  "string \<Rightarrow> vars_manager \<Rightarrow> vars \<times> (string \<times> group) list \<times> host option \<times> vars option option
     \<times> vars option option \<times> vars option option \<times> vars option" where
  "vm_view h m =
     (m_extra m, inv_groups (m_inventory m), map_of (inv_hosts (m_inventory m)) h,
      map_option (\<lambda>f. f h) (m_host_vars m), map_option (\<lambda>f. f h) (m_host_facts m),
      map_option (\<lambda>f. f h) (m_np_facts m), m_loop_vars m h)"

definition view ::
  "string \<Rightarrow> world \<Rightarrow> (vars \<times> (string \<times> group) list \<times> host option \<times> vars option option
     \<times> vars option option \<times> vars option option \<times> vars option) \<times> conn_manager option \<times> event list" where
  "view h w = (vm_view h (w_vm w), w_conns w h, w_log w h)"

definition host_local :: "string \<Rightarrow> 'a exec \<Rightarrow> bool" where
  "host_local h f \<longleftrightarrow>
     (\<forall>w1 w2. view h w1 = view h w2 \<longrightarrow> snd (f w1) = snd (f w2) \<and> view h (fst (f w1)) = view h (fst (f w2))) \<and>
     (\<forall>w h'. h' \<noteq> h \<longrightarrow> view h' (fst (f w)) = view h' w) \<and>
     (\<forall>w. w_hosts (fst (f w)) = w_hosts w)"

lemma host_localI:
  assumes "\<And>w1 w2. view h w1 = view h w2 \<Longrightarrow> snd (f w1) = snd (f w2) \<and> view h (fst (f w1)) = view h (fst (f w2))"
    and "\<And>w h'. h' \<noteq> h \<Longrightarrow> view h' (fst (f w)) = view h' w" and "\<And>w. w_hosts (fst (f w)) = w_hosts w"
  shows "host_local h f"
  using assms unfolding host_local_def by blast

lemma host_localD:
  assumes "host_local h f"
  shows "view h w1 = view h w2 \<Longrightarrow> snd (f w1) = snd (f w2)"
    and "view h w1 = view h w2 \<Longrightarrow> view h (fst (f w1)) = view h (fst (f w2))"
    and "h' \<noteq> h \<Longrightarrow> view h' (fst (f w)) = view h' w"
    and "w_hosts (fst (f w)) = w_hosts w"
  using assms unfolding host_local_def by blast+

named_theorems local_intros \<open>programs that are local to a host\<close>

lemma local_xret [local_intros]: "host_local h (xret a)"
  by (rule host_localI) (simp_all add: xret_def)

lemma local_xlift [local_intros]: "host_local h (xlift r)"
  by (rule host_localI) (simp_all add: xlift_def)

lemma fst_xbind: "fst (xbind f g w) = (case snd (f w) of Ok a \<Rightarrow> fst (g a (fst (f w))) | _ \<Rightarrow> fst (f w))"
  by (cases "f w"; cases "snd (f w)") (simp_all add: xbind_def)

lemma snd_xbind:
  "snd (xbind f g w) =
     (case snd (f w) of Ok a \<Rightarrow> snd (g a (fst (f w))) | Err e \<Rightarrow> Err e | Panic \<Rightarrow> Panic)"
  by (cases "f w"; cases "snd (f w)") (simp_all add: xbind_def)

lemma local_xbind [local_intros]:
  assumes f: "host_local h f" and g: "\<And>a. host_local h (g a)"
  shows "host_local h (xbind f g)"
proof (rule host_localI)
  fix w1 w2
  assume v: "view h w1 = view h w2"
  note r = host_localD(1) [OF f v] and v' = host_localD(2) [OF f v]
  show "snd (xbind f g w1) = snd (xbind f g w2) \<and> view h (fst (xbind f g w1)) = view h (fst (xbind f g w2))"
    using r v' host_localD(1,2) [OF g v'] unfolding fst_xbind snd_xbind by (cases "snd (f w2)") auto
next
  show "view h' (fst (xbind f g w)) = view h' w" if "h' \<noteq> h" for w h'
    using host_localD(3) [OF f that] host_localD(3) [OF g that] unfolding fst_xbind
    by (cases "snd (f w)") auto
next
  show "w_hosts (fst (xbind f g w)) = w_hosts w" for w
    using host_localD(4) [OF f] host_localD(4) [OF g] unfolding fst_xbind by (cases "snd (f w)") auto
qed

lemma xmap_err_simps: "fst (xmap_err e m w) = fst (m w)" "snd (xmap_err e m w) = map_err e (snd (m w))"
  by (simp_all add: xmap_err_def split: prod.splits)

lemma local_xmap_err [local_intros]:
  assumes "host_local h f"
  shows "host_local h (xmap_err e f)"
  using host_localD [OF assms] by (intro host_localI) (metis xmap_err_simps)+

lemma local_log_event [local_intros]: "host_local h (log_event h e)"
  by (rule host_localI) (simp_all add: log_event_def view_def)

section \<open>Variables\<close>

lemma vm_view_eqs:
  assumes "vm_view h m1 = vm_view h m2"
  shows "m_extra m1 = m_extra m2" "inv_groups (m_inventory m1) = inv_groups (m_inventory m2)"
    "map_of (inv_hosts (m_inventory m1)) h = map_of (inv_hosts (m_inventory m2)) h"
    "get_host (m_inventory m1) h = get_host (m_inventory m2) h"
    "get_group (m_inventory m1) = get_group (m_inventory m2)"
    "store_get (m_host_vars m1) h = store_get (m_host_vars m2) h"
    "store_get (m_host_facts m1) h = store_get (m_host_facts m2) h"
    "store_get (m_np_facts m1) h = store_get (m_np_facts m2) h"
    "m_loop_vars m1 h = m_loop_vars m2 h"
proof -
  have sg: "store_get st h = Option.bind (map_option (\<lambda>f. f h) st) (\<lambda>v. v)" for st
    by (cases st) (simp_all add: store_get_def)
  show "m_extra m1 = m_extra m2" "inv_groups (m_inventory m1) = inv_groups (m_inventory m2)"
    "map_of (inv_hosts (m_inventory m1)) h = map_of (inv_hosts (m_inventory m2)) h"
    "get_host (m_inventory m1) h = get_host (m_inventory m2) h"
    "get_group (m_inventory m1) = get_group (m_inventory m2)"
    "store_get (m_host_vars m1) h = store_get (m_host_vars m2) h"
    "store_get (m_host_facts m1) h = store_get (m_host_facts m2) h"
    "store_get (m_np_facts m1) h = store_get (m_np_facts m2) h"
    "m_loop_vars m1 h = m_loop_vars m2 h"
    using assms unfolding vm_view_def sg by (auto simp: get_host_def get_group_def fun_eq_iff)
qed

lemma vm_view_sort: "vm_view h m1 = vm_view h m2 \<Longrightarrow> vm_view h (sort_host_groups h m1) = vm_view h (sort_host_groups h m2)"
  by (simp add: vm_view_def sort_host_groups_def upd_host_def map_of_amap)

lemma vm_view_sort_other: "h' \<noteq> h \<Longrightarrow> vm_view h' (sort_host_groups h m) = vm_view h' m"
  by (simp add: vm_view_def sort_host_groups_def upd_host_def map_of_amap)

lemma fst_get_vars:
  "fst (get_vars visit eng cfg pl host t m) = (case host of None \<Rightarrow> m | Some h \<Rightarrow> sort_host_groups h m)"
  by (simp add: get_vars_def Let_def)

lemma host_layers_cong:
  assumes "vm_view h m1 = vm_view h m2"
  shows "host_layers cfg m1 (Some h) = host_layers cfg m2 (Some h)"
  unfolding host_layers_def group_layer_def precedence_entry_def host_fact_layer_def option.case
    vm_view_eqs [OF assms] ..

lemma top_layers_cong: "vm_view h m1 = vm_view h m2 \<Longrightarrow> top_layers m1 (Some h) all = top_layers m2 (Some h) all"
  by (simp add: top_layers_def Let_def vm_view_eqs [of h m1 m2])

lemma get_vars_local:
  assumes "vm_view h m1 = vm_view h m2"
  shows "snd (get_vars visit eng cfg pl (Some h) t m1) = snd (get_vars visit eng cfg pl (Some h) t m2)"
proof -
  note v = vm_view_sort [OF assms]
  show ?thesis
    by (simp add: get_vars_def Let_def host_layers_cong [OF v] top_layers_cong [OF v] vm_view_eqs(1) [OF v])
qed

lemma get_vars_none:
  "m_extra m1 = m_extra m2 \<Longrightarrow>
   snd (get_vars visit eng cfg pl None t m1) = snd (get_vars visit eng cfg pl None t m2)"
  by (simp add: get_vars_def Let_def host_layers_def top_layers_def)

lemma vars_of_simps:
  "fst (vars_of x pl host t w) = w\<lparr>w_vm := (case host of None \<Rightarrow> w_vm w | Some h \<Rightarrow> sort_host_groups h (w_vm w))\<rparr>"
  "snd (vars_of x pl host t w) =
     map_err VarsError (snd (get_vars (x_visit x) (x_engine x) (x_settings x) pl host t (w_vm w)))"
  unfolding vars_of_def by (simp_all add: case_prod_beta fst_get_vars)

lemma local_vars_of [local_intros]: "host_local h (vars_of x pl (Some h) t)"
proof (rule host_localI)
  fix w1 w2
  assume v: "view h w1 = view h w2"
  then have m: "vm_view h (w_vm w1) = vm_view h (w_vm w2)"
    by (simp add: view_def)
  show "snd (vars_of x pl (Some h) t w1) = snd (vars_of x pl (Some h) t w2)
    \<and> view h (fst (vars_of x pl (Some h) t w1)) = view h (fst (vars_of x pl (Some h) t w2))"
    using v vm_view_sort [OF m] unfolding vars_of_simps get_vars_local [OF m] by (simp add: view_def)
qed (simp_all add: vars_of_simps view_def vm_view_sort_other)

lemma local_vars_of_none [local_intros]: "host_local h (vars_of x pl None t)"
proof (rule host_localI)
  fix w1 w2
  assume v: "view h w1 = view h w2"
  then have m: "m_extra (w_vm w1) = m_extra (w_vm w2)"
    by (simp add: view_def vm_view_def)
  show "snd (vars_of x pl None t w1) = snd (vars_of x pl None t w2)
    \<and> view h (fst (vars_of x pl None t w1)) = view h (fst (vars_of x pl None t w2))"
    using v unfolding vars_of_simps get_vars_none [OF m] by (simp add: view_def)
qed (simp_all add: vars_of_simps view_def)

lemma local_on_manager:
  assumes "\<And>m1 m2. vm_view h m1 = vm_view h m2 \<Longrightarrow> omap (vm_view h) (f m1) = omap (vm_view h) (f m2)"
    and "\<And>m m' h'. h' \<noteq> h \<Longrightarrow> f m = Ok m' \<Longrightarrow> vm_view h' m' = vm_view h' m"
  shows "host_local h (on_manager f)"
proof (rule host_localI)
  fix w1 w2
  assume v: "view h w1 = view h w2"
  then have "omap (vm_view h) (f (w_vm w1)) = omap (vm_view h) (f (w_vm w2))"
    by (intro assms(1)) (simp add: view_def)
  with v show "snd (on_manager f w1) = snd (on_manager f w2) \<and> view h (fst (on_manager f w1)) = view h (fst (on_manager f w2))"
    by (cases "f (w_vm w1)"; cases "f (w_vm w2)") (simp_all add: on_manager_def view_def)
next
  show "view h' (fst (on_manager f w)) = view h' w" if "h' \<noteq> h" for w h'
    using assms(2) [OF that] by (cases "f (w_vm w)") (simp_all add: on_manager_def view_def)
next
  show "w_hosts (fst (on_manager f w)) = w_hosts w" for w
    by (simp add: on_manager_def split: outcome.splits)
qed

lemma local_set_loop_item [local_intros]: "host_local h (on_manager (set_loop_item v h))"
  by (rule local_on_manager) (auto simp: set_loop_item_def vm_view_def split: option.splits)

lemma local_reset_loop [local_intros]: "host_local h (on_manager (\<lambda>m. Ok (reset_loop_context h m)))"
  by (rule local_on_manager) (auto simp: reset_loop_context_def vm_view_def)

definition slot_view :: "string \<Rightarrow> host_store option \<Rightarrow> vars option option" where
  "slot_view h st = map_option (\<lambda>f. f h) st"

lemma vm_view_slots:
  "vm_view h m =
     (m_extra m, inv_groups (m_inventory m), map_of (inv_hosts (m_inventory m)) h,
      slot_view h (m_host_vars m), slot_view h (m_host_facts m), slot_view h (m_np_facts m), m_loop_vars m h)"
  by (simp add: vm_view_def slot_view_def)

lemma store_write_cong:
  "slot_view h st1 = slot_view h st2 \<Longrightarrow>
   omap (slot_view h) (store_write st1 h fs) = omap (slot_view h) (store_write st2 h fs)"
  by (cases st1; cases st2) (simp_all add: store_write_def slot_view_def)

lemma store_write_other:
  "h' \<noteq> h \<Longrightarrow> store_write st h fs = Ok st' \<Longrightarrow> slot_view h' st' = slot_view h' st"
  by (cases st) (auto simp: store_write_def slot_view_def)

lemma local_store_write:
  assumes "\<And>m1 m2. vm_view h m1 = vm_view h m2 \<Longrightarrow> slot_view h (get m1) = slot_view h (get m2)"
    and "\<And>m1 m2 st1 st2. vm_view h m1 = vm_view h m2 \<Longrightarrow> slot_view h st1 = slot_view h st2 \<Longrightarrow>
           vm_view h (put st1 m1) = vm_view h (put st2 m2)"
    and "\<And>h' m st. slot_view h' st = slot_view h' (get m) \<Longrightarrow> vm_view h' (put st m) = vm_view h' m"
  shows "host_local h (on_manager (\<lambda>m. omap (\<lambda>st. put st m) (store_write (get m) h fs)))"
proof (rule local_on_manager)
  fix m1 m2
  assume v: "vm_view h m1 = vm_view h m2"
  show "omap (vm_view h) (omap (\<lambda>st. put st m1) (store_write (get m1) h fs))
    = (omap (vm_view h) (omap (\<lambda>st. put st m2) (store_write (get m2) h fs)) :: (exec_error, _) outcome)"
    using store_write_cong [OF assms(1) [OF v], of fs, where 'a = exec_error] assms(2) [OF v]
    by (cases "store_write (get m1) h fs :: (exec_error, _) outcome";
        cases "store_write (get m2) h fs :: (exec_error, _) outcome") simp_all
next
  fix m m' h'
  assume ne: "h' \<noteq> h" and "omap (\<lambda>st. put st m) (store_write (get m) h fs) = (Ok m' :: (exec_error, _) outcome)"
  then obtain st where st: "store_write (get m) h fs = (Ok st :: (exec_error, _) outcome)" "m' = put st m"
    by (cases "store_write (get m) h fs :: (exec_error, _) outcome") auto
  show "vm_view h' m' = vm_view h' m"
    unfolding st(2) by (rule assms(3)) (rule store_write_other [OF ne st(1)])
qed

lemma local_save_facts [local_intros]: "host_local h (on_manager (save_facts b facts h))"
proof (cases facts)
  case None
  then show ?thesis
    unfolding save_facts_def by (intro local_on_manager) simp_all
next
  case (Some fs)
  have "host_local h (on_manager (set_host_facts h fs))" "host_local h (on_manager (set_host_np_facts h fs))"
    "host_local h (on_manager (set_host_vars h fs))"
    unfolding set_host_facts_def set_host_np_facts_def set_host_vars_def
    by (rule local_store_write; simp add: vm_view_slots)+
  moreover have "host_local h (on_manager (\<lambda>m. Ok m))"
    by (rule local_on_manager) simp_all
  ultimately show ?thesis
    unfolding save_facts_def Some
    by (cases "b = [] \<or> b = ''ansible_facts''"; cases "b = ''np_ansible_facts''"; cases "b = ''host_vars''") simp_all
qed

lemma local_keep_facts [local_intros]: "host_local h (keep_facts h r)"
  by (auto simp: keep_facts_def intro!: local_intros split: option.splits)

section \<open>The programs of the executor\<close>

lemma local_connect [local_intros]: "host_local h (connect x t h opts)"
  by (rule host_localI) (auto simp: connect_def view_def split: option.splits prod.splits)

lemma local_setup_connection [local_intros]: "host_local h (setup_connection x p t h)"
  unfolding setup_connection_def by (intro local_intros)

lemma local_task_banner [local_intros]: "host_local h (task_banner x p t)"
  unfolding task_banner_def by (intro local_intros)

lemma local_when_satisfied [local_intros]: "host_local h (when_satisfied x t env)"
  unfolding when_satisfied_def by (intro local_intros)

lemma local_execute_plugin [local_intros]: "host_local h (execute_plugin x fn name h c args env)"
  by (rule host_localI) (auto simp: execute_plugin_def log_event_def view_def)


lemma local_remote_module [local_intros]: "host_local h (remote_module x name h c args ups)"
proof (induction ups)
  case Nil
  show ?case
    by (rule host_localI) simp_all
next
  case (Cons u ups)
  have split: "remote_module x name h c args (u # ups) =
    (case x_marshal x args of
       Some e \<Rightarrow> xlift (Err (TemplateError e))
     | None \<Rightarrow>
         if u \<and> x_runtime x \<noteq> None then xlift (Err (TemplateError (the (x_runtime x))))
         else xbind (\<lambda>w. (w, Ok (w_log w h))) (\<lambda>hist.
              xbind (log_event h (RanModule name c args u)) (\<lambda>_.
              xbind (xlift (map_err TemplateError (x_rpc x h hist name args u))) (\<lambda>r.
                if r_internal r \<noteq> None \<and> ir_needs_python (the_internal r) \<and> \<not> u
                then remote_module x name h c args ups else xret r))))" (is "_ = ?R")
  proof (rule ext)
    show "remote_module x name h c args (u # ups) w = ?R w" for w
      by (cases "x_marshal x args"; cases "u \<and> x_runtime x \<noteq> None"; cases "x_rpc x h (w_log w h) name args u")
         (simp_all only: remote_module.simps log_event_def xbind_def xlift_def xret_def option.case outcome.case
            prod.case if_True if_False map_err.simps, auto simp: xlift_def xret_def)
  qed
  have "host_local h (\<lambda>w. (w, Ok (w_log w h)))"
    by (rule host_localI) (simp_all add: view_def)
  then show ?case
    unfolding split using Cons.IH by (auto intro!: local_intros split: option.splits)
qed

lemma local_execute_remote [local_intros]: "host_local h (execute_remote_module_task x a h c env)"
  unfolding execute_remote_module_task_def by (intro local_intros)

lemma local_catch:
  assumes f: "host_local h f" and g: "\<And>a. host_local h (g a)"
  shows "host_local h (\<lambda>w. case f w of (w, Ok r) \<Rightarrow> g r w | (w, Err e) \<Rightarrow> (w, Ok ()) | (w, Panic) \<Rightarrow> (w, Panic))"
    (is "host_local h ?F")
proof -
  have sp: "?F = (\<lambda>w. case snd (f w) of Ok r \<Rightarrow> g r (fst (f w)) | Err e \<Rightarrow> (fst (f w), Ok ()) | Panic \<Rightarrow> (fst (f w), Panic))"
    by (simp add: fun_eq_iff case_prod_beta)
  show ?thesis
    unfolding sp
  proof (rule host_localI)
    fix w1 w2
    assume v: "view h w1 = view h w2"
    note r = host_localD(1) [OF f v] and v' = host_localD(2) [OF f v]
    show "snd (case snd (f w1) of Ok r \<Rightarrow> g r (fst (f w1)) | Err e \<Rightarrow> (fst (f w1), Ok ()) | Panic \<Rightarrow> (fst (f w1), Panic))
      = snd (case snd (f w2) of Ok r \<Rightarrow> g r (fst (f w2)) | Err e \<Rightarrow> (fst (f w2), Ok ()) | Panic \<Rightarrow> (fst (f w2), Panic))
      \<and> view h (fst (case snd (f w1) of Ok r \<Rightarrow> g r (fst (f w1)) | Err e \<Rightarrow> (fst (f w1), Ok ()) | Panic \<Rightarrow> (fst (f w1), Panic)))
      = view h (fst (case snd (f w2) of Ok r \<Rightarrow> g r (fst (f w2)) | Err e \<Rightarrow> (fst (f w2), Ok ()) | Panic \<Rightarrow> (fst (f w2), Panic)))"
      unfolding r using v' host_localD(1,2) [OF g v'] by (cases "snd (f w2)") simp_all
  next
    fix w :: world and h'
    assume ne: "h' \<noteq> h"
    show "view h' (fst (case snd (f w) of Ok r \<Rightarrow> g r (fst (f w)) | Err e \<Rightarrow> (fst (f w), Ok ()) | Panic \<Rightarrow> (fst (f w), Panic)))
      = view h' w"
      using host_localD(3) [OF f ne] host_localD(3) [OF g ne] by (cases "snd (f w)") simp_all
  next
    fix w :: world
    show "w_hosts (fst (case snd (f w) of Ok r \<Rightarrow> g r (fst (f w)) | Err e \<Rightarrow> (fst (f w), Ok ()) | Panic \<Rightarrow> (fst (f w), Panic)))
      = w_hosts w"
      using host_localD(4) [OF f] host_localD(4) [OF g] by (cases "snd (f w)") simp_all
  qed
qed

lemma local_execute_action [local_intros]: "host_local h (execute_action x t h c env)"
  unfolding execute_action_def
  by (auto intro!: local_intros local_catch split: option.splits)

lemma local_execute_when [local_intros]: "host_local h (execute_when_satisfied x p t h c)"
  unfolding execute_when_satisfied_def by (auto intro!: local_intros)

lemma local_loop_body [local_intros]: "host_local h (loop_body x p t h c items)"
  by (induction items) (auto intro!: local_intros)

lemma run_loop_alt:
  "run_loop x p t h c w =
     (let (w', r) = xbind (on_manager (\<lambda>m. Ok (reset_loop_context h m))) (\<lambda>_.
           xbind (xmap_err (OnHost h) (vars_of x (Some p) (Some h) (Some t))) (\<lambda>env.
           xbind (xlift (map_err (OnHost h \<circ> LoopError) (get_loop_items (x_query x) (x_engine x) (x_settings x) t env)))
             (loop_body x p t h c))) w
      in (fst (on_manager (\<lambda>m. Ok (reset_loop_context h m)) w'), r))"
  unfolding run_loop_def by (simp add: on_manager_def case_prod_beta)

lemma local_then_reset:
  assumes f: "host_local h f"
  shows "host_local h (\<lambda>w. let (w', r) = f w in (fst (on_manager (\<lambda>m. Ok (reset_loop_context h m)) w'), r))"
  unfolding Let_def case_prod_beta
proof (rule host_localI, unfold fst_conv snd_conv)
  note g = local_reset_loop [of h]
  fix w1 w2 w :: world and h'
  show "snd (f w1) = snd (f w2)
    \<and> view h (fst (on_manager (\<lambda>m. Ok (reset_loop_context h m)) (fst (f w1))))
      = view h (fst (on_manager (\<lambda>m. Ok (reset_loop_context h m)) (fst (f w2))))" if "view h w1 = view h w2"
    using host_localD(1) [OF f that] host_localD(2) [OF g host_localD(2) [OF f that]] by (rule conjI)
  show "view h' (fst (on_manager (\<lambda>m. Ok (reset_loop_context h m)) (fst (f w)))) = view h' w" if "h' \<noteq> h"
    using host_localD(3) [OF g that] host_localD(3) [OF f that] by (rule trans)
  show "w_hosts (fst (on_manager (\<lambda>m. Ok (reset_loop_context h m)) (fst (f w)))) = w_hosts w"
    using host_localD(4) [OF g] host_localD(4) [OF f] by (rule trans)
qed

lemma local_run_loop [local_intros]: "host_local h (run_loop x p t h c)"
  unfolding run_loop_alt [abs_def] by (intro local_then_reset local_intros)

lemma local_execute_task [local_intros]: "host_local h (execute_task x p h t)"
  unfolding execute_task_def by (auto intro!: local_intros)

lemma local_execute_tasks_on_host [local_intros]: "host_local h (execute_tasks_on_host x p ts h)"
  by (induction ts) (auto intro!: local_intros)


section \<open>Running on every host\<close>

fun error_of :: "('e, 'a) outcome \<Rightarrow> 'e option" where
  "error_of (Err e) = Some e"
| "error_of r = None"

fun is_panic :: "('e, 'a) outcome \<Rightarrow> bool" where
  "is_panic Panic = True"
| "is_panic r = False"

locale host_programs =
  fixes run :: "string \<Rightarrow> unit exec"
  assumes run_local: "host_local h (run h)"
begin

lemma run_alone:
  assumes "view h w1 = view h w2"
  shows "snd (run h w1) = snd (run h w2)" "view h (fst (run h w1)) = view h (fst (run h w2))"
  using host_localD(1,2) [OF run_local assms] by blast+

lemma for_all_cons:
  assumes "\<not> is_panic (snd (run h w))" and "for_all hs run (fst (run h w)) = (w', Ok es)"
  shows "for_all (h # hs) run w = (w', Ok (error_of (snd (run h w)) # es))"
  using assms by (cases "run h w"; cases "snd (run h w)") simp_all

lemma isolated:
  assumes "distinct hs" and "\<And>h. h \<in> set hs \<Longrightarrow> \<not> is_panic (snd (run h w))"
  shows "\<exists>w'. for_all hs run w = (w', Ok (map (\<lambda>h. error_of (snd (run h w))) hs))
           \<and> (\<forall>h. view h w' = (if h \<in> set hs then view h (fst (run h w)) else view h w))
           \<and> w_hosts w' = w_hosts w"
  using assms
proof (induction hs arbitrary: w)
  case (Cons k hs)
  let ?w = "fst (run k w)"
  have same: "view h ?w = view h w" if "h \<noteq> k" for h
    using host_localD(3) [OF run_local that] .
  have alone: "snd (run h ?w) = snd (run h w)" "view h (fst (run h ?w)) = view h (fst (run h w))"
    if "h \<in> set hs" for h
    using Cons.prems(1) that run_alone [OF same [of h]] by auto
  obtain w' where w': "for_all hs run ?w = (w', Ok (map (\<lambda>h. error_of (snd (run h ?w))) hs))"
    and v: "\<And>h. view h w' = (if h \<in> set hs then view h (fst (run h ?w)) else view h ?w)"
    and hosts: "w_hosts w' = w_hosts ?w"
    using Cons.IH [of ?w] Cons.prems alone(1) by fastforce
  have "for_all (k # hs) run w = (w', Ok (map (\<lambda>h. error_of (snd (run h w))) (k # hs)))"
    using for_all_cons [OF _ w'] Cons.prems(2) [of k] alone(1) by simp
  moreover have "view h w' = (if h \<in> set (k # hs) then view h (fst (run h w)) else view h w)" for h
    using v [of h] alone(2) [of h] same [of h] Cons.prems(1) by auto
  ultimately show ?case
    using hosts host_localD(4) [OF run_local [of k], of w] by (intro exI [of _ w'] conjI allI) simp_all
qed simp

lemma any_order:
  assumes "distinct hs" and "set ks = set hs" "distinct ks"
    and "\<And>h. h \<in> set hs \<Longrightarrow> \<not> is_panic (snd (run h w))"
  shows "view h (fst (for_all ks run w)) = view h (fst (for_all hs run w))"
  using isolated [OF assms(1,4)] isolated [OF assms(3), of w] assms(2,4) by fastforce

end

interpretation tasks: host_programs "execute_tasks_on_host x p ts" for x p ts
  by unfold_locales (rule local_execute_tasks_on_host)

text \<open>
  C1.  No host disturbs another: when the tasks of a play run on all hosts and none of them
  panics, each host ends with the error, the variables, the connections and the history that
  running the tasks on it alone gives, and hosts that take no part keep theirs.
\<close>

theorem hosts_isolated:
  assumes "distinct hs" and "\<forall>h\<in>set hs. \<not> is_panic (snd (execute_tasks_on_host x p ts h w))"
  shows "snd (for_all hs (execute_tasks_on_host x p ts) w)
           = Ok (map (\<lambda>h. error_of (snd (execute_tasks_on_host x p ts h w))) hs) \<and>
         view h (fst (for_all hs (execute_tasks_on_host x p ts) w))
           = (if h \<in> set hs then view h (fst (execute_tasks_on_host x p ts h w)) else view h w)"
  using tasks.isolated [OF assms(1), of x p ts w] assms(2) by fastforce


end
