(* ===== verification/Executor_Runs.thy ===== *)
theory Executor_Runs
  imports Executor_Isolation
begin

text \<open>
  What a run of the executor guarantees: the two strategies agree when nothing fails, the remote
  execution of a module is tried at most twice, every connection that was dialled is still known
  to its manager, and what the code does about meta tasks and about failures.
\<close>

section \<open>The strategies\<close>

lemma combine_errors_none: "set es \<subseteq> {None} \<Longrightarrow> combine_errors es = None"
proof -
  assume a: "set es \<subseteq> {None}"
  have "fold (\<lambda>c err. case c of None \<Rightarrow> err
          | Some e \<Rightarrow> Some (case err of None \<Rightarrow> e | Some e' \<Rightarrow> Joined e e')) es acc = acc" for acc
    using a by (induction es arbitrary: acc) auto
  then show ?thesis
    by (simp add: combine_errors_def)
qed

lemma all_ok_combined:
  assumes "distinct hs" and ok: "\<forall>h\<in>set hs. snd (execute_tasks_on_host x p ts h w) = Ok ()"
  shows "\<exists>w'. for_all_combined hs (execute_tasks_on_host x p ts) w = (w', Ok ())
           \<and> (\<forall>h. view h w' = (if h \<in> set hs then view h (fst (execute_tasks_on_host x p ts h w)) else view h w))
           \<and> w_hosts w' = w_hosts w"
proof -
  obtain w' where w': "for_all hs (execute_tasks_on_host x p ts) w
      = (w', Ok (map (\<lambda>h. error_of (snd (execute_tasks_on_host x p ts h w))) hs))"
    and v: "\<forall>h. view h w' = (if h \<in> set hs then view h (fst (execute_tasks_on_host x p ts h w)) else view h w)"
    and hosts: "w_hosts w' = w_hosts w"
    using tasks.isolated [OF assms(1), of x p ts w] ok by auto
  have "combine_errors (map (\<lambda>h. error_of (snd (execute_tasks_on_host x p ts h w))) hs) = None"
    using ok by (intro combine_errors_none) auto
  then show ?thesis
    using w' v hosts by (auto simp: for_all_combined_def xbind_def xlift_def)
qed

lemma no_meta_run: "list_all (\<lambda>t. \<not> is_meta_task t) ts \<Longrightarrow> run_meta_tasks x p ts w = (w, Ok ())"
  by (induction ts) (auto simp: xret_def)

lemma execute_tasks_no_meta:
  "list_all (\<lambda>t. \<not> is_meta_task t) ts \<Longrightarrow>
   execute_tasks x p ts w = for_all_combined (w_hosts w) (execute_tasks_on_host x p ts) w"
  by (simp add: execute_tasks_def xbind_def no_meta_run)

lemma host_tasks_cons:
  assumes "\<not> is_meta_task t" and "snd (execute_tasks_on_host x p (t # ts) h w) = Ok ()"
  shows "snd (execute_tasks_on_host x p [t] h w) = Ok ()"
    and "execute_tasks_on_host x p (t # ts) h w
       = execute_tasks_on_host x p ts h (fst (execute_tasks_on_host x p [t] h w))"
  using assms by (auto simp: xbind_def xret_def split: prod.splits outcome.splits)

text \<open>
  C2.  The strategies agree: when running all tasks on each host alone succeeds and there is no
  meta task, executing task by task on all hosts (linear) and executing all tasks host by host
  (free) both succeed and leave every host the same variables, connections and history.
\<close>

theorem strategies_agree:
  assumes "distinct (w_hosts w)" and "list_all (\<lambda>t. \<not> is_meta_task t) ts"
    and "\<forall>h\<in>set (w_hosts w). snd (execute_tasks_on_host x p ts h w) = Ok ()"
  shows "snd (execute_linear x p ts w) = Ok () \<and> snd (execute_tasks x p ts w) = Ok () \<and>
    (\<forall>h. view h (fst (execute_linear x p ts w)) = view h (fst (execute_tasks x p ts w)))"
  using assms
proof (induction ts arbitrary: w)
  case Nil
  have "execute_tasks x p [] w = for_all_combined (w_hosts w) (execute_tasks_on_host x p []) w"
    by (simp add: execute_tasks_no_meta)
  with all_ok_combined [OF Nil.prems(1,3)] show ?case
    by (auto simp: xret_def)
next
  case (Cons t ts)
  let ?r = "\<lambda>ts. execute_tasks_on_host x p ts"
  have t: "\<not> is_meta_task t" and ts: "list_all (\<lambda>t. \<not> is_meta_task t) ts"
    using Cons.prems(2) by auto
  have ok: "\<forall>h\<in>set (w_hosts w). snd (?r [t] h w) = Ok ()"
    using host_tasks_cons(1) [OF t] Cons.prems(3) by blast
  obtain w1 where w1: "execute_tasks x p [t] w = (w1, Ok ())" and hosts: "w_hosts w1 = w_hosts w"
    and v1: "\<And>h. view h w1 = (if h \<in> set (w_hosts w) then view h (fst (?r [t] h w)) else view h w)"
    using all_ok_combined [OF Cons.prems(1) ok] t by (auto simp: execute_tasks_no_meta)
  have rest: "snd (?r ts h w1) = snd (?r (t # ts) h w)" "view h (fst (?r ts h w1)) = view h (fst (?r (t # ts) h w))"
    if "h \<in> set (w_hosts w)" for h
    unfolding host_tasks_cons(2) [OF t Cons.prems(3) [rule_format, OF that]]
    using that v1 [of h] by (intro tasks.run_alone; simp)+
  have IH: "snd (execute_linear x p ts w1) = Ok () \<and> snd (execute_tasks x p ts w1) = Ok () \<and>
    (\<forall>h. view h (fst (execute_linear x p ts w1)) = view h (fst (execute_tasks x p ts w1)))"
    using Cons.prems(1,3) ts rest hosts by (intro Cons.IH) auto
  obtain w2 where w2: "execute_tasks x p ts w1 = (w2, Ok ())"
    and v2: "\<And>h. view h w2 = (if h \<in> set (w_hosts w) then view h (fst (?r ts h w1)) else view h w1)"
    using all_ok_combined [of "w_hosts w1" x p ts w1] Cons.prems(1,3) rest hosts ts by (auto simp: execute_tasks_no_meta)
  obtain w3 where w3: "execute_tasks x p (t # ts) w = (w3, Ok ())"
    and v3: "\<And>h. view h w3 = (if h \<in> set (w_hosts w) then view h (fst (?r (t # ts) h w)) else view h w)"
    using all_ok_combined [OF Cons.prems(1,3)] Cons.prems(2) by (auto simp: execute_tasks_no_meta)
  have "view h w2 = view h w3" for h
    using v1 [of h] v2 [of h] v3 [of h] rest(2) [of h] by auto
  then show ?case
    using IH w1 w2 w3 by (auto simp: xbind_def)
qed


section \<open>Remote modules\<close>

lemma remote_module_log:
  "\<exists>n. w_log (fst (remote_module x name h c args ups w)) = (w_log w)(h := w_log w h @ map (RanModule name c args) (take n ups))"
proof (induction ups arbitrary: w)
  case Nil
  show ?case by simp
next
  case (Cons u ups)
  let ?w = "w\<lparr>w_log := (w_log w)(h := w_log w h @ [RanModule name c args u])\<rparr>"
  obtain n where n: "w_log (fst (remote_module x name h c args ups ?w)) =
      (w_log ?w)(h := w_log ?w h @ map (RanModule name c args) (take n ups))"
    using Cons.IH by blast
  have "fst (remote_module x name h c args (u # ups) w) \<in> {w, ?w, fst (remote_module x name h c args ups ?w)}"
    by (cases "x_marshal x args"; cases "u \<and> x_runtime x \<noteq> None"; cases "x_rpc x h (w_log w h) name args u")
       (auto simp: log_event_def)
  moreover have "w_log w = (w_log w)(h := w_log w h @ map (RanModule name c args) (take 0 (u # ups)))"
    "w_log ?w = (w_log w)(h := w_log w h @ map (RanModule name c args) (take 1 (u # ups)))"
    by simp_all
  moreover have "w_log (fst (remote_module x name h c args ups ?w))
      = (w_log w)(h := w_log w h @ map (RanModule name c args) (take (Suc n) (u # ups)))"
    using n by simp
  ultimately show ?case by (metis insert_iff singletonD)
qed


text \<open>
  The failure of a module is not an error of its task: whatever templating its arguments or
  calling it answers, the task goes on (or the program panics), so the tasks after it run.
\<close>

theorem module_failure_ignored:
  assumes "task_action t = Some a" and "find_action (act_name a) (x_actions x) = None"
  shows "snd (execute_action x t h c env w) \<in> {Ok (), Panic}"
proof -
  have save: "save_facts b fs h m \<noteq> Err e" for b fs m and e :: exec_error
    by (auto simp: save_facts_def set_host_facts_def set_host_np_facts_def set_host_vars_def store_write_def
        split: option.splits)
  have keep: "snd (keep_facts h r w') \<in> {Ok (), Panic}" for r w'
  proof (cases "r_internal r")
    case (Some i)
    then show ?thesis
      using save [of "ir_bucket i" "ir_facts i" "w_vm w'"]
      by (auto simp: keep_facts_def on_manager_def split: outcome.splits)
  qed (simp add: keep_facts_def xret_def)
  obtain w' r where wr: "execute_remote_module_task x a h c env w = (w', r)"
    by force
  show ?thesis
    using keep by (cases r) (simp_all add: execute_action_def assms wr)
qed

section \<open>Meta tasks\<close>

lemma meta_fqcns: "set (to_internal_fqcns ''meta'') \<inter> set meta_names = {}"
  by code_simp

text \<open>
  Every task the executor takes for a meta task fails: it is recognised by the names of the
  action meta, but looked up by that name among the names of the meta actions.
\<close>

theorem meta_task_fails:
  assumes "is_meta_task t"
  shows "\<exists>a. task_action t = Some a \<and> meta_execute x p t w = (w, Err (UnknownMeta (act_name a)))"
proof -
  obtain a where "task_action t = Some a" "act_name a \<in> set (to_internal_fqcns ''meta'')"
    using assms by (auto simp: is_meta_task_def split: option.splits)
  then show ?thesis
    using meta_fqcns by (auto simp: meta_execute_def xlift_def)
qed


section \<open>Connections\<close>

fun dials_of :: "event list \<Rightarrow> nat list" where
  "dials_of [] = []"
| "dials_of (Dialed args c # es) = c # dials_of es"
| "dials_of (_ # es) = dials_of es"

lemma dials_append [exec_simps]: "dials_of (es @ fs) = dials_of es @ dials_of fs"
  by (induction es rule: dials_of.induct) simp_all

text \<open>What happens at a host between two tasks of it: new variables, a task's connection, a call.\<close>

inductive conn_step :: "externals \<Rightarrow> conn_manager \<times> event list \<Rightarrow> conn_manager \<times> event list \<Rightarrow> bool" for x where
  conn_opts: "conn_step x (cm, es) (update_opts vs cm, es)"
| conn_task: "get_conn_for_task x t cm es = (cm', es', r) \<Longrightarrow> conn_step x (cm, es) (cm', es')"
| conn_use: "dials_of [e] = [] \<Longrightarrow> conn_step x (cm, es) (cm, es @ [e])"

definition own_conns :: "conn_manager \<Rightarrow> nat list" where
  "own_conns cm = map snd (cm_become cm) @ (case cm_default cm of None \<Rightarrow> [] | Some c \<Rightarrow> [c])"

definition conns_known :: "conn_manager \<times> event list \<Rightarrow> bool" where
  "conns_known s \<longleftrightarrow>
     dials_of (snd s) = [0..<cm_dials (fst s)] \<and> mset (own_conns (fst s)) = mset (dials_of (snd s))
     \<and> distinct (map fst (cm_become (fst s)))"

lemma alist_update_new: "k \<notin> fst ` set al \<Longrightarrow> AList.update k v al = al @ [(k, v)]"
  by (induction al) auto

lemma conns_knownD:
  assumes "conns_known (cm, es)"
  shows "dials_of es = [0..<cm_dials cm]" "mset (own_conns cm) = mset (dials_of es)"
    "distinct (map fst (cm_become cm))"
  using assms by (simp_all add: conns_known_def)

lemma conns_known_dialled:
  assumes "conns_known (cm, es)" and "cm_dials cm' = Suc (cm_dials cm)"
    and "mset (own_conns cm') = mset (own_conns cm) + {#cm_dials cm#}" and "distinct (map fst (cm_become cm'))"
  shows "conns_known (cm', es @ [Dialed args (cm_dials cm)])"
  using conns_knownD(1,2) [OF assms(1)] assms(2-4) by (simp add: conns_known_def exec_simps)

lemma get_become_cases:
  assumes g: "get_become_conn x a cm es = (cm', es', r)"
  shows "(cm', es') = (cm, es) \<or>
    map_of (cm_become cm) (ba_user a) = None \<and> es' = es @ [Dialed a (cm_dials cm)] \<and>
    cm' = cm\<lparr>cm_dials := Suc (cm_dials cm), cm_become := cm_become cm @ [(ba_user a, cm_dials cm)]\<rparr>"
proof (cases "map_of (cm_become cm) (ba_user a)")
  case None
  then have new: "AList.update (ba_user a) c (cm_become cm) = cm_become cm @ [(ba_user a, c)]" for c
    by (simp add: alist_update_new map_of_eq_None_iff)
  have "get_become_conn x a cm es = (case x_dial x (cm_host cm) es (cm_vars cm) a of
      None \<Rightarrow> (cm\<lparr>cm_dials := Suc (cm_dials cm), cm_become := cm_become cm @ [(ba_user a, cm_dials cm)]\<rparr>,
                es @ [Dialed a (cm_dials cm)], Ok (cm_dials cm))
    | Some e \<Rightarrow> (cm, es, Err (DialError e)))"
    by (simp add: get_become_conn_def create_connection_def None new split: option.split)
  with g None show ?thesis
    by (cases "x_dial x (cm_host cm) es (cm_vars cm) a") auto
next
  case (Some c)
  show ?thesis
    using g unfolding get_become_conn_def Some by simp
qed

lemma get_default_cases:
  assumes g: "get_default_conn x cm es = (cm', es', r)"
  shows "(cm', es') = (cm, es) \<or>
    cm_default cm = None \<and> es' = es @ [Dialed empty_become_args (cm_dials cm)] \<and>
    cm' = cm\<lparr>cm_dials := Suc (cm_dials cm), cm_default := Some (cm_dials cm)\<rparr>"
proof (cases "cm_default cm")
  case None
  have "get_default_conn x cm es = (case x_dial x (cm_host cm) es (cm_vars cm) empty_become_args of
      None \<Rightarrow> (cm\<lparr>cm_dials := Suc (cm_dials cm), cm_default := Some (cm_dials cm)\<rparr>,
                es @ [Dialed empty_become_args (cm_dials cm)], Ok (cm_dials cm))
    | Some e \<Rightarrow> (cm, es, Err (DialError e)))"
    by (simp add: get_default_conn_def create_connection_def None split: option.split)
  with g None show ?thesis
    by (cases "x_dial x (cm_host cm) es (cm_vars cm) empty_become_args") auto
next
  case (Some c)
  show ?thesis
    using g unfolding get_default_conn_def Some by simp
qed

lemma conns_known_task:
  assumes known: "conns_known (cm, es)" and g: "get_conn_for_task x t cm es = (cm', es', r)"
  shows "conns_known (cm', es')"
proof (cases "ba_become (get_become_args (x_settings x) cm t)")
  case True
  then have "get_become_conn x (get_become_args (x_settings x) cm t) cm es = (cm', es', r)"
    using g by (simp add: get_conn_for_task_def Let_def)
  from get_become_cases [OF this] show ?thesis
  proof (elim disjE conjE)
    assume none: "map_of (cm_become cm) (ba_user (get_become_args (x_settings x) cm t)) = None"
      and log: "es' = es @ [Dialed (get_become_args (x_settings x) cm t) (cm_dials cm)]"
      and cm': "cm' = cm\<lparr>cm_dials := Suc (cm_dials cm),
        cm_become := cm_become cm @ [(ba_user (get_become_args (x_settings x) cm t), cm_dials cm)]\<rparr>"
    show ?thesis
      unfolding log using conns_knownD(3) [OF known] none
      by (intro conns_known_dialled [OF known]) (simp_all add: cm' own_conns_def map_of_eq_None_iff)
  qed (use known in simp)
next
  case False
  then have "get_default_conn x cm es = (cm', es', r)"
    using g by (simp add: get_conn_for_task_def Let_def)
  from get_default_cases [OF this] show ?thesis
  proof (elim disjE conjE)
    assume none: "cm_default cm = None" and log: "es' = es @ [Dialed empty_become_args (cm_dials cm)]"
      and cm': "cm' = cm\<lparr>cm_dials := Suc (cm_dials cm), cm_default := Some (cm_dials cm)\<rparr>"
    show ?thesis
      unfolding log using conns_knownD(3) [OF known] none
      by (intro conns_known_dialled [OF known]) (simp_all add: cm' own_conns_def)
  qed (use known in simp)
qed

lemma conns_known_step:
  assumes "conn_step x s s'" and "conns_known s"
  shows "conns_known s'"
  using assms
proof (induction rule: conn_step.induct)
  case (conn_opts cm es vs)
  then show ?case by (simp add: conns_known_def own_conns_def update_opts_def)
next
  case (conn_task t cm es cm' es' r)
  then show ?case using conns_known_task by blast
next
  case (conn_use e cm es)
  then show ?case by (simp add: conns_known_def exec_simps)
qed

interpretation connections: invariant_machine "\<lambda>s. \<exists>h vs. s = (new_conn_manager h vs, [])" "conn_step x" conns_known for x
proof unfold_locales
  show "conns_known s" if "\<exists>h vs. s = (new_conn_manager h vs, [])" for s
    using that by (auto simp: conns_known_def new_conn_manager_def own_conns_def)
qed (rule conns_known_step)



text \<open>Closing a manager closes what became another user, and never the default connection.\<close>

lemma close_all_log: "fst (close_all x h cs es) = es @ map Closed cs"
  by (induction cs arbitrary: es) (simp_all split: prod.splits, metis append_assoc append_Cons append_Nil fst_conv)

lemma default_never_closed:
  assumes "reach (\<lambda>s. \<exists>h vs. s = (new_conn_manager h vs, [])) (conn_step x) (cm, es)"
    and "cm_default cm = Some c" and "w_conns w h = Some cm"
  shows "\<exists>cs. w_log (fst (close_manager x h w)) h = w_log w h @ map Closed cs \<and> c \<notin> set cs"
proof -
  have "distinct (own_conns cm)"
    using connections.always [OF assms(1)] mset_eq_imp_distinct_iff [of "own_conns cm" "dials_of es"]
    by (auto simp: conns_known_def)
  then have "c \<notin> set (map snd (cm_become cm))"
    using assms(2) by (auto simp: own_conns_def)
  then show ?thesis
    using close_all_log [of x h "map snd (cm_become cm)" "w_log w h"] assms(3)
    by (intro exI [of _ "map snd (cm_become cm)"])
       (cases "close_all x h (map snd (cm_become cm)) (w_log w h)", simp add: close_manager_def)
qed

text \<open>A connection that was closed by resetting is handed out again.\<close>

lemma closed_conn_reused: "w_conns (fst (close_manager x h w)) = w_conns w"
  by (auto simp: close_manager_def split: option.splits prod.splits)


section \<open>Witnesses\<close>

definition sample_hosts :: inventory where
  "sample_hosts = from_ok new_data (parse_ini (\<lambda>_ xs. xs) (Some [''h1'', ''h2'']))"

definition sample_world :: world where
  "sample_world =
     \<lparr>w_vm = new_manager sample_hosts, w_hosts = [''h1'', ''h2''],
      w_conns = [''h1'' \<mapsto> new_conn_manager ''h1'' Map.empty, ''h2'' \<mapsto> new_conn_manager ''h2'' Map.empty],
      w_log = (\<lambda>_. [])\<rparr>"

definition sample_externals :: externals where
  "sample_externals =
     \<lparr>x_visit = list_visit [''msg''], x_engine = echo_engine, x_settings = sample_settings,
      x_query = (\<lambda>_ _ _. Ok []), x_sprint = (\<lambda>_. []), x_actions = register_default_actions Map.empty,
      x_order = (\<lambda>_. []), x_dial = (\<lambda>h es _ _. None), x_close = (\<lambda>_ _ _. None), x_update = (\<lambda>_ u. u),
      x_verbosity = 0, x_wait = (\<lambda>_ _ _. empty_return), x_marshal = (\<lambda>_. None), x_runtime = None,
      x_rpc = (\<lambda>h es name _ upload.
        if h = ''h2'' then Err ''unreachable''
        else Ok (empty_return\<lparr>r_internal := Some (no_internal\<lparr>ir_needs_python := \<not> upload\<rparr>)\<rparr>))\<rparr>"

definition message_task :: task where
  "message_task = new_task\<lparr>task_action := Some \<lparr>act_name = ''debug'', act_args = [''msg'' \<mapsto> GStr ''hi''], delegate_to = []\<rparr>,
     task_loop := Some \<lparr>loop_template = [], loop_items = Some [GInt 1, GInt 2]\<rparr>\<rparr>"

definition module_task :: task where
  "module_task = new_task\<lparr>unknown_keywords := [''become'' \<mapsto> GBool True],
     task_action := Some \<lparr>act_name = ''ping'', act_args = Map.empty, delegate_to = []\<rparr>\<rparr>"

definition sample_tasks :: "task list" where
  "sample_tasks = [message_task, module_task]"

definition run_sample :: "string \<Rightarrow> unit exec" where
  "run_sample = execute_tasks_on_host sample_externals sample_play sample_tasks"

lemma run_sample_ok: "list_all (\<lambda>h. is_ok (snd (run_sample h sample_world))) [''h1'', ''h2'']"
  by code_simp

lemma run_sample_log: "length (w_log (fst (run_sample ''h1'' sample_world)) ''h1'') = 6"
  by code_simp

lemma no_panics: "\<forall>h\<in>set [''h1'', ''h2'']. snd (run_sample h sample_world) = Ok ()"
proof -
  have "r = Ok ()" if "is_ok r" for r :: "(exec_error, unit) outcome"
    using that by (cases r) simp_all
  with run_sample_ok show ?thesis by (auto simp: list_all_iff)
qed


lemma hosts_isolated_witness:
  "snd (for_all [''h1'', ''h2''] run_sample sample_world) = Ok [None, None]"
proof -
  have "\<forall>h\<in>set [''h1'', ''h2'']. \<not> is_panic (snd (run_sample h sample_world))"
    using no_panics by auto
  then show ?thesis
    using hosts_isolated [of "[''h1'', ''h2'']" sample_externals sample_play sample_tasks sample_world "''h1''"] no_panics
    unfolding run_sample_def [symmetric] by simp
qed


lemma strategies_agree_witness:
  "snd (execute_linear sample_externals sample_play sample_tasks sample_world) = Ok ()"
proof -
  have hosts: "w_hosts sample_world = [''h1'', ''h2'']"
    by (simp add: sample_world_def)
  have "list_all (\<lambda>t. \<not> is_meta_task t) sample_tasks"
    by code_simp
  with strategies_agree [of sample_world sample_tasks sample_externals sample_play] no_panics show ?thesis
    unfolding hosts run_sample_def [symmetric] by simp
qed

lemma module_failure_ignored_witness:
  "snd (execute_action sample_externals module_task ''h2'' 0 Map.empty sample_world) \<in> {Ok (), Panic}"
proof (rule module_failure_ignored)
  show "task_action module_task = Some \<lparr>act_name = ''ping'', act_args = Map.empty, delegate_to = []\<rparr>"
    by (simp add: module_task_def)
  show "find_action (act_name \<lparr>act_name = ''ping'', act_args = Map.empty, delegate_to = []\<rparr>) (x_actions sample_externals) = None"
    by code_simp
qed

definition meta_task :: task where
  "meta_task = new_task\<lparr>task_action := Some \<lparr>act_name = ''meta'', act_args = Map.empty, delegate_to = []\<rparr>\<rparr>"

lemma meta_task_fails_witness:
  "meta_execute sample_externals sample_play meta_task sample_world = (sample_world, Err (UnknownMeta ''meta''))"
proof -
  have "is_meta_task meta_task" by code_simp
  from meta_task_fails [OF this] show ?thesis by (auto simp: meta_task_def)
qed

definition first_conn :: "conn_manager \<times> event list \<times> (exec_error, nat) outcome" where
  "first_conn = get_conn_for_task sample_externals module_task (new_conn_manager ''h1'' Map.empty) []"

lemma first_conn_value: "snd (snd first_conn) = Ok 0"
proof -
  have "is_ok (snd (snd first_conn)) \<and> from_ok 1 (snd (snd first_conn)) = 0" by code_simp
  then show ?thesis by (cases "snd (snd first_conn)") simp_all
qed




text \<open>
  The error of closing the connections at the end of a play does not reach the caller: the
  deferred function assigns it to a variable that is no longer read.
\<close>

lemma close_error_lost:
  "is_ok (snd (execute_play (sample_externals\<lparr>x_close := (\<lambda>_ _ _. Some ''broken''), x_order := (\<lambda>_. [''h1''])\<rparr>)
     (sample_play\<lparr>play_tasks := [module_task]\<rparr>) sample_world))"
  "\<not> is_ok (snd (close_conn_mgrs (sample_externals\<lparr>x_close := (\<lambda>_ _ _. Some ''broken'')\<rparr>)
     (fst (execute_strategy sample_externals (sample_play\<lparr>play_tasks := [module_task]\<rparr>) sample_world))))"
  by code_simp+

end
