(* ===== verification/Go_Effects.thy ===== *)
theory Go_Effects
  imports Go_Prelude
begin

text \<open>
  Programs with a state: a call returns the next state and a value, an error or a panic.  The
  state after an error is kept, as effects done before an early return are.
\<close>

named_theorems effect_simps \<open>evaluation of programs with a state\<close>

type_synonym ('s, 'e, 'a) prog = "'s \<Rightarrow> 's \<times> ('e, 'a) outcome"

definition pret :: "'a \<Rightarrow> ('s, 'e, 'a) prog" where
  "pret a s = (s, Ok a)"

definition plift :: "('e, 'a) outcome \<Rightarrow> ('s, 'e, 'a) prog" where
  "plift r s = (s, r)"

definition pbind :: "('s, 'e, 'a) prog \<Rightarrow> ('a \<Rightarrow> ('s, 'e, 'b) prog) \<Rightarrow> ('s, 'e, 'b) prog" where
  "pbind f g s =
     (case f s of
        (s, Ok a) \<Rightarrow> g a s
      | (s, Err e) \<Rightarrow> (s, Err e)
      | (s, Panic) \<Rightarrow> (s, Panic))"

text \<open>A call whose error the caller looks at itself.\<close>

definition ptry :: "('s, 'e, 'a) prog \<Rightarrow> ('s, 'f, 'e + 'a) prog" where
  "ptry f s =
     (case f s of
        (s, Ok a) \<Rightarrow> (s, Ok (Inr a))
      | (s, Err e) \<Rightarrow> (s, Ok (Inl e))
      | (s, Panic) \<Rightarrow> (s, Panic))"

text \<open>A deferred call: it runs however the body ends, and its own error is dropped.\<close>

definition pdefer :: "('s, 'e, 'a) prog \<Rightarrow> ('s, 'f, 'b) prog \<Rightarrow> ('s, 'e, 'a) prog" where
  "pdefer f g s =
     (case f s of
        (s, Panic) \<Rightarrow> (fst (g s), Panic)
      | (s, r) \<Rightarrow> (case g s of (s, Panic) \<Rightarrow> (s, Panic) | (s, _) \<Rightarrow> (s, r)))"

definition pmap_err :: "('e \<Rightarrow> 'f) \<Rightarrow> ('s, 'e, 'a) prog \<Rightarrow> ('s, 'f, 'a) prog" where
  "pmap_err h f s =
     (case f s of
        (s, Ok a) \<Rightarrow> (s, Ok a)
      | (s, Err e) \<Rightarrow> (s, Err (h e))
      | (s, Panic) \<Rightarrow> (s, Panic))"

lemma pret_simps [effect_simps]: "fst (pret a s) = s" "snd (pret a s) = Ok a"
  by (simp_all add: pret_def)

lemma plift_simps [effect_simps]: "fst (plift r s) = s" "snd (plift r s) = r"
  by (simp_all add: plift_def)

lemma pbind_simps [effect_simps]:
  "f s = (t, Ok a) \<Longrightarrow> pbind f g s = g a t"
  "f s = (t, Err e) \<Longrightarrow> pbind f g s = (t, Err e)"
  "f s = (t, Panic) \<Longrightarrow> pbind f g s = (t, Panic)"
  by (simp_all add: pbind_def)

lemma pbind_pret [effect_simps]: "pbind (pret a) g = g a"
  by (rule ext) (simp add: pbind_def pret_def)

lemma pbind_plift [effect_simps]:
  "pbind (plift (Ok a)) g = g a" "pbind (plift (Err e)) g = plift (Err e)" "pbind (plift Panic) g = plift Panic"
  by (rule ext, simp add: pbind_def plift_def)+

lemma pbind_Ok_iff:
  "pbind f g s = (t, Ok b) \<longleftrightarrow> (\<exists>a s'. f s = (s', Ok a) \<and> g a s' = (t, Ok b))"
  by (cases "f s"; cases "snd (f s)") (auto simp: pbind_def)

lemma pmap_err_Ok: "pmap_err h f s = (s', Ok a) \<longleftrightarrow> f s = (s', Ok a)"
  by (cases "f s"; cases "snd (f s)") (auto simp: pmap_err_def)

text \<open>
  Frames: a program keeps what \<open>view\<close> sees of the state when each of its parts does.
\<close>

definition keeps :: "('s \<Rightarrow> 'v) \<Rightarrow> ('s, 'e, 'a) prog \<Rightarrow> bool" where
  "keeps view f \<longleftrightarrow> (\<forall>s. view (fst (f s)) = view s)"

named_theorems keeps_intros \<open>programs that keep a view of the state\<close>

lemma keepsI: "(\<And>s. view (fst (f s)) = view s) \<Longrightarrow> keeps view f"
  by (simp add: keeps_def)

lemma keepsD: "keeps view f \<Longrightarrow> view (fst (f s)) = view s"
  by (simp add: keeps_def)

lemma keeps_pret [keeps_intros]: "keeps view (pret a)"
  by (simp add: keeps_def pret_def)

lemma keeps_plift [keeps_intros]: "keeps view (plift r)"
  by (simp add: keeps_def plift_def)

lemma keeps_pbind [keeps_intros]:
  assumes "keeps view f" "\<And>a. keeps view (g a)"
  shows "keeps view (pbind f g)"
proof (rule keepsI)
  fix s
  show "view (fst (pbind f g s)) = view s"
    using keepsD [OF assms(1), of s] keepsD [OF assms(2)]
    by (cases "f s"; cases "snd (f s)") (auto simp: pbind_def)
qed

lemma keeps_ptry [keeps_intros]: "keeps view f \<Longrightarrow> keeps view (ptry f)"
  by (auto simp: keeps_def ptry_def split: prod.splits outcome.splits) (metis fst_conv)+

lemma keeps_pmap_err [keeps_intros]: "keeps view f \<Longrightarrow> keeps view (pmap_err h f)"
  by (auto simp: keeps_def pmap_err_def split: prod.splits outcome.splits) (metis fst_conv)+

lemma keeps_pdefer [keeps_intros]: "keeps view f \<Longrightarrow> keeps view g \<Longrightarrow> keeps view (pdefer f g)"
  by (auto simp: keeps_def pdefer_def split: prod.splits outcome.splits) (metis fst_conv)+

text \<open>What a program that keeps its state yields: a calculus of results.\<close>

definition yields :: "'s \<Rightarrow> ('s, 'e, 'a) prog \<Rightarrow> ('a \<Rightarrow> bool) \<Rightarrow> bool" where
  "yields s f P \<longleftrightarrow> (\<forall>s' b. f s = (s', Ok b) \<longrightarrow> P b)"

lemma yieldsD: "yields s f P \<Longrightarrow> f s = (s', Ok b) \<Longrightarrow> P b"
  by (auto simp: yields_def)

lemma yields_pret: "P a \<Longrightarrow> yields s (pret a) P"
  by (simp add: yields_def pret_def)

lemma yields_Err: "yields s (plift (Err e)) P" "yields s (plift Panic) P"
  by (simp_all add: yields_def plift_def)

lemma yields_pbind:
  assumes "keeps (\<lambda>s. s) f" and "\<And>a. f s = (s, Ok a) \<Longrightarrow> yields s (g a) P"
  shows "yields s (pbind f g) P"
proof -
  have "P b" if r: "pbind f g s = (s', Ok b)" for s' b
  proof -
    obtain a s1 where a: "f s = (s1, Ok a)" and g: "g a s1 = (s', Ok b)"
      using r by (auto simp: pbind_Ok_iff)
    have "s1 = s"
      using keepsD [OF assms(1), of s] a by simp
    with a g assms(2) show "P b" by (auto simp: yields_def)
  qed
  then show ?thesis by (auto simp: yields_def)
qed

end
