(* ===== verification/Files.thy ===== *)
theory Files
  imports Go_Effects File_Mode
begin

text \<open>
  Paths and files as the modules use them on a host: \<open>utils/path/path.go\<close> over a model of the
  calls of Go's package \<open>os\<close>.  A file system maps paths to files and links; which calls the
  operating system refuses is the parameter \<open>o_refuse\<close>.
\<close>

section \<open>The operating system\<close>

datatype os_error = NotExist | NotPermitted | OsError string

record inode =
  i_mode :: file_mode
  i_uid :: int
  i_gid :: int
  i_mtime :: int
  i_label :: string
  i_data :: string

text \<open>A link carries its own status and the path it points to.\<close>

datatype node = File inode | Link inode string

type_synonym fs = "string \<rightharpoonup> node"

datatype os_call = Stat | Lstat | Chmod | Chown | Lchown | Chtimes | OpenRead | Create | CopyBytes | Rename | Remove | SetLabel | Truncate | WriteData | Readlink

record os =
  o_refuse :: "os_call \<Rightarrow> string list \<Rightarrow> os_error option"
  o_umask :: file_mode
  o_env :: "string \<Rightarrow> string"
  o_uid :: int
  o_gid :: int
  o_eval_links :: "string \<Rightarrow> string option"
  o_cwd :: string

type_synonym 'a io = "(fs, os_error, 'a) prog"

definition mode_dir :: file_mode where "mode_dir = push_bit 31 1"
definition mode_symlink :: file_mode where "mode_symlink = push_bit 27 1"
definition mode_type :: file_mode where "mode_type = 0x8F280000"
definition chmod_bits :: file_mode where "chmod_bits = perm_bits OR mode_setuid OR mode_setgid OR mode_sticky"

definition refused :: "os \<Rightarrow> os_call \<Rightarrow> string list \<Rightarrow> unit io" where
  "refused x c ps = plift (case o_refuse x c ps of Some e \<Rightarrow> Err e | None \<Rightarrow> Ok ())"

text \<open>Following links, at most forty as Linux does.\<close>

fun follow_links :: "nat \<Rightarrow> fs \<Rightarrow> string \<Rightarrow> (os_error, string \<times> inode) outcome" where
  "follow_links 0 fs p = Err (OsError ''too many levels of symbolic links'')"
| "follow_links (Suc n) fs p =
     (case fs p of
        None \<Rightarrow> Err NotExist
      | Some (File i) \<Rightarrow> Ok (p, i)
      | Some (Link i t) \<Rightarrow> follow_links n fs t)"

definition resolve :: "string \<Rightarrow> (string \<times> inode) io" where
  "resolve p fs = (fs, follow_links 40 fs p)"

definition os_stat :: "os \<Rightarrow> string \<Rightarrow> inode io" where
  "os_stat x p = pbind (refused x Stat [p]) (\<lambda>_. pbind (resolve p) (\<lambda>(q, i). pret i))"

definition os_lstat :: "os \<Rightarrow> string \<Rightarrow> inode io" where
  "os_lstat x p =
     pbind (refused x Lstat [p]) (\<lambda>_ fs.
       (fs, case fs p of None \<Rightarrow> Err NotExist | Some (File i) \<Rightarrow> Ok i | Some (Link i t) \<Rightarrow> Ok i))"

definition set_file :: "string \<Rightarrow> inode \<Rightarrow> unit io" where
  "set_file p i fs = (fs(p \<mapsto> File i), Ok ())"

text \<open>The bits of a mode that \<open>chmod\<close> sets; the type of the file stays.\<close>

definition chmod_mode :: "file_mode \<Rightarrow> file_mode \<Rightarrow> file_mode" where
  "chmod_mode old mode = (old AND NOT chmod_bits) OR (mode AND chmod_bits)"

definition os_chmod :: "os \<Rightarrow> string \<Rightarrow> file_mode \<Rightarrow> unit io" where
  "os_chmod x p mode =
     pbind (refused x Chmod [p]) (\<lambda>_.
     pbind (resolve p) (\<lambda>(q, i). set_file q (i\<lparr>i_mode := chmod_mode (i_mode i) mode\<rparr>)))"

text \<open>An owner of \<open>-1\<close> stays.\<close>

definition new_owner :: "int \<Rightarrow> int \<Rightarrow> inode \<Rightarrow> inode" where
  "new_owner uid gid i =
     i\<lparr>i_uid := (if uid = - 1 then i_uid i else uid), i_gid := (if gid = - 1 then i_gid i else gid)\<rparr>"

definition os_chown :: "os \<Rightarrow> string \<Rightarrow> int \<Rightarrow> int \<Rightarrow> unit io" where
  "os_chown x p uid gid =
     pbind (refused x Chown [p]) (\<lambda>_. pbind (resolve p) (\<lambda>(q, i). set_file q (new_owner uid gid i)))"

definition os_lchown :: "os \<Rightarrow> string \<Rightarrow> int \<Rightarrow> int \<Rightarrow> unit io" where
  "os_lchown x p uid gid =
     pbind (refused x Lchown [p]) (\<lambda>_ fs.
       case fs p of
         None \<Rightarrow> (fs, Err NotExist)
       | Some (File i) \<Rightarrow> (fs(p \<mapsto> File (new_owner uid gid i)), Ok ())
       | Some (Link i t) \<Rightarrow> (fs(p \<mapsto> Link (new_owner uid gid i) t), Ok ()))"

definition os_chtimes :: "os \<Rightarrow> string \<Rightarrow> int \<Rightarrow> unit io" where
  "os_chtimes x p t =
     pbind (refused x Chtimes [p]) (\<lambda>_. pbind (resolve p) (\<lambda>(q, i). set_file q (i\<lparr>i_mtime := t\<rparr>)))"

definition is_directory :: "inode \<Rightarrow> bool" where
  "is_directory i \<longleftrightarrow> i_mode i AND mode_dir \<noteq> 0"

definition os_open :: "os \<Rightarrow> string \<Rightarrow> string io" where
  "os_open x p = pbind (refused x OpenRead [p]) (\<lambda>_. pbind (resolve p) (\<lambda>(q, i). pret q))"

text \<open>\<open>os.Create\<close> empties the file or makes one, and gives the path it writes to.\<close>

definition os_create :: "os \<Rightarrow> string \<Rightarrow> string io" where
  "os_create x p =
     pbind (refused x Create [p]) (\<lambda>_ fs.
       case follow_links 40 fs p of
         Ok (q, i) \<Rightarrow>
           if is_directory i then (fs, Err (OsError ''is a directory''))
           else (fs(q \<mapsto> File (i\<lparr>i_data := []\<rparr>)), Ok q)
       | Err NotExist \<Rightarrow>
           (fs(p \<mapsto> File \<lparr>i_mode = default_perm AND NOT (o_umask x), i_uid = o_uid x, i_gid = o_gid x,
                         i_mtime = 0, i_label = [], i_data = []\<rparr>), Ok p)
       | Err e \<Rightarrow> (fs, Err e)
       | Panic \<Rightarrow> (fs, Panic))"

text \<open>\<open>os.ReadFile\<close> and \<open>os.WriteFile\<close>, which makes a missing file with the permissions given.\<close>

definition os_read_file :: "os \<Rightarrow> string \<Rightarrow> string io" where
  "os_read_file x p =
     pbind (os_open x p) (\<lambda>q fs.
       (fs, case fs q of
              Some (File i) \<Rightarrow> if is_directory i then Err (OsError ''is a directory'') else Ok (i_data i)
            | _ \<Rightarrow> Err NotExist))"

definition os_write_file :: "os \<Rightarrow> string \<Rightarrow> string \<Rightarrow> file_mode \<Rightarrow> unit io" where
  "os_write_file x p d mode =
     pbind (refused x Create [p]) (\<lambda>_ fs.
       case follow_links 40 fs p of
         Ok (q, i) \<Rightarrow>
           if is_directory i then (fs, Err (OsError ''is a directory''))
           else (fs(q \<mapsto> File (i\<lparr>i_data := d\<rparr>)), Ok ())
       | Err NotExist \<Rightarrow>
           (fs(p \<mapsto> File \<lparr>i_mode = mode AND NOT (o_umask x), i_uid = o_uid x, i_gid = o_gid x,
                         i_mtime = 0, i_label = [], i_data = d\<rparr>), Ok ())
       | Err e \<Rightarrow> (fs, Err e)
       | Panic \<Rightarrow> (fs, Panic))"

text \<open>Opening for reading and writing makes a missing file; rewriting an open file empties it first.\<close>

definition os_open_rw :: "os \<Rightarrow> string \<Rightarrow> file_mode \<Rightarrow> string io" where
  "os_open_rw x p mode =
     pbind (refused x Create [p]) (\<lambda>_ fs.
       case follow_links 40 fs p of
         Ok (q, i) \<Rightarrow> if is_directory i then (fs, Err (OsError ''is a directory'')) else (fs, Ok q)
       | Err NotExist \<Rightarrow>
           (fs(p \<mapsto> File \<lparr>i_mode = mode AND NOT (o_umask x), i_uid = o_uid x, i_gid = o_gid x,
                         i_mtime = 0, i_label = [], i_data = []\<rparr>), Ok p)
       | Err e \<Rightarrow> (fs, Err e)
       | Panic \<Rightarrow> (fs, Panic))"

definition set_data :: "string \<Rightarrow> string \<Rightarrow> unit io" where
  "set_data q d fs =
     (case fs q of Some (File i) \<Rightarrow> (fs(q \<mapsto> File (i\<lparr>i_data := d\<rparr>)), Ok ()) | _ \<Rightarrow> (fs, Err NotExist))"

definition os_rewrite :: "os \<Rightarrow> string \<Rightarrow> string \<Rightarrow> unit io" where
  "os_rewrite x q d =
     pbind (refused x Truncate [q]) (\<lambda>_.
     pbind (set_data q []) (\<lambda>_.
     pbind (refused x WriteData [q]) (\<lambda>_. set_data q d)))"

text \<open>\<open>os.Readlink\<close> fails for what is no link.\<close>

definition os_readlink :: "os \<Rightarrow> string \<Rightarrow> string io" where
  "os_readlink x p =
     pbind (refused x Readlink [p]) (\<lambda>_ fs.
       (fs, case fs p of None \<Rightarrow> Err NotExist | Some (Link i t) \<Rightarrow> Ok t | Some (File i) \<Rightarrow> Err (OsError ''invalid argument'')))"

text \<open>\<open>os.Rename\<close> moves what the path itself names.\<close>

definition os_rename :: "os \<Rightarrow> string \<Rightarrow> string \<Rightarrow> unit io" where
  "os_rename x p q =
     pbind (refused x Rename [p, q]) (\<lambda>_ fs.
       case fs p of
         None \<Rightarrow> (fs, Err NotExist)
       | Some nd \<Rightarrow> (if p = q then fs else (fs(q \<mapsto> nd))(p := None), Ok ()))"

definition os_remove :: "os \<Rightarrow> string \<Rightarrow> unit io" where
  "os_remove x p =
     pbind (refused x Remove [p]) (\<lambda>_ fs.
       case fs p of None \<Rightarrow> (fs, Err NotExist) | Some nd \<Rightarrow> (fs(p := None), Ok ()))"

section \<open>Lexical paths\<close>

text \<open>\<open>filepath.Clean\<close> and \<open>filepath.Join\<close> of Linux.\<close>

definition is_abs :: "string \<Rightarrow> bool" where
  "is_abs p \<longleftrightarrow> has_prefix p ''/''"

fun clean_parts :: "bool \<Rightarrow> string list \<Rightarrow> string list \<Rightarrow> string list" where
  "clean_parts rooted done [] = rev done"
| "clean_parts rooted done (c # cs) =
     (if c = [] \<or> c = ''.'' then clean_parts rooted done cs
      else if c = ''..'' then
        (if done \<noteq> [] \<and> hd done \<noteq> ''..'' then clean_parts rooted (drop 1 done) cs
         else if rooted then clean_parts rooted done cs
         else clean_parts rooted (''..'' # done) cs)
      else clean_parts rooted (c # done) cs)"

definition path_clean :: "string \<Rightarrow> string" where
  "path_clean p =
     (let r = (if is_abs p then ''/'' else []) @ join ''/'' (clean_parts (is_abs p) [] (split_on (CHR ''/'') p))
      in if r = [] then ''.'' else r)"

definition path_join :: "string list \<Rightarrow> string" where
  "path_join ps =
     (let ps = dropWhile (\<lambda>p. p = []) ps in if ps = [] then [] else path_clean (join ''/'' ps))"


definition path_dir :: "string \<Rightarrow> string" where
  "path_dir p = path_clean (rev (dropWhile (\<lambda>c. c \<noteq> CHR ''/'') (rev p)))"

definition path_base :: "string \<Rightarrow> string" where
  "path_base p =
     (if p = [] then ''.''
      else let q = dropWhile (\<lambda>c. c = CHR ''/'') (rev p);
               b = rev (takeWhile (\<lambda>c. c \<noteq> CHR ''/'') q)
           in if b = [] then ''/'' else b)"

section \<open>Expansion\<close>

text \<open>\<open>os.ExpandEnv\<close>.\<close>

definition special_var :: "char \<Rightarrow> bool" where
  "special_var c \<longleftrightarrow> c \<in> set ''*#$@!?-0123456789''"

definition name_byte :: "char \<Rightarrow> bool" where
  "name_byte c \<longleftrightarrow> c \<in> set ''_0123456789abcdefghijklmnopqrstuvwxyzABCDEFGHIJKLMNOPQRSTUVWXYZ''"

text \<open>The name after a dollar sign and the number of bytes it takes.\<close>

definition shell_name :: "string \<Rightarrow> string \<times> nat" where
  "shell_name s =
     (case s of
        [] \<Rightarrow> ([], 0)
      | c # s' \<Rightarrow>
          if c = CHR ''{'' then
            (if length s > 2 \<and> special_var (s ! 1) \<and> s ! 2 = CHR ''}'' then ([s ! 1], 3)
             else let n = takeWhile (\<lambda>d. d \<noteq> CHR ''}'') s'
                  in if length n = length s' then ([], 1)
                     else if n = [] then ([], 2)
                     else (n, length n + 2))
          else if special_var c then ([c], 1)
          else let n = takeWhile name_byte s in (n, length n))"

function expand_env :: "(string \<Rightarrow> string) \<Rightarrow> string \<Rightarrow> string" where
  "expand_env env [] = []"
| "expand_env env (c # s) =
     (if c = CHR ''$'' \<and> s \<noteq> [] then
        (case shell_name s of
           (name, w) \<Rightarrow>
             (if name = [] then (if w > 0 then [] else [c]) else env name) @ expand_env env (drop w s))
      else c # expand_env env s)"
  by pat_completeness auto
termination
  by (relation "measure (\<lambda>(env, s). length s)") auto

text \<open>\<open>ExpandUser\<close>: without a home directory the program ends, a fatal log.\<close>

definition expand_user :: "os \<Rightarrow> string \<Rightarrow> ('e, string) outcome" where
  "expand_user x s =
     (let home = o_env x ''HOME'' in
      if home = [] then Panic
      else if s = ''~'' then Ok home
      else if has_prefix s ''~/'' then Ok (home @ ''/'' @ drop 2 s)
      else Ok s)"

definition expand_user_and_env :: "os \<Rightarrow> string \<Rightarrow> ('e, string) outcome" where
  "expand_user_and_env x s = expand_user x (expand_env (o_env x) s)"

section \<open>Questions about a path\<close>

definition is_dir :: "os \<Rightarrow> string \<Rightarrow> bool io" where
  "is_dir x p = pbind (os_stat x p) (\<lambda>i. pret (is_directory i))"

definition is_regular :: "os \<Rightarrow> string \<Rightarrow> bool io" where
  "is_regular x p = pbind (os_stat x p) (\<lambda>i. pret (i_mode i AND mode_type = 0))"

definition path_exists :: "os \<Rightarrow> string \<Rightarrow> bool io" where
  "path_exists x p =
     pbind (ptry (os_stat x p)) (\<lambda>r.
       case r of
         Inr i \<Rightarrow> pret True
       | Inl NotExist \<Rightarrow> pret False
       | Inl e \<Rightarrow> plift (Err e))"

definition has_read_permission :: "os \<Rightarrow> string \<Rightarrow> bool io" where
  "has_read_permission x p =
     pbind (ptry (os_open x p)) (\<lambda>r.
       case r of
         Inr q \<Rightarrow> pret True
       | Inl NotPermitted \<Rightarrow> pret False
       | Inl e \<Rightarrow> plift (Err e))"

definition is_executable :: "os \<Rightarrow> string \<Rightarrow> bool io" where
  "is_executable x p =
     pbind (os_stat x p) (\<lambda>i. pret (i_mode i AND exec_perm_bits = exec_perm_bits))"

text \<open>\<open>IsSymLink\<close> asks \<open>os.Stat\<close>, which has followed the link.\<close>

definition is_symlink :: "os \<Rightarrow> string \<Rightarrow> bool io" where
  "is_symlink x p = pbind (os_stat x p) (\<lambda>i. pret (i_mode i AND mode_symlink \<noteq> 0))"

definition user_and_group :: "os \<Rightarrow> string \<Rightarrow> bool \<Rightarrow> (int \<times> int) io" where
  "user_and_group x p expand =
     pbind (if expand then plift (expand_user_and_env x p) else pret p) (\<lambda>p.
     pbind (os_lstat x p) (\<lambda>i. pret (i_uid i, i_gid i)))"

section \<open>Binaries\<close>

fun add_existing :: "os \<Rightarrow> string list \<Rightarrow> string list \<Rightarrow> string list io" where
  "add_existing x paths [] = pret paths"
| "add_existing x paths (d # ds) =
     pbind (path_exists x d) (\<lambda>b. add_existing x (if b then paths @ [d] else paths) ds)"

definition get_paths :: "os \<Rightarrow> string list \<Rightarrow> string list io" where
  "get_paths x opt_dirs =
     add_existing x (split_on (CHR '':'') (o_env x ''PATH''))
       ([''/sbin'', ''/usr/sbin'', ''/usr/local/sbin''] @ opt_dirs)"

fun first_executable :: "os \<Rightarrow> string \<Rightarrow> string list \<Rightarrow> string option io" where
  "first_executable x arg [] = pret None"
| "first_executable x arg (d # ds) =
     (let p = path_join [d, arg] in
      pbind (ptry (is_executable x p)) (\<lambda>r.
        case r of
          Inr True \<Rightarrow> pret (Some p)
        | Inr False \<Rightarrow> first_executable x arg ds
        | Inl NotExist \<Rightarrow> first_executable x arg ds
        | Inl e \<Rightarrow> plift (Err e)))"

definition not_found_error :: "string \<Rightarrow> os_error" where
  "not_found_error arg = OsError (''failed to find required executable '' @ arg)"

definition get_bin_path :: "os \<Rightarrow> string \<Rightarrow> string list \<Rightarrow> bool \<Rightarrow> string io" where
  "get_bin_path x arg opt_dirs err_on_not_found =
     pbind (get_paths x opt_dirs) (\<lambda>paths.
     pbind (first_executable x arg paths) (\<lambda>r.
       case r of
         Some p \<Rightarrow> pret p
       | None \<Rightarrow> if err_on_not_found then plift (Err (not_found_error arg)) else pret []))"

section \<open>Changing files\<close>

text \<open>\<open>LChmod\<close> sets the mode, and sets it back when that changed it.\<close>

definition lchmod :: "os \<Rightarrow> string \<Rightarrow> file_mode \<Rightarrow> unit io" where
  "lchmod x p mode =
     pbind (os_stat x p) (\<lambda>stat.
     pbind (os_chmod x p mode) (\<lambda>_.
     pbind (os_stat x p) (\<lambda>new_stat.
       if i_mode stat \<noteq> i_mode new_stat then os_chmod x p (i_mode stat) else pret ())))"

text \<open>
  \<open>CopyToFile\<close> calls \<open>io.Copy (srcFile, dstFile)\<close>, whose first argument is what is written to: it
  reads the destination, which was just emptied, into the source, which was opened for reading.
  Nothing is written; whether that is an error depends on the platform, so it is \<open>o_refuse\<close> that
  tells.
\<close>

definition copy_to_file :: "os \<Rightarrow> string \<Rightarrow> string \<Rightarrow> unit io" where
  "copy_to_file x src dst =
     pbind (os_open x src) (\<lambda>s fs.
       case fs dst of
         Some (File i) \<Rightarrow>
           if i_data i = [] then refused x CopyBytes [s, dst] fs
           else (fs, Err (OsError ''bad file descriptor''))
       | _ \<Rightarrow> (fs, Err (OsError ''bad file descriptor'')))"

definition copy_file :: "os \<Rightarrow> string \<Rightarrow> string \<Rightarrow> unit io" where
  "copy_file x src dest = pbind (os_create x dest) (\<lambda>q. copy_to_file x src q)"

definition copy_stat :: "os \<Rightarrow> string \<Rightarrow> string \<Rightarrow> unit io" where
  "copy_stat x src dest =
     pbind (os_stat x src) (\<lambda>stat.
     pbind (os_chmod x dest (i_mode stat)) (\<lambda>_.
     pbind (os_chtimes x dest (i_mtime stat)) (\<lambda>_.
     pbind (ptry (os_chown x dest (i_uid stat) (i_gid stat))) (\<lambda>r.
       case r of
         Inr _ \<Rightarrow> pret ()
       | Inl NotPermitted \<Rightarrow> pret ()
       | Inl e \<Rightarrow> plift (Err e)))))"

section \<open>Mount points\<close>

definition unfrack_path :: "os \<Rightarrow> string \<Rightarrow> string \<Rightarrow> bool \<Rightarrow> string io" where
  "unfrack_path x path basedir no_follow =
     pbind (if basedir = [] then pret (o_cwd x)
            else pbind (ptry (is_regular x basedir)) (\<lambda>r.
              pret (if r = Inr True then path_dir basedir else basedir))) (\<lambda>basedir.
     pbind (plift (expand_user x (expand_env (o_env x) path))) (\<lambda>path.
       let path = (if is_abs path then path else path_join [basedir, path])
       in pret (if no_follow then path_clean path
                else case o_eval_links x path of Some p \<Rightarrow> p | None \<Rightarrow> path_clean path)))"

text \<open>
  \<open>FindMountPoint\<close> asks again and again about the same path; the answers may change in time, so
  \<open>mounted i\<close> is the answer to the question \<open>i\<close>.
\<close>

partial_function (option) mount_loop ::
  "(nat \<Rightarrow> string \<Rightarrow> (os_error, bool) outcome) \<Rightarrow> nat \<Rightarrow> string \<Rightarrow> (os_error, string) outcome option" where
  "mount_loop mounted i path =
     (case mounted i path of
        Err e \<Rightarrow> Some (Err e)
      | Panic \<Rightarrow> Some Panic
      | Ok b \<Rightarrow> if b then Some (Ok path) else mount_loop mounted (Suc i) path)"

definition find_mount_point ::
  "os \<Rightarrow> (nat \<Rightarrow> string \<Rightarrow> (os_error, bool) outcome) \<Rightarrow> string \<Rightarrow> fs \<Rightarrow> (os_error, string) outcome option" where
  "find_mount_point x mounted path fs =
     (case snd (unfrack_path x path [] False fs) of
        Ok p \<Rightarrow> mount_loop mounted 0 p
      | Err e \<Rightarrow> Some (Err e)
      | Panic \<Rightarrow> Some Panic)"

section \<open>What the operations do\<close>

lemma refused_simps [effect_simps]:
  "o_refuse x c ps = None \<Longrightarrow> refused x c ps fs = (fs, Ok ())"
  "o_refuse x c ps = Some e \<Longrightarrow> refused x c ps fs = (fs, Err e)"
  by (simp_all add: refused_def plift_def)

lemma fst_refused [effect_simps]: "fst (refused x c ps fs) = fs"
  by (simp add: refused_def plift_def)

lemma keeps_refused [keeps_intros]: "keeps view (refused x c ps)"
  by (simp add: keeps_def effect_simps)

lemma keeps_resolve [keeps_intros]: "keeps view (resolve p)"
  by (simp add: keeps_def resolve_def)

lemma keeps_os_stat [keeps_intros]: "keeps view (os_stat x p)"
  unfolding os_stat_def by (auto intro!: keeps_intros split: prod.splits)

lemma keeps_os_lstat [keeps_intros]: "keeps view (os_lstat x p)"
  unfolding os_lstat_def by (rule keeps_pbind) (auto intro!: keeps_intros simp: keeps_def effect_simps)

lemma keeps_os_open [keeps_intros]: "keeps view (os_open x p)"
  unfolding os_open_def by (auto intro!: keeps_intros split: prod.splits)

lemma keeps_os_read_file [keeps_intros]: "keeps view (os_read_file x p)"
  unfolding os_read_file_def by (rule keeps_pbind [OF keeps_os_open]) (simp add: keeps_def)

lemma keeps_questions [keeps_intros]:
  "keeps view (is_dir x p)" "keeps view (is_regular x p)" "keeps view (is_executable x p)"
  "keeps view (is_symlink x p)" "keeps view (user_and_group x p b)"
  unfolding is_dir_def is_regular_def is_executable_def is_symlink_def user_and_group_def
  by (auto intro!: keeps_intros)

lemma keeps_path_exists [keeps_intros]: "keeps view (path_exists x p)"
  unfolding path_exists_def by (auto intro!: keeps_intros split: sum.splits os_error.splits)

lemma follow_links_found: "follow_links n fs p = Ok (q, i) \<Longrightarrow> fs q = Some (File i)"
  by (induction n arbitrary: p) (auto split: option.splits node.splits)

lemma follow_links_upd:
  "follow_links n fs p = Ok (q, i) \<Longrightarrow> follow_links n (fs(q \<mapsto> File j)) p = Ok (q, j)"
  by (induction n arbitrary: p) (auto split: option.splits node.splits if_splits)

lemma follow_links_no_panic: "follow_links n fs p \<noteq> Panic"
  by (induction n arbitrary: p) (auto split: option.splits node.splits)

text \<open>Setting the mode and setting it back.\<close>

lemma chmod_back: "chmod_mode (chmod_mode old mode) old = old"
  by (rule bit_word_eqI) (auto simp: chmod_mode_def bit_and_iff bit_or_iff bit_not_iff)


lemma os_stat_eq:
  "os_stat x p fs =
     (fs, case o_refuse x Stat [p] of Some e \<Rightarrow> Err e | None \<Rightarrow> omap snd (follow_links 40 fs p))"
  by (cases "o_refuse x Stat [p]"; cases "follow_links 40 fs p")
     (simp_all add: os_stat_def refused_def pbind_def plift_def pret_def resolve_def split: prod.splits)

lemma os_chmod_eq:
  "os_chmod x p mode fs =
     (case o_refuse x Chmod [p] of
        Some e \<Rightarrow> (fs, Err e)
      | None \<Rightarrow>
          (case follow_links 40 fs p of
             Ok (q, i) \<Rightarrow> (fs(q \<mapsto> File (i\<lparr>i_mode := chmod_mode (i_mode i) mode\<rparr>)), Ok ())
           | Err e \<Rightarrow> (fs, Err e)
           | Panic \<Rightarrow> (fs, Panic)))"
  by (cases "o_refuse x Chmod [p]"; cases "follow_links 40 fs p")
     (simp_all add: os_chmod_def refused_def pbind_def plift_def set_file_def resolve_def split: prod.splits)

lemma lchmod_keeps: "fst (lchmod x p mode fs) = fs"
proof (cases "os_stat x p fs")
  case (Pair fs1 r)
  show ?thesis
  proof (cases r)
    case (Ok stat)
    then obtain q where st: "o_refuse x Stat [p] = None" and fl: "follow_links 40 fs p = Ok (q, stat)" and fs1: "fs1 = fs"
      using Pair by (cases "follow_links 40 fs p") (auto simp: os_stat_eq split: option.splits)
    note q = follow_links_found [OF fl]
    let ?i = "stat\<lparr>i_mode := chmod_mode (i_mode stat) mode\<rparr>"
    show ?thesis
    proof (cases "o_refuse x Chmod [p]")
      case None
      have upd: "follow_links 40 (fs(q \<mapsto> File ?i)) p = Ok (q, ?i)"
        by (rule follow_links_upd [OF fl])
      have "fs(q \<mapsto> File ?i, q \<mapsto> File (?i\<lparr>i_mode := chmod_mode (i_mode ?i) (i_mode stat)\<rparr>)) = fs"
        using q by (auto simp: chmod_back)
      moreover have "fs(q \<mapsto> File ?i) = fs" if "i_mode stat = chmod_mode (i_mode stat) mode"
        using q that by (auto simp: that [symmetric])
      ultimately show ?thesis
        by (simp add: lchmod_def pbind_def os_stat_eq os_chmod_eq st fl None upd pret_def)
    qed (simp add: lchmod_def pbind_def os_stat_eq os_chmod_eq st fl)
  qed (use Pair in \<open>auto simp: lchmod_def pbind_def os_stat_eq\<close>)
qed

text \<open>
  \<open>LChmod\<close> changes nothing: whatever the mode asked for and whatever the operating system
  refuses, every file and link is afterwards as it was before.
\<close>

theorem lchmod_changes_nothing: "fst (lchmod x p mode fs) = fs"
  by (rule lchmod_keeps)

lemma copy_file_empties:
  assumes "copy_file x src dest fs = (fs', Ok ())"
  shows "\<exists>q i. follow_links 40 fs' dest = Ok (q, i) \<and> i_data i = [] \<and> (\<forall>p. p \<noteq> q \<longrightarrow> fs' p = fs p)"
proof -
  obtain q fs1 where c: "os_create x dest fs = (fs1, Ok q)" and t: "copy_to_file x src q fs1 = (fs', Ok ())"
    using assms by (auto simp: copy_file_def pbind_Ok_iff)
  have made: "\<exists>i. follow_links 40 fs1 dest = Ok (q, i) \<and> i_data i = [] \<and> (\<forall>p. p \<noteq> q \<longrightarrow> fs1 p = fs p)"
  proof (cases "follow_links 40 fs dest")
    case (Ok a)
    then obtain q' i where fl: "follow_links 40 fs dest = Ok (q', i)"
      by (cases a) auto
    then have "fs1 = fs(q' \<mapsto> File (i\<lparr>i_data := []\<rparr>))" "q = q'"
      using c by (auto simp: os_create_def pbind_def refused_def plift_def split: option.splits if_splits)
    then show ?thesis
      using follow_links_upd [OF fl] by auto
  next
    case (Err e)
    then have "e = NotExist" and "\<exists>i. fs1 = fs(dest \<mapsto> File i) \<and> i_data i = []" "q = dest"
      using c by (cases e; force simp: os_create_def pbind_def refused_def plift_def split: option.splits)+
    moreover have "follow_links 40 (fs(dest \<mapsto> File i)) dest = Ok (dest, i)" for i
      using follow_links.simps(2) [of 39 "fs(dest \<mapsto> File i)" dest] by simp
    ultimately show ?thesis by auto
  qed (use c in \<open>auto simp: os_create_def pbind_def refused_def plift_def split: option.splits\<close>)
  obtain s fs2 where o: "os_open x src fs1 = (fs2, Ok s)"
    using t by (cases "os_open x src fs1"; cases "snd (os_open x src fs1)") (auto simp: copy_to_file_def pbind_def)
  then have "fs2 = fs1"
    using keepsD [OF keeps_os_open, of "\<lambda>s. s" x src fs1] by simp
  with t o have "fs' = fs1"
    by (auto simp: copy_to_file_def pbind_def refused_def plift_def split: option.splits node.splits if_splits)
  with made show ?thesis by blast
qed

text \<open>
  Copying a file loses it: when \<open>Copy\<close> reports success, the destination exists and is empty,
  whatever the source holds, and nothing but the destination changed.
\<close>

theorem copy_empties_destination:
  assumes "copy_file x src dest fs = (fs', Ok ())"
  shows "\<exists>q i. follow_links 40 fs' dest = Ok (q, i) \<and> i_data i = [] \<and> (\<forall>p. p \<noteq> q \<longrightarrow> fs' p = fs p)"
  using assms by (rule copy_file_empties)

section \<open>Finding a binary\<close>

definition runnable :: "os \<Rightarrow> fs \<Rightarrow> string \<Rightarrow> bool" where
  "runnable x fs p \<longleftrightarrow> snd (is_executable x p fs) = Ok True"

text \<open>What lets the search go on: no such file, or one without all three execute bits.\<close>

definition passed_over :: "os \<Rightarrow> fs \<Rightarrow> string \<Rightarrow> bool" where
  "passed_over x fs p \<longleftrightarrow> snd (is_executable x p fs) \<in> {Ok False, Err NotExist}"

lemma is_executable_same: "is_executable x p fs = (fs, snd (is_executable x p fs))"
  using keepsD [OF keeps_questions(3), of "\<lambda>s. s" x p fs] by (metis prod.collapse)

lemma first_executable_iff:
  "first_executable x arg ds fs = (fs, Ok (Some p)) \<longleftrightarrow>
     (\<exists>us d vs. ds = us @ d # vs \<and> p = path_join [d, arg] \<and> runnable x fs p
        \<and> list_all (\<lambda>u. passed_over x fs (path_join [u, arg])) us)"
proof (induction ds)
  case Nil
  show ?case by (simp add: pret_def)
next
  case (Cons d ds)
  let ?p = "path_join [d, arg]"
  have step: "first_executable x arg (d # ds) fs =
    (case snd (is_executable x ?p fs) of
       Ok True \<Rightarrow> (fs, Ok (Some ?p))
     | Ok False \<Rightarrow> first_executable x arg ds fs
     | Err NotExist \<Rightarrow> first_executable x arg ds fs
     | Err e \<Rightarrow> (fs, Err e)
     | Panic \<Rightarrow> (fs, Panic))"
    using is_executable_same [of x ?p fs]
    by (cases "is_executable x ?p fs")
       (auto simp: Let_def pbind_def ptry_def pret_def plift_def split: outcome.splits os_error.splits bool.splits)
  have shift: "(\<exists>us d' vs. d # ds = us @ d' # vs \<and> P us d' vs) \<longleftrightarrow>
    P [] d ds \<or> (\<exists>us d' vs. ds = us @ d' # vs \<and> P (d # us) d' vs)" for P
    by (auto simp: Cons_eq_append_conv)
  show ?case
    unfolding step shift
    by (cases "snd (is_executable x ?p fs)")
       (auto simp: Cons.IH runnable_def passed_over_def split: bool.splits os_error.splits)
qed

lemma first_executable_same: "fst (first_executable x arg ds fs) = fs"
proof -
  have "keeps (\<lambda>s. s) (first_executable x arg ds)"
    by (induction ds) (auto simp: Let_def intro!: keeps_intros split: sum.splits os_error.splits bool.splits)
  then show ?thesis by (simp add: keeps_def)
qed

lemma get_paths_same: "fst (get_paths x opt fs) = fs"
proof -
  have "keeps (\<lambda>s. s) (add_existing x ps ds)" for ps ds
    by (induction ds arbitrary: ps) (auto intro!: keeps_intros)
  then show ?thesis unfolding get_paths_def by (rule keepsD)
qed

lemma keeps_get_bin_path [keeps_intros]: "keeps (\<lambda>s. s) (get_bin_path x arg opt b)"
proof -
  have "keeps (\<lambda>s. s) (get_paths x opt)" "keeps (\<lambda>s. s) (first_executable x arg ps)" for ps
    by (simp_all add: keeps_def get_paths_same first_executable_same)
  then show ?thesis
    unfolding get_bin_path_def by (auto intro!: keeps_intros split: option.splits)
qed

text \<open>
  Looking for a binary gives exactly the first match: the directories of \<open>PATH\<close> in their
  order, then the system and optional directories that exist; everything before the match is
  missing or not executable, and no file changes.
\<close>

theorem get_bin_path_first:
  "get_bin_path x arg opt True fs = (fs, Ok p) \<longleftrightarrow>
     (\<exists>us d vs. snd (get_paths x opt fs) = Ok (us @ d # vs) \<and> p = path_join [d, arg] \<and> runnable x fs p
        \<and> list_all (\<lambda>u. passed_over x fs (path_join [u, arg])) us)"
proof (cases "snd (get_paths x opt fs)")
  case (Ok ds)
  then have g: "get_paths x opt fs = (fs, Ok ds)"
    using get_paths_same [of x opt fs] by (metis prod.collapse)
  have "get_bin_path x arg opt True fs = (fs, Ok p) \<longleftrightarrow> first_executable x arg ds fs = (fs, Ok (Some p))"
    using first_executable_same [of x arg ds fs]
    by (cases "first_executable x arg ds fs"; cases "snd (first_executable x arg ds fs)")
       (auto simp: get_bin_path_def pbind_def pret_def plift_def g split: option.splits)
  then show ?thesis
    by (simp add: first_executable_iff Ok)
qed (cases "get_paths x opt fs"; auto simp: get_bin_path_def pbind_def)+

section \<open>Mount points\<close>

text \<open>Searching a mount point never ends for a path that never becomes one itself.\<close>

lemma mount_loop_diverges:
  assumes "\<forall>i. mounted i path = Ok False"
  shows "mount_loop mounted n path = None"
proof (rule ccontr)
  assume "mount_loop mounted n path \<noteq> None"
  then obtain r where r: "mount_loop mounted n path = Some r" by auto
  have "mounted = m \<longrightarrow> path = p \<longrightarrow> False" if "mount_loop m i p = Some r" for m i p
  proof (rule mount_loop.raw_induct [OF _ that, where P = "\<lambda>m i p r. mounted = m \<longrightarrow> path = p \<longrightarrow> False"])
    fix ml m i p r
    assume IH: "\<And>m i p r. ml m i p = Some r \<Longrightarrow> mounted = m \<longrightarrow> path = p \<longrightarrow> False"
      and step: "(case m i p of Ok b \<Rightarrow> if b then Some (Ok p) else ml m (Suc i) p
        | Err e \<Rightarrow> Some (Err e) | Panic \<Rightarrow> Some Panic) = Some r"
    show "mounted = m \<longrightarrow> path = p \<longrightarrow> False"
      using IH [of m "Suc i" p r] step assms by auto
  qed
  with r show False by blast
qed

end
