(* ===== verification/Run_Command.thy ===== *)
theory Run_Command
  imports Files Actions
begin

text \<open>
  Running a program on the host, \<open>GosibleModule.RunCommand\<close> of
  \<open>module_utils/gosibleModule/gosible_module.go\<close>: the arguments, the environment, reading the
  output and the ways to fail.  What a program does is the parameter \<open>s_spawn\<close>, which may depend
  on the files and on every program run before.
\<close>

section \<open>State and parameters\<close>

text \<open>The arguments a caller passes: text, a slice (which is changed in place), or something else.\<close>

datatype cmd_args = ArgText string | ArgSlice "string list" | ArgOther

record kwargs =
  k_check_rc :: bool
  k_executable :: string
  k_data :: "string option"
  k_path_prefix :: string
  k_cwd :: string
  k_unsafe_shell :: bool
  k_prompt :: string
  k_environ :: "string \<rightharpoonup> string"
  k_expand :: bool

record command =
  c_args :: "string list"
  c_env :: "string \<rightharpoonup> string"
  c_dir :: string
  c_stdin :: "string option"

datatype wait_result = Exit int | WaitFailed string

text \<open>
  A started program: the reads of its output with their errors (the end of the output is an
  empty read), its error output, how it ends, and the files it leaves.
\<close>

record process =
  p_stdin :: "string option"
  p_reads :: "(string \<times> string option) list"
  p_kill :: "string option"
  p_stderr :: string
  p_wait :: wait_result
  p_fs :: fs

record host_state =
  h_fs :: fs
  h_ran :: "command list"

record sys =
  s_os :: os
  s_environ :: "string list"
  s_regex :: "string \<Rightarrow> (string \<Rightarrow> bool) option"
  s_quote :: "string \<Rightarrow> string"
  s_shlex :: "string \<Rightarrow> string list option"
  s_spawn :: "command list \<Rightarrow> fs \<Rightarrow> command \<Rightarrow> string + process"

datatype command_error =
    FsError os_error
  | BadRegex
  | BadArgs
  | BadQuoting
  | BadCwd string
  | StartFailed string
  | StdinFailed string
  | KillFailed string
  | PromptSeen
  | ExitCode int
  | WaitError string
  | ModuleError string

record cmd_result =
  cr_rc :: int
  cr_stdout :: string
  cr_stderr :: string

type_synonym 'a run = "(host_state, command_error, 'a) prog"

definition default_kwargs :: kwargs where
  "default_kwargs =
     \<lparr>k_check_rc = False, k_executable = [], k_data = None, k_path_prefix = [], k_cwd = [],
      k_unsafe_shell = False, k_prompt = [], k_environ = Map.empty, k_expand = True\<rparr>"

definition on_fs :: "'a io \<Rightarrow> 'a run" where
  "on_fs f h = (case f (h_fs h) of (fs, r) \<Rightarrow> (h\<lparr>h_fs := fs\<rparr>,
     case r of Ok a \<Rightarrow> Ok a | Err e \<Rightarrow> Err (FsError e) | Panic \<Rightarrow> Panic))"

section \<open>Arguments and environment\<close>

fun expand_all :: "os \<Rightarrow> string list \<Rightarrow> ('e, string list) outcome" where
  "expand_all x [] = Ok []"
| "expand_all x (a # as) =
     obind (expand_user_and_env x a) (\<lambda>b. omap (\<lambda>bs. b # bs) (expand_all x as))"

text \<open>The words to run, and the slice of the caller after the call.\<close>

definition get_args :: "sys \<Rightarrow> cmd_args \<Rightarrow> kwargs \<Rightarrow> (command_error, string list \<times> cmd_args) outcome" where
  "get_args x raw k =
     (if raw = ArgOther then Err BadArgs
      else if k_unsafe_shell k then
        (let quoted = (case raw of ArgSlice ws \<Rightarrow> ArgSlice (map (s_quote x) ws) | _ \<Rightarrow> raw);
             line = (case quoted of ArgText t \<Rightarrow> t | ArgSlice ws \<Rightarrow> join '' '' ws | ArgOther \<Rightarrow> []);
             shell = (if k_executable k \<noteq> [] then k_executable k else ''/bin/sh'')
         in Ok ([shell, ''-c'', line], quoted))
      else
        obind (case raw of
                 ArgText t \<Rightarrow> (case s_shlex x t of None \<Rightarrow> Err BadQuoting | Some ws \<Rightarrow> Ok ws)
               | ArgSlice ws \<Rightarrow> Ok ws
               | ArgOther \<Rightarrow> Err BadArgs) (\<lambda>ws.
        obind (if k_expand k then expand_all (s_os x) ws else Ok ws) (\<lambda>ws.
          Ok (ws, case raw of ArgSlice _ \<Rightarrow> ArgSlice ws | _ \<Rightarrow> raw))))"

text \<open>The entry of a variable is cut at its second equals sign; an entry without one panics.\<close>

fun get_env_map :: "string list \<Rightarrow> ('e, string \<rightharpoonup> string) outcome" where
  "get_env_map [] = Ok Map.empty"
| "get_env_map (e # es) =
     (case split_on (CHR ''='') e of
        name # v # _ \<Rightarrow> omap (\<lambda>m. [name \<mapsto> v] ++ m) (get_env_map es)
      | _ \<Rightarrow> Panic)"

definition get_env :: "sys \<Rightarrow> kwargs \<Rightarrow> ('e, string \<rightharpoonup> string) outcome" where
  "get_env x k =
     omap (\<lambda>env.
       let env = env ++ k_environ k
       in if k_path_prefix k \<noteq> []
          then env(''PATH'' \<mapsto> (case env ''PATH'' of
                                  Some path \<Rightarrow> k_path_prefix k @ '':'' @ path
                                | None \<Rightarrow> k_path_prefix k))
          else env)
       (get_env_map (s_environ x))"

definition get_prompt_re :: "sys \<Rightarrow> kwargs \<Rightarrow> (command_error, (string \<Rightarrow> bool) option) outcome" where
  "get_prompt_re x k =
     (if k_prompt k = [] then Ok None
      else case s_regex x (''(?m)'' @ k_prompt k) of None \<Rightarrow> Err BadRegex | Some re \<Rightarrow> Ok (Some re))"

definition get_cmd :: "sys \<Rightarrow> cmd_args \<Rightarrow> kwargs \<Rightarrow> (command \<times> cmd_args) run" where
  "get_cmd x raw k =
     pbind (plift (get_args x raw k)) (\<lambda>(args, raw).
     pbind (plift (get_env x k)) (\<lambda>env.
       if args = [] then plift Panic
       else if k_cwd k = [] then pret (\<lparr>c_args = args, c_env = env, c_dir = [], c_stdin = k_data k\<rparr>, raw)
       else pbind (on_fs (is_dir (s_os x) (k_cwd k))) (\<lambda>b.
              if b then pret (\<lparr>c_args = args, c_env = env, c_dir = k_cwd k, c_stdin = k_data k\<rparr>, raw)
              else plift (Err (BadCwd [])))))"

section \<open>Output\<close>

text \<open>
  \<open>readOutput\<close>: the output and the error.  An empty read ends the output whatever its error; a
  read with bytes and an error loses all output; a prompt is looked for after every read.
\<close>

fun read_output :: "(string \<Rightarrow> bool) option \<Rightarrow> bool \<Rightarrow> string \<Rightarrow> (string \<times> string option) list
    \<Rightarrow> string option \<times> bool" where
  "read_output re has_data out [] = (Some out, False)"
| "read_output re has_data out ((bytes, err) # reads) =
     (if bytes = [] then (Some out, False)
      else if err \<noteq> None then (None, True)
      else let out = out @ bytes
           in if \<not> has_data \<and> (case re of None \<Rightarrow> False | Some f \<Rightarrow> f out) then (Some out, True)
              else read_output re has_data out reads)"

text \<open>The result of a call: Go's pair of a result, possibly nil, and an error, possibly nil.\<close>

record call_result =
  res :: "cmd_result option"
  res_err :: "command_error option"

definition failed_call :: "command_error \<Rightarrow> call_result" where
  "failed_call e = \<lparr>res = None, res_err = Some e\<rparr>"

text \<open>After a failed read the error of killing the program, nil when that works, replaces it.\<close>

definition read_output_error :: "process \<Rightarrow> string option \<Rightarrow> call_result" where
  "read_output_error p out =
     (case p_kill p of
        Some e \<Rightarrow> failed_call (KillFailed e)
      | None \<Rightarrow>
          (case out of
             None \<Rightarrow> \<lparr>res = None, res_err = None\<rparr>
           | Some out \<Rightarrow>
               \<lparr>res = Some \<lparr>cr_rc = 257, cr_stdout = out,
                  cr_stderr = ''a prompt was encountered while running a command, but no input data was specified''\<rparr>,
                res_err = Some PromptSeen\<rparr>))"

definition wait_error :: "kwargs \<Rightarrow> process \<Rightarrow> string \<Rightarrow> call_result" where
  "wait_error k p out =
     (case p_wait p of
        WaitFailed e \<Rightarrow> failed_call (WaitError e)
      | Exit rc \<Rightarrow>
          \<lparr>res = Some \<lparr>cr_rc = rc, cr_stdout = out, cr_stderr = p_stderr p\<rparr>,
           res_err = (if k_check_rc k \<and> rc \<noteq> 0 then Some (ExitCode rc) else None)\<rparr>)"

definition finish_process :: "(string \<Rightarrow> bool) option \<Rightarrow> kwargs \<Rightarrow> process \<Rightarrow> call_result" where
  "finish_process re k p =
     (if k_data k \<noteq> None \<and> p_stdin p \<noteq> None then failed_call (StdinFailed (the (p_stdin p)))
      else case read_output re (k_data k \<noteq> None) [] (p_reads p) of
             (out, failed) \<Rightarrow>
               if failed then read_output_error p out
               else wait_error k p (case out of Some o' \<Rightarrow> o' | None \<Rightarrow> []))"

definition run_command :: "sys \<Rightarrow> cmd_args \<Rightarrow> kwargs \<Rightarrow> (call_result \<times> cmd_args) run" where
  "run_command x raw k h =
     (case pbind (plift (get_prompt_re x k)) (\<lambda>re. pbind (get_cmd x raw k) (\<lambda>(c, raw). pret (re, c, raw))) h of
        (h, Panic) \<Rightarrow> (h, Panic)
      | (h, Err e) \<Rightarrow>
          (h, Ok (failed_call e,
                  case get_args x raw k of Ok (_, r) \<Rightarrow> if e = BadRegex then raw else r | _ \<Rightarrow> raw))
      | (h, Ok (re, c, raw)) \<Rightarrow>
          (case s_spawn x (h_ran h) (h_fs h) c of
             Inl e \<Rightarrow> (h, Ok (failed_call (StartFailed e), raw))
           | Inr p \<Rightarrow> (h\<lparr>h_fs := p_fs p, h_ran := h_ran h @ [c]\<rparr>, Ok (finish_process re k p, raw))))"

text \<open>Reading a field of a nil result panics.\<close>

definition the_res :: "call_result \<Rightarrow> ('e, cmd_result) outcome" where
  "the_res r = (case res r of None \<Rightarrow> Panic | Some c \<Rightarrow> Ok c)"

text \<open>The common use: an error is returned, then the result is read.\<close>

definition run_checked :: "sys \<Rightarrow> string list \<Rightarrow> kwargs \<Rightarrow> cmd_result run" where
  "run_checked x args k =
     pbind (run_command x (ArgSlice args) k) (\<lambda>(r, _).
       case res_err r of Some e \<Rightarrow> plift (Err e) | None \<Rightarrow> plift (the_res r))"

section \<open>The locale\<close>

text \<open>\<open>module_utils/locale\<close>: the preferred locale among those there are.\<close>

definition best_locale :: "sys \<Rightarrow> string run" where
  "best_locale x =
     pbind (ptry (on_fs (get_bin_path (s_os x) ''locale'' [] True))) (\<lambda>r.
       case r of
         Inl e \<Rightarrow> pret []
       | Inr path \<Rightarrow>
           pbind (run_command x (ArgSlice [path, ''-a'']) default_kwargs) (\<lambda>(r, _).
           pbind (plift (the_res r)) (\<lambda>r.
             let available = (if cr_rc r = 0 \<and> cr_stdout r \<noteq> []
                              then split_on nl (trim_space (cr_stdout r)) else [])
             in pret (case find (\<lambda>p. p \<in> set available) [''C.utf8'', ''en_US.utf8'', ''C'', ''POSIX''] of
                        Some p \<Rightarrow> p | None \<Rightarrow> ''C''))))"

end
