(* ===== verification/Pip.thy ===== *)
theory Pip
  imports Run_Command
begin

text \<open>
  The module \<open>pip\<close> (\<open>modules/pip\<close>) and the choice of a locale (\<open>module_utils/locale\<close>).  A
  failed return is the error \<open>Err\<close>.  Decoding the parameters, splitting by shlex and the answer
  of the Python helper are parameters; running programs is \<open>Run_Command\<close>.
\<close>

section \<open>Parameters and results\<close>

record pip_params =
  pp_chdir :: string
  pp_editable :: bool
  pp_executable :: string
  pp_extra_args :: string
  pp_name :: "string list"
  pp_requirements :: string
  pp_state :: string
  pp_umask :: string
  pp_version :: string
  pp_virtualenv :: string
  pp_virtualenv_command :: string
  pp_virtualenv_python :: string
  pp_site_packages :: bool

definition zero_params :: pip_params where
  "zero_params =
     \<lparr>pp_chdir = [], pp_editable = False, pp_executable = [], pp_extra_args = [], pp_name = [],
      pp_requirements = [], pp_state = [], pp_umask = [], pp_version = [], pp_virtualenv = [],
      pp_virtualenv_command = [], pp_virtualenv_python = [], pp_site_packages = False\<rparr>"

definition default_params :: pip_params where
  "default_params = zero_params\<lparr>pp_virtualenv_command := ''virtualenv'', pp_state := ''present''\<rparr>"

record requirement =
  req_has_version :: bool
  req_str :: string

record pip_return =
  pr_failed :: bool
  pr_changed :: bool
  pr_stdout :: string
  pr_stderr :: string
  pr_cmd :: "string list"

text \<open>
  The tools: mapstructure's decoding over the defaults, the Python text around the data, and
  reading the JSON the helper prints.
\<close>

record pip_tools =
  pt_sys :: sys
  pt_decode :: "vars \<Rightarrow> pip_params \<Rightarrow> string + pip_params"
  pt_code :: "string \<Rightarrow> string"
  pt_json :: "string \<Rightarrow> requirement list option"
  pt_python :: string

definition state_map :: "string \<Rightarrow> string list option" where
  "state_map =
     [''present'' \<mapsto> [''install''],
      ''absent'' \<mapsto> [''uninstall'', ''-y''],
      ''latest'' \<mapsto> [''install'', ''-U''],
      ''forcereinstall'' \<mapsto> [''install'', ''-U'', ''--force-reinstall'']]"

definition validate_params :: "pip_params \<Rightarrow> (command_error, unit) outcome" where
  "validate_params p =
     (if pp_state p \<noteq> [] \<and> state_map (pp_state p) = None then
        Err (ModuleError (''unexpected value for state: '' @ pp_state p))
      else if pp_name p = [] \<and> pp_requirements p = [] then
        Err (ModuleError ''one of name, requirements is required'')
      else if pp_name p \<noteq> [] \<and> pp_requirements p \<noteq> [] then
        Err (ModuleError ''only one of name, requirements can be set'')
      else if pp_executable p \<noteq> [] \<and> pp_virtualenv p \<noteq> [] then
        Err (ModuleError ''only one of executable, virtualenv can be set'')
      else if pp_state p = ''latest'' \<and> pp_version p \<noteq> [] then
        Err (ModuleError ''version is incompatible with state=latest'')
      else if pp_version p \<noteq> [] \<and> length (pp_name p) > 1 then
        Err (ModuleError ''version is ambiguous for multiple packages'')
      else Ok ())"

section \<open>Pure parts\<close>

definition get_extra_args :: "pip_params \<Rightarrow> string" where
  "get_extra_args p =
     (if pp_editable p then
        (let args = (if pp_extra_args p \<noteq> [] then split_on (CHR '' '') (pp_extra_args p) else [])
         in if ''-e'' \<in> set args then pp_extra_args p else join '' '' (args @ [''-e'']))
      else pp_extra_args p)"

definition is_vcs_url :: "string \<Rightarrow> bool" where
  "is_vcs_url pkg \<longleftrightarrow> list_ex (contains pkg) [''svn+'', ''git+'', ''hg+'', ''bzr+'']"

definition check_has_vcs :: "string list \<Rightarrow> bool" where
  "check_has_vcs names \<longleftrightarrow> list_ex (\<lambda>pkg. pkg \<noteq> [] \<and> is_vcs_url pkg) names"

definition is_package_name :: "string \<Rightarrow> bool" where
  "is_package_name name \<longleftrightarrow>
     \<not> list_ex (has_prefix (trim_space name)) [''>='', ''<='', ''>'', ''<'', ''=='', ''!='', ''~='']"

text \<open>
  \<open>recoverPackageName\<close>: the state of its loop is the names found, the parts of the next one, and
  whether a bracket is open.
\<close>

fun recover_loop :: "string list \<Rightarrow> string list \<times> string list \<times> bool \<Rightarrow> string list \<times> string list \<times> bool" where
  "recover_loop [] st = st"
| "recover_loop (name # names) (found, parts, brackets) =
     (let (found, parts) =
            (if is_package_name name \<and> \<not> brackets
             then (if parts \<noteq> [] then found @ [join '','' parts] else found, [])
             else (found, parts));
          brackets = (brackets \<or> contains name ''['');
          brackets = (brackets \<and> \<not> contains name '']'')
      in recover_loop names (found, parts @ [name], brackets))"

definition recover_package_name :: "string list \<Rightarrow> string list" where
  "recover_package_name names =
     (case recover_loop (concat (map (split_on (CHR '','')) names)) ([], [], False) of
        (found, parts, _) \<Rightarrow> found @ [join '','' parts])"

definition get_virtualenv :: "pip_params \<Rightarrow> string" where
  "get_virtualenv p =
     (if pp_virtualenv p \<noteq> [] \<and> pp_chdir p \<noteq> [] then path_join [pp_chdir p, pp_virtualenv p]
      else pp_virtualenv p)"

definition temp_dir :: "os \<Rightarrow> string" where
  "temp_dir x = (if o_env x ''TMPDIR'' = [] then ''/tmp'' else o_env x ''TMPDIR'')"

definition get_chdir :: "os \<Rightarrow> pip_params \<Rightarrow> string" where
  "get_chdir x p = (if pp_chdir p = [] then temp_dir x else pp_chdir p)"

text \<open>A umask that is a number is stored through a nil pointer.\<close>

definition set_umask :: "pip_params \<Rightarrow> (command_error, unit) outcome" where
  "set_umask p =
     (if pp_umask p = [] then Ok ()
      else case parse_int 8 32 (pp_umask p) of
             None \<Rightarrow> Err (ModuleError ''umask must be an octal integer'')
           | Some _ \<Rightarrow> Panic)"

definition requirement_literal :: "string \<times> string \<Rightarrow> string" where
  "requirement_literal nv = ''('' @ [squote] @ fst nv @ [squote] @ '', '' @ [squote] @ snd nv @ [squote] @ '')''"

definition get_python_code :: "pip_tools \<Rightarrow> (string \<times> string) list \<Rightarrow> string" where
  "get_python_code t reqs = pt_code t (join '', '' (map requirement_literal reqs))"

definition pip_command_failed :: "pip_params \<Rightarrow> cmd_result \<Rightarrow> string \<Rightarrow> bool" where
  "pip_command_failed p r before \<longleftrightarrow>
     cr_rc r \<noteq> 0 \<and> \<not> (cr_rc r = 1 \<and> pp_state p = ''absent'')
     \<and> \<not> (contains before ''not installed'' \<or> contains (cr_stderr r) ''not installed'')"


section \<open>Running programs\<close>

definition is_py3 :: "sys \<Rightarrow> string \<Rightarrow> bool run" where
  "is_py3 x py =
     pbind (run_checked x [py, ''--version''] default_kwargs) (\<lambda>r.
       case split_on (CHR '' '') (cr_stdout r) of
         [_, v] \<Rightarrow> pret (hd (split_on (CHR ''.'') v) = ''3'')
       | _ \<Rightarrow> plift (Err (ModuleError (''unexpected python version output: '' @ cr_stdout r))))"

definition has_pip_module :: "sys \<Rightarrow> string \<Rightarrow> bool run" where
  "has_pip_module x py =
     pbind (run_checked x [py, ''-m'', ''pip''] default_kwargs) (\<lambda>r. pret (cr_rc r = 0))"

definition convert_to_pip_requirements :: "pip_tools \<Rightarrow> (string \<times> string) list \<Rightarrow> requirement list run" where
  "convert_to_pip_requirements t reqs =
     pbind (run_checked (pt_sys t) [pt_python t, ''--'']
              (default_kwargs\<lparr>k_data := Some (get_python_code t reqs)\<rparr>)) (\<lambda>r.
       if cr_rc r = 42 then plift (Err (ModuleError (cr_stderr r)))
       else case pt_json t (cr_stdout r) of
              None \<Rightarrow> plift (Err (ModuleError ''invalid json''))
            | Some rs \<Rightarrow> pret rs)"

definition get_pip_requirements :: "pip_tools \<Rightarrow> pip_params \<Rightarrow> requirement list run" where
  "get_pip_requirements t p =
     convert_to_pip_requirements t (map (\<lambda>n. (n, [])) (recover_package_name (pp_name p)))"

definition validate_version_name_combo :: "pip_params \<Rightarrow> requirement list \<Rightarrow> (command_error, unit) outcome" where
  "validate_version_name_combo p packages =
     (if pp_version p = [] then Ok ()
      else case packages of
             [] \<Rightarrow> Panic
           | r # _ \<Rightarrow> if req_has_version r then Err (ModuleError ''The version argument conflicts'') else Ok ())"

text \<open>
  \<open>getPackages\<close>: the command that was run last and its result or error.  \<open>copy\<close> into an empty
  slice copies nothing, so the command starts with its first option and not with pip.
\<close>

definition get_packages :: "sys \<Rightarrow> pip_params \<Rightarrow> (string list \<times> (command_error + cmd_result)) run" where
  "get_packages x p =
     pbind (best_locale x) (\<lambda>loc.
       let k = default_kwargs\<lparr>k_cwd := get_chdir (s_os x) p,
                 k_environ := [''LANG'' \<mapsto> loc, ''LC_ALL'' \<mapsto> loc, ''LC_MESSAGES'' \<mapsto> loc]\<rparr>;
           cmd = [''list'', ''--format=freeze'']
       in pbind (ptry (run_checked x cmd k)) (\<lambda>r.
            case r of
              Inl e \<Rightarrow> pret (cmd, Inl e)
            | Inr r \<Rightarrow>
                if cr_rc r = 0 then pret (cmd, Inr r)
                else pbind (ptry (run_checked x [''freeze''] k)) (\<lambda>r. pret ([''freeze''], r))))"

definition fields :: "string \<Rightarrow> string list" where
  "fields s = filter (\<lambda>w. w \<noteq> []) (split_on (CHR '' '') (map (\<lambda>c. if c \<in> {CHR 0x09, nl, CHR 0x0B, CHR 0x0C, CHR 0x0D} then CHR '' '' else c) s))"

definition get_cmd_opts :: "sys \<Rightarrow> string \<Rightarrow> string list run" where
  "get_cmd_opts x cmd =
     pbind (run_command x (ArgText (cmd @ '' --help'')) default_kwargs) (\<lambda>(r, _).
       case res_err r of
         Some e \<Rightarrow> plift (Err e)
       | None \<Rightarrow>
           pbind (plift (the_res r)) (\<lambda>r.
             if cr_rc r \<noteq> 0 then plift (Err (ModuleError (''could not get output from '' @ cmd @ '' --help'')))
             else pret (filter (\<lambda>w. has_prefix w ''--'') (fields (trim_space (cr_stdout r))))))"

definition setup_virtualenv :: "pip_tools \<Rightarrow> pip_params \<Rightarrow> cmd_result run" where
  "setup_virtualenv t p =
     (let x = pt_sys t in
      pbind (plift (case s_shlex x (pp_virtualenv_command p) of
                      None \<Rightarrow> Err BadQuoting | Some [] \<Rightarrow> Panic | Some ws \<Rightarrow> Ok ws)) (\<lambda>cmd.
      pbind (if path_base (hd cmd) = hd cmd
             then pbind (on_fs (get_bin_path (s_os x) (hd cmd) [] True)) (\<lambda>b. pret (b # tl cmd))
             else pret cmd) (\<lambda>cmd.
      pbind (if pp_site_packages p then pret (cmd @ [''--system-site-packages''])
             else pbind (get_cmd_opts x (hd cmd)) (\<lambda>opts.
                    pret (if ''--no-site-packages'' \<in> set opts then cmd @ [''--no-site-packages''] else cmd))) (\<lambda>cmd.
      pbind (if contains (pp_virtualenv_command p) ''pyenv'' \<or> contains (pp_virtualenv_command p) ''-m venv''
             then plift (Err (ModuleError ''virtualenv_python should not be used''))
             else if pp_virtualenv_python p \<noteq> [] then pret (cmd @ [''-p'' @ pp_virtualenv_python p])
             else pbind (is_py3 x (pt_python t)) (\<lambda>py3.
                    pret (if py3 then cmd @ [''-p'' @ pt_python t] else cmd))) (\<lambda>cmd.
        run_checked x (cmd @ [get_virtualenv p]) default_kwargs)))))"

fun first_candidate :: "os \<Rightarrow> string list \<Rightarrow> string option run" where
  "first_candidate x [] = pret None"
| "first_candidate x (c # cs) =
     pbind (on_fs (path_exists x c)) (\<lambda>b.
       if b then pbind (on_fs (is_executable x c)) (\<lambda>e. if e then pret (Some c) else first_candidate x cs)
       else first_candidate x cs)"

definition get_pip :: "pip_tools \<Rightarrow> pip_params \<Rightarrow> string list run" where
  "get_pip t p =
     (let x = pt_sys t; env = get_virtualenv p; exe = pp_executable p;
          base = (if exe \<noteq> [] \<and> \<not> is_abs exe then exe else ''pip3'')
      in pbind (if exe \<noteq> [] then pret (if is_abs exe then Some [exe] else None)
                else if env = [] then
                  pbind (has_pip_module x (pt_python t)) (\<lambda>b.
                    pret (if b then Some [pt_python t, ''-m'', ''pip.__main__''] else None))
                else pret None) (\<lambda>pip.
           case pip of
             Some pip \<Rightarrow> pret pip
           | None \<Rightarrow>
               if env = [] then
                 pbind (pmap_err (\<lambda>_. ModuleError (''Unable to find any of '' @ base))
                          (on_fs (get_bin_path (s_os x) base [] True))) (\<lambda>path. pret [path])
               else
                 pbind (first_candidate (s_os x) [path_join [path_join [env, ''bin''], base],
                                                  path_join [path_join [env, ''bin''], ''pip'']]) (\<lambda>c.
                   case c of Some c \<Rightarrow> pret [c] | None \<Rightarrow> plift (Err (ModuleError ''unable to find pip in the virtualenv'')))))"

section \<open>The module\<close>

definition pip_fail :: "string list \<Rightarrow> string \<Rightarrow> string \<Rightarrow> pip_return" where
  "pip_fail cmd out err =
     \<lparr>pr_failed = True, pr_changed = False, pr_stdout = out, pr_stderr = err, pr_cmd = cmd\<rparr>"

definition prepare_venv :: "pip_tools \<Rightarrow> pip_params \<Rightarrow> (bool \<times> string \<times> string) run" where
  "prepare_venv t p =
     (let env = get_virtualenv p in
      if env = [] then pret (False, [], [])
      else pbind (on_fs (path_exists (s_os (pt_sys t)) (path_join [env, ''bin'', ''activate'']))) (\<lambda>b.
             if b then pbind (setup_virtualenv t p) (\<lambda>r. pret (True, cr_stdout r, cr_stderr r))
             else pret (False, [], [])))"

definition prepare_packages :: "pip_tools \<Rightarrow> pip_params \<Rightarrow> (bool \<times> requirement list) run" where
  "prepare_packages t p =
     (case pp_name p of
        [] \<Rightarrow> pret (False, [])
      | first # _ \<Rightarrow>
          pbind (get_pip_requirements t p) (\<lambda>packages.
          pbind (plift (validate_version_name_combo p packages)) (\<lambda>_.
          pbind (convert_to_pip_requirements t [(first, pp_version p)]) (\<lambda>packages.
            pret (check_has_vcs (pp_name p), packages)))))"

definition split_extra :: "pip_tools \<Rightarrow> pip_params \<Rightarrow> string list run" where
  "split_extra t p =
     (if get_extra_args p = [] then pret []
      else plift (case s_shlex (pt_sys t) (get_extra_args p) of None \<Rightarrow> Err BadQuoting | Some ws \<Rightarrow> Ok ws))"

text \<open>The packages after an installation are compared with those before: equal counts as changed.\<close>

definition pip_changed ::
  "pip_tools \<Rightarrow> pip_params \<Rightarrow> bool \<Rightarrow> string \<Rightarrow> cmd_result \<Rightarrow> (string list + bool) run" where
  "pip_changed t p venv before r =
     (if venv then pret (Inr True)
      else if pp_state p = ''absent'' then pret (Inr (contains (cr_stdout r) ''Successfully uninstalled''))
      else pbind (get_packages (pt_sys t) p) (\<lambda>(cmd, r).
             pret (case r of Inl e \<Rightarrow> Inl cmd | Inr r \<Rightarrow> Inr (cr_stdout r = before))))"

definition pip_body :: "pip_tools \<Rightarrow> pip_params \<Rightarrow> pip_return run" where
  "pip_body t p =
     pbind (plift (set_umask p)) (\<lambda>_.
     pbind (prepare_venv t p) (\<lambda>(venv, out, err).
     pbind (ptry (get_pip t p)) (\<lambda>_.
     pbind (prepare_packages t p) (\<lambda>(has_vcs, packages).
     pbind (split_extra t p) (\<lambda>extra.
       let state = (case state_map (pp_state p) of Some ws \<Rightarrow> ws | None \<Rightarrow> []);
           cmd = state @ extra @ (if pp_name p \<noteq> [] then map req_str packages
                                  else if pp_requirements p \<noteq> [] then [''-r'', pp_requirements p] else [])
       in pbind (if pp_requirements p \<noteq> [] \<or> has_vcs then get_packages (pt_sys t) p
                 else pret ([], Inr \<lparr>cr_rc = 0, cr_stdout = [], cr_stderr = []\<rparr>)) (\<lambda>(before_cmd, before).
          case before of
            Inl e \<Rightarrow> pret (pip_fail before_cmd out err)
          | Inr before \<Rightarrow>
              pbind (run_command (pt_sys t) (ArgSlice cmd)
                       (default_kwargs\<lparr>k_cwd := get_chdir (s_os (pt_sys t)) p,
                          k_path_prefix := (if get_virtualenv p \<noteq> [] then path_join [get_virtualenv p, ''bin''] else [])\<rparr>))
                (\<lambda>(r, raw).
              pbind (plift (the_res r)) (\<lambda>r.
                let out = out @ cr_stdout r; err = err @ cr_stderr r;
                    cmd = (case raw of ArgSlice ws \<Rightarrow> ws | _ \<Rightarrow> cmd)
                in if pip_command_failed p r (cr_stdout before) then pret (pip_fail cmd out out)
                   else pbind (pip_changed t p venv (cr_stdout before) r) (\<lambda>c.
                          case c of
                            Inl cmd \<Rightarrow> pret (pip_fail cmd out err)
                          | Inr changed \<Rightarrow>
                              pret \<lparr>pr_failed = False, pr_changed = changed, pr_stdout = out, pr_stderr = err,
                                    pr_cmd = cmd\<rparr>)))))))))"

text \<open>
  \<open>Run\<close>.  The module has a field \<open>Params\<close> of its own, which hides the one of the embedded
  \<open>GosibleModule\<close> that \<open>ParseParams\<close> fills, and which nothing sets.
\<close>

definition pip_run :: "pip_tools \<Rightarrow> vars \<Rightarrow> pip_return run" where
  "pip_run t vs =
     (case pt_decode t vs default_params of
        Inl e \<Rightarrow> plift (Err (ModuleError e))
      | Inr p \<Rightarrow> pbind (plift (validate_params p)) (\<lambda>_. pip_body t zero_params))"


section \<open>The parameters are lost\<close>

lemma run_empty_panics: "snd (run_command x (ArgSlice []) (default_kwargs\<lparr>k_cwd := d\<rparr>) h) = Panic"
proof -
  have p: "get_prompt_re x (default_kwargs\<lparr>k_cwd := d\<rparr>) = Ok None"
    by (simp add: get_prompt_re_def default_kwargs_def)
  have a: "get_args x (ArgSlice []) (default_kwargs\<lparr>k_cwd := d\<rparr>) = Ok ([], ArgSlice [])"
    by (simp add: get_args_def default_kwargs_def)
  have "get_env_map es \<noteq> Err e" for es and e :: command_error
    by (induction es) (auto split: list.splits simp: omap_Err_iff)
  then have "get_env x k \<noteq> Err e" for k and e :: command_error
    by (simp add: get_env_def omap_Err_iff)
  then have "snd (get_cmd x (ArgSlice []) (default_kwargs\<lparr>k_cwd := d\<rparr>) h) = Panic"
    by (cases "get_env x (default_kwargs\<lparr>k_cwd := d\<rparr>) :: (command_error, _) outcome")
       (simp_all add: get_cmd_def a pbind_def plift_def)
  then show ?thesis
    by (cases "get_cmd x (ArgSlice []) (default_kwargs\<lparr>k_cwd := d\<rparr>) h")
       (simp add: run_command_def p pbind_def plift_def)
qed

lemma zero_simps:
  "set_umask zero_params = Ok ()" "get_virtualenv zero_params = []" "get_extra_args zero_params = []"
  "pp_name zero_params = []" "pp_requirements zero_params = []" "state_map (pp_state zero_params) = None"
  by (simp_all add: zero_params_def set_umask_def get_virtualenv_def get_extra_args_def state_map_def)

lemma panics_after:
  assumes "\<And>a s. snd (g a s) = Panic" and "\<And>e. snd (f s) \<noteq> Err e"
  shows "snd (pbind f g s) = Panic"
proof (cases "f s")
  case (Pair s' r)
  show ?thesis
  proof (cases r)
    case (Err e)
    then show ?thesis using assms(2) [of e] Pair by simp
  qed (simp_all add: pbind_def Pair assms(1))
qed

lemma pip_body_zero_panics: "snd (pip_body t zero_params h) = Panic"
proof -
  have try_ok: "snd (ptry f s) \<noteq> Err e" for f :: "('s, command_error, 'a) prog" and s and e :: command_error
    by (cases "f s"; cases "snd (f s)") (simp_all add: ptry_def)
  have run: "snd (pbind (run_command (pt_sys t) (ArgSlice []) (default_kwargs\<lparr>k_cwd := d, k_path_prefix := []\<rparr>)) g s) = Panic"
    for d g s
  proof -
    have same: "default_kwargs\<lparr>k_cwd := d, k_path_prefix := []\<rparr> = default_kwargs\<lparr>k_cwd := d\<rparr>"
      by (simp add: default_kwargs_def)
    show ?thesis
      unfolding same using run_empty_panics [of "pt_sys t" d s]
      by (cases "run_command (pt_sys t) (ArgSlice []) (default_kwargs\<lparr>k_cwd := d\<rparr>) s") (simp add: pbind_def)
  qed
  show ?thesis
    unfolding pip_body_def prepare_venv_def prepare_packages_def split_extra_def Let_def
    apply (simp only: zero_simps effect_simps prod.case list.case option.case sum.case if_True if_False
        append.simps simp_thms)
    by (rule panics_after [OF run try_ok])
qed

text \<open>
  C36.  The module pip never succeeds: parameters that do not decode or validate are reported, and
  with any valid parameters the module panics, whatever programs do on the host, because it reads
  a second, empty set of parameters and so runs an empty command.
\<close>

theorem pip_never_succeeds:
  "snd (pip_run t vs h) =
     (case pt_decode t vs default_params of
        Inl e \<Rightarrow> Err (ModuleError e)
      | Inr p \<Rightarrow> (case validate_params p of Err e \<Rightarrow> Err e | _ \<Rightarrow> Panic))"
  by (cases "pt_decode t vs default_params"; cases "validate_params (projr (pt_decode t vs default_params))")
     (simp_all add: pip_run_def pbind_def plift_def pip_body_zero_panics)

section \<open>Package names\<close>

definition plain_spec :: "string \<times> string list \<Rightarrow> bool" where
  "plain_spec ns \<longleftrightarrow>
     is_package_name (fst ns) \<and> list_all (\<lambda>s. \<not> is_package_name s) (snd ns)
     \<and> list_all (\<lambda>s. CHR '','' \<notin> set s \<and> CHR ''['' \<notin> set s) (fst ns # snd ns)"

definition spec_parts :: "string \<times> string list \<Rightarrow> string list" where
  "spec_parts ns = fst ns # snd ns"

definition render_spec :: "string \<times> string list \<Rightarrow> string" where
  "render_spec ns = join '','' (spec_parts ns)"

lemma recover_specifiers:
  assumes "list_all (\<lambda>s. \<not> is_package_name s \<and> CHR ''['' \<notin> set s) ss"
  shows "recover_loop (ss @ rest) (found, parts, False) = recover_loop rest (found, parts @ ss, False)"
  using assms by (induction ss arbitrary: parts) (simp_all add: contains_char)

lemma recover_specs:
  assumes "list_all plain_spec specs" and "parts \<noteq> []"
  shows "\<exists>found' parts'. recover_loop (concat (map spec_parts specs)) (found, parts, False) = (found', parts', False)
    \<and> found' @ [join '','' parts'] = found @ join '','' parts # map render_spec specs"
  using assms
proof (induction specs arbitrary: found parts)
  case (Cons ns specs)
  have ns: "is_package_name (fst ns)" "CHR ''['' \<notin> set (fst ns)"
    "list_all (\<lambda>s. \<not> is_package_name s \<and> CHR ''['' \<notin> set s) (snd ns)"
    using Cons.prems(1) by (auto simp: plain_spec_def list_all_iff)
  have step: "recover_loop (concat (map spec_parts (ns # specs))) (found, parts, False)
    = recover_loop (concat (map spec_parts specs)) (found @ [join '','' parts], spec_parts ns, False)"
    using recover_specifiers [OF ns(3), of _ "found @ [join '','' parts]" "[fst ns]"] ns(1,2) Cons.prems(2)
    by (simp add: spec_parts_def contains_char)
  obtain f p where f: "recover_loop (concat (map spec_parts specs)) (found @ [join '','' parts], spec_parts ns, False) = (f, p, False)"
      "f @ [join '','' p] = (found @ [join '','' parts]) @ join '','' (spec_parts ns) # map render_spec specs"
  proof -
    have "list_all plain_spec specs" "spec_parts ns \<noteq> []"
      using Cons.prems(1) by (simp_all add: spec_parts_def)
    from Cons.IH [OF this, of "found @ [join '','' parts]"] that show thesis by blast
  qed
  show ?case
    unfolding step f(1) using f(2) by (simp add: render_spec_def)
qed simp

lemma split_commas: "list_all (\<lambda>s. CHR '','' \<notin> set s) ws \<Longrightarrow> ws \<noteq> [] \<Longrightarrow> split_on (CHR '','') (join '','' ws) = ws"
  by (simp add: split_on_join list_all_iff)

text \<open>
  However a user groups requirements with commas, as one text, as separate items or as items
  cut between the specifiers of a package, the module recovers each requirement whole.
\<close>

theorem recover_package_names:
  assumes "list_all plain_spec specs" "specs \<noteq> []"
    and "concat groups = concat (map spec_parts specs)" "list_all (\<lambda>g. g \<noteq> []) groups"
  shows "recover_package_name (map (join '','') groups) = map render_spec specs"
proof -
  have "list_all (\<lambda>s. CHR '','' \<notin> set s) (concat (map spec_parts specs))"
    using assms(1) by (auto simp: list_all_iff plain_spec_def spec_parts_def)
  then have nocomma: "list_all (\<lambda>s. CHR '','' \<notin> set s) (concat groups)"
    using assms(3) by simp
  have "concat (map (split_on (CHR '','')) (map (join '','') gs)) = concat gs"
    if "list_all (\<lambda>s. CHR '','' \<notin> set s) (concat gs)" "list_all (\<lambda>g. g \<noteq> []) gs" for gs
    using that by (induction gs) (simp_all add: split_commas)
  then have "concat (map (split_on (CHR '','')) (map (join '','') groups)) = concat (map spec_parts specs)"
    using nocomma assms(3,4) by simp
  moreover obtain ns rest where specs: "specs = ns # rest"
    using assms(2) by (cases specs) auto
  have ns: "is_package_name (fst ns)" "CHR ''['' \<notin> set (fst ns)"
    "list_all (\<lambda>s. \<not> is_package_name s \<and> CHR ''['' \<notin> set s) (snd ns)" "list_all plain_spec rest"
    using assms(1) by (auto simp: specs plain_spec_def list_all_iff)
  have "recover_loop (concat (map spec_parts specs)) ([], [], False)
    = recover_loop (concat (map spec_parts rest)) ([], spec_parts ns, False)"
    using recover_specifiers [OF ns(3), of _ "[]" "[fst ns]"] ns(1,2)
    by (simp add: specs spec_parts_def contains_char)
  moreover obtain found parts where
    "recover_loop (concat (map spec_parts rest)) ([], spec_parts ns, False) = (found, parts, False)"
    "found @ [join '','' parts] = join '','' (spec_parts ns) # map render_spec rest"
    using recover_specs [OF ns(4), of "spec_parts ns" "[]"] by (auto simp: spec_parts_def)
  ultimately show ?thesis
    by (simp add: recover_package_name_def specs render_spec_def)
qed


section \<open>Witness and limits\<close>

lemma recover_package_names_witness:
  "recover_package_name [''pkg'', ''<2,other''] = [''pkg,<2'', ''other'']"
proof -
  have "list_all plain_spec [(''pkg'', [''<2'']), (''other'', [])]"
    by code_simp
  from recover_package_names [OF this, of "[[''pkg''], [''<2'', ''other'']]"] show ?thesis
    by (simp add: spec_parts_def render_spec_def)
qed

text \<open>A umask that is an octal number panics; with an installation and nothing new, equal lists count as a change.\<close>

lemma umask_panics: "set_umask (zero_params\<lparr>pp_umask := ''022''\<rparr>) = Panic"
  by code_simp

lemma unchanged_counts_as_changed:
  assumes "get_packages (pt_sys t) p h = (h', Ok (cmd, Inr r'))" and "pp_state p \<noteq> ''absent''" and "cr_stdout r' = before"
  shows "pip_changed t p False before r h = (h', Ok (Inr True))"
  using assms by (simp add: pip_changed_def pbind_def pret_def)

end
