(* ===== verification/Selinux.thy ===== *)
theory Selinux
  imports Files
begin

text \<open>
  The wrapper of SELinux, \<open>module_utils/selinux/selinux.go\<close>, and the helpers of
  \<open>utils/slices\<close> the code around it uses.  The label of a file is part of the file system;
  the output of \<open>sestatus\<close>, the table of mounts and which paths are mounted are parameters.
  A search for a mount point that does not end counts as \<open>Panic\<close>: the call never comes back.
\<close>

record selinux =
  se_enabled :: bool
  se_mls :: "bool option"
  se_initial :: "string list"

record se_tools =
  st_sestatus :: "(string, string) outcome option"
  st_mounts :: "string option"
  st_mounted :: "nat \<Rightarrow> string \<Rightarrow> (os_error, bool) outcome"
  st_special_fs :: "string list"

type_synonym 'a se_prog = "(selinux \<times> fs, os_error, 'a) prog"

definition new_selinux :: "bool \<Rightarrow> selinux" where
  "new_selinux enabled = \<lparr>se_enabled = enabled, se_mls = None, se_initial = [[], [], []]\<rparr>"

fun splitn :: "nat \<Rightarrow> char \<Rightarrow> string \<Rightarrow> string list" where
  "splitn 0 c s = []"
| "splitn (Suc 0) c s = [s]"
| "splitn (Suc (Suc n)) c s =
     (if c \<in> set s then takeWhile (\<lambda>d. d \<noteq> c) s # splitn (Suc n) c (drop 1 (dropWhile (\<lambda>d. d \<noteq> c) s))
      else [s])"

definition se_line_enabled :: "string \<Rightarrow> bool" where
  "se_line_enabled line \<longleftrightarrow> has_suffix line ''enabled''"

text \<open>The last line about MLS counts.\<close>

definition parse_sestatus :: "string \<Rightarrow> bool" where
  "parse_sestatus out =
     fold (\<lambda>line b. if has_prefix line ''Policy MLS status:'' then se_line_enabled line else b)
       (split_on nl out) False"

definition get_is_mls_enabled :: "se_tools \<Rightarrow> unit se_prog" where
  "get_is_mls_enabled t = (\<lambda>(se, fs).
     case st_sestatus t of
       None \<Rightarrow> ((se\<lparr>se_mls := Some False\<rparr>, fs), Ok ())
     | Some (Err e) \<Rightarrow> ((se, fs), Err (OsError e))
     | Some Panic \<Rightarrow> ((se, fs), Panic)
     | Some (Ok out) \<Rightarrow>
         ((se\<lparr>se_mls := Some (parse_sestatus out),
              se_initial := (if parse_sestatus out then se_initial se @ [[]] else se_initial se)\<rparr>, fs), Ok ()))"

definition se_init :: "se_tools \<Rightarrow> unit se_prog" where
  "se_init t s = (if se_mls (fst s) = None then get_is_mls_enabled t s else (s, Ok ()))"

definition mls_enabled :: "se_tools \<Rightarrow> bool se_prog" where
  "mls_enabled t = pbind (se_init t) (\<lambda>_ s. (s, Ok (se_mls (fst s) = Some True)))"

definition initial_context :: "se_tools \<Rightarrow> string list se_prog" where
  "initial_context t = pbind (se_init t) (\<lambda>_ s. (s, Ok (se_initial (fst s))))"

definition lget_file_con :: "string \<Rightarrow> fs \<Rightarrow> (os_error, string) outcome" where
  "lget_file_con p fs =
     (case fs p of None \<Rightarrow> Err NotExist | Some (File i) \<Rightarrow> Ok (i_label i) | Some (Link i t) \<Rightarrow> Ok (i_label i))"

definition se_context :: "se_tools \<Rightarrow> string \<Rightarrow> string list se_prog" where
  "se_context t p =
     pbind (se_init t) (\<lambda>_ s.
       (s, if \<not> se_enabled (fst s) then Ok (se_initial (fst s))
           else case lget_file_con p (snd s) of
                  Ok l \<Rightarrow> Ok (splitn 4 (CHR '':'') l)
                | _ \<Rightarrow> Err (OsError ''failed to retrieve selinux context'')))"

definition default_context :: "se_tools \<Rightarrow> string \<Rightarrow> string list se_prog" where
  "default_context t p =
     pbind (initial_context t) (\<lambda>ctx s.
       if \<not> se_enabled (fst s) then (s, Ok ctx)
       else pbind (ptry (se_context t p)) (\<lambda>r. pret (case r of Inl _ \<Rightarrow> ctx | Inr c \<Rightarrow> c)) s)"

text \<open>A line of the table without a second word panics; the table ends with an empty line.\<close>

fun special_mount :: "se_tools \<Rightarrow> string \<Rightarrow> string \<Rightarrow> string list \<Rightarrow> (bool \<times> string list) se_prog" where
  "special_mount t p mp [] = pret (False, [])"
| "special_mount t p mp (line # lines) =
     (case splitn 5 (CHR '' '') line of
        _ # m # rest \<Rightarrow>
          if m \<noteq> mp \<or> st_special_fs t = [] then special_mount t p mp lines
          else (case rest of
                  [] \<Rightarrow> plift Panic
                | ty # _ \<Rightarrow>
                    if list_ex (contains ty) (st_special_fs t)
                    then pbind (se_context t p) (\<lambda>c. pret (True, c))
                    else special_mount t p mp lines)
      | _ \<Rightarrow> plift Panic)"

definition is_special_path :: "os \<Rightarrow> se_tools \<Rightarrow> string \<Rightarrow> (bool \<times> string list) se_prog" where
  "is_special_path x t p s =
     (case st_mounts t of
        None \<Rightarrow> (s, Ok (False, []))
      | Some content \<Rightarrow>
          (case find_mount_point x (st_mounted t) p (snd s) of
             None \<Rightarrow> (s, Panic)
           | Some Panic \<Rightarrow> (s, Panic)
           | Some (Err e) \<Rightarrow> (s, Ok (False, []))
           | Some (Ok mp) \<Rightarrow> special_mount t p mp (split_on nl content) s))"

definition lset_file_con :: "os \<Rightarrow> string \<Rightarrow> string list \<Rightarrow> unit se_prog" where
  "lset_file_con x p ctx = (\<lambda>(se, fs).
     case o_refuse x SetLabel [p] of
       Some e \<Rightarrow> ((se, fs), Err e)
     | None \<Rightarrow>
         (case fs p of
            None \<Rightarrow> ((se, fs), Err NotExist)
          | Some (File i) \<Rightarrow> ((se, fs(p \<mapsto> File (i\<lparr>i_label := join '':'' ctx\<rparr>))), Ok ())
          | Some (Link i t) \<Rightarrow> ((se, fs(p \<mapsto> Link (i\<lparr>i_label := join '':'' ctx\<rparr>) t)), Ok ())))"

section \<open>Contexts of files\<close>

text \<open>
  \<open>slices.Equal\<close> looks only at the positions of the first slice and panics beyond the second;
  \<open>slices.Copy\<close> makes an empty slice.
\<close>

fun slices_equal :: "'a list \<Rightarrow> 'a list \<Rightarrow> ('e, bool) outcome" where
  "slices_equal [] ys = Ok True"
| "slices_equal (x # xs) [] = Panic"
| "slices_equal (x # xs) (y # ys) = (if x \<noteq> y then Ok False else slices_equal xs ys)"

definition slices_copy :: "'a list \<Rightarrow> 'a list" where
  "slices_copy xs = []"

fun merge_context :: "string list \<Rightarrow> nat \<Rightarrow> string list \<Rightarrow> string list \<Rightarrow> ('e, string list) outcome" where
  "merge_context cur i [] new = Ok new"
| "merge_context cur i (c # ctx) new =
     (if length cur \<le> i then Ok new
      else obind (if c \<noteq> [] \<and> c \<noteq> cur ! i then set_at i c new
                  else if c = [] then set_at i (cur ! i) new
                  else Ok new)
             (merge_context cur (Suc i) ctx))"

definition current_and_new_context ::
  "os \<Rightarrow> se_tools \<Rightarrow> string \<Rightarrow> string list \<Rightarrow> (string list \<times> string list) se_prog" where
  "current_and_new_context x t p ctx =
     pbind (se_context t p) (\<lambda>cur.
     pbind (is_special_path x t p) (\<lambda>(special, sp).
     pbind (plift (if special then Ok sp else merge_context cur 0 ctx (slices_copy cur))) (\<lambda>new.
       pret (cur, new))))"

definition set_context_if_different :: "os \<Rightarrow> se_tools \<Rightarrow> string \<Rightarrow> string list \<Rightarrow> bool se_prog" where
  "set_context_if_different x t p ctx s =
     (if \<not> se_enabled (fst s) then (s, Ok False)
      else pbind (current_and_new_context x t p ctx) (\<lambda>(cur, new).
           pbind (plift (slices_equal cur new)) (\<lambda>same.
             if same then pret False
             else pbind (pmap_err (\<lambda>_. OsError ''set selinux context failed'') (lset_file_con x p new))
                    (\<lambda>_. pret True))) s)"


section \<open>A context is never changed\<close>

definition context_value :: "string \<Rightarrow> selinux \<times> fs \<Rightarrow> (os_error, string list) outcome" where
  "context_value p s =
     (if \<not> se_enabled (fst s) then Ok (se_initial (fst s))
      else case lget_file_con p (snd s) of
             Ok l \<Rightarrow> Ok (splitn 4 (CHR '':'') l)
           | _ \<Rightarrow> Err (OsError ''failed to retrieve selinux context''))"

lemma se_context_ready: "se_mls (fst s) \<noteq> None \<Longrightarrow> se_context t p s = (s, context_value p s)"
  by (auto simp: se_context_def se_init_def pbind_def context_value_def)

lemma se_init_ready:
  "se_init t s = (s', Ok u) \<Longrightarrow> se_mls (fst s') \<noteq> None \<and> snd s' = snd s \<and> se_enabled (fst s') = se_enabled (fst s)"
  by (cases s)
     (auto simp: se_init_def get_is_mls_enabled_def split: if_splits option.splits outcome.splits)

lemma se_context_Ok:
  assumes "se_context t p s = (s', Ok c)"
  shows "se_mls (fst s') \<noteq> None" "snd s' = snd s" "se_enabled (fst s') = se_enabled (fst s)" "context_value p s' = Ok c"
proof -
  obtain u s1 where i: "se_init t s = (s1, Ok u)" and c: "(s1, context_value p s1) = (s', Ok c)"
    using assms by (auto simp: se_context_def pbind_Ok_iff context_value_def)
  from se_init_ready [OF i] c show "se_mls (fst s') \<noteq> None" "snd s' = snd s"
    "se_enabled (fst s') = se_enabled (fst s)" "context_value p s' = Ok c" by auto
qed

lemma splitn_ne: "0 < n \<Longrightarrow> splitn n c s \<noteq> []"
  by (induction n c s rule: splitn.induct) auto

lemma context_ne: "se_enabled (fst s) \<Longrightarrow> context_value p s = Ok c \<Longrightarrow> c \<noteq> []"
  by (auto simp: context_value_def splitn_ne split: outcome.splits)

lemma special_mount_ready:
  assumes "se_mls (fst s) \<noteq> None"
  shows "fst (special_mount t p mp lines s) = s"
    and "snd (special_mount t p mp lines s) = Ok (True, c) \<Longrightarrow> context_value p s = Ok c"
proof -
  have "special_mount t p mp lines s = (s, snd (special_mount t p mp lines s))
    \<and> (snd (special_mount t p mp lines s) = Ok (True, c) \<longrightarrow> context_value p s = Ok c)"
  proof (induction lines)
    case (Cons line lines)
    then show ?case
      using se_context_ready [OF assms, of t p]
      by (cases "context_value p s")
         (auto simp: plift_def pbind_def pret_def split: list.splits if_splits)
  qed (simp add: pret_def)
  then show "fst (special_mount t p mp lines s) = s"
    "snd (special_mount t p mp lines s) = Ok (True, c) \<Longrightarrow> context_value p s = Ok c"
    by (metis fst_conv, blast)
qed

lemma is_special_ready:
  assumes "se_mls (fst s) \<noteq> None"
  shows "fst (is_special_path x t p s) = s"
    and "snd (is_special_path x t p s) = Ok (True, c) \<Longrightarrow> context_value p s = Ok c"
  using special_mount_ready [OF assms]
  by (auto simp: is_special_path_def split: option.splits outcome.splits)

lemma slices_equal_self: "slices_equal xs xs = Ok True"
  by (induction xs) simp_all

lemma merge_empty: "merge_context cur i ctx [] \<in> {Ok [], Panic}"
  by (induction ctx arbitrary: i) (auto simp: set_at_def)

lemma context_steps:
  assumes en: "se_enabled (fst s)" and c: "se_context t p s = (s1, Ok cur)"
  shows "current_and_new_context x t p ctx s =
      (s1, case snd (is_special_path x t p s1) of
             Ok (special, sp) \<Rightarrow> omap (\<lambda>new. (cur, new)) (if special then Ok sp else merge_context cur 0 ctx [])
           | Err e \<Rightarrow> Err e
           | Panic \<Rightarrow> Panic)"
proof -
  have "is_special_path x t p s1 = (s1, snd (is_special_path x t p s1))"
    using is_special_ready(1) [OF se_context_Ok(1) [OF c], of x t p] by (metis prod.collapse)
  then show ?thesis
    by (cases "is_special_path x t p s1"; cases "snd (is_special_path x t p s1)")
       (auto simp: current_and_new_context_def c pbind_def plift_def pret_def slices_copy_def split: outcome.splits)
qed

lemma context_kept:
  "snd (fst (set_context_if_different x t p ctx s)) = snd s \<and>
   snd (set_context_if_different x t p ctx s) \<noteq> Ok True"
proof (cases "se_enabled (fst s)")
  case True
  show ?thesis
  proof (cases "se_context t p s")
    case (Pair s1 r)
    show ?thesis
    proof (cases r)
      case (Ok cur)
      with Pair have c: "se_context t p s = (s1, Ok cur)" by simp
      note ok = se_context_Ok [OF c]
      have ne: "cur \<noteq> []"
        using context_ne [OF _ ok(4)] ok(3) True by simp
      then have eq_nil: "slices_equal cur [] = Panic"
        by (cases cur) simp_all
      have sp: "sp = cur" if "snd (is_special_path x t p s1) = Ok (True, sp)" for sp
        using is_special_ready(2) [OF ok(1) that] ok(4) by simp
      note defs = set_context_if_different_def pbind_def context_steps [OF True c] plift_def pret_def
      show ?thesis
      proof (cases "snd (is_special_path x t p s1)")
        case (Ok a)
        then obtain special b where a: "snd (is_special_path x t p s1) = Ok (special, b)"
          by (cases a) auto
        show ?thesis
        proof (cases special)
          case True
          then show ?thesis
            using sp [of b] a ok(2) \<open>se_enabled (fst s)\<close> by (simp add: defs slices_equal_self)
        next
          case False
          have "merge_context cur 0 ctx [] \<in> {Ok [], Panic :: (os_error, string list) outcome}"
            by (rule merge_empty)
          with False show ?thesis
            using a ok(2) \<open>se_enabled (fst s)\<close>
            by (cases "merge_context cur 0 ctx [] :: (os_error, string list) outcome") (auto simp: defs eq_nil)
        qed
      qed (use True ok(2) in \<open>simp_all add: defs\<close>)
    next
      case (Err e)
      have "snd s1 = snd s"
        using Pair by (cases s) (auto simp: se_context_def pbind_def se_init_def get_is_mls_enabled_def
            split: if_splits option.splits outcome.splits)
      with Pair Err True show ?thesis
        by (simp add: set_context_if_different_def current_and_new_context_def pbind_def)
    next
      case Panic
      have "snd s1 = snd s"
        using Pair by (cases s) (auto simp: se_context_def pbind_def se_init_def get_is_mls_enabled_def
            split: if_splits option.splits outcome.splits)
      with Pair Panic True show ?thesis
        by (simp add: set_context_if_different_def current_and_new_context_def pbind_def)
    qed
  qed
qed (simp add: set_context_if_different_def)

end
