(* ===== verification/File_Attributes.thy ===== *)
theory File_Attributes
  imports Selinux Run_Command
begin

text \<open>
  What modules do with files, the second half of
  \<open>module_utils/gosibleModule/gosible_module.go\<close>: owner, group, mode, attributes and context
  "if different", moving, copying and backing up.  The differences for display are left out.
\<close>

section \<open>The state of a module\<close>

record module_state =
  ms_host :: host_state
  ms_se :: selinux
  ms_tmp_dir :: string
  ms_remote_tmp :: string
  ms_keep_remote :: bool
  ms_close :: "string list"
  ms_warnings :: "string list"

record file_tools =
  ft_sys :: sys
  ft_se :: se_tools
  ft_user :: "string \<Rightarrow> string option"
  ft_group :: "string \<Rightarrow> string option"
  ft_temp :: "string \<Rightarrow> string \<Rightarrow> fs \<Rightarrow> string"
  ft_hash :: "string \<Rightarrow> (string \<Rightarrow> string) option"
  ft_mkdir :: "string \<Rightarrow> fs \<Rightarrow> fs \<times> (os_error, unit) outcome"
  ft_stamp :: string

type_synonym 'a fprog = "(module_state, command_error, 'a) prog"

definition on_host :: "'a run \<Rightarrow> 'a fprog" where
  "on_host f m = (case f (ms_host m) of (h, r) \<Rightarrow> (m\<lparr>ms_host := h\<rparr>, r))"

definition on_files :: "'a io \<Rightarrow> 'a fprog" where
  "on_files f = on_host (on_fs f)"

definition on_se :: "'a se_prog \<Rightarrow> 'a fprog" where
  "on_se f m =
     (case f (ms_se m, h_fs (ms_host m)) of
        ((se, fs), r) \<Rightarrow>
          (m\<lparr>ms_se := se, ms_host := (ms_host m)\<lparr>h_fs := fs\<rparr>\<rparr>,
           case r of Ok a \<Rightarrow> Ok a | Err e \<Rightarrow> Err (FsError e) | Panic \<Rightarrow> Panic))"

definition files_of :: "module_state \<Rightarrow> fs" where
  "files_of m = h_fs (ms_host m)"

definition ft_os :: "file_tools \<Rightarrow> os" where
  "ft_os t = s_os (ft_sys t)"

definition expanded :: "file_tools \<Rightarrow> bool \<Rightarrow> string \<Rightarrow> string fprog" where
  "expanded t expand p = (if expand then plift (expand_user_and_env (ft_os t) p) else pret p)"

section \<open>Owner and group\<close>

text \<open>A number, or the number of a name, as 32-bit texts.\<close>

definition owner_id :: "(string \<Rightarrow> string option) \<Rightarrow> string \<Rightarrow> string \<Rightarrow> (command_error, int) outcome" where
  "owner_id lookup msg owner =
     (case parse_int 10 32 owner of
        Some i \<Rightarrow> Ok i
      | None \<Rightarrow>
          (case Option.bind (lookup owner) (parse_int 10 32) of
             Some i \<Rightarrow> Ok i
           | None \<Rightarrow> Err (ModuleError (msg @ owner))))"

text \<open>The present owner is only looked at for the difference to display; the error of asking is dropped.\<close>

definition set_owner_if_different :: "file_tools \<Rightarrow> string \<Rightarrow> string \<Rightarrow> bool \<Rightarrow> bool fprog" where
  "set_owner_if_different t path owner expand =
     (if owner = [] then pret False
      else
        pbind (expanded t expand path) (\<lambda>path.
        pbind (ptry (on_files (user_and_group (ft_os t) path False))) (\<lambda>_.
        pbind (plift (owner_id (ft_user t) ''chown failed: failed to look up user '' owner)) (\<lambda>uid.
        pbind (pmap_err (\<lambda>_. ModuleError ''chown failed'') (on_files (os_lchown (ft_os t) path uid (- 1))))
          (\<lambda>_. pret True)))))"

definition set_group_if_different :: "file_tools \<Rightarrow> string \<Rightarrow> string \<Rightarrow> bool \<Rightarrow> bool fprog" where
  "set_group_if_different t path grp expand =
     (if grp = [] then pret False
      else
        pbind (expanded t expand path) (\<lambda>path.
        pbind (ptry (on_files (user_and_group (ft_os t) path False))) (\<lambda>_.
        pbind (plift (owner_id (ft_group t) ''chgrp failed: failed to look up group '' grp)) (\<lambda>gid.
        pbind (pmap_err (\<lambda>_. ModuleError ''chown failed'') (on_files (os_lchown (ft_os t) path (- 1) gid)))
          (\<lambda>_. pret True)))))"

section \<open>Mode\<close>

text \<open>\<open>mode = None\<close> is nil.\<close>

definition set_mode_if_different :: "file_tools \<Rightarrow> string \<Rightarrow> mode_arg option \<Rightarrow> bool \<Rightarrow> bool fprog" where
  "set_mode_if_different t path mode expand =
     (case mode of
        None \<Rightarrow> pret False
      | Some mode \<Rightarrow>
          pbind (expanded t expand path) (\<lambda>path.
          pbind (on_files (os_lstat (ft_os t) path)) (\<lambda>stat.
          pbind (plift (case parse_mode \<lparr>fi_mode = i_mode stat, fi_is_dir = is_directory stat\<rparr>
                               (o_umask (ft_os t)) mode of
                          Ok m \<Rightarrow> Ok m | Err e \<Rightarrow> Err (ModuleError ''bad mode'') | Panic \<Rightarrow> Panic)) (\<lambda>file_mode.
            if i_mode stat = file_mode then pret False
            else
              pbind (ptry (on_files (lchmod (ft_os t) path file_mode))) (\<lambda>r.
              pbind (case r of
                       Inr _ \<Rightarrow> pret ()
                     | Inl e \<Rightarrow>
                         pbind (on_files (is_symlink (ft_os t) path)) (\<lambda>link.
                           if \<not> link \<and> e \<noteq> FsError NotPermitted then plift (Err e) else pret ())) (\<lambda>_.
              pbind (on_files (os_lstat (ft_os t) path)) (\<lambda>new_stat.
                pret (i_mode new_stat \<noteq> i_mode stat))))))))"

section \<open>Attributes\<close>

record attributes =
  at_version :: string
  at_flags :: string
  at_names :: "string list"

definition no_attributes :: attributes where
  "no_attributes = \<lparr>at_version = [], at_flags = [], at_names = []\<rparr>"

definition words :: "string \<Rightarrow> string list" where
  "words s =
     filter (\<lambda>w. w \<noteq> [])
       (split_on spc (map (\<lambda>c. if c \<in> {CHR 0x09, nl, CHR 0x0B, CHR 0x0C, CHR 0x0D} then spc else c) s))"

definition word_at :: "nat \<Rightarrow> string list \<Rightarrow> ('e, string) outcome" where
  "word_at i ws = (if i < length ws then Ok (ws ! i) else Panic)"

definition get_file_attributes :: "file_tools \<Rightarrow> string \<Rightarrow> bool \<Rightarrow> attributes fprog" where
  "get_file_attributes t path version =
     pbind (on_files (get_bin_path (ft_os t) ''lsattr'' [] False)) (\<lambda>cmd.
       if cmd = [] then pret no_attributes
       else
         pbind (on_host (run_command (ft_sys t) (ArgSlice [cmd, if version then ''-vd'' else ''-d'', path]) default_kwargs))
           (\<lambda>(r, _).
         if res_err r \<noteq> None then pret no_attributes
         else pbind (plift (the_res r)) (\<lambda>r.
           if cr_rc r \<noteq> 0 then pret no_attributes
           else
             (let ws = words (cr_stdout r) in
              pbind (if version then plift (word_at 0 ws) else pret []) (\<lambda>v.
              pbind (plift (word_at (if version then 1 else 0) ws)) (\<lambda>w.
                (let flags = trim_space (replace_all ''-'' [] w)
                 in pret \<lparr>at_version = trim_space v, at_flags = flags, at_names = format_attributes flags\<rparr>)))))))"

text \<open>The command that sets attributes does not name the file.\<close>

definition set_attributes_if_different :: "file_tools \<Rightarrow> string \<Rightarrow> string \<Rightarrow> bool \<Rightarrow> bool fprog" where
  "set_attributes_if_different t path attributes expand =
     (if attributes = [] then pret False
      else
        pbind (expanded t expand path) (\<lambda>path.
        pbind (ptry (get_file_attributes t path False)) (\<lambda>existing.
        case existing of
          Inl e \<Rightarrow> pret False
        | Inr existing \<Rightarrow>
            (let signed = has_prefix attributes ''-'' \<or> has_prefix attributes ''+'';
                 op = (if signed then hd attributes else CHR ''='');
                 attributes = (if signed then tl attributes else attributes)
             in if at_flags existing = attributes \<and> op = CHR ''-'' then pret False
                else
                  pbind (on_files (get_bin_path (ft_os t) ''chattr'' [] False)) (\<lambda>cmd.
                    if cmd = [] then pret False
                    else
                      pbind (pmap_err (\<lambda>_. ModuleError ''chattr failed'')
                               (on_host (run_checked (ft_sys t) [cmd, op # attributes] default_kwargs))) (\<lambda>r.
                        if cr_rc r \<noteq> 0 \<or> cr_stderr r \<noteq> []
                        then plift (Err (ModuleError ''chattr failed''))
                        else pret True))))))"

section \<open>All attributes\<close>

record file_params =
  fp_path :: string
  fp_owner :: string
  fp_group :: string
  fp_mode :: "mode_arg option"
  fp_attributes :: string
  fp_context :: "string list"

text \<open>Every error ends the work and is dropped.\<close>

fun dropping_errors :: "bool fprog list \<Rightarrow> bool \<Rightarrow> bool fprog" where
  "dropping_errors [] changed = pret changed"
| "dropping_errors (f # fs) changed =
     pbind (ptry f) (\<lambda>r. case r of Inl e \<Rightarrow> pret False | Inr b \<Rightarrow> dropping_errors fs (changed \<or> b))"

definition set_fs_attributes_if_different :: "file_tools \<Rightarrow> file_params \<Rightarrow> bool \<Rightarrow> bool fprog" where
  "set_fs_attributes_if_different t p expand =
     dropping_errors
       [on_se (set_context_if_different (ft_os t) (ft_se t) (fp_path p) (fp_context p)),
        set_owner_if_different t (fp_path p) (fp_owner p) expand,
        set_group_if_different t (fp_path p) (fp_group p) expand,
        set_mode_if_different t (fp_path p) (fp_mode p) expand,
        set_attributes_if_different t (fp_path p) (fp_attributes p) expand] False"


section \<open>Modes are never set\<close>

lemma keeps_on_files:
  assumes "keeps (\<lambda>s. s) f"
  shows "keeps (\<lambda>m. m) (on_files f)"
proof (rule keepsI)
  fix m
  show "fst (on_files f m) = m"
    using keepsD [OF assms, of "h_fs (ms_host m)"]
    by (cases "f (h_fs (ms_host m))") (simp add: on_files_def on_host_def on_fs_def)
qed

lemma keeps_expanded: "keeps (\<lambda>m. m) (expanded t e p)"
  unfolding expanded_def by (auto intro!: keeps_intros)

lemma keeps_lchmod: "keeps (\<lambda>s. s) (lchmod x p mode)"
  by (rule keepsI) (rule lchmod_keeps)

lemma set_mode_keeps: "keeps (\<lambda>m. m) (set_mode_if_different t path mode expand)"
  unfolding set_mode_if_different_def
  by (auto intro!: keeps_intros keeps_on_files keeps_expanded keeps_lchmod split: option.splits sum.splits)

lemma set_mode_unchanged: "yields m (set_mode_if_different t path mode expand) (\<lambda>b. \<not> b)"
proof (cases mode)
  case None
  then show ?thesis by (simp add: set_mode_if_different_def yields_pret)
next
  case (Some mode')
  show ?thesis
    unfolding set_mode_if_different_def Some option.case
    apply (intro yields_pbind keeps_expanded keeps_on_files keeps_os_lstat keeps_plift)
    by (auto intro!: yields_pbind yields_pret keeps_intros keeps_on_files keeps_lchmod split: sum.splits)
qed

text \<open>
  The mode of a file is never set: for every mode asked for, and whatever the operating system
  refuses, all files and links stay as they are and no change is reported.
\<close>

theorem mode_never_set:
  "fst (set_mode_if_different t path mode expand m) = m
   \<and> snd (set_mode_if_different t path mode expand m) \<noteq> Ok True"
proof -
  have "snd (set_mode_if_different t path mode expand m) \<noteq> Ok True"
    using yieldsD [OF set_mode_unchanged]
    by (cases "set_mode_if_different t path mode expand m") fastforce
  then show ?thesis
    using keepsD [OF set_mode_keeps] by blast
qed

lemma context_stays:
  "files_of (fst (on_se (set_context_if_different x t path ctx) m)) = files_of m
   \<and> snd (on_se (set_context_if_different x t path ctx) m) \<noteq> Ok True"
  using context_kept [of x t path ctx "(ms_se m, h_fs (ms_host m))"]
  by (cases "set_context_if_different x t path ctx (ms_se m, h_fs (ms_host m))")
     (auto simp: on_se_def files_of_def split: outcome.splits)

text \<open>
  The context of a file is never changed: with SELinux off there is nothing to do; with it on
  the call panics or never comes back, or finds the context as it is.
\<close>

theorem context_never_changed:
  "files_of (fst (on_se (set_context_if_different x t path ctx) m)) = files_of m
   \<and> snd (on_se (set_context_if_different x t path ctx) m) \<noteq> Ok True"
  by (rule context_stays)

section \<open>Owners and dropped errors\<close>

text \<open>An owner given always counts as changed, also when the file has it already.\<close>

lemma owner_always_changed:
  assumes "set_owner_if_different t path owner expand m = (m', Ok b)"
  shows "b \<longleftrightarrow> owner \<noteq> []"
  using assms by (auto simp: set_owner_if_different_def pbind_Ok_iff pret_def split: if_splits)

lemma ptry_no_Err: "snd (ptry f s) \<noteq> Err e"
  by (cases "f s"; cases "snd (f s)") (simp_all add: ptry_def)

text \<open>
  Setting the attributes of a file never fails: whatever goes wrong with owner, group, mode,
  attributes or context, the caller is told that nothing changed, without an error.
\<close>

theorem attribute_errors_dropped: "snd (set_fs_attributes_if_different t p expand m) \<noteq> Err e"
proof -
  have "snd (dropping_errors fs b m) \<noteq> Err e" for fs b m
  proof (induction fs arbitrary: b m)
    case (Cons f fs)
    obtain m' and r :: "(command_error, command_error + bool) outcome" where r: "ptry f m = (m', r)"
      by force
    have "r \<noteq> Err e"
      using ptry_no_Err [of f m e] r by simp
    with r Cons.IH show ?case
      by (cases r) (auto simp: pbind_def pret_def split: sum.splits)
  qed (simp add: pret_def)
  then show ?thesis
    unfolding set_fs_attributes_if_different_def .
qed

text \<open>For instance the owner is changed, then the group is unknown, and no change is reported.\<close>

section \<open>Copies\<close>

definition copy_attributes :: "file_tools \<Rightarrow> string \<Rightarrow> string \<Rightarrow> unit fprog" where
  "copy_attributes t src dest =
     pbind (get_file_attributes t src False) (\<lambda>a.
     pbind (set_attributes_if_different t dest (at_flags a) True) (\<lambda>_. pret ()))"

definition preserved_copy :: "file_tools \<Rightarrow> string \<Rightarrow> string \<Rightarrow> unit fprog" where
  "preserved_copy t src dest =
     pbind (on_files (copy_file (ft_os t) src dest)) (\<lambda>_.
     pbind (on_files (copy_stat (ft_os t) src dest)) (\<lambda>_. copy_attributes t src dest))"

text \<open>The name of the backup, or the empty text when there is no file.\<close>

definition backup_local :: "file_tools \<Rightarrow> string \<Rightarrow> string fprog" where
  "backup_local t filename =
     pbind (on_files (path_exists (ft_os t) filename)) (\<lambda>b.
       if \<not> b then pret []
       else pbind (preserved_copy t filename (filename @ ''.'' @ ft_stamp t)) (\<lambda>_.
              pret (filename @ ''.'' @ ft_stamp t)))"

definition digest_from_file :: "file_tools \<Rightarrow> string \<Rightarrow> string \<Rightarrow> string option fprog" where
  "digest_from_file t filename algorithm =
     pbind (on_files (path_exists (ft_os t) filename)) (\<lambda>b.
       if \<not> b then pret None
       else
         pbind (on_files (is_dir (ft_os t) filename)) (\<lambda>d.
           if d then plift (Err (ModuleError (''attempted to take checksum of directory: '' @ filename)))
           else
             (case ft_hash t algorithm of
                None \<Rightarrow> plift (Err (ModuleError (''could not hash file '' @ filename)))
              | Some h \<Rightarrow>
                  pbind (on_files (os_open (ft_os t) filename)) (\<lambda>q m.
                    (m, case files_of m q of Some (File i) \<Rightarrow> Ok (Some (h (i_data i))) | _ \<Rightarrow> Err (FsError NotExist))))))"

definition cleanup :: "file_tools \<Rightarrow> string \<Rightarrow> unit fprog" where
  "cleanup t p =
     pbind (ptry (on_files (os_remove (ft_os t) p))) (\<lambda>r.
       case r of Inr _ \<Rightarrow> pret () | Inl e \<Rightarrow> if e = FsError NotExist then pret () else plift (Err e))"


section \<open>Moving\<close>

definition context_for_move :: "file_tools \<Rightarrow> string \<Rightarrow> command_error option \<Rightarrow> string list fprog" where
  "context_for_move t path err m =
     (case err of
        None \<Rightarrow> if se_enabled (ms_se m) then on_se (se_context (ft_se t) path) m else (m, Ok [])
      | Some e \<Rightarrow>
          if e \<noteq> FsError NotExist \<and> e \<noteq> FsError NotPermitted then (m, Err e)
          else if se_enabled (ms_se m) then on_se (default_context (ft_se t) path) m
          else (m, Ok []))"

definition relabel :: "file_tools \<Rightarrow> string \<Rightarrow> string list \<Rightarrow> unit fprog" where
  "relabel t path ctx m =
     (if se_enabled (ms_se m)
      then pbind (on_se (set_context_if_different (ft_os t) (ft_se t) path ctx)) (\<lambda>_. pret ()) m
      else (m, Ok ()))"

text \<open>
  The source is first renamed to the temporary file; the last rename takes the source again, and
  the temporary file is removed in the end.
\<close>

definition try_rename_with_temp :: "file_tools \<Rightarrow> string \<Rightarrow> string \<Rightarrow> string \<Rightarrow> string list \<Rightarrow> unit fprog" where
  "try_rename_with_temp t temp src dest ctx =
     pdefer
       (pbind (ptry (on_files (os_rename (ft_os t) src temp))) (\<lambda>r.
        pbind (case r of
                 Inr _ \<Rightarrow> pret ()
               | Inl _ \<Rightarrow>
                   pbind (on_files (copy_file (ft_os t) src dest)) (\<lambda>_.
                   on_files (copy_stat (ft_os t) src dest))) (\<lambda>_.
        pbind (relabel t temp ctx) (\<lambda>_.
        pbind (ptry (on_files (user_and_group (ft_os t) temp False))) (\<lambda>r.
        pbind (case r of
                 Inr (uid, gid) \<Rightarrow> pbind (ptry (on_files (os_chown (ft_os t) temp uid gid))) (\<lambda>_. pret ())
               | Inl e \<Rightarrow> if e = FsError NotPermitted then pret () else plift (Err e)) (\<lambda>_.
          pmap_err (\<lambda>_. ModuleError ''failed final rename'') (on_files (os_rename (ft_os t) src dest))))))))
       (cleanup t temp)"

definition try_rename_workarounds ::
  "file_tools \<Rightarrow> string \<Rightarrow> string \<Rightarrow> command_error \<Rightarrow> string list \<Rightarrow> bool \<Rightarrow> unit fprog" where
  "try_rename_workarounds t src dest err ctx unsafe =
     (if err \<noteq> FsError NotPermitted then plift (Err (ModuleError ''could not replace file''))
      else
        pbind (\<lambda>m. (m, Ok (ft_temp t (path_dir dest) (path_base dest) (files_of m)))) (\<lambda>temp.
        pbind (ptry (on_files (os_create (ft_os t) temp))) (\<lambda>r.
          case r of
            Inl e \<Rightarrow>
              if \<not> unsafe then plift (Err (ModuleError ''the destination directory is not writable''))
              else pmap_err (\<lambda>_. ModuleError ''could not write data to file'') (on_files (copy_file (ft_os t) src dest))
          | Inr _ \<Rightarrow>
              pbind (ptry (try_rename_with_temp t temp src dest ctx)) (\<lambda>r.
                case r of
                  Inr _ \<Rightarrow> pret ()
                | Inl e \<Rightarrow>
                    if unsafe then on_files (copy_file (ft_os t) src dest)
                    else plift (Err (ModuleError ''failed to replace file''))))))"

definition atomic_move :: "file_tools \<Rightarrow> string \<Rightarrow> string \<Rightarrow> bool \<Rightarrow> unit fprog" where
  "atomic_move t src dest unsafe =
     pbind (ptry (on_files (copy_stat (ft_os t) dest src))) (\<lambda>stat_err.
     let err = (case stat_err of Inl e \<Rightarrow> Some e | Inr _ \<Rightarrow> None) in
     pbind (context_for_move t dest err) (\<lambda>ctx.
     pbind (ptry (on_files (os_rename (ft_os t) src dest))) (\<lambda>r.
     pbind (case r of
              Inr _ \<Rightarrow> pret ()
            | Inl e \<Rightarrow> try_rename_workarounds t src dest e ctx unsafe) (\<lambda>_.
     pbind (if err = Some (FsError NotExist)
            then pbind (on_files (os_chmod (ft_os t) dest (default_perm AND NOT (o_umask (ft_os t))))) (\<lambda>_.
                 pbind (ptry (on_files (os_chown (ft_os t) dest (o_uid (ft_os t)) (o_gid (ft_os t))))) (\<lambda>_. pret ()))
            else pret ()) (\<lambda>_.
       relabel t dest ctx)))))"

section \<open>Temporary files and closing\<close>

definition tmp_dir :: "file_tools \<Rightarrow> string fprog" where
  "tmp_dir t m =
     (if ms_tmp_dir m \<noteq> [] then (m, Ok (ms_tmp_dir m))
      else pbind
        (if ms_remote_tmp m = [] then pret []
         else
           pbind (plift (expand_user_and_env (ft_os t) (ms_remote_tmp m))) (\<lambda>base.
             if base = [] then pret []
             else
               pbind (on_files (path_exists (ft_os t) base)) (\<lambda>b.
                 if b then pret base
                 else
                   pbind (ptry (on_files (ft_mkdir t base))) (\<lambda>r m.
                     case r of
                       Inr _ \<Rightarrow> (m\<lparr>ms_warnings := ms_warnings m @ [''created '' @ base]\<rparr>, Ok base)
                     | Inl _ \<Rightarrow> (m\<lparr>ms_warnings := ms_warnings m @ [''unable to use '' @ base]\<rparr>, Ok [])))))
        (\<lambda>base m.
           let dir = ft_temp t base ''ansible-moduletmp'' (files_of m) in
           pbind (pmap_err (\<lambda>_. ModuleError ''failed to create remote module tmp path'') (on_files (ft_mkdir t dir)))
             (\<lambda>_ m. (m\<lparr>ms_tmp_dir := dir,
                        ms_close := (if ms_keep_remote m then ms_close m else ms_close m @ [dir])\<rparr>, Ok dir)) m) m)"

definition under :: "string \<Rightarrow> string \<Rightarrow> bool" where
  "under dir p \<longleftrightarrow> p = dir \<or> has_prefix p (dir @ ''/'')"

text \<open>\<open>os.RemoveAll\<close> of the directories registered, up to the first refusal.\<close>

fun close_dirs :: "file_tools \<Rightarrow> string list \<Rightarrow> unit fprog" where
  "close_dirs t [] = pret ()"
| "close_dirs t (d # ds) =
     pbind (on_files (\<lambda>fs.
              case o_refuse (ft_os t) Remove [d] of
                Some e \<Rightarrow> (fs, Err e)
              | None \<Rightarrow> (\<lambda>p. if under d p then None else fs p, Ok ()))) (\<lambda>_. close_dirs t ds)"

definition close_module :: "file_tools \<Rightarrow> unit fprog" where
  "close_module t m = close_dirs t (ms_close m) m"


section \<open>A refused move\<close>

definition empty_at :: "string \<Rightarrow> fs \<Rightarrow> bool" where
  "empty_at p fs \<longleftrightarrow> (\<exists>q i. follow_links 40 fs p = Ok (q, i) \<and> i_data i = [])"

lemma on_files_Ok_iff:
  "on_files f m = (m', Ok a) \<longleftrightarrow>
     (\<exists>fs'. f (files_of m) = (fs', Ok a) \<and> m' = m\<lparr>ms_host := (ms_host m)\<lparr>h_fs := fs'\<rparr>\<rparr>)"
  by (cases "f (files_of m)"; cases "snd (f (files_of m))")
     (auto simp: on_files_def on_host_def on_fs_def files_of_def)

lemma files_of_put [effect_simps]: "files_of (m\<lparr>ms_host := (ms_host m)\<lparr>h_fs := fs\<rparr>\<rparr>) = fs"
  by (simp add: files_of_def)

lemma rename_refused:
  "o_refuse (ft_os t) Rename [src, dest] = Some e \<Longrightarrow>
   on_files (os_rename (ft_os t) src dest) m = (m, Err (FsError e))"
  by (simp add: on_files_def on_host_def on_fs_def os_rename_def pbind_def refused_def plift_def)

lemma pdefer_Ok: "pdefer f g s = (s', Ok a) \<Longrightarrow> \<exists>s1. f s = (s1, Ok a)"
  by (cases "f s"; cases "snd (f s)"; cases "snd (g (fst (f s)))") (auto simp: pdefer_def split: prod.splits outcome.splits)

lemma ptry_Ok_iff:
  "ptry f s = (s', Ok r) \<longleftrightarrow> (\<exists>a. r = Inr a \<and> f s = (s', Ok a)) \<or> (\<exists>e. r = Inl e \<and> f s = (s', Err e))"
  by (cases "f s"; cases "snd (f s)") (auto simp: ptry_def)

lemma with_temp_fails:
  assumes "o_refuse (ft_os t) Rename [src, dest] = Some e"
  shows "try_rename_with_temp t temp src dest ctx m \<noteq> (m', Ok u)"
proof
  assume "try_rename_with_temp t temp src dest ctx m = (m', Ok u)"
  from pdefer_Ok [OF this [unfolded try_rename_with_temp_def]] show False
    by (auto simp: pbind_Ok_iff pmap_err_Ok rename_refused [OF assms])
qed

lemma copy_file_empty:
  "on_files (copy_file (ft_os t) src dest) m = (m', Ok u) \<Longrightarrow> empty_at dest (files_of m')"
  using copy_file_empties by (fastforce simp: on_files_Ok_iff files_of_put empty_at_def)

lemma workarounds_empty:
  assumes "o_refuse (ft_os t) Rename [src, dest] = Some e"
    and "try_rename_workarounds t src dest err ctx unsafe m = (m', Ok u)"
  shows "empty_at dest (files_of m')"
  using assms(2) with_temp_fails [OF assms(1)] copy_file_empty
  by (auto simp: try_rename_workarounds_def pbind_Ok_iff ptry_Ok_iff pmap_err_Ok plift_def split: if_splits)

lemma empty_at_chmod:
  "empty_at p fs \<Longrightarrow> empty_at p (fst (os_chmod x p mode fs))"
  using follow_links_upd [of 40 fs p] by (fastforce simp: os_chmod_eq empty_at_def split: option.splits)

lemma os_chown_eq:
  "os_chown x p uid gid fs =
     (case o_refuse x Chown [p] of
        Some e \<Rightarrow> (fs, Err e)
      | None \<Rightarrow>
          (case follow_links 40 fs p of
             Ok (q, i) \<Rightarrow> (fs(q \<mapsto> File (new_owner uid gid i)), Ok ())
           | Err e \<Rightarrow> (fs, Err e)
           | Panic \<Rightarrow> (fs, Panic)))"
  by (cases "o_refuse x Chown [p]"; cases "follow_links 40 fs p")
     (simp_all add: os_chown_def refused_def pbind_def plift_def set_file_def resolve_def split: prod.splits)

lemma empty_at_chown:
  "empty_at p fs \<Longrightarrow> empty_at p (fst (os_chown x p uid gid fs))"
  using follow_links_upd [of 40 fs p] by (fastforce simp: os_chown_eq empty_at_def new_owner_def split: option.splits)

lemma relabel_files: "files_of (fst (relabel t p ctx m)) = files_of m"
proof -
  have "keeps files_of (pbind (on_se (set_context_if_different x se p ctx)) (\<lambda>_. pret ()))" for x se
    by (intro keeps_intros keepsI) (simp add: context_stays)
  then show ?thesis by (simp add: relabel_def keeps_def)
qed


text \<open>
  A move that the operating system refuses never delivers the file: when renaming the source
  to the destination is refused, \<open>AtomicMove\<close> either reports an error or, with unsafe writes,
  reports success and leaves an empty destination.
\<close>

theorem refused_move_never_delivers:
  assumes "o_refuse (ft_os t) Rename [src, dest] = Some e"
    and "atomic_move t src dest unsafe m = (m', Ok ())"
  shows "empty_at dest (files_of m')"
proof -
  let ?fresh = "\<lambda>st. (case st of Inl e \<Rightarrow> Some e | Inr _ \<Rightarrow> None) = Some (FsError NotExist)"
  let ?chown = "os_chown (ft_os t) dest (o_uid (ft_os t)) (o_gid (ft_os t))"
  let ?own = "pbind (on_files (os_chmod (ft_os t) dest (default_perm AND NOT (o_umask (ft_os t))))) (\<lambda>_.
      pbind (ptry (on_files ?chown)) (\<lambda>_. pret ()))"
  obtain st :: "command_error + unit" and ctx r m2 m2' m3 m4 and u v :: unit where
    ren: "ptry (on_files (os_rename (ft_os t) src dest)) m2 = (m2', Ok r :: (command_error, command_error + unit) outcome)"
    and w: "(case r of Inr _ \<Rightarrow> pret () | Inl e \<Rightarrow> try_rename_workarounds t src dest e ctx unsafe) m2' = (m3, Ok u)"
    and own: "(if ?fresh st then ?own else pret ()) m3 = (m4, Ok v)" and rl: "relabel t dest ctx m4 = (m', Ok ())"
    using assms(2) unfolding atomic_move_def Let_def by (auto simp only: pbind_Ok_iff)
  have "r = Inl (FsError e)"
    using ren by (simp add: ptry_def rename_refused [OF assms(1)])
  with w have empty: "empty_at dest (files_of m3)"
    using workarounds_empty [OF assms(1)] by auto
  have "empty_at dest (files_of m4)"
  proof (cases "?fresh st")
    case True
    obtain fs1 where c: "os_chmod (ft_os t) dest (default_perm AND NOT (o_umask (ft_os t))) (files_of m3) = (fs1, Ok ())"
      and rest: "pbind (ptry (on_files ?chown)) (\<lambda>_. pret ()) (m3\<lparr>ms_host := (ms_host m3)\<lparr>h_fs := fs1\<rparr>\<rparr>)
        = (m4, Ok () :: (command_error, unit) outcome)"
      using own unfolding if_P [OF True] pbind_Ok_iff [of "on_files _"] on_files_Ok_iff by auto
    let ?m = "m3\<lparr>ms_host := (ms_host m3)\<lparr>h_fs := fs1\<rparr>\<rparr>"
    have e1: "empty_at dest (files_of ?m)"
      using empty_at_chmod [OF empty, of "ft_os t" "default_perm AND NOT (o_umask (ft_os t))"] c
      by (simp add: effect_simps)
    have "files_of (fst (on_files ?chown ?m)) = fst (?chown (files_of ?m))"
      by (simp add: on_files_def on_host_def on_fs_def files_of_def split: prod.splits)
    then have "empty_at dest (files_of (fst (on_files ?chown ?m)))"
      using empty_at_chown [OF e1] by simp
    moreover have "m4 = fst (on_files ?chown ?m)"
      using rest by (auto simp: pbind_Ok_iff ptry_Ok_iff pret_def)
    ultimately show ?thesis by simp
  next
    case False
    then show ?thesis using own empty by (simp only: if_False pret_def) simp
  qed
  then show ?thesis
    using relabel_files [of t dest ctx m4] rl by simp
qed

section \<open>Witnesses and limits\<close>

definition plain_inode :: "string \<Rightarrow> inode" where
  "plain_inode d = \<lparr>i_mode = 0x1A4, i_uid = 0, i_gid = 0, i_mtime = 0, i_label = [], i_data = d\<rparr>"

definition busy_os :: os where
  "busy_os =
     \<lparr>o_refuse = (\<lambda>c ps. if c = Rename \<and> ps = [''/s'', ''/d''] then Some NotPermitted else None),
      o_umask = 0, o_env = (\<lambda>_. ''/root''), o_uid = 0, o_gid = 0, o_eval_links = (\<lambda>_. None), o_cwd = ''/''\<rparr>"

definition busy_tools :: file_tools where
  "busy_tools =
     \<lparr>ft_sys = \<lparr>s_os = busy_os, s_environ = [], s_regex = (\<lambda>_. None), s_quote = (\<lambda>s. s), s_shlex = (\<lambda>_. None),
                s_spawn = (\<lambda>_ _ _. Inl ''no programs'')\<rparr>,
      ft_se = \<lparr>st_sestatus = None, st_mounts = None, st_mounted = (\<lambda>_ _. Ok True), st_special_fs = []\<rparr>,
      ft_user = (\<lambda>_. None), ft_group = (\<lambda>_. None), ft_temp = (\<lambda>d b fs. ''/t''), ft_hash = (\<lambda>_. None),
      ft_mkdir = (\<lambda>d fs. (fs, Ok ())), ft_stamp = ''1''\<rparr>"

definition two_files :: module_state where
  "two_files =
     \<lparr>ms_host = \<lparr>h_fs = [''/s'' \<mapsto> File (plain_inode ''new''), ''/d'' \<mapsto> File (plain_inode ''old'')], h_ran = []\<rparr>,
      ms_se = new_selinux False, ms_tmp_dir = [], ms_remote_tmp = [], ms_keep_remote = False, ms_close = [],
      ms_warnings = []\<rparr>"

definition data_at :: "module_state \<Rightarrow> string \<Rightarrow> string option" where
  "data_at m p = (case files_of m p of Some (File i) \<Rightarrow> Some (i_data i) | _ \<Rightarrow> None)"

text \<open>
  The safe way: the source was renamed to the temporary file, which is removed in the end, so the
  source is gone.  The unsafe way then fails as well, since the source it copies is gone.
\<close>

lemma workaround_loses_source:
  "data_at (fst (atomic_move busy_tools ''/s'' ''/d'' False two_files)) ''/s'' = None"
  "data_at (fst (atomic_move busy_tools ''/s'' ''/d'' False two_files)) ''/t'' = None"
  "data_at (fst (atomic_move busy_tools ''/s'' ''/d'' False two_files)) ''/d'' = Some ''old''"
  "data_at (fst (atomic_move busy_tools ''/s'' ''/d'' True two_files)) ''/d'' = Some []"
  by code_simp+


definition locked_tools :: file_tools where
  "locked_tools = busy_tools\<lparr>ft_sys := (ft_sys busy_tools)\<lparr>s_os := busy_os\<lparr>o_refuse := (\<lambda>c ps.
     if c = Rename \<and> ps = [''/s'', ''/d''] \<or> c = Create \<and> ps = [''/t''] then Some NotPermitted else None)\<rparr>\<rparr>\<rparr>"

lemma refused_move_never_delivers_witness:
  "empty_at ''/d'' (files_of (fst (atomic_move locked_tools ''/s'' ''/d'' True two_files)))"
proof -
  have "case snd (atomic_move locked_tools ''/s'' ''/d'' True two_files) of Ok u \<Rightarrow> True | _ \<Rightarrow> False"
    by code_simp
  then obtain m' where "atomic_move locked_tools ''/s'' ''/d'' True two_files = (m', Ok ())"
    by (cases "atomic_move locked_tools ''/s'' ''/d'' True two_files") (auto split: outcome.splits)
  moreover have "o_refuse (ft_os locked_tools) Rename [''/s'', ''/d''] = Some NotPermitted"
    by code_simp
  ultimately show ?thesis
    using refused_move_never_delivers by (metis fst_conv)
qed

definition copied_files :: "fs \<times> (os_error, unit) outcome" where
  "copied_files = copy_file busy_os ''/s'' ''/d'' (files_of two_files)"

lemma copy_empties_destination_witness: "empty_at ''/d'' (fst copied_files)"
proof -
  have "case snd copied_files of Ok u \<Rightarrow> True | _ \<Rightarrow> False"
    by code_simp
  then have "snd copied_files = Ok ()"
    by (auto split: outcome.splits)
  then obtain fs' where "copied_files = (fs', Ok ())"
    by (metis prod.collapse)
  with copy_empties_destination [of busy_os "''/s''" "''/d''" "files_of two_files" fs'] show ?thesis
    by (auto simp: copied_files_def empty_at_def)
qed

text \<open>The owner is changed, then the group is unknown, and no change is reported.\<close>

lemma change_not_reported:
  "(case set_fs_attributes_if_different busy_tools
          \<lparr>fp_path = ''/s'', fp_owner = ''7'', fp_group = ''nobody'', fp_mode = None, fp_attributes = [], fp_context = []\<rparr>
          False two_files of
      (m, Ok b) \<Rightarrow> \<not> b \<and> (case files_of m ''/s'' of Some (File i) \<Rightarrow> i_uid i = 7 | _ \<Rightarrow> False)
    | _ \<Rightarrow> False)"
  by code_simp

text \<open>A command whose output cannot be read gives neither a result nor an error, and reading it panics.\<close>

lemma unreadable_output_panics:
  assumes "p_reads p = (b # bs, Some e) # rest" "p_kill p = None" "k_data k = None" "p_stdin p = None"
  shows "finish_process re k p = \<lparr>res = None, res_err = None\<rparr>" "the_res (finish_process re k p) = Panic"
  using assms by (simp_all add: finish_process_def read_output_error_def the_res_def)

text \<open>The value of a variable of the environment is cut at its second equals sign.\<close>

lemma env_value_cut:
  "(case get_env_map [''OPTS=a=b''] of Ok env \<Rightarrow> env ''OPTS'' = Some ''a'' | _ \<Rightarrow> False)"
  "(case get_env_map [''BROKEN''] of Panic \<Rightarrow> True | _ \<Rightarrow> False)"
  by code_simp+

end
