(* ===== verification/Command_Modules.thy ===== *)
theory Command_Modules
  imports Run_Command
begin

text \<open>
  The modules \<open>command\<close>, \<open>shell\<close> and \<open>ping\<close> (\<open>modules/command\<close>, \<open>modules/shell\<close>,
  \<open>modules/ping\<close>).  A failed return is the error \<open>Err\<close>; warnings are part of the result.  The
  times of the start and the end are left out.
\<close>

record command_params =
  cp_argv :: "string list option"
  cp_chdir :: string
  cp_cmd :: string
  cp_creates :: string
  cp_free_form :: string
  cp_removes :: string
  cp_stdin :: "string option"
  cp_stdin_newline :: bool
  cp_strip_ends :: bool
  cp_warn :: bool
  cp_uses_shell :: bool
  cp_executable :: string

definition default_command_params :: command_params where
  "default_command_params =
     \<lparr>cp_argv = None, cp_chdir = [], cp_cmd = [], cp_creates = [], cp_free_form = [], cp_removes = [],
      cp_stdin = None, cp_stdin_newline = True, cp_strip_ends = True, cp_warn = False, cp_uses_shell = False,
      cp_executable = []\<rparr>"

record command_return =
  cmr_rc :: int
  cmr_stdout :: string
  cmr_stderr :: string
  cmr_cmd :: string
  cmr_warnings :: "string list"

definition get_command :: "command_params \<Rightarrow> string" where
  "get_command p = (if cp_cmd p = [] then cp_free_form p else cp_cmd p)"

text \<open>A nil slice of arguments is an empty one.\<close>

definition command_args :: "command_params \<Rightarrow> cmd_args" where
  "command_args p =
     (if get_command p = [] then ArgSlice (case cp_argv p of Some ws \<Rightarrow> ws | None \<Rightarrow> [])
      else ArgText (get_command p))"

definition return_cmd :: "cmd_args \<Rightarrow> ('e, string) outcome" where
  "return_cmd raw = (case raw of ArgText t \<Rightarrow> Ok t | ArgSlice ws \<Rightarrow> Ok (join '' '' ws) | ArgOther \<Rightarrow> Panic)"

definition file_commands :: "(string \<times> string) list" where
  "file_commands =
     [(''chown'', ''owner''), (''chmod'', ''mode''), (''chgrp'', ''group''), (''ln'', ''state=link''),
      (''mkdir'', ''state=directory''), (''rmdir'', ''state=absent''), (''rm'', ''state=absent''),
      (''touch'', ''state=touch'')]"

definition module_commands :: "(string \<times> string) list" where
  "module_commands =
     [(''curl'', ''get_url or uri''), (''wget'', ''get_url or uri''), (''svn'', ''subversion''),
      (''service'', ''service''), (''mount'', ''mount''), (''rpm'', ''yum, dnf or zypper''), (''yum'', ''yum''),
      (''apt-get'', ''apt''), (''tar'', ''unarchive''), (''unzip'', ''unarchive''),
      (''sed'', ''replace, lineinfile or template''), (''dnf'', ''dnf''), (''zypper'', ''zypper'')]"

definition become_commands :: "string list" where
  "become_commands = [''sudo'', ''su'', ''pbrun'', ''pfexec'', ''runas'', ''pmrun'', ''machinectl'']"

definition command_warnings :: "string \<Rightarrow> string list" where
  "command_warnings base =
     (case map_of file_commands base of
        Some arg \<Rightarrow> [''Consider using the file module with '' @ arg @ '' rather than running '' @ base]
      | None \<Rightarrow> []) @
     (case map_of module_commands base of
        Some md \<Rightarrow> [''Consider using the '' @ md @ '' module rather than running '' @ base]
      | None \<Rightarrow> []) @
     (if base \<in> set become_commands then [''Consider using become rather than running '' @ base] else [])"

text \<open>\<open>checkCommand\<close> reads the first word, also when there is none.\<close>

definition check_command :: "sys \<Rightarrow> cmd_args \<Rightarrow> (command_error, string list) outcome" where
  "check_command x raw =
     obind (case raw of
              ArgText t \<Rightarrow> (case s_shlex x t of None \<Rightarrow> Err BadQuoting | Some ws \<Rightarrow> Ok ws)
            | ArgSlice ws \<Rightarrow> Ok ws
            | ArgOther \<Rightarrow> Err BadArgs) (\<lambda>ws.
       case ws of [] \<Rightarrow> Panic | w # _ \<Rightarrow> Ok (command_warnings (path_base w)))"

definition check_removes :: "os \<Rightarrow> command_params \<Rightarrow> unit run" where
  "check_removes x p =
     (if cp_removes p = [] then pret ()
      else pbind (ptry (on_fs (os_stat x (cp_removes p)))) (\<lambda>r.
             case r of
               Inr _ \<Rightarrow> pret ()
             | Inl e \<Rightarrow> plift (Err (if e = FsError NotExist then ModuleError ''what should be removed does not exist'' else e))))"

definition check_creates :: "os \<Rightarrow> command_params \<Rightarrow> unit run" where
  "check_creates x p =
     (if cp_creates p = [] then pret ()
      else pbind (ptry (on_fs (os_stat x (cp_creates p)))) (\<lambda>r.
             case r of
               Inr _ \<Rightarrow> plift (Err (ModuleError ''what should be created already exists''))
             | Inl e \<Rightarrow> if e = FsError NotExist then pret () else plift (Err e)))"

definition check_prerequisites :: "sys \<Rightarrow> command_params \<Rightarrow> string list run" where
  "check_prerequisites x p =
     pbind (if cp_warn p then plift (check_command x (command_args p)) else pret []) (\<lambda>warnings.
     pbind (check_removes (s_os x) p) (\<lambda>_.
     pbind (check_creates (s_os x) p) (\<lambda>_.
       if (get_command p \<noteq> []) = (cp_argv p \<noteq> None)
       then plift (Err (ModuleError ''either command or argv must be provided, not both''))
       else pret warnings)))"

text \<open>\<open>stripEmptyEnds\<close> trims newlines from the start.\<close>

definition strip_empty_ends :: "string \<Rightarrow> string" where
  "strip_empty_ends s = dropWhile (\<lambda>c. c = nl) s"

definition command_kwargs :: "command_params \<Rightarrow> kwargs" where
  "command_kwargs p =
     default_kwargs\<lparr>k_data := map_option (\<lambda>s. if cp_stdin_newline p then s @ [nl] else s) (cp_stdin p),
                    k_unsafe_shell := cp_uses_shell p, k_executable := cp_executable p, k_cwd := cp_chdir p\<rparr>"

definition run_command_module :: "sys \<Rightarrow> command_params \<Rightarrow> command_return run" where
  "run_command_module x p =
     pbind (check_prerequisites x p) (\<lambda>warnings.
     pbind (run_command x (command_args p) (command_kwargs p)) (\<lambda>(r, raw).
       case res_err r of
         Some e \<Rightarrow> plift (Err e)
       | None \<Rightarrow>
           pbind (plift (the_res r)) (\<lambda>r.
           pbind (plift (return_cmd raw)) (\<lambda>cmd.
             let strip = (if cp_strip_ends p then strip_empty_ends else (\<lambda>s. s))
             in pret \<lparr>cmr_rc = cr_rc r, cmr_stdout = strip (cr_stdout r), cmr_stderr = strip (cr_stderr r),
                      cmr_cmd = cmd, cmr_warnings = warnings\<rparr>))))"

text \<open>Decoding by mapstructure is a parameter; a text as \<open>stdin\<close> becomes bytes.\<close>

type_synonym command_decode = "vars \<Rightarrow> command_params \<Rightarrow> string + command_params"

definition command_run :: "command_decode \<Rightarrow> sys \<Rightarrow> vars \<Rightarrow> command_return run" where
  "command_run decode x vs =
     (case decode vs default_command_params of
        Inl e \<Rightarrow> plift (Err (ModuleError e))
      | Inr p \<Rightarrow> run_command_module x p)"

definition shell_run :: "command_decode \<Rightarrow> sys \<Rightarrow> vars \<Rightarrow> command_return run" where
  "shell_run decode x vs = command_run decode x (vs(''_uses_shell'' \<mapsto> GBool True))"

text \<open>The module ping: its data, \<open>pong\<close> by default, or a failure.\<close>

definition ping_run :: "(vars \<Rightarrow> string \<Rightarrow> string + string) \<Rightarrow> vars \<Rightarrow> (command_error, string) outcome" where
  "ping_run decode vs =
     (case decode vs ''pong'' of
        Inl e \<Rightarrow> Err (ModuleError e)
      | Inr d \<Rightarrow> if d = ''crash'' then Err (ModuleError ''boom'') else Ok d)"

section \<open>Guards\<close>

lemma keeps_on_fs: "keeps (\<lambda>s. s) f \<Longrightarrow> keeps (\<lambda>h. h) (on_fs f)"
proof (rule keepsI)
  fix h
  assume "keeps (\<lambda>s. s) f"
  then show "fst (on_fs f h) = h"
    using keepsD [of "\<lambda>s. s" f "h_fs h"] by (cases "f (h_fs h)") (simp add: on_fs_def)
qed

lemma check_keeps: "keeps (\<lambda>h. h) (check_prerequisites x p)"
  unfolding check_prerequisites_def check_removes_def check_creates_def
  by (auto intro!: keeps_intros keeps_on_fs split: sum.splits)

lemma run_command_ran:
  "\<exists>cs. h_ran (fst (run_command x raw k h)) = h_ran h @ cs \<and> length cs \<le> 1"
proof -
  have k: "keeps (\<lambda>h. h) (pbind (plift (get_prompt_re x k)) (\<lambda>re. pbind (get_cmd x raw k) (\<lambda>(c, raw). pret (re, c, raw))))"
    unfolding get_cmd_def
    by (auto intro!: keeps_intros keeps_on_fs split: prod.splits)
  from keepsD [OF k, of h] show ?thesis
    unfolding run_command_def
    by (cases "pbind (plift (get_prompt_re x k)) (\<lambda>re. pbind (get_cmd x raw k) (\<lambda>(c, raw). pret (re, c, raw))) h")
       (auto split: outcome.splits sum.splits)
qed

text \<open>What the guards ask: the file to create is missing, the file to remove is there.\<close>

definition guards_open :: "sys \<Rightarrow> command_params \<Rightarrow> fs \<Rightarrow> bool" where
  "guards_open x p fs \<longleftrightarrow>
     (cp_creates p = [] \<or> snd (os_stat (s_os x) (cp_creates p) fs) = Err NotExist)
     \<and> (cp_removes p = [] \<or> (\<exists>i. snd (os_stat (s_os x) (cp_removes p) fs) = Ok i))
     \<and> (get_command p \<noteq> []) \<noteq> (cp_argv p \<noteq> None)"

lemma check_guards:
  assumes "check_prerequisites x p h = (h', Ok ws)"
  shows "guards_open x p (h_fs h)"
proof -
  have st: "on_fs (os_stat (s_os x) q) h =
      (h, case snd (os_stat (s_os x) q (h_fs h)) of Ok a \<Rightarrow> Ok a | Err e \<Rightarrow> Err (FsError e) | Panic \<Rightarrow> Panic)" for q
    using keepsD [OF keeps_os_stat, of "\<lambda>s. s" "s_os x" q "h_fs h"]
    by (cases "os_stat (s_os x) q (h_fs h)") (simp add: on_fs_def)
  obtain w where "pbind (check_removes (s_os x) p) (\<lambda>_. pbind (check_creates (s_os x) p) (\<lambda>_.
       if (get_command p \<noteq> []) = (cp_argv p \<noteq> None)
       then plift (Err (ModuleError ''either command or argv must be provided, not both''))
       else pret w)) h = (h', Ok ws)"
    using assms by (auto simp: check_prerequisites_def pbind_Ok_iff plift_def pret_def split: if_splits)
  then show ?thesis
    by (cases "snd (os_stat (s_os x) (cp_removes p) (h_fs h))"; cases "snd (os_stat (s_os x) (cp_creates p) (h_fs h))")
       (auto simp: guards_open_def check_removes_def check_creates_def pbind_def ptry_def st plift_def pret_def
          split: if_splits)
qed


text \<open>The empty line at the end stays, those at the start go.\<close>

lemma strips_the_wrong_end: "strip_empty_ends (nl # ''out'' @ [nl]) = ''out'' @ [nl]"
  by (simp add: strip_empty_ends_def)

end
