(* ===== verification/Group_Module.thy ===== *)
theory Group_Module
  imports Command_Modules
begin

text \<open>
  The module \<open>group\<close> (\<open>modules/group/group.go\<close>).  The group database of the system, Go's package
  \<open>os/user\<close>, is the parameter \<open>gt_name\<close>, \<open>gt_gid\<close>: it may depend on the files, as running
  \<open>groupadd\<close> changes it.
\<close>

record group_params =
  gp_state :: string
  gp_name :: string
  gp_gid :: "int option"
  gp_system :: bool
  gp_local :: bool
  gp_non_unique :: bool

record group_entry =
  ge_name :: string
  ge_gid :: string

text \<open>\<open>Ok None\<close> is the error for an unknown group name, which the code tells apart.\<close>

record group_tools =
  gt_sys :: sys
  gt_decode :: "vars \<Rightarrow> group_params \<Rightarrow> string + group_params"
  gt_name :: "fs \<Rightarrow> string \<Rightarrow> (command_error, group_entry option) outcome"
  gt_gid :: "fs \<Rightarrow> string \<Rightarrow> (command_error, group_entry) outcome"

record group_return =
  gr_changed :: bool
  gr_stdout :: string
  gr_stderr :: string
  gr_exists :: bool
  gr_gid :: int

definition default_group_params :: group_params where
  "default_group_params =
     \<lparr>gp_state = ''present'', gp_name = [], gp_gid = None, gp_system = False, gp_local = False,
      gp_non_unique = False\<rparr>"

definition validate_group :: "group_params \<Rightarrow> (command_error, unit) outcome" where
  "validate_group p =
     (if gp_state p \<noteq> ''present'' \<and> gp_state p \<noteq> ''absent'' then
        Err (ModuleError ''state can only be present or absent'')
      else if gp_name p = [] then Err (ModuleError ''name parameter is required'')
      else if gp_non_unique p \<and> gp_gid p = None then
        Err (ModuleError ''when non_unique is selected gid must be provided'')
      else Ok ())"

definition group_file :: string where "group_file = ''/etc/group''"

definition group_exists_locally :: "group_tools \<Rightarrow> group_params \<Rightarrow> bool run" where
  "group_exists_locally t p =
     (let x = s_os (gt_sys t) in
      pbind (on_fs (path_exists x group_file)) (\<lambda>b.
        if \<not> b then plift (Err (ModuleError ''unable to find local group file''))
        else
          pbind (on_fs (os_open x group_file)) (\<lambda>q h.
            (h, case h_fs h q of
                  Some (File i) \<Rightarrow> Ok (list_ex (\<lambda>l. has_prefix l (gp_name p @ '':'')) (scanned_lines (i_data i)))
                | _ \<Rightarrow> Ok False))))"

definition group_exists_in_system :: "group_tools \<Rightarrow> group_params \<Rightarrow> bool run" where
  "group_exists_in_system t p h = (h, omap (\<lambda>g. g \<noteq> None) (gt_name t (h_fs h) (gp_name p)))"

definition group_exists :: "group_tools \<Rightarrow> group_params \<Rightarrow> bool run" where
  "group_exists t p = (if gp_local p then group_exists_locally t p else group_exists_in_system t p)"

text \<open>The entry of the database, for a local group too; an unknown name is then an error.\<close>

definition group_info :: "group_tools \<Rightarrow> group_params \<Rightarrow> group_entry option run" where
  "group_info t p =
     pbind (group_exists t p) (\<lambda>b.
       if \<not> b then pret None
       else (\<lambda>h. (h, case gt_name t (h_fs h) (gp_name p) of
                        Ok (Some g) \<Rightarrow> Ok (Some g)
                      | Ok None \<Rightarrow> Err (ModuleError (''unknown group '' @ gp_name p))
                      | Err e \<Rightarrow> Err e
                      | Panic \<Rightarrow> Panic)))"

text \<open>The error for an unknown number is not told apart: a number nobody has is an error.\<close>

definition local_check_gid_exists :: "group_tools \<Rightarrow> group_params \<Rightarrow> unit run" where
  "local_check_gid_exists t p h =
     (case gp_gid p of
        None \<Rightarrow> (h, Ok ())
      | Some gid \<Rightarrow>
          (case gt_gid t (h_fs h) (itoa gid) of
             Err e \<Rightarrow> (h, Err e)
           | Panic \<Rightarrow> (h, Panic)
           | Ok g \<Rightarrow> (h, if ge_name g \<noteq> gp_name p then Err (ModuleError ''GID already exists'') else Ok ())))"

definition command_path :: "group_tools \<Rightarrow> group_params \<Rightarrow> string \<Rightarrow> string \<Rightarrow> string run" where
  "command_path t p system_name local_name =
     pbind (if gp_local p then local_check_gid_exists t p else pret ()) (\<lambda>_.
       on_fs (get_bin_path (s_os (gt_sys t)) (if gp_local p then local_name else system_name) [] True))"

definition add_mod_cmd :: "group_tools \<Rightarrow> group_params \<Rightarrow> string \<Rightarrow> string list run" where
  "add_mod_cmd t p path =
     (case gp_gid p of
        None \<Rightarrow> pret [path]
      | Some gid \<Rightarrow>
          pbind (group_info t p) (\<lambda>info.
            pret (if (case info of None \<Rightarrow> True | Some g \<Rightarrow> ge_gid g \<noteq> itoa gid)
                  then [path, ''-g'', itoa gid] @ (if gp_non_unique p then [''-o''] else [])
                  else [path])))"

text \<open>The result of a command; reading a missing one panics, as the error was returned before.\<close>

definition execute_command :: "group_tools \<Rightarrow> string list \<Rightarrow> cmd_result run" where
  "execute_command t cmd = run_checked (gt_sys t) cmd default_kwargs"

definition group_del :: "group_tools \<Rightarrow> group_params \<Rightarrow> cmd_result run" where
  "group_del t p =
     pbind (command_path t p ''groupdel'' ''lgroupdel'') (\<lambda>path. execute_command t [path, gp_name p])"

definition group_add :: "group_tools \<Rightarrow> group_params \<Rightarrow> cmd_result run" where
  "group_add t p =
     pbind (command_path t p ''groupadd'' ''lgroupadd'') (\<lambda>path.
     pbind (add_mod_cmd t p path) (\<lambda>cmd.
       execute_command t (cmd @ (if gp_system p then [''-r''] else []) @ [gp_name p])))"

definition group_mod :: "group_tools \<Rightarrow> group_params \<Rightarrow> cmd_result option run" where
  "group_mod t p =
     pbind (command_path t p ''groupmod'' ''lgroupmod'') (\<lambda>path.
     pbind (add_mod_cmd t p path) (\<lambda>cmd.
       if length cmd = 1 then pret None
       else pbind (execute_command t (cmd @ [gp_name p])) (\<lambda>r. pret (Some r))))"

definition change_group :: "group_tools \<Rightarrow> group_params \<Rightarrow> cmd_result option run" where
  "change_group t p =
     pbind (group_exists t p) (\<lambda>b.
     pbind (if gp_state p = ''absent''
            then (if b then pbind (group_del t p) (\<lambda>r. pret (Some r)) else pret None)
            else if b then group_mod t p
            else pbind (group_add t p) (\<lambda>r. pret (Some r))) (\<lambda>r.
       case r of
         None \<Rightarrow> pret None
       | Some r' \<Rightarrow>
           if cr_rc r' \<noteq> 0 then plift (Err (ModuleError (''failed removing group '' @ gp_name p)))
           else pret (Some r')))"

definition group_body :: "group_tools \<Rightarrow> group_params \<Rightarrow> group_return run" where
  "group_body t p =
     pbind (change_group t p) (\<lambda>r.
     pbind (group_info t p) (\<lambda>info.
     pbind (case info of
              None \<Rightarrow> pret (False, 0)
            | Some g \<Rightarrow> plift (case parse_int 10 64 (ge_gid g) of
                                None \<Rightarrow> Err (ModuleError ''bad gid'') | Some i \<Rightarrow> Ok (True, i))) (\<lambda>(ex, gid).
       pret \<lparr>gr_changed = (r \<noteq> None),
             gr_stdout = (case r of None \<Rightarrow> [] | Some r \<Rightarrow> cr_stdout r),
             gr_stderr = (case r of None \<Rightarrow> [] | Some r \<Rightarrow> cr_stderr r),
             gr_exists = ex, gr_gid = gid\<rparr>)))"

definition group_run :: "group_tools \<Rightarrow> vars \<Rightarrow> group_return run" where
  "group_run t vs =
     (case gt_decode t vs default_group_params of
        Inl e \<Rightarrow> plift (Err (ModuleError e))
      | Inr p \<Rightarrow> pbind (plift (validate_group p)) (\<lambda>_. group_body t p))"

section \<open>Nothing to do\<close>

lemma keeps_group_exists: "keeps (\<lambda>h. h) (group_exists t p)"
proof -
  have "keeps (\<lambda>h. h) (\<lambda>h. (h, r h))" for r :: "host_state \<Rightarrow> (command_error, bool) outcome"
    by (simp add: keeps_def)
  moreover have "group_exists_in_system t p = (\<lambda>h. (h, omap (\<lambda>g. g \<noteq> None) (gt_name t (h_fs h) (gp_name p))))"
    by (rule ext) (simp add: group_exists_in_system_def)
  ultimately show ?thesis
    unfolding group_exists_def group_exists_locally_def Let_def
    by (auto intro!: keeps_intros keeps_on_fs)
qed

text \<open>The group is as asked for: gone, or there with the number asked for.\<close>

definition group_as_asked :: "group_tools \<Rightarrow> group_params \<Rightarrow> host_state \<Rightarrow> bool" where
  "group_as_asked t p h \<longleftrightarrow>
     (if gp_state p = ''absent'' then snd (group_exists t p h) = Ok False
      else snd (group_exists t p h) = Ok True \<and>
           (case gp_gid p of
              None \<Rightarrow> True
            | Some gid \<Rightarrow> (\<exists>g. snd (group_info t p h) = Ok (Some g) \<and> ge_gid g = itoa gid)))"

lemma keeps_group_info: "keeps (\<lambda>h. h) (group_info t p)"
  unfolding group_info_def
  by (rule keeps_pbind [OF keeps_group_exists]) (auto simp: keeps_def pret_def)

lemma keeps_command_path: "keeps (\<lambda>h. h) (command_path t p a b)"
proof -
  have "keeps (\<lambda>h. h) (local_check_gid_exists t p)"
    by (auto simp: keeps_def local_check_gid_exists_def split: option.splits outcome.splits)
  then show ?thesis
    unfolding command_path_def by (auto intro!: keeps_intros keeps_on_fs)
qed

lemma change_group_idle:
  assumes "group_as_asked t p h"
  shows "fst (change_group t p h) = h \<and> (\<forall>r. snd (change_group t p h) \<noteq> Ok (Some r))"
proof -
  have e: "group_exists t p h = (h, snd (group_exists t p h))"
    using keepsD [OF keeps_group_exists, of t p h] by (metis prod.collapse)
  show ?thesis
  proof (cases "gp_state p = ''absent''")
    case True
    with assms e show ?thesis
      by (simp add: group_as_asked_def change_group_def pbind_def pret_def)
  next
    case False
    have ex: "group_exists t p h = (h, Ok True)"
      using assms e False by (simp add: group_as_asked_def)
    have cmd: "add_mod_cmd t p path h = (h, Ok [path])" for path
    proof (cases "gp_gid p")
      case (Some gid)
      then obtain g where "group_info t p h = (h, Ok (Some g))" "ge_gid g = itoa gid"
        using assms False keepsD [OF keeps_group_info, of t p h]
        by (auto simp: group_as_asked_def) (metis prod.collapse)
      with Some show ?thesis by (simp add: add_mod_cmd_def pbind_def pret_def)
    qed (simp add: add_mod_cmd_def pret_def)
    obtain r where r: "command_path t p ''groupmod'' ''lgroupmod'' h = (h, r)"
      using keepsD [OF keeps_command_path, of t p "''groupmod''" "''lgroupmod''" h] by (metis prod.collapse)
    show ?thesis
      using False by (cases r) (simp_all add: change_group_def group_mod_def pbind_def ex r cmd pret_def)
  qed
qed

text \<open>
  A group that is already as asked for is left alone: no program runs and no file changes,
  and a successful return reports no change.
\<close>

theorem group_idempotent:
  assumes "group_as_asked t p h"
  shows "fst (group_body t p h) = h \<and> (\<forall>r. snd (group_body t p h) = Ok r \<longrightarrow> \<not> gr_changed r)"
proof -
  obtain r where r: "change_group t p h = (h, r)" "\<And>a. r \<noteq> Ok (Some a)"
    using change_group_idle [OF assms] by (metis prod.collapse)
  obtain i where i: "group_info t p h = (h, i)"
    using keepsD [OF keeps_group_info, of t p h] by (metis prod.collapse)
  show ?thesis
  proof (cases r)
    case (Ok a)
    then have none: "r = Ok None" using r(2) by (cases a) auto
    show ?thesis
      by (cases i) (auto simp: group_body_def pbind_def r(1) none i pret_def plift_def split: option.splits outcome.splits prod.splits)
  qed (simp_all add: group_body_def pbind_def r(1))
qed


section \<open>Witness and limits\<close>

definition wheel_tools :: group_tools where
  "wheel_tools =
     \<lparr>gt_sys = \<lparr>s_os = \<lparr>o_refuse = (\<lambda>_ _. None), o_umask = 0, o_env = (\<lambda>_. ''/bin''), o_uid = 0, o_gid = 0,
                       o_eval_links = (\<lambda>_. None), o_cwd = ''/''\<rparr>,
                s_environ = [], s_regex = (\<lambda>_. None), s_quote = (\<lambda>s. s), s_shlex = (\<lambda>_. None),
                s_spawn = (\<lambda>_ _ _. Inl ''no programs'')\<rparr>,
      gt_decode = (\<lambda>_. Inr),
      gt_name = (\<lambda>_ n. Ok (if n = ''wheel'' then Some \<lparr>ge_name = ''wheel'', ge_gid = ''10''\<rparr> else None)),
      gt_gid = (\<lambda>_ i. if i = ''10'' then Ok \<lparr>ge_name = ''wheel'', ge_gid = ''10''\<rparr> else Err (ModuleError ''unknown groupid''))\<rparr>"

definition wheel_host :: host_state where
  "wheel_host =
     \<lparr>h_fs = [''/bin/groupmod'' \<mapsto> File \<lparr>i_mode = 0x1ED, i_uid = 0, i_gid = 0, i_mtime = 0, i_label = [], i_data = []\<rparr>],
      h_ran = []\<rparr>"

definition wheel_params :: group_params where
  "wheel_params = default_group_params\<lparr>gp_name := ''wheel'', gp_gid := Some 10\<rparr>"

lemma group_idempotent_witness:
  "fst (group_body wheel_tools wheel_params wheel_host) = wheel_host
   \<and> (\<exists>r. snd (group_body wheel_tools wheel_params wheel_host) = Ok r \<and> \<not> gr_changed r \<and> gr_gid r = 10)"
proof -
  have ten: "itoa 10 = ''10''"
    by code_simp
  have asked: "group_as_asked wheel_tools wheel_params wheel_host"
    by (simp add: group_as_asked_def group_exists_def group_exists_in_system_def group_info_def wheel_params_def
        wheel_tools_def default_group_params_def pbind_def ten)
  have "case snd (group_body wheel_tools wheel_params wheel_host) of Ok r \<Rightarrow> gr_gid r = 10 | _ \<Rightarrow> False"
    by code_simp
  with group_idempotent [OF asked] show ?thesis
    by (auto split: outcome.splits)
qed

text \<open>A local group cannot be given a number that nobody has: not finding it is taken for an error.\<close>

lemma local_free_gid_fails:
  assumes "gp_local p" "gp_gid p = Some gid" "gt_gid t (h_fs h) (itoa gid) = Err e"
  shows "group_add t p h = (h, Err e)"
  using assms by (simp add: group_add_def command_path_def local_check_gid_exists_def pbind_def)

end
