(* ===== verification/Lookups.thy ===== *)
theory Lookups
  imports Go_Values Registries
begin

text \<open>
  The dispatcher of lookups and the small lookup plugins (\<open>plugins/lookup\<close>).  A value of the
  template engine is a Go value or an error; its text, the environment, regular expressions and
  the random number are parameters, and so are the plugins \<open>url\<close> (HTTP) and \<open>sequence\<close>, which
  has a theory of its own.
\<close>

datatype lvalue = LVal gval | LError string

record lookup_tools =
  lt_text :: "gval \<Rightarrow> string"
  lt_env :: "string \<Rightarrow> string"
  lt_random :: "nat \<Rightarrow> nat"
  lt_regex :: "string \<Rightarrow> (string \<Rightarrow> bool) option"
  lt_visit :: visit
  lt_other :: "lookup_fn \<Rightarrow> gval list \<Rightarrow> (string \<rightharpoonup> gval) \<Rightarrow> lvalue"

section \<open>Plugins\<close>

definition value_fields :: "string \<Rightarrow> string list" where
  "value_fields s =
     filter (\<lambda>w. w \<noteq> [])
       (split_on spc (map (\<lambda>c. if c \<in> {CHR 0x09, nl, CHR 0x0B, CHR 0x0C, CHR 0x0D} then spc else c) s))"

definition env_value :: "lookup_tools \<Rightarrow> gval \<Rightarrow> gval" where
  "env_value t v =
     GStr (case v of
             GStr s \<Rightarrow> (case value_fields (trim_space s) of [] \<Rightarrow> [] | w # _ \<Rightarrow> lt_env t w)
           | _ \<Rightarrow> [])"

definition env_run :: "lookup_tools \<Rightarrow> gval list \<Rightarrow> lvalue" where
  "env_run t args = LVal (GList (map (env_value t) args))"

definition flatten_arg :: "gval \<Rightarrow> gval list" where
  "flatten_arg v = (case v of GList vs \<Rightarrow> vs | v \<Rightarrow> [v])"

definition items_run :: "gval list \<Rightarrow> lvalue" where
  "items_run args = LVal (GList (concat (map flatten_arg args)))"

definition indexed_items_run :: "gval list \<Rightarrow> lvalue" where
  "indexed_items_run args =
     LVal (GList (map (\<lambda>(i, v). GList [GInt (int i), v]) (enumerate 0 (concat (map flatten_arg args)))))"

definition list_run :: "gval list \<Rightarrow> lvalue" where
  "list_run args = LVal (GList args)"

definition random_choice_run :: "lookup_tools \<Rightarrow> gval list \<Rightarrow> lvalue" where
  "random_choice_run t args =
     (if args = [] then LVal (GList []) else LVal (GList [args ! lt_random t (length args)]))"

text \<open>An argument that is not a text gives a text, not an error.\<close>

fun varnames_loop :: "lookup_tools \<Rightarrow> vars \<Rightarrow> gval list \<Rightarrow> string list \<Rightarrow> lvalue" where
  "varnames_loop t env [] names = LVal (GStrs names)"
| "varnames_loop t env (v # args) names =
     (case v of
        GStr p \<Rightarrow>
          (case lt_regex t p of
             None \<Rightarrow> LError (''failed to compile regexp '' @ p)
           | Some re \<Rightarrow> varnames_loop t env args (names @ filter re (lt_visit t env)))
      | _ \<Rightarrow> LVal (GStr (lt_text t v @ '': argument must be a string'')))"

definition varnames_run :: "lookup_tools \<Rightarrow> vars \<Rightarrow> gval list \<Rightarrow> lvalue" where
  "varnames_run t env args = varnames_loop t env args []"

fun vars_loop :: "vars \<Rightarrow> gval option \<Rightarrow> gval list \<Rightarrow> gval list \<Rightarrow> lvalue" where
  "vars_loop env dflt [] vs = LVal (GList vs)"
| "vars_loop env dflt (a # args) vs =
     (case a of
        GStr n \<Rightarrow>
          (case env n of
             Some v \<Rightarrow> vars_loop env dflt args (vs @ [v])
           | None \<Rightarrow>
               (case dflt of
                  Some d \<Rightarrow> vars_loop env dflt args (vs @ [d])
                | None \<Rightarrow> LError (''Variable not found: '' @ n)))
      | _ \<Rightarrow> LError ''vars: variable name must be a string'')"

definition vars_run :: "vars \<Rightarrow> (string \<rightharpoonup> gval) \<Rightarrow> gval list \<Rightarrow> lvalue" where
  "vars_run env kw args = vars_loop env (kw ''default'') args []"

definition run_lookup :: "lookup_tools \<Rightarrow> lookup_fn \<Rightarrow> vars \<Rightarrow> (string \<rightharpoonup> gval) \<Rightarrow> gval list \<Rightarrow> lvalue" where
  "run_lookup t f env kw args =
     (case f of
        EnvRun \<Rightarrow> env_run t args
      | ItemsRun \<Rightarrow> items_run args
      | IndexedItemsRun \<Rightarrow> indexed_items_run args
      | ListRun \<Rightarrow> list_run args
      | RandomChoiceRun \<Rightarrow> random_choice_run t args
      | VarnamesRun \<Rightarrow> varnames_run t env args
      | VarsRun \<Rightarrow> vars_run env kw args
      | _ \<Rightarrow> lt_other t f args kw)"

section \<open>The dispatcher\<close>

definition wants_list :: "(string \<rightharpoonup> gval) \<Rightarrow> bool option" where
  "wants_list kw =
     (case kw ''wantlist'' of
        None \<Rightarrow> Some False
      | Some (GBool b) \<Rightarrow> Some b
      | Some _ \<Rightarrow> None)"

definition list_items :: "gval \<Rightarrow> gval list option" where
  "list_items v = (case v of GList vs \<Rightarrow> Some vs | GStrs ss \<Rightarrow> Some (map GStr ss) | _ \<Rightarrow> None)"

definition lookup_value ::
  "lookup_tools \<Rightarrow> (string \<rightharpoonup> lookup_fn) \<Rightarrow> vars \<Rightarrow> (string \<rightharpoonup> gval) \<Rightarrow> gval list \<Rightarrow> lvalue" where
  "lookup_value t plugins env kw args =
     (case args of
        [] \<Rightarrow> LError ''wrong signature for lookup''
      | n # args \<Rightarrow>
          (case plugins (lt_text t n) of
             None \<Rightarrow> LError (''lookup plugin not found: '' @ lt_text t n)
           | Some f \<Rightarrow>
               (case run_lookup t f env kw args of
                  LError e \<Rightarrow> LError e
                | LVal v \<Rightarrow>
                    (case list_items v of
                       None \<Rightarrow> LError (''lookup plugin returned a non-list value: '' @ lt_text t n)
                     | Some vs \<Rightarrow>
                         (case wants_list kw of
                            None \<Rightarrow> LError ''wantlist argument must be a boolean''
                          | Some True \<Rightarrow> LVal v
                          | Some False \<Rightarrow> LVal (GStr (join '','' (map (lt_text t) vs))))))))"

definition query_value ::
  "lookup_tools \<Rightarrow> (string \<rightharpoonup> lookup_fn) \<Rightarrow> vars \<Rightarrow> (string \<rightharpoonup> gval) \<Rightarrow> gval list \<Rightarrow> lvalue" where
  "query_value t plugins env kw args = lookup_value t plugins env (kw(''wantlist'' \<mapsto> GBool True)) args"

section \<open>What a query gives\<close>

text \<open>A query gives a list or an error, whatever the plugin, and the lookup of the same is its text.\<close>

definition is_list_value :: "lvalue \<Rightarrow> bool" where
  "is_list_value r = (case r of LError _ \<Rightarrow> True | LVal v \<Rightarrow> list_items v \<noteq> None)"

lemma query_is_list: "is_list_value (query_value t plugins env kw args)"
  by (auto simp: is_list_value_def query_value_def lookup_value_def wants_list_def
      split: list.splits option.splits lvalue.splits)

lemma vars_loop_kw: "vars_run env (kw(''wantlist'' \<mapsto> v)) args = vars_run env kw args"
  by (simp add: vars_run_def)

text \<open>
  A lookup is its query as text: for every plugin but \<open>url\<close> and \<open>sequence\<close>, whose results are
  not looked into, a lookup that does not ask for a list fails exactly when the query fails, with
  the same error, and otherwise joins the items of the query with commas.
\<close>

theorem lookup_joins_query:
  assumes "kw ''wantlist'' = None"
    and "\<And>f as kw'. lt_other t f as (kw'(''wantlist'' \<mapsto> GBool True)) = lt_other t f as kw'"
  shows "lookup_value t plugins env kw args =
    (case query_value t plugins env kw args of
       LError e \<Rightarrow> LError e
     | LVal v \<Rightarrow> LVal (GStr (join '','' (map (lt_text t) (the (list_items v))))))"
proof -
  have "run_lookup t f env (kw(''wantlist'' \<mapsto> GBool True)) as = run_lookup t f env kw as" for f as
    by (simp add: run_lookup_def vars_loop_kw assms(2) split: lookup_fn.splits)
  then show ?thesis
    using assms(1)
    by (auto simp: query_value_def lookup_value_def wants_list_def split: list.splits option.splits lvalue.splits)
qed

text \<open>A list of texts given to items is one item: only a list of values is flattened.\<close>

lemma texts_not_flattened: "items_run [GStrs [''a'', ''b'']] = LVal (GList [GStrs [''a'', ''b'']])"
  by (simp add: items_run_def flatten_arg_def)

section \<open>Witness\<close>

definition text_tools :: lookup_tools where
  "text_tools =
     \<lparr>lt_text = (\<lambda>v. case v of GStr s \<Rightarrow> s | _ \<Rightarrow> ''?''), lt_env = (\<lambda>_. []), lt_random = (\<lambda>_. 0),
      lt_regex = (\<lambda>_. None), lt_visit = (\<lambda>_. []), lt_other = (\<lambda>_ _ _. LError ''no network'')\<rparr>"

lemma lookup_joins_query_witness:
  "lookup_value text_tools [''items'' \<mapsto> ItemsRun] Map.empty Map.empty
     [GStr ''items'', GList [GStr ''a'', GStr ''b''], GStr ''c''] = LVal (GStr ''a,b,c'')"
  by (subst lookup_joins_query)
     (simp_all add: text_tools_def query_value_def lookup_value_def run_lookup_def items_run_def flatten_arg_def
        wants_list_def list_items_def)

end
