(* ===== verification/Wait_For.thy ===== *)
theory Wait_For
  imports Run_Command
begin

text \<open>
  The module \<open>wait_for\<close> (\<open>modules/waitFor/wait_for.go\<close>).  Time is the clock in nanoseconds; what
  the module looks at (files, connections, dialling) is a function of the time.  Looking at files
  and connections and resolving names takes no time, dialling and reading take what they answer.
\<close>

section \<open>Polling\<close>

text \<open>
  The loop all waits share: turns until the deadline, each with a look and a sleep.  A look gives
  the time after it and a result when there is one.
\<close>

partial_function (option) poll ::
  "(int \<Rightarrow> int \<times> 'r option) \<Rightarrow> int \<Rightarrow> int \<Rightarrow> int \<Rightarrow> (int \<times> 'r option) option" where
  "poll look pause stop now =
     (if now < stop then
        (case look now of
           (now', Some r) \<Rightarrow> Some (now', Some r)
         | (now', None) \<Rightarrow> poll look pause stop (after_sleep now' pause))
      else Some (now, None))"

declare poll.simps [code]

primrec turn_at :: "(int \<Rightarrow> int \<times> 'r option) \<Rightarrow> int \<Rightarrow> int \<Rightarrow> nat \<Rightarrow> int" where
  "turn_at look pause now 0 = now"
| "turn_at look pause now (Suc j) = after_sleep (fst (look (turn_at look pause now j))) pause"

lemma turn_at_Suc: "turn_at look pause now (Suc j) = turn_at look pause (after_sleep (fst (look now)) pause) j"
  by (induction j) simp_all

text \<open>The turns before \<open>j\<close> found nothing and came in time.\<close>

definition idle_until :: "(int \<Rightarrow> int \<times> 'r option) \<Rightarrow> int \<Rightarrow> int \<Rightarrow> int \<Rightarrow> nat \<Rightarrow> bool" where
  "idle_until look pause stop now j \<longleftrightarrow>
     (\<forall>i < j. turn_at look pause now i < stop \<and> snd (look (turn_at look pause now i)) = None)"

lemma idle_until_0: "idle_until look pause stop now 0"
  by (simp add: idle_until_def)

lemma idle_until_Suc:
  "idle_until look pause stop now (Suc j) \<longleftrightarrow>
     now < stop \<and> snd (look now) = None \<and> idle_until look pause stop (after_sleep (fst (look now)) pause) j"
  unfolding idle_until_def All_less_Suc2 turn_at_Suc by simp

locale polling =
  fixes look :: "int \<Rightarrow> int \<times> 'r option"
  assumes look_later: "now \<le> fst (look now)"
begin

text \<open>With a pause the loop returns: with the first result in time, or after the deadline.\<close>

lemma poll_cases:
  assumes pause: "1 \<le> pause"
  shows "\<exists>j. idle_until look pause stop now j \<and>
    (stop \<le> turn_at look pause now j \<and> poll look pause stop now = Some (turn_at look pause now j, None)
     \<or> (\<exists>r. turn_at look pause now j < stop \<and> snd (look (turn_at look pause now j)) = Some r
           \<and> poll look pause stop now = Some (fst (look (turn_at look pause now j)), Some r)))"
proof (induction "nat (stop - now)" arbitrary: now rule: less_induct)
  case less
  show ?case
  proof (cases "now < stop")
    case False
    then have "poll look pause stop now = Some (turn_at look pause now 0, None)"
      by (simp add: poll.simps)
    with False idle_until_0 [of look pause stop now] show ?thesis
      by (intro exI [of _ 0]) simp
  next
    case True
    show ?thesis
    proof (cases "snd (look now)")
      case (Some r)
      then have "poll look pause stop now = Some (fst (look now), Some r)"
        using True by (subst poll.simps) (cases "look now"; simp)
      with True Some idle_until_0 [of look pause stop now] show ?thesis
        by (intro exI [of _ 0]) simp
    next
      case None
      let ?next = "after_sleep (fst (look now)) pause"
      have p: "poll look pause stop now = poll look pause stop ?next"
        using True None by (subst poll.simps) (cases "look now"; simp)
      have "nat (stop - ?next) < nat (stop - now)"
        using look_later [of now] pause True by (simp add: after_sleep_def)
      from less.hyps [OF this] obtain j where
        idle: "idle_until look pause stop ?next j" and
        j: "stop \<le> turn_at look pause ?next j \<and> poll look pause stop ?next = Some (turn_at look pause ?next j, None)
          \<or> (\<exists>r. turn_at look pause ?next j < stop \<and> snd (look (turn_at look pause ?next j)) = Some r
             \<and> poll look pause stop ?next = Some (fst (look (turn_at look pause ?next j)), Some r))"
        by blast
      have "idle_until look pause stop now (Suc j)"
        using True None idle by (simp only: idle_until_Suc)
      with j show ?thesis
        unfolding p turn_at_Suc [symmetric] by blast
    qed
  qed
qed

lemma poll_returns: "1 \<le> pause \<Longrightarrow> \<exists>now' r. poll look pause stop now = Some (now', r)"
  using poll_cases by blast

lemma poll_result_from:
  assumes "1 \<le> pause" "poll look pause stop now = Some (now', Some r)"
  shows "\<exists>u. snd (look u) = Some r"
  using poll_cases [OF assms(1), of stop now] assms(2) by auto

lemma idle_until_unique:
  assumes "idle_until look pause stop now j" "turn_at look pause now i < stop" "snd (look (turn_at look pause now i)) \<noteq> None"
  shows "j \<le> i"
  using assms by (meson idle_until_def not_le)

text \<open>Something is found exactly when some turn in time finds something.\<close>

lemma poll_finds_iff:
  assumes pause: "1 \<le> pause"
  shows "(\<exists>now' r. poll look pause stop now = Some (now', Some r)) \<longleftrightarrow>
    (\<exists>j. turn_at look pause now j < stop \<and> snd (look (turn_at look pause now j)) \<noteq> None)"
proof
  assume "\<exists>now' r. poll look pause stop now = Some (now', Some r)"
  then show "\<exists>j. turn_at look pause now j < stop \<and> snd (look (turn_at look pause now j)) \<noteq> None"
    using poll_cases [OF pause, of stop now] by fastforce
next
  assume "\<exists>j. turn_at look pause now j < stop \<and> snd (look (turn_at look pause now j)) \<noteq> None"
  then obtain i where i: "turn_at look pause now i < stop" "snd (look (turn_at look pause now i)) \<noteq> None" by blast
  obtain j where idle: "idle_until look pause stop now j" and
    j: "stop \<le> turn_at look pause now j \<and> poll look pause stop now = Some (turn_at look pause now j, None)
      \<or> (\<exists>r. turn_at look pause now j < stop \<and> snd (look (turn_at look pause now j)) = Some r
          \<and> poll look pause stop now = Some (fst (look (turn_at look pause now j)), Some r))"
    using poll_cases [OF pause, of stop now] by blast
  have "j \<le> i"
    by (rule idle_until_unique [OF idle i])
  moreover have mono: "turn_at look pause now j \<le> turn_at look pause now (j + k)" for k
  proof (induction k)
    case (Suc k)
    then show ?case
      using look_later [of "turn_at look pause now (j + k)"] by (simp add: after_sleep_def)
  qed simp
  ultimately have "turn_at look pause now j < stop"
    using i(1) mono [of "i - j"] by simp
  with j show "\<exists>now' r. poll look pause stop now = Some (now', Some r)" by auto
qed

end

section \<open>Parameters and the world\<close>

record wait_for_params =
  wf_host :: string
  wf_timeout :: int
  wf_connect_timeout :: int
  wf_delay :: int
  wf_port :: "32 word"
  wf_active_states :: "string list"
  wf_path :: string
  wf_search_regex :: string
  wf_state :: string
  wf_exclude_hosts :: "string list"
  wf_sleep :: int
  wf_msg :: string

definition default_wait_for :: wait_for_params where
  "default_wait_for =
     \<lparr>wf_host = ''127.0.0.1'', wf_timeout = 300, wf_connect_timeout = 5, wf_delay = 0, wf_port = 0,
      wf_active_states = [''ESTABLISHED'', ''FIN_WAIT1'', ''FIN_WAIT2'', ''SYN_RECV'', ''SYN_SENT'', ''TIME_WAIT''],
      wf_path = [], wf_search_regex = [], wf_state = ''started'', wf_exclude_hosts = [], wf_sleep = 1, wf_msg = []\<rparr>"

record tcp_conn =
  tc_status :: string
  tc_family :: "32 word"
  tc_local_ip :: string
  tc_local_port :: "32 word"
  tc_remote_ip :: string

text \<open>
  A connection that was made gives the bytes read until the deadline, the time reading takes, and
  the error of closing, which is no timeout; a timeout of closing counts as none.
\<close>

datatype dialed = Dialed string nat "string option" | DialTimeout | DialFailed string

record pattern =
  re_match :: "string \<Rightarrow> bool"
  re_groups :: "string \<Rightarrow> string list"
  re_names :: "string list"

record wait_world =
  ww_os :: os
  ww_fs :: "int \<Rightarrow> fs"
  ww_conns :: "int \<Rightarrow> (command_error, tcp_conn list) outcome"
  ww_lookup :: "string \<Rightarrow> (command_error, string list) outcome"
  ww_dial :: "int \<Rightarrow> string \<Rightarrow> int \<Rightarrow> dialed \<times> nat"
  ww_deadline :: "int \<Rightarrow> string option"
  ww_regex :: "string \<Rightarrow> pattern option"

record wait_for_return =
  wr_elapsed :: int
  wr_groups :: "string list"
  wr_group_dict :: "string \<rightharpoonup> string"
  wr_state :: string
  wr_port :: "32 word"
  wr_search_regex :: string
  wr_path :: string

text \<open>\<open>time.Duration (n) * time.Second\<close> wraps to 64 bits.\<close>

definition seconds :: "int \<Rightarrow> int" where
  "seconds n = sint (word_of_int (n * 1000000000) :: 64 word)"

definition validate_wait_for :: "wait_for_params \<Rightarrow> (command_error, unit) outcome" where
  "validate_wait_for p =
     (if wf_state p \<in> {''absent'', ''drained'', ''present'', ''started'', ''stopped''} then
        Err (ModuleError (''invalid option for state: '' @ wf_state p))
      else if wf_path p \<noteq> [] \<and> wf_port p \<noteq> 0 then
        Err (ModuleError ''port and path parameter can not both be passed to wait_for'')
      else if wf_path p \<noteq> [] \<and> wf_state p = ''stopped'' then
        Err (ModuleError ''state=stopped should only be used for checking a port in the wait_for module'')
      else if wf_path p \<noteq> [] \<and> wf_state p = ''drained'' then
        Err (ModuleError ''state=drained should only be used for checking a port in the wait_for module'')
      else if wf_exclude_hosts p \<noteq> [] \<and> wf_state p \<noteq> ''drained'' then
        Err (ModuleError ''exclude_hosts should only be with state=drained'')
      else Ok ())"

section \<open>Active connections\<close>

text \<open>Addresses are byte strings of 4 or 16 bytes; \<open>To4\<close> also knows IPv4 mapped to IPv6.\<close>

definition byte :: "nat \<Rightarrow> char" where "byte n = char_of n"

definition is_ip4 :: "string \<Rightarrow> bool" where
  "is_ip4 ip \<longleftrightarrow> length ip = 4 \<or> length ip = 16 \<and> take 12 ip = replicate 10 (byte 0) @ [byte 255, byte 255]"

definition mapped_prefix :: string where "mapped_prefix = ''::ffff''"

definition convert_host_to_ip :: "wait_world \<Rightarrow> string \<Rightarrow> (command_error, string list) outcome" where
  "convert_host_to_ip w host =
     omap (\<lambda>ips. concat (map (\<lambda>ip. ip # (if is_ip4 ip then [mapped_prefix @ '':'' @ ip] else [])) ips))
       (ww_lookup w host)"

fun get_exclude_ips :: "wait_world \<Rightarrow> string list \<Rightarrow> (command_error, string list) outcome" where
  "get_exclude_ips w [] = Ok []"
| "get_exclude_ips w (h # hs) =
     obind (convert_host_to_ip w h) (\<lambda>ips. omap (\<lambda>rest. ips @ rest) (get_exclude_ips w hs))"

text \<open>The families 2 and 10 are those of Linux; any other has the nil address.\<close>

definition match_all_ip :: "32 word \<Rightarrow> string" where
  "match_all_ip family =
     (if family = 2 then replicate 10 (byte 0) @ [byte 255, byte 255] @ replicate 4 (byte 0)
      else if family = 10 then replicate 16 (byte 0) else [])"

definition is_in_ips :: "string list \<Rightarrow> 32 word \<Rightarrow> string \<Rightarrow> bool" where
  "is_in_ips ips family ip \<longleftrightarrow>
     ip \<in> set ips \<or> match_all_ip family \<in> set ips
     \<or> has_prefix ip mapped_prefix \<and> mapped_prefix @ '':0.0.0.0'' \<in> set ips"

text \<open>The address of a connection is a text; its bytes are taken for an address.\<close>

definition counts :: "wait_for_params \<Rightarrow> string list \<Rightarrow> string list \<Rightarrow> tcp_conn \<Rightarrow> bool" where
  "counts p ips exclude c \<longleftrightarrow>
     tc_status c \<in> set (wf_active_states p) \<and> tc_local_port c = wf_port p
     \<and> tc_remote_ip c \<notin> set exclude \<and> is_in_ips ips (tc_family c) (tc_local_ip c)"

definition active_connections_count ::
  "wait_world \<Rightarrow> wait_for_params \<Rightarrow> string list \<Rightarrow> string list \<Rightarrow> int \<Rightarrow> (command_error, nat) outcome" where
  "active_connections_count w p ips exclude now =
     omap (\<lambda>cs. length (filter (counts p ips exclude) cs)) (ww_conns w now)"

definition connection_states :: "string list" where
  "connection_states = [''ESTABLISHED'', ''SYN_SENT'', ''SYN_RECV'', ''FIN_WAIT1'', ''FIN_WAIT2'', ''TIME_WAIT'']"

section \<open>Looks\<close>

type_synonym 'a look = "int \<Rightarrow> int \<times> (command_error, 'a) outcome option"

definition drained_look :: "wait_world \<Rightarrow> wait_for_params \<Rightarrow> string list \<Rightarrow> string list \<Rightarrow> unit look" where
  "drained_look w p ips exclude now =
     (now, case active_connections_count w p ips exclude now of
             Ok n \<Rightarrow> if n = 0 then Some (Ok ()) else None
           | Err e \<Rightarrow> Some (Err e)
           | Panic \<Rightarrow> Some Panic)"

definition path_there :: "wait_world \<Rightarrow> string \<Rightarrow> int \<Rightarrow> (command_error, bool) outcome" where
  "path_there w path now =
     (case snd (path_exists (ww_os w) path (ww_fs w now)) of
        Ok b \<Rightarrow> Ok b | Err e \<Rightarrow> Err (FsError e) | Panic \<Rightarrow> Panic)"

text \<open>The address dialled is the host twice.\<close>

definition dial_address :: "wait_for_params \<Rightarrow> string" where
  "dial_address p = wf_host p @ '':'' @ wf_host p"

definition absent_look :: "wait_world \<Rightarrow> wait_for_params \<Rightarrow> unit look" where
  "absent_look w p now =
     (if wf_path p \<noteq> [] then
        (now, case path_there w (wf_path p) now of
                Ok b \<Rightarrow> if b then None else Some (Ok ())
              | Err e \<Rightarrow> Some (Err e)
              | Panic \<Rightarrow> Some Panic)
      else if wf_port p \<noteq> 0 then
        (case ww_dial w now (dial_address p) (seconds (wf_connect_timeout p)) of
           (r, took) \<Rightarrow>
             (now + int took,
              case r of
                DialTimeout \<Rightarrow> Some (Ok ())
              | DialFailed e \<Rightarrow> Some (Err (ModuleError e))
              | Dialed _ _ _ \<Rightarrow> None))
      else (now, None))"

text \<open>The groups by name; a name that occurs again, as the empty one does, keeps its last group.\<close>

fun group_dict :: "string list \<Rightarrow> string list \<Rightarrow> (string \<rightharpoonup> string) \<Rightarrow> (command_error, string \<rightharpoonup> string) outcome" where
  "group_dict [] groups m = Ok m"
| "group_dict (n # ns) [] m = Panic"
| "group_dict (n # ns) (g # gs) m = group_dict ns gs (m(n \<mapsto> g))"

type_synonym matched = "string list \<times> (string \<rightharpoonup> string)"

definition read_file_at :: "wait_world \<Rightarrow> string \<Rightarrow> int \<Rightarrow> (command_error, string) outcome" where
  "read_file_at w path now =
     (case os_open (ww_os w) path (ww_fs w now) of
        (fs, Ok q) \<Rightarrow> (case fs q of Some (File i) \<Rightarrow> Ok (i_data i) | _ \<Rightarrow> Err (FsError NotExist))
      | (fs, Err e) \<Rightarrow> Err (FsError e)
      | (fs, Panic) \<Rightarrow> Panic)"

definition started_path_look :: "wait_world \<Rightarrow> wait_for_params \<Rightarrow> pattern option \<Rightarrow> int
    \<Rightarrow> (command_error, matched option) outcome" where
  "started_path_look w p re now =
     obind (path_there w (wf_path p) now) (\<lambda>there.
       if \<not> there then Ok None
       else
         (case re of
            None \<Rightarrow> Ok (Some ([], Map.empty))
          | Some re \<Rightarrow>
              obind (read_file_at w (wf_path p) now) (\<lambda>contents.
                if re_match re contents
                then omap (\<lambda>m. Some (re_groups re contents, m))
                       (group_dict (re_names re) (re_groups re contents) Map.empty)
                else Ok None)))"

text \<open>The rounding of the time left to seconds is upwards.\<close>

definition seconds_left :: "int \<Rightarrow> int \<Rightarrow> int" where
  "seconds_left stop now = - ((now - stop) div 1000000000)"

text \<open>The test for a regular expression is the wrong way round: without one it is used.\<close>

definition started_port_look :: "wait_world \<Rightarrow> wait_for_params \<Rightarrow> pattern option \<Rightarrow> int \<Rightarrow> bool look" where
  "started_port_look w p re stop now =
     (case ww_dial w now (dial_address p) (seconds (min (seconds_left stop now) (wf_connect_timeout p))) of
        (r, took) \<Rightarrow>
          (case r of
             Dialed bytes reading close_err \<Rightarrow>
               (case re of
                  None \<Rightarrow>
                    (case ww_deadline w (now + int took) of
                       Some e \<Rightarrow> (now + int took, Some (Err (ModuleError e)))
                     | None \<Rightarrow>
                         (now + int took + int reading,
                          case close_err of Some e \<Rightarrow> Some (Err (ModuleError e)) | None \<Rightarrow> Some Panic))
                | Some _ \<Rightarrow>
                    (now + int took,
                     case close_err of Some e \<Rightarrow> Some (Err (ModuleError e)) | None \<Rightarrow> Some (Ok True)))
           | _ \<Rightarrow> (now + int took, None)))"

definition started_look :: "wait_world \<Rightarrow> wait_for_params \<Rightarrow> pattern option \<Rightarrow> int \<Rightarrow> matched look" where
  "started_look w p re stop now =
     (if wf_path p \<noteq> [] then
        (now, case started_path_look w p re now of
                Ok None \<Rightarrow> None
              | Ok (Some m) \<Rightarrow> Some (Ok m)
              | Err e \<Rightarrow> Some (Err e)
              | Panic \<Rightarrow> Some Panic)
      else if wf_port p \<noteq> 0 then
        (case started_port_look w p re stop now of
           (now', r) \<Rightarrow> (now', map_option (omap (\<lambda>_. ([], Map.empty))) r))
      else (now, None))"

section \<open>Handlers\<close>

type_synonym 'a waiting = "(int \<times> (command_error, 'a) outcome) option"

definition deadline :: "wait_for_params \<Rightarrow> int \<Rightarrow> int" where
  "deadline p start = start + seconds (wf_timeout p)"

text \<open>The pause between two looks is the delay, not the sleep.\<close>

definition handle_drained :: "wait_world \<Rightarrow> wait_for_params \<Rightarrow> int \<Rightarrow> int \<Rightarrow> unit waiting" where
  "handle_drained w p start now =
     (case obind (convert_host_to_ip w (wf_host p)) (\<lambda>ips.
             omap (\<lambda>ex. (ips, ex)) (get_exclude_ips w (wf_exclude_hosts p))) of
        Err e \<Rightarrow> Some (now, Err e)
      | Panic \<Rightarrow> Some (now, Panic)
      | Ok (ips, ex) \<Rightarrow>
          map_option (\<lambda>(now, r).
            (now, case r of
                    Some r \<Rightarrow> r
                  | None \<Rightarrow> Err (ModuleError (if wf_msg p \<noteq> [] then wf_msg p else ''Timeout when waiting to drain''))))
            (poll (drained_look w p ips ex) (seconds (wf_delay p)) (deadline p start) now))"

definition handle_started :: "wait_world \<Rightarrow> wait_for_params \<Rightarrow> int \<Rightarrow> int \<Rightarrow> matched waiting" where
  "handle_started w p start now =
     (if wf_search_regex p \<noteq> [] \<and> ww_regex w (wf_search_regex p) = None then Some (now, Err BadRegex)
      else
        (let re = (if wf_search_regex p = [] then None else ww_regex w (wf_search_regex p)) in
         map_option (\<lambda>(now, r).
           (now, case r of
                   Some r \<Rightarrow> r
                 | None \<Rightarrow>
                     if wf_port p \<noteq> 0 then Err (ModuleError ''timeout when waiting for the port'')
                     else if wf_path p \<noteq> [] then Err (ModuleError ''timeout when waiting for the file'')
                     else Ok ([], Map.empty)))
           (poll (started_look w p re (deadline p start)) (seconds (wf_sleep p)) (deadline p start) now)))"

definition handle_absent :: "wait_world \<Rightarrow> wait_for_params \<Rightarrow> int \<Rightarrow> int \<Rightarrow> unit waiting" where
  "handle_absent w p start now =
     map_option (\<lambda>(now, r).
       (now, case r of
               Some r \<Rightarrow> r
             | None \<Rightarrow>
                 if wf_port p \<noteq> 0 then Err (ModuleError ''timeout when waiting to stop'')
                 else if wf_path p \<noteq> [] then Err (ModuleError ''timeout when waiting to be absent'')
                 else Ok ()))
       (poll (absent_look w p) (seconds (wf_sleep p)) (deadline p start) now)"

section \<open>The module\<close>

definition no_match :: "unit waiting \<Rightarrow> matched waiting" where
  "no_match = map_option (\<lambda>(now, r). (now, omap (\<lambda>_. ([], Map.empty)) r))"

definition wait_for_state :: "wait_world \<Rightarrow> wait_for_params \<Rightarrow> int \<Rightarrow> int \<Rightarrow> matched waiting" where
  "wait_for_state w p start now =
     (if wf_port p = 0 \<and> wf_path p = [] \<and> wf_state p \<noteq> ''drained''
      then Some (after_sleep now (seconds (wf_timeout p)), Ok ([], Map.empty))
      else if wf_state p = ''absent'' \<or> wf_state p = ''stopped'' then no_match (handle_absent w p start now)
      else if wf_state p = ''started'' \<or> wf_state p = ''present'' then handle_started w p start now
      else if wf_state p = ''drained'' then no_match (handle_drained w p start now)
      else Some (now, Ok ([], Map.empty)))"

definition return_of :: "wait_for_params \<Rightarrow> int \<Rightarrow> int \<Rightarrow> matched \<Rightarrow> wait_for_return" where
  "return_of p start now m =
     \<lparr>wr_elapsed = (now - start) div 1000000000, wr_groups = fst m, wr_group_dict = snd m, wr_state = wf_state p,
      wr_port = wf_port p, wr_search_regex = wf_search_regex p, wr_path = wf_path p\<rparr>"

text \<open>The module from the time \<open>start\<close>; decoding the parameters is mapstructure.\<close>

definition wait_for_run ::
  "wait_world \<Rightarrow> (vars \<Rightarrow> wait_for_params \<Rightarrow> string + wait_for_params) \<Rightarrow> int \<Rightarrow> vars \<Rightarrow> wait_for_return waiting" where
  "wait_for_run w decode start vs =
     (case decode vs default_wait_for of
        Inl e \<Rightarrow> Some (start, Err (ModuleError e))
      | Inr p \<Rightarrow>
          (case validate_wait_for p of
             Err e \<Rightarrow> Some (start, Err e)
           | Panic \<Rightarrow> Some (start, Panic)
           | Ok _ \<Rightarrow>
               (let now = (if wf_delay p \<noteq> 0 then after_sleep start (seconds (wf_delay p)) else start) in
                case find (\<lambda>s. s \<notin> set connection_states) (wf_active_states p) of
                  Some s \<Rightarrow> Some (now, Err (ModuleError (''unknown active_connection_state: '' @ s)))
                | None \<Rightarrow>
                    map_option (\<lambda>(now, r). (now, omap (return_of p start now) r))
                      (wait_for_state w p start now))))"

section \<open>The looks fit the loop\<close>

interpretation absent: polling "absent_look w p" for w p
  by unfold_locales (simp add: absent_look_def split: prod.split)

interpretation drained: polling "drained_look w p ips ex" for w p ips ex
  by unfold_locales (simp add: drained_look_def)

interpretation started: polling "started_look w p re stop" for w p re stop
proof
  fix now
  have "now \<le> fst (started_port_look w p re stop now)"
    by (auto simp: started_port_look_def split: prod.split dialed.split option.split)
  then show "now \<le> fst (started_look w p re stop now)"
    by (auto simp: started_look_def split: prod.split)
qed

section \<open>The module never waits for anything\<close>

lemma valid_states_rejected:
  "wf_state p \<in> {''absent'', ''drained'', ''present'', ''started'', ''stopped''} \<Longrightarrow>
   validate_wait_for p = Err (ModuleError (''invalid option for state: '' @ wf_state p))"
  by (simp add: validate_wait_for_def)

lemma accepted_state_unknown:
  assumes "validate_wait_for p = Ok u"
  shows "wait_for_state w p start now =
    Some (if wf_port p = 0 \<and> wf_path p = [] then after_sleep now (seconds (wf_timeout p)) else now, Ok ([], Map.empty))"
  using assms by (auto simp: validate_wait_for_def wait_for_state_def split: if_splits)

text \<open>
  The module wait_for never looks at what it waits for: its result is the same in any two
  worlds, whatever files, connections and hosts there are, because the check of the parameters
  accepts only states that no handler is for.
\<close>

theorem wait_for_never_looks: "wait_for_run w decode start vs = wait_for_run w' decode start vs"
proof -
  have "wait_for_state w p s t = wait_for_state w' p s t" if "validate_wait_for p = Ok u" for p s t u
    by (simp add: accepted_state_unknown [OF that])
  then show ?thesis
    by (auto simp: wait_for_run_def Let_def split: sum.split outcome.split option.split)
qed

section \<open>What the handlers would do\<close>

lemma turn_at_path:
  assumes "wf_path p \<noteq> []" "0 \<le> pause"
  shows "turn_at (absent_look w p) pause now j = now + int j * pause"
  using assms by (induction j) (simp_all add: absent_look_def after_sleep_def algebra_simps)

lemma absent_look_path:
  assumes "wf_path p \<noteq> []" "path_there w (wf_path p) t = Ok b"
  shows "snd (absent_look w p t) = (if b then None else Some (Ok ()))"
  using assms by (simp add: absent_look_def)


text \<open>A file that is missing from the fourth second on.\<close>

definition clearing_world :: wait_world where
  "clearing_world =
     \<lparr>ww_os = \<lparr>o_refuse = (\<lambda>_ _. None), o_umask = 0, o_env = (\<lambda>_. []), o_uid = 0, o_gid = 0,
               o_eval_links = (\<lambda>_. None), o_cwd = ''/''\<rparr>,
      ww_fs = (\<lambda>t. if t < 4000000000
                   then [''/lock'' \<mapsto> File \<lparr>i_mode = 0, i_uid = 0, i_gid = 0, i_mtime = 0, i_label = [], i_data = []\<rparr>]
                   else Map.empty),
      ww_conns = (\<lambda>_. Ok [\<lparr>tc_status = ''ESTABLISHED'', tc_family = 2, tc_local_ip = ''127.0.0.1'',
                            tc_local_port = 80, tc_remote_ip = ''10.0.0.1''\<rparr>]),
      ww_lookup = (\<lambda>_. Ok [map byte [127, 0, 0, 1]]),
      ww_dial = (\<lambda>_ _ _. (Dialed [] 0 None, 0)), ww_deadline = (\<lambda>_. None), ww_regex = (\<lambda>_. None)\<rparr>"

definition lock_params :: wait_for_params where
  "lock_params = default_wait_for\<lparr>wf_path := ''/lock'', wf_state := ''absent''\<rparr>"


text \<open>The port is not part of what is dialled.\<close>

lemma port_never_dialled:
  "wf_port p \<noteq> 0 \<Longrightarrow> q \<noteq> 0 \<Longrightarrow> absent_look w (p\<lparr>wf_port := q\<rparr>) now = absent_look w p now"
  by (simp add: absent_look_def dial_address_def)

text \<open>An open port without a regular expression panics.\<close>

lemma open_port_panics:
  assumes "ww_dial w now (dial_address p) (seconds (min (seconds_left stop now) (wf_connect_timeout p))) = (Dialed b n None, took)"
    and "ww_deadline w (now + int took) = None"
  shows "snd (started_port_look w p None stop now) = Some Panic"
  using assms by (simp add: started_port_look_def)

text \<open>A port that is refused fails the wait for it to stop; one that does not answer ends it.\<close>

lemma refused_port_fails:
  "wf_path p = [] \<Longrightarrow> wf_port p \<noteq> 0 \<Longrightarrow>
   ww_dial w now (dial_address p) (seconds (wf_connect_timeout p)) = (DialFailed e, took) \<Longrightarrow>
   snd (absent_look w p now) = Some (Err (ModuleError e))"
  by (simp add: absent_look_def)

text \<open>
  A connection to the port of the host is not counted: the text of its address is compared with
  the bytes of the address of the host.
\<close>

lemma active_connection_missed:
  "(case obind (convert_host_to_ip clearing_world ''127.0.0.1'') (\<lambda>ips.
      active_connections_count clearing_world (default_wait_for\<lparr>wf_port := 80\<rparr>) ips [] 0) of
    Ok n \<Rightarrow> n = 0 | _ \<Rightarrow> False)"
  by code_simp

end
