(* ===== verification/System_Info.thy ===== *)
theory System_Info
  imports Files
begin

text \<open>
  The platform and its distribution (\<open>utils/sysInfo\<close>, \<open>utils/distro\<close>), choosing by them, and
  loose versions (\<open>utils/version\<close>).  What the library sysinfo finds is a parameter.
\<close>

record machine =
  mc_goos :: string
  mc_vendor :: string
  mc_release :: string
  mc_version :: string

section \<open>Distribution\<close>

definition normalize_distro_id :: "string \<Rightarrow> string" where
  "normalize_distro_id vendor =
     (let norm = replace_all '' '' ''_'' (to_lower vendor) in if norm = ''redhat'' then ''rhel'' else norm)"

definition distro_id :: "machine \<Rightarrow> string" where
  "distro_id mc = normalize_distro_id (mc_vendor mc)"

definition distro_version :: "machine \<Rightarrow> bool \<Rightarrow> string" where
  "distro_version mc best = (if best then mc_release mc else mc_version mc)"

definition capitalize :: "string \<Rightarrow> ('e, string) outcome" where
  "capitalize s = (case s of [] \<Rightarrow> Panic | c # s \<Rightarrow> Ok (upper_char c # s))"

definition platform :: "machine \<Rightarrow> ('e, string) outcome" where
  "platform mc = capitalize (mc_goos mc)"

definition distribution :: "machine \<Rightarrow> ('e, string) outcome" where
  "distribution mc =
     (let name = distro_id mc in
      omap (\<lambda>pf.
        if pf = ''Linux'' then
          (if name = ''Amzn'' then ''Amazon'' else if name = ''Rhel'' then ''Redhat'' else if name = [] then ''OtherLinux''
           else name)
        else name) (platform mc))"

text \<open>The first two parts of the version; a version of one part panics.\<close>

definition distribution_version :: "machine \<Rightarrow> ('e, string) outcome" where
  "distribution_version mc =
     (let best = distro_version mc True; version = distro_version mc False in
      if version = [] then Ok []
      else if distro_id mc = ''centos'' then
        (let parts = split_on (CHR ''.'') best in
         if length parts < 2 then Panic else Ok (join ''.'' (take 2 parts)))
      else if distro_id mc = ''debian'' then Ok best
      else Ok version)"

definition canaries :: "string list" where
  "canaries = [''/run/systemd/system/'', ''/dev/.run/systemd/'', ''/dev/.systemd/'']"

fun any_exists :: "os \<Rightarrow> string list \<Rightarrow> bool io" where
  "any_exists x [] = pret False"
| "any_exists x (p # ps) = pbind (path_exists x p) (\<lambda>b. if b then pret True else any_exists x ps)"

definition is_systemd_managed :: "os \<Rightarrow> bool io" where
  "is_systemd_managed x = pbind (get_bin_path x ''systemctl'' [] True) (\<lambda>_. any_exists x canaries)"

text \<open>Values by platform and distribution: the entry of the distribution, the default, or nothing.\<close>

definition platform_specific_value ::
  "machine \<Rightarrow> (string \<rightharpoonup> (string \<rightharpoonup> 'v)) \<Rightarrow> ('e, 'v option) outcome" where
  "platform_specific_value mc values =
     obind (platform mc) (\<lambda>pf.
       case values pf of
         Some by_dist \<Rightarrow>
           omap (\<lambda>d. case by_dist d of Some v \<Rightarrow> Some v | None \<Rightarrow> by_dist []) (distribution mc)
       | None \<Rightarrow> Ok (Option.bind (values ''Generic'') (\<lambda>by_dist. by_dist [])))"

lemma lower_char_cap: "lower_char c \<noteq> CHR ''A'' \<and> lower_char c \<noteq> CHR ''R''"
  by (auto simp: lower_char_def Let_def dest: arg_cong [of _ _ "of_char :: char \<Rightarrow> nat"])

lemma keeps_any_exists [keeps_intros]: "keeps view (any_exists x ps)"
  by (induction ps) (auto intro!: keeps_intros)

section \<open>Loose versions\<close>

datatype loose = Loose (parts_of: "int list")

text \<open>\<open>NewLoose\<close> assigns to the elements of a slice of length zero.\<close>

fun loose_parts :: "nat \<Rightarrow> string list \<Rightarrow> int list \<Rightarrow> (string, int list) outcome" where
  "loose_parts i [] l = Ok l"
| "loose_parts i (p # ps) l =
     obind (set_at i (case parse_int 10 64 p of Some n \<Rightarrow> n | None \<Rightarrow> 0) l) (\<lambda>l.
       if parse_int 10 64 p = None then Err ''invalid syntax'' else loose_parts (Suc i) ps l)"

definition new_loose :: "string \<Rightarrow> (string, loose) outcome" where
  "new_loose s = omap Loose (loose_parts 0 (split_on (CHR ''.'') s) [])"

fun compare_parts :: "int list \<Rightarrow> int list \<Rightarrow> int" where
  "compare_parts [] [] = 0"
| "compare_parts [] (q # qs) = - 1"
| "compare_parts (p # ps) [] = 1"
| "compare_parts (p # ps) (q # qs) = (if p > q then 1 else if p < q then - 1 else compare_parts ps qs)"

definition loose_compare :: "loose \<Rightarrow> loose \<Rightarrow> int" where
  "loose_compare v w = compare_parts (parts_of v) (parts_of w)"

lemma new_loose_panics: "new_loose s = Panic"
proof -
  obtain p ps where "split_on (CHR ''.'') s = p # ps"
    using split_on_ne by (metis list.exhaust)
  then show ?thesis by (simp add: new_loose_def set_at_def)
qed

text \<open>The comparison is the lexicographic order, so versions are a linear order.\<close>

lemma compare_swap: "compare_parts qs ps = - compare_parts ps qs"
  by (induction ps qs rule: compare_parts.induct) auto

lemma compare_zero: "compare_parts ps qs = 0 \<longleftrightarrow> ps = qs"
  by (induction ps qs rule: compare_parts.induct) auto

lemma compare_range: "compare_parts ps qs \<in> {- 1, 0, 1}"
  by (induction ps qs rule: compare_parts.induct) auto

lemma compare_lexord: "compare_parts ps qs < 0 \<longleftrightarrow> (ps, qs) \<in> lexord {(m, n). m < n}"
  by (induction ps qs rule: compare_parts.induct) auto

instantiation loose :: linorder
begin

definition less_eq_loose :: "loose \<Rightarrow> loose \<Rightarrow> bool" where
  "less_eq_loose v w \<longleftrightarrow> loose_compare v w \<le> 0"

definition less_loose :: "loose \<Rightarrow> loose \<Rightarrow> bool" where
  "less_loose v w \<longleftrightarrow> loose_compare v w < 0"

instance
proof
  fix u v w :: loose
  show "v < w \<longleftrightarrow> v \<le> w \<and> \<not> w \<le> v"
    using compare_swap [of "parts_of w" "parts_of v"] by (auto simp: less_eq_loose_def less_loose_def loose_compare_def)
  show "v \<le> v"
    using compare_zero [of "parts_of v" "parts_of v"] by (simp add: less_eq_loose_def loose_compare_def)
  show "v \<le> w \<or> w \<le> v"
    using compare_swap [of "parts_of w" "parts_of v"] by (auto simp: less_eq_loose_def loose_compare_def)
  show "v = w" if "v \<le> w" "w \<le> v"
  proof -
    have "compare_parts (parts_of v) (parts_of w) = 0"
      using that compare_swap [of "parts_of w" "parts_of v"] by (simp add: less_eq_loose_def loose_compare_def)
    then show ?thesis by (simp add: compare_zero loose.expand)
  qed
  show "u \<le> w" if "u \<le> v" "v \<le> w"
  proof -
    have le: "a \<le> b \<longleftrightarrow> parts_of a = parts_of b \<or> (parts_of a, parts_of b) \<in> lexord {(m, n). m < n}" for a b
      unfolding less_eq_loose_def loose_compare_def compare_lexord [symmetric] compare_zero [symmetric] by auto
    have "trans (lexord {(m, n :: int). m < n})"
      by (rule lexord_transI) (auto simp: trans_def)
    then show ?thesis
      using that unfolding le by (auto dest: transD)
  qed
qed

end

text \<open>No name is that of a distribution the code renames: they are written with capitals.\<close>

lemma set_replace_all: "set (replace_all old new s) \<subseteq> set new \<union> set s"
proof (induction old new s rule: replace_all.induct)
  case (1 old new s)
  show ?case
  proof (cases "s = [] \<or> old = []")
    case True
    then show ?thesis by (auto simp: replace_all.simps [of old new s])
  next
    case False
    show ?thesis
    proof (cases "has_prefix s old")
      case True
      have "set (drop (length old) s) \<subseteq> set s" by (rule set_drop_subset)
      with 1(1) [OF False True] show ?thesis
        using False True by (auto simp: replace_all.simps [of old new s])
    next
      case no: False
      have "set (tl s) \<subseteq> set s" "hd s \<in> set s"
        using False by (cases s; auto)+
      with 1(2) [OF False no] show ?thesis
        using False no by (auto simp: replace_all.simps [of old new s])
    qed
  qed
qed

lemma replace_space_caps:
  "CHR ''A'' \<notin> set s \<and> CHR ''R'' \<notin> set s \<Longrightarrow>
   CHR ''A'' \<notin> set (replace_all '' '' ''_'' s) \<and> CHR ''R'' \<notin> set (replace_all '' '' ''_'' s)"
  using set_replace_all [of "'' ''" "''_''" s] by auto

lemma distro_id_lower: "distro_id mc \<noteq> ''Amzn'' \<and> distro_id mc \<noteq> ''Rhel''"
proof -
  have "CHR ''A'' \<notin> set (to_lower (mc_vendor mc)) \<and> CHR ''R'' \<notin> set (to_lower (mc_vendor mc))"
    using lower_char_cap by (auto simp: to_lower_def) metis+
  from replace_space_caps [OF this] show ?thesis
    by (auto simp: distro_id_def normalize_distro_id_def Let_def)
qed

lemma distribution_never_renamed:
  "distribution mc = Ok d \<Longrightarrow> d = distro_id mc \<or> d = ''OtherLinux''"
  using distro_id_lower [of mc]
  by (cases "platform mc :: (_, string) outcome") (auto simp: distribution_def Let_def split: if_splits)

end
