(* ===== verification/Service.thy ===== *)
theory Service
  imports System_Info Run_Command
begin

text \<open>
  The module \<open>service\<close>: the part every platform shares (\<open>modules/service/service.go\<close>,
  \<open>base_service.go\<close>).  What a platform must offer, the interface \<open>baseServiceDeriver\<close> of the code,
  is a record of programs; \<open>Linux_Service\<close> has the one there is.
\<close>

section \<open>State\<close>

record service_params =
  vp_arguments :: string
  vp_enabled :: "bool option"
  vp_name :: string
  vp_pattern :: string
  vp_runlevel :: string
  vp_state :: string

text \<open>
  The fields of \<open>baseService\<close>, of the state it shares with the platform's service, and of
  \<open>linuxService\<close>.  Both of the first two have a field \<open>changed\<close>.
\<close>

record service_state =
  sv_host :: host_state
  sv_base_changed :: bool
  sv_changed :: bool
  sv_running :: "bool option"
  sv_crashed :: bool
  sv_svc_cmd :: string
  sv_unit :: string
  sv_init_script :: string
  sv_init_ctl :: string
  sv_enable_cmd :: string
  sv_upstart :: loose

definition new_service :: "host_state \<Rightarrow> service_state" where
  "new_service h =
     \<lparr>sv_host = h, sv_base_changed = False, sv_changed = False, sv_running = None, sv_crashed = False,
      sv_svc_cmd = [], sv_unit = [], sv_init_script = [], sv_init_ctl = [], sv_enable_cmd = [],
      sv_upstart = Loose []\<rparr>"

record service_tools =
  vt_sys :: sys
  vt_machine :: machine
  vt_decode :: "vars \<Rightarrow> service_params \<Rightarrow> string + service_params"
  vt_error :: "command_error \<Rightarrow> string"
  vt_glob :: "fs \<Rightarrow> string \<Rightarrow> (os_error, string list) outcome"
  vt_access :: "fs \<Rightarrow> string \<Rightarrow> os_error option"
  vt_upstart_match :: "string \<Rightarrow> string option"
  vt_replace :: "string \<Rightarrow> string \<Rightarrow> string"
  vt_spaces :: "string \<Rightarrow> string list"

type_synonym 'a svc = "(service_state, command_error, 'a) prog"

definition on_sv :: "'a run \<Rightarrow> 'a svc" where
  "on_sv f s = (case f (sv_host s) of (h, r) \<Rightarrow> (s\<lparr>sv_host := h\<rparr>, r))"

definition sv_files :: "'a io \<Rightarrow> 'a svc" where
  "sv_files f = on_sv (on_fs f)"

definition sv_get :: "(service_state \<Rightarrow> 'a) \<Rightarrow> 'a svc" where
  "sv_get f s = (s, Ok (f s))"

definition sv_put :: "(service_state \<Rightarrow> service_state) \<Rightarrow> unit svc" where
  "sv_put f s = (f s, Ok ())"

definition set_running :: "bool \<Rightarrow> unit svc" where
  "set_running b = sv_put (\<lambda>s. s\<lparr>sv_running := Some b\<rparr>)"

definition set_changed :: "bool \<Rightarrow> unit svc" where
  "set_changed b = sv_put (\<lambda>s. s\<lparr>sv_changed := b\<rparr>)"

section \<open>Commands\<close>

definition get_lang_env :: "sys \<Rightarrow> (string \<rightharpoonup> string) svc" where
  "get_lang_env x =
     pbind (on_sv (best_locale x)) (\<lambda>loc. pret [''LANG'' \<mapsto> loc, ''LC_ALL'' \<mapsto> loc, ''LC_MESSAGE'' \<mapsto> loc])"

text \<open>The pair of a result, possibly nil, and an error, and the common use that returns the error.\<close>

definition svc_execute :: "sys \<Rightarrow> string \<Rightarrow> call_result svc" where
  "svc_execute x cmd =
     pbind (get_lang_env x) (\<lambda>env.
       on_sv (pbind (run_command x (ArgText cmd) (default_kwargs\<lparr>k_environ := env\<rparr>)) (\<lambda>(r, _). pret r)))"

definition checked :: "call_result svc \<Rightarrow> cmd_result svc" where
  "checked f = pbind f (\<lambda>r. case res_err r of Some e \<Rightarrow> plift (Err e) | None \<Rightarrow> plift (the_res r))"

text \<open>Words of a command line as \<open>Sprintf\<close> puts them.\<close>

definition line :: "string list \<Rightarrow> string" where
  "line = join '' ''"

section \<open>The interface of a platform\<close>

record deriver =
  d_tools :: "unit svc"
  d_enable :: "bool \<Rightarrow> unit svc"
  d_status :: "bool option svc"
  d_control :: "string \<Rightarrow> call_result svc"

text \<open>The contract: no platform touches the field that \<open>hasChanged\<close> reads.\<close>

locale platform_service =
  fixes d :: deriver
  assumes tools_keep: "keeps sv_base_changed (d_tools d)"
    and enable_keeps: "keeps sv_base_changed (d_enable d b)"
    and status_keeps: "keeps sv_base_changed (d_status d)"
    and control_keeps: "keeps sv_base_changed (d_control d action)"

section \<open>The shared service\<close>

definition has_running_line :: "string \<Rightarrow> string \<Rightarrow> bool" where
  "has_running_line pattern out \<longleftrightarrow>
     list_ex (\<lambda>l. contains l pattern \<and> \<not> contains l ''pattern='') (split_on nl out)"

definition check_ps :: "service_tools \<Rightarrow> service_params \<Rightarrow> unit svc" where
  "check_ps t p =
     pbind (plift (platform (vt_machine t))) (\<lambda>pf.
     let flags = (if pf = ''SunOs'' then ''-ef'' else ''auxww'') in
     pbind (sv_files (get_bin_path (s_os (vt_sys t)) ''ps'' [] True)) (\<lambda>ps.
     pbind (on_sv (run_command (vt_sys t) (ArgText (line [ps, flags])) default_kwargs)) (\<lambda>(r, _).
     pbind (plift (the_res r)) (\<lambda>r.
       if cr_rc r \<noteq> 0 then pret ()
       else set_running (vp_pattern p \<noteq> [] \<and> has_running_line (vp_pattern p) (cr_stdout r))))))"

definition is_running :: "service_state \<Rightarrow> bool" where
  "is_running s \<longleftrightarrow> sv_running s = Some True"

definition check_service_changed :: "service_params \<Rightarrow> bool svc" where
  "check_service_changed p s =
     (if vp_state p = [] \<and> sv_running s = None
      then (s, Err (ModuleError ''failed determining service state, possible typo of service name?''))
      else
        (let started = (\<not> is_running s \<and> vp_state p \<in> {''reloaded'', ''started''});
             stopped = (is_running s \<and> vp_state p \<in> {''reloaded'', ''stopped''});
             restarted = (vp_state p = ''restarted'')
         in (s, Ok (started \<or> stopped \<or> restarted))))"

definition has_changed :: "bool svc" where
  "has_changed = sv_get sv_base_changed"

definition service_action :: "string \<Rightarrow> bool \<Rightarrow> string" where
  "service_action state running =
     (if \<not> running \<and> state = ''reloaded'' then ''start''
      else if state = ''started'' then ''start''
      else if state = ''stopped'' then ''stop''
      else if state = ''reloaded'' then ''reload''
      else if state = ''restarted'' then ''restart''
      else [])"

definition modify_service_state :: "deriver \<Rightarrow> service_params \<Rightarrow> call_result svc" where
  "modify_service_state d p =
     pbind (sv_get is_running) (\<lambda>running. d_control d (service_action (vp_state p) running))"

section \<open>The module\<close>

record service_return =
  vr_changed :: bool
  vr_state :: string
  vr_enabled :: bool

definition empty_service_return :: service_return where
  "empty_service_return = \<lparr>vr_changed = False, vr_state = [], vr_enabled = False\<rparr>"

definition validate_service :: "service_params \<Rightarrow> (command_error, unit) outcome" where
  "validate_service p =
     (if vp_name p = [] then Err (ModuleError ''name must be provided'')
      else if vp_state p = [] \<and> vp_enabled p = None then Err (ModuleError ''state or enabled must be set'')
      else if vp_state p \<noteq> [] \<and> vp_state p \<notin> {''started'', ''stopped'', ''reloaded'', ''restarted''}
      then Err (ModuleError (''unknown state '' @ vp_state p))
      else Ok ())"

definition check_rc :: "cmd_result \<Rightarrow> (command_error, unit) outcome" where
  "check_rc r =
     (if cr_rc r = 0 then Ok ()
      else if cr_stderr r \<noteq> [] then
        (if contains (cr_stderr r) ''Job is already running'' then Ok () else Err (ModuleError (cr_stderr r)))
      else Err (ModuleError (cr_stdout r)))"

definition handle_service_enabled :: "deriver \<Rightarrow> service_params \<Rightarrow> service_return \<Rightarrow> service_return svc" where
  "handle_service_enabled d p ret =
     (case vp_enabled p of
        None \<Rightarrow> pret ret
      | Some b \<Rightarrow> pbind (d_enable d b) (\<lambda>_. pret (ret\<lparr>vr_enabled := b\<rparr>)))"

definition add_state_to_return :: "deriver \<Rightarrow> service_params \<Rightarrow> service_return \<Rightarrow> service_return svc" where
  "add_state_to_return d p ret =
     (if vp_state p = [] then
        pbind (d_status d) (\<lambda>status.
          pret (ret\<lparr>vr_state := (case status of None \<Rightarrow> ''absent'' | Some True \<Rightarrow> ''stopped'' | Some False \<Rightarrow> ''started'')\<rparr>))
      else pret (ret\<lparr>vr_state := (if vp_state p \<in> {''reloaded'', ''restarted'', ''started''} then ''started'' else ''stopped'')\<rparr>))"

text \<open>
  \<open>Run\<close> after the service was chosen.  The error of changing the state is overwritten by the check
  of the result, which panics when there is none.
\<close>

definition service_body :: "service_tools \<Rightarrow> deriver \<Rightarrow> service_params \<Rightarrow> service_return svc" where
  "service_body t d p =
     pbind (d_tools d) (\<lambda>_.
     pbind (handle_service_enabled d p empty_service_return) (\<lambda>ret.
       if vp_state p = [] then pbind has_changed (\<lambda>c. pret (ret\<lparr>vr_changed := c\<rparr>))
       else
         pbind (if vp_pattern p \<noteq> [] then check_ps t p else pbind (d_status d) (\<lambda>_. pret ())) (\<lambda>_.
         pbind (check_service_changed p) (\<lambda>change.
         pbind (if change
                then pbind (modify_service_state d p) (\<lambda>r. pbind (plift (the_res r)) (\<lambda>r. plift (check_rc r)))
                else pret ()) (\<lambda>_.
         pbind has_changed (\<lambda>c.
           add_state_to_return d p (ret\<lparr>vr_state := vp_state p, vr_changed := (c \<or> change)\<rparr>)))))))"

definition unimplemented_error :: "machine \<Rightarrow> string" where
  "unimplemented_error mc =
     ''service module cannot be used on platform '' @
     (case (platform mc :: (string, string) outcome) of
        Ok pf \<Rightarrow> pf @ (case (distribution mc :: (string, string) outcome) of Ok d \<Rightarrow> if d = [] then [] else '' ('' @ d @ '')'' | _ \<Rightarrow> [])
      | _ \<Rightarrow> [])"

text \<open>The message is added twice only for a distribution of its own, and none has one.\<close>

definition instantiation_debug :: "machine \<Rightarrow> mod_return \<Rightarrow> mod_return" where
  "instantiation_debug mc r =
     (case (platform mc :: (string, string) outcome) of Ok pf \<Rightarrow> debug_msg (''Service instantiated - platform '' @ pf) r | _ \<Rightarrow> r)"

text \<open>What the service found out is kept in a local variable and does not get into the return.\<close>

definition service_finish ::
  "service_tools \<Rightarrow> mod_return \<Rightarrow> service_state \<times> (command_error, service_return) outcome
   \<Rightarrow> host_state \<times> (string, mod_return) outcome" where
  "service_finish t r = (\<lambda>(s, res).
     (sv_host s,
      case res of
        Ok ret \<Rightarrow> Ok r
      | Err e \<Rightarrow> Ok (mark_return_failed (vt_error t e) r)
      | Panic \<Rightarrow> Panic))"

definition service_start ::
  "service_tools \<Rightarrow> vars \<Rightarrow> (command_error, service_params) outcome" where
  "service_start t vs =
     (case vt_decode t (case vs ''args'' of Some (GStr a) \<Rightarrow> vs(''arguments'' \<mapsto> GStr a) | _ \<Rightarrow> vs)
             \<lparr>vp_arguments = [], vp_enabled = None, vp_name = [], vp_pattern = [], vp_runlevel = ''default'', vp_state = []\<rparr> of
        Inl e \<Rightarrow> Err (ModuleError e)
      | Inr p \<Rightarrow> omap (\<lambda>_. p) (validate_service p))"

section \<open>What the shared part guarantees\<close>

lemma keeps_on_sv [keeps_intros]: "keeps sv_base_changed (on_sv f)" "keeps sv_base_changed (sv_files g)"
  by (auto simp: keeps_def on_sv_def sv_files_def split: prod.splits)

lemma keeps_sv_get [keeps_intros]: "keeps view (sv_get f)"
  by (simp add: keeps_def sv_get_def)

lemma keeps_set [keeps_intros]:
  "keeps sv_base_changed (set_running b)" "keeps sv_base_changed (set_changed b)"
  by (simp_all add: keeps_def set_running_def set_changed_def sv_put_def)

lemma keeps_sv_put [keeps_intros]: "(\<And>s. sv_base_changed (f s) = sv_base_changed s) \<Longrightarrow> keeps sv_base_changed (sv_put f)"
  by (simp add: keeps_def sv_put_def)

lemma keeps_svc_execute [keeps_intros]: "keeps sv_base_changed (svc_execute x cmd)"
  unfolding svc_execute_def get_lang_env_def by (auto intro!: keeps_intros)

lemma keeps_checked [keeps_intros]: "keeps view f \<Longrightarrow> keeps view (checked f)"
  unfolding checked_def by (auto intro!: keeps_intros split: option.splits)

lemma keeps_check_service_changed [keeps_intros]: "keeps view (check_service_changed p)"
  by (simp add: keeps_def check_service_changed_def Let_def)

lemma keeps_check_ps [keeps_intros]: "keeps sv_base_changed (check_ps t p)"
  unfolding check_ps_def Let_def by (auto intro!: keeps_intros split: prod.splits)

context platform_service
begin

lemma body_keeps: "keeps sv_base_changed (service_body t d p)"
  unfolding service_body_def handle_service_enabled_def add_state_to_return_def modify_service_state_def has_changed_def
  by (auto intro!: keeps_intros tools_keep enable_keeps status_keeps control_keeps split: option.splits)

text \<open>Enabling never counts as a change: the field that is asked is never set.\<close>

lemma enabling_never_changes:
  assumes "vp_state p = []" "\<not> sv_base_changed s" "service_body t d p s = (s', Ok ret)"
  shows "\<not> vr_changed ret"
proof -
  obtain s1 r1 where pre: "pbind (d_tools d) (\<lambda>_. handle_service_enabled d p empty_service_return) s = (s1, Ok r1)"
    and ret: "ret = r1\<lparr>vr_changed := sv_base_changed s1\<rparr>"
    using assms(1,3) by (auto simp: service_body_def pbind_Ok_iff has_changed_def sv_get_def pret_def)
  have "keeps sv_base_changed (pbind (d_tools d) (\<lambda>_. handle_service_enabled d p empty_service_return))"
    unfolding handle_service_enabled_def
    by (auto intro!: keeps_intros tools_keep enable_keeps split: option.splits)
  from keepsD [OF this, of s] pre assms(2) ret show ?thesis by simp
qed

end

text \<open>
  What is run for a state asked for and a service running or not: nothing exactly when the service
  is as asked for, and stopping only for a running one.
\<close>

lemma change_iff:
  assumes "check_service_changed p s = (s', Ok b)" "vp_state p \<noteq> []"
  shows "b \<longleftrightarrow> (vp_state p = ''started'' \<and> \<not> is_running s) \<or> (vp_state p = ''stopped'' \<and> is_running s)
    \<or> vp_state p = ''restarted'' \<or> vp_state p = ''reloaded''"
  using assms by (auto simp: check_service_changed_def)

end
