(* ===== verification/Linux_Service.thy ===== *)
theory Linux_Service
  imports Service
begin

text \<open>
  Services of Linux, \<open>modules/service/linux_service.go\<close>: systemd, upstart, OpenRC and System V.
  Globbing, \<open>access\<close> and the regular expressions are parameters.
\<close>

section \<open>Finding the tools\<close>

type_synonym locations = "string \<Rightarrow> string"

fun get_locations :: "service_tools \<Rightarrow> string list \<Rightarrow> locations \<Rightarrow> locations svc" where
  "get_locations t [] loc = pret loc"
| "get_locations t (b # bs) loc =
     pbind (sv_files (get_bin_path (s_os (vt_sys t)) b [''/sbin'', ''/usr/sbin'', ''/bin'', ''/usr/bin''] False))
       (\<lambda>p. get_locations t bs (loc(b := p)))"

definition service_binaries :: "string list" where
  "service_binaries =
     [''service'', ''chkconfig'', ''update-rc.d'', ''rc-service'', ''rc-update'', ''systemctl'', ''initctl'',
      ''start'', ''stop'', ''restart'', ''insserv'']"

definition init_script :: "service_params \<Rightarrow> string" where
  "init_script p = ''/etc/init.d/'' @ vp_name p"

definition check_systemd :: "service_tools \<Rightarrow> locations \<Rightarrow> bool svc" where
  "check_systemd t loc =
     (if loc ''systemctl'' = [] then pret False
      else
        pbind (sv_files (any_exists (s_os (vt_sys t)) canaries)) (\<lambda>b.
          if b then pret True
          else
            pbind (ptry (sv_files (os_read_file (s_os (vt_sys t)) ''/proc/1/comm''))) (\<lambda>r.
              case r of
                Inr text \<Rightarrow> pret (contains text ''systemd'')
              | Inl e \<Rightarrow> if e = FsError NotExist then pret False else plift (Err e))))"

text \<open>The version of upstart: whatever looks like one is given to \<open>NewLoose\<close>.\<close>

definition get_upstart_version :: "service_tools \<Rightarrow> locations \<Rightarrow> unit svc" where
  "get_upstart_version t loc =
     pbind (sv_put (\<lambda>s. s\<lparr>sv_upstart := Loose [0, 0, 0]\<rparr>)) (\<lambda>_.
     pbind (on_sv (run_command (vt_sys t) (ArgText (line [loc ''initctl'', ''version''])) default_kwargs)) (\<lambda>(r, _).
       if res_err r \<noteq> None then pret ()
       else
         pbind (plift (the_res r)) (\<lambda>r.
           if cr_rc r \<noteq> 0 then pret ()
           else
             (case vt_upstart_match t (cr_stdout r) of
                None \<Rightarrow> pret ()
              | Some v \<Rightarrow>
                  (case new_loose v of
                     Ok l \<Rightarrow> sv_put (\<lambda>s. s\<lparr>sv_upstart := l\<rparr>)
                   | Err e \<Rightarrow> pret ()
                   | Panic \<Rightarrow> plift Panic)))))"

definition set_enable_cmd :: "string \<Rightarrow> unit svc" where
  "set_enable_cmd c = sv_put (\<lambda>s. s\<lparr>sv_enable_cmd := c\<rparr>)"

definition get_enable_and_svc_cmd :: "service_tools \<Rightarrow> service_params \<Rightarrow> locations \<Rightarrow> unit svc" where
  "get_enable_and_svc_cmd t p loc =
     pbind (check_systemd t loc) (\<lambda>systemd.
       if systemd then
         sv_put (\<lambda>s. s\<lparr>sv_unit := vp_name p, sv_svc_cmd := loc ''systemctl'', sv_enable_cmd := loc ''systemctl''\<rparr>)
       else
         pbind (sv_files (path_exists (s_os (vt_sys t)) (''/etc/init/'' @ vp_name p @ ''.conf''))) (\<lambda>conf.
           if loc ''initctl'' \<noteq> [] \<and> conf then
             pbind (set_enable_cmd (loc ''initctl'')) (\<lambda>_. get_upstart_version t loc)
           else if loc ''rc-service'' \<noteq> [] then
             sv_put (\<lambda>s. s\<lparr>sv_svc_cmd := loc ''rc-service'', sv_enable_cmd := loc ''rc-service''\<rparr>)
           else
             sv_put (\<lambda>s.
               if sv_init_script s = [] then s
               else s\<lparr>sv_enable_cmd := (if loc ''update-rc.d'' \<noteq> [] then loc ''update-rc.d''
                                        else if loc ''insserv'' \<noteq> [] then loc ''insserv''
                                        else loc ''chkconfig'')\<rparr>)))"

text \<open>Without a command to enable services the rest is skipped, without an error.\<close>

definition error_if_missing :: "bool \<Rightarrow> string \<Rightarrow> string \<Rightarrow> (command_error, unit) outcome" where
  "error_if_missing found service msg =
     (if found then Ok () else Err (ModuleError (''could not find the requested service '' @ service @ '': '' @ msg)))"

definition linux_tools :: "service_tools \<Rightarrow> service_params \<Rightarrow> unit svc" where
  "linux_tools t p =
     pbind (get_locations t service_binaries (\<lambda>_. [])) (\<lambda>loc.
     pbind (sv_files (is_regular (s_os (vt_sys t)) (init_script p))) (\<lambda>b.
     pbind (if b then sv_put (\<lambda>s. s\<lparr>sv_init_script := init_script p\<rparr>) else pret ()) (\<lambda>_.
     pbind (get_enable_and_svc_cmd t p loc) (\<lambda>_ s.
       if sv_enable_cmd s = [] then (s, error_if_missing True (vp_name p) ''host'')
       else
         (let s = (if sv_svc_cmd s = [] \<and> loc ''service'' \<noteq> [] then s\<lparr>sv_svc_cmd := loc ''service''\<rparr> else s)
          in if sv_svc_cmd s = [] \<and> sv_init_script s = []
             then (s, Err (ModuleError ''cannot find service binary or init script for service''))
             else (s\<lparr>sv_init_ctl := loc ''initctl''\<rparr>, Ok ()))))))"

section \<open>Control\<close>

definition handle_non_restart :: "service_tools \<Rightarrow> service_params \<Rightarrow> string \<Rightarrow> string \<Rightarrow> string \<Rightarrow> call_result svc" where
  "handle_non_restart t p action cmd args =
     svc_execute (vt_sys t) (if cmd \<noteq> [] then line [cmd, action, args] else line [action, vp_name p, args])"

text \<open>When starting fails the error returned is that of stopping, which is nil here.\<close>

definition handle_restart :: "service_tools \<Rightarrow> service_params \<Rightarrow> string \<Rightarrow> string \<Rightarrow> call_result svc" where
  "handle_restart t p cmd args =
     pbind (sv_get sv_svc_cmd) (\<lambda>svc_cmd.
       if has_suffix svc_cmd ''rc-service'' then svc_execute (vt_sys t) (line [cmd, ''restart'', args])
       else
         pbind (handle_non_restart t p ''stop'' cmd args) (\<lambda>stop.
           if res_err stop \<noteq> None then pret \<lparr>res = None, res_err = res_err stop\<rparr>
           else
             pbind (handle_non_restart t p ''start'' cmd args) (\<lambda>start.
               if res_err start \<noteq> None then pret \<lparr>res = None, res_err = None\<rparr>
               else
                 pbind (plift (the_res stop)) (\<lambda>s1.
                 pbind (plift (the_res start)) (\<lambda>s2.
                   if cr_rc s1 \<noteq> 0 \<and> cr_rc s2 = 0 then pret start
                   else pret \<lparr>res = Some \<lparr>cr_rc = cr_rc s2 + cr_rc s1, cr_stdout = cr_stdout s1 @ cr_stdout s2,
                                          cr_stderr = cr_stderr s1 @ cr_stderr s2\<rparr>,
                              res_err = None\<rparr>)))))"

definition control_line :: "service_params \<Rightarrow> service_state \<Rightarrow> string \<times> string" where
  "control_line p s =
     (if sv_svc_cmd s = [] then (sv_init_script s, vp_arguments p)
      else if has_suffix (sv_svc_cmd s) ''systemctl'' then (sv_svc_cmd s, line [sv_unit s, vp_arguments p])
      else if has_suffix (sv_svc_cmd s) ''initctl'' then (sv_svc_cmd s, line [vp_name p, vp_arguments p])
      else (line [sv_svc_cmd s, vp_name p], vp_arguments p))"

definition service_control :: "service_tools \<Rightarrow> service_params \<Rightarrow> string \<Rightarrow> call_result svc" where
  "service_control t p action =
     pbind (sv_get (\<lambda>s. s)) (\<lambda>s.
     case control_line p s of
       (cmd, args) \<Rightarrow>
         pbind (if has_suffix (sv_svc_cmd s) ''rc-service'' \<and> action = ''start'' \<and> sv_crashed s
                then pbind (svc_execute (vt_sys t) (line [sv_svc_cmd s, ''zap''])) (\<lambda>r. pret (res_err r))
                else pret None) (\<lambda>e.
           case e of
             Some e \<Rightarrow> pret (failed_call e)
           | None \<Rightarrow>
               if action = ''restart'' then handle_restart t p cmd args else handle_non_restart t p action cmd args))"

section \<open>Status\<close>

text \<open>The output of \<open>systemctl show\<close>: the state is the key of a value that goes on, the value, and its lines.\<close>

fun status_lines :: "string list \<Rightarrow> string \<Rightarrow> string \<Rightarrow> string list \<Rightarrow> (string \<rightharpoonup> string)
    \<Rightarrow> (command_error, string \<rightharpoonup> string) outcome" where
  "status_lines [] key val buf d = Ok d"
| "status_lines (l # ls) key val buf d =
     (if CHR ''='' \<notin> set l then status_lines ls key val (buf @ [val]) d
      else if key = [] then
        (let key = takeWhile (\<lambda>c. c \<noteq> CHR ''='') l; val = drop 1 (dropWhile (\<lambda>c. c \<noteq> CHR ''='') l);
             trimmed = trim_space val
         in if trimmed = [] then Panic
            else if hd trimmed = CHR ''{'' then
              (if last trimmed = CHR ''}'' then status_lines ls [] val buf (d(key \<mapsto> val))
               else status_lines ls key val (buf @ [val]) d)
            else status_lines ls key val buf (d(key \<mapsto> val)))
      else if last (trim_space l) = CHR ''}'' then status_lines ls [] val [] (d(key \<mapsto> join [nl] buf))
      else status_lines ls key val (buf @ [val]) d)"

text \<open>The test of the error is the wrong way round: a call that worked gives no dictionary.\<close>

definition systemd_status_dict :: "service_tools \<Rightarrow> (string \<rightharpoonup> string) svc" where
  "systemd_status_dict t =
     pbind (sv_get (\<lambda>s. line [sv_enable_cmd s, ''show'', sv_unit s])) (\<lambda>cmd.
     pbind (svc_execute (vt_sys t) cmd) (\<lambda>r.
       if res_err r = None then pret Map.empty
       else
         pbind (plift (the_res r)) (\<lambda>r.
           if cr_rc r \<noteq> 0 then plift (Err (ModuleError ''failure running systemctl show''))
           else if contains (cr_stdout r) ''LoadState=not-found''
           then plift (Err (ModuleError ''systemd could not find the requested service''))
           else plift (status_lines (split_on nl (cr_stdout r)) [] [] [] Map.empty))))"

definition systemd_service_status :: "service_tools \<Rightarrow> bool option svc" where
  "systemd_service_status t =
     pbind (systemd_status_dict t) (\<lambda>d.
       case d ''ActiveState'' of
         None \<Rightarrow> plift (Err (ModuleError ''no ActiveState value in systemctl show output''))
       | Some a \<Rightarrow>
           if a = ''active'' then pbind (sv_put (\<lambda>s. s\<lparr>sv_running := Some True, sv_crashed := False\<rparr>)) (\<lambda>_. sv_get sv_running)
           else if a = ''failed'' then pbind (sv_put (\<lambda>s. s\<lparr>sv_running := Some False, sv_crashed := True\<rparr>)) (\<lambda>_. sv_get sv_running)
           else if a = [] then plift (Err (ModuleError ''no ActiveState value in systemctl show output''))
           else pbind (sv_put (\<lambda>s. s\<lparr>sv_running := Some False, sv_crashed := False\<rparr>)) (\<lambda>_. sv_get sv_running))"

text \<open>What the words of a status say; the name of the service in small letters is cut out first.\<close>

definition keyword_status :: "string \<Rightarrow> string \<Rightarrow> bool option" where
  "keyword_status name out =
     (let clean = replace_all (to_lower name) [] out in
      if contains clean ''stop'' then Some False
      else if contains clean ''run'' then Some (\<not> contains clean ''not '')
      else if contains clean ''start'' \<and> \<not> contains clean ''not '' then Some True
      else if contains clean ''could not access pid file'' then Some False
      else if contains clean ''is dead and pid file exists'' then Some False
      else if contains clean ''dead but subsys locked'' then Some False
      else if contains clean ''dead but pid file exists'' then Some False
      else None)"

text \<open>Each way to find out is tried while the state is not known.\<close>

definition if_unknown :: "bool option \<Rightarrow> service_state \<Rightarrow> service_state" where
  "if_unknown b s = (if sv_running s = None then s\<lparr>sv_running := b\<rparr> else s)"

definition guess_status :: "service_params \<Rightarrow> cmd_result \<Rightarrow> service_state \<Rightarrow> service_state" where
  "guess_status p r =
     if_unknown (if vp_name p = ''iptables'' \<and> contains (cr_stdout r) ''ACCEPT'' then Some True else None) \<circ>
     if_unknown (if cr_rc r = 0 then Some True else None) \<circ>
     if_unknown (if count_list (cr_stdout r) nl \<le> 1 then keyword_status (vp_name p) (cr_stdout r) else None) \<circ>
     if_unknown (if cr_rc r \<in> {1, 2, 3, 4, 69} then Some False else None)"

definition upstart_status :: "service_tools \<Rightarrow> service_params \<Rightarrow> unit svc" where
  "upstart_status t p =
     pbind (sv_get (\<lambda>s. s)) (\<lambda>s.
       if sv_init_ctl s = [] \<or> sv_running s \<noteq> None then pret ()
       else
         pbind (checked (svc_execute (vt_sys t) (line [sv_init_ctl s, ''status'', vp_name p, vp_arguments p]))) (\<lambda>r.
           if contains (cr_stdout r) ''stop/waiting'' then set_running False
           else if contains (cr_stdout r) ''stop/running'' then set_running True
           else pret ()))"

definition openrc_status :: "service_tools \<Rightarrow> service_params \<Rightarrow> unit svc" where
  "openrc_status t p =
     pbind (sv_get (\<lambda>s. s)) (\<lambda>s.
       if sv_running s \<noteq> None \<or> \<not> has_suffix (sv_svc_cmd s) ''rc-service'' then pret ()
       else
         pbind (checked (svc_execute (vt_sys t) (line [sv_svc_cmd s, vp_name p, ''status'']))) (\<lambda>r.
           sv_put (\<lambda>s. s\<lparr>sv_running := Some (contains (cr_stdout r) ''started''),
                         sv_crashed := contains (cr_stdout r) ''crashed''\<rparr>)))"

text \<open>The result of asking is read only while the state is not known.\<close>

definition linux_status :: "service_tools \<Rightarrow> service_params \<Rightarrow> bool option svc" where
  "linux_status t p =
     pbind (sv_get sv_svc_cmd) (\<lambda>cmd.
       if has_suffix cmd ''systemctl'' then systemd_service_status t
       else
         pbind (service_control t p ''status'') (\<lambda>r.
         case res_err r of
           Some e \<Rightarrow> plift (Err e)
         | None \<Rightarrow>
             pbind (upstart_status t p) (\<lambda>_.
             pbind (openrc_status t p) (\<lambda>_.
             pbind (sv_get sv_running) (\<lambda>known.
               if known \<noteq> None then pret known
               else
                 pbind (plift (the_res r)) (\<lambda>r.
                 pbind (sv_put (guess_status p r)) (\<lambda>_. sv_get sv_running)))))))"

section \<open>Enabling\<close>

text \<open>An enabling method gives the action to run, or the empty text when nothing is left to do.\<close>

definition command_failure :: "cmd_result \<Rightarrow> command_error" where
  "command_failure r = ModuleError (if cr_stderr r = [] then cr_stdout r else cr_stderr r)"

definition man_pattern :: "loose \<Rightarrow> string \<times> string" where
  "man_pattern v =
     (if loose_compare v (Loose [0, 6, 7]) \<ge> 0 then (''(?im)^manual'' @ [CHR 0x5C] @ ''s*$'', ''manual'' @ [nl])
      else (''(?im)^start on manual'' @ [CHR 0x5C] @ ''s*$'', ''start on manual'' @ [nl]))"

text \<open>Patterns that do not compile panic.\<close>

definition must_match :: "service_tools \<Rightarrow> string \<Rightarrow> string \<Rightarrow> bool svc" where
  "must_match t re text = plift (case s_regex (vt_sys t) re of None \<Rightarrow> Panic | Some f \<Rightarrow> Ok (f text))"

definition override_file :: "service_params \<Rightarrow> string" where
  "override_file p = ''/etc/init/'' @ vp_name p @ ''.override''"

text \<open>What the override file is changed to, if it is.\<close>

definition override_change :: "service_tools \<Rightarrow> string \<times> string \<Rightarrow> bool \<Rightarrow> command_error + string \<Rightarrow> string option svc" where
  "override_change t man enable content =
     (case content of
        Inr text \<Rightarrow>
          pbind (must_match t (fst man) text) (\<lambda>manual.
            pret (if enable \<and> manual then Some (vt_replace t (fst man) text)
                  else if \<not> enable \<and> \<not> manual then Some (text @ [nl] @ snd man)
                  else None))
      | Inl e \<Rightarrow>
          if e = FsError NotExist then pret (if enable then None else Some (snd man)) else plift (Err e))"

definition initctl_service_enable :: "service_tools \<Rightarrow> service_params \<Rightarrow> bool \<Rightarrow> string svc" where
  "initctl_service_enable t p enable =
     pbind (sv_get (\<lambda>s. man_pattern (sv_upstart s))) (\<lambda>man.
     pbind (sv_files (os_read_file (s_os (vt_sys t)) (''/etc/init/'' @ vp_name p @ ''.conf''))) (\<lambda>conf.
     pbind (must_match t (fst man) conf) (\<lambda>manual.
       if manual then plift (Err (ModuleError ''manual stanza not supported in a .conf file''))
       else
         pbind (set_changed False) (\<lambda>_.
         pbind (ptry (sv_files (os_read_file (s_os (vt_sys t)) (override_file p)))) (\<lambda>content.
         pbind (override_change t man enable content) (\<lambda>change.
           case change of
             None \<Rightarrow> pret []
           | Some text \<Rightarrow>
               pbind (set_changed True) (\<lambda>_.
               pbind (pmap_err (\<lambda>_. ModuleError ''could not modify override file'')
                        (sv_files (os_write_file (s_os (vt_sys t)) (override_file p) text 0))) (\<lambda>_. pret []))))))))"

definition enable_word :: "bool \<Rightarrow> string" where
  "enable_word b = (if b then ''enable'' else ''disable'')"

definition sysv_service_enable :: "service_tools \<Rightarrow> service_params \<Rightarrow> bool \<Rightarrow> string svc" where
  "sysv_service_enable t p enable =
     pbind (sv_get sv_enable_cmd) (\<lambda>cmd.
     let listing = checked (svc_execute (vt_sys t) (line [cmd, ''--list'', vp_name p])) in
     pbind listing (\<lambda>r.
     pbind (if contains (cr_stderr r) (''chkconfig --add '' @ vp_name p)
            then pbind (svc_execute (vt_sys t) (line [cmd, ''--add'', vp_name p])) (\<lambda>a.
                 case res_err a of Some e \<Rightarrow> plift (Err e) | None \<Rightarrow> listing)
            else pret r) (\<lambda>r.
       if contains (cr_stdout r) (vp_name p) then plift (Err (ModuleError ''service does not support chkconfig''))
       else if contains (cr_stdout r) (''3:'' @ enable_word enable) \<and> contains (cr_stdout r) (''5:'' @ enable_word enable)
       then pbind (set_changed False) (\<lambda>_. pret [])
       else pret (enable_word enable))))"

text \<open>A glob without matches gives a nil slice.\<close>

definition glob :: "service_tools \<Rightarrow> string \<Rightarrow> string list svc" where
  "glob t pat s = (s, case vt_glob t (h_fs (sv_host s)) pat of
     Ok ps \<Rightarrow> Ok ps | Err e \<Rightarrow> Err (FsError e) | Panic \<Rightarrow> Panic)"

definition run_or_fail :: "service_tools \<Rightarrow> string \<Rightarrow> unit svc" where
  "run_or_fail t cmd =
     pbind (checked (svc_execute (vt_sys t) cmd)) (\<lambda>r.
       if cr_rc r \<noteq> 0 then plift (Err (command_failure r)) else pret ())"

definition update_rc_d_enable :: "service_tools \<Rightarrow> service_params \<Rightarrow> bool \<Rightarrow> string svc" where
  "update_rc_d_enable t p enable =
     pbind (glob t (''/etc/rc?.d/S??'' @ vp_name p)) (\<lambda>slinks.
       if enable = (slinks \<noteq> []) then pbind (set_changed False) (\<lambda>_. pret [])
       else
         pbind (set_changed True) (\<lambda>_.
         pbind (sv_get sv_enable_cmd) (\<lambda>cmd.
         pbind (if \<not> enable then pret ()
                else pbind (glob t (''/etc/rc?.d/K??'' @ vp_name p)) (\<lambda>klinks.
                       if klinks = [] then run_or_fail t (line [cmd, vp_name p, ''defaults'']) else pret ())) (\<lambda>_.
         pbind (run_or_fail t (line [cmd, vp_name p, enable_word enable])) (\<lambda>_. pret [])))))"

definition sysv_exists :: "service_tools \<Rightarrow> string \<Rightarrow> bool svc" where
  "sysv_exists t name s =
     (s, case vt_access t (h_fs (sv_host s)) name of
           None \<Rightarrow> Ok True | Some NotPermitted \<Rightarrow> Ok False | Some e \<Rightarrow> Err (FsError e))"

text \<open>Enabled when there is no link to start it: the wrong way round.\<close>

definition sysv_is_enabled :: "service_tools \<Rightarrow> string \<Rightarrow> bool svc" where
  "sysv_is_enabled t name = pbind (glob t (''/etc/rc?.d/S??'' @ name)) (\<lambda>ps. pret (ps = []))"

definition systemd_service_enabled :: "service_tools \<Rightarrow> bool svc" where
  "systemd_service_enabled t =
     pbind (sv_get (\<lambda>s. (sv_enable_cmd s, sv_unit s))) (\<lambda>(cmd, unit).
     pbind (checked (svc_execute (vt_sys t) (line [cmd, ''is-enabled'', unit]))) (\<lambda>r.
       if cr_rc r = 0 then pret True
       else if has_prefix (cr_stdout r) ''disabled'' then pret False
       else pbind (sysv_exists t unit) (\<lambda>b. if b then sysv_is_enabled t unit else pret False)))"

definition systemd_service_enable :: "service_tools \<Rightarrow> bool \<Rightarrow> string svc" where
  "systemd_service_enable t enable =
     pbind (systemd_service_enabled t) (\<lambda>enabled.
       if enable = enabled then pbind (set_changed False) (\<lambda>_. pret []) else pret (enable_word enable))"

definition insserv_enable :: "service_tools \<Rightarrow> service_params \<Rightarrow> bool \<Rightarrow> string svc" where
  "insserv_enable t p enable =
     pbind (sv_get sv_enable_cmd) (\<lambda>cmd.
     pbind (checked (svc_execute (vt_sys t)
              (line ([cmd, ''-n''] @ (if enable then [] else [''-r'']) @ [''-v'', vp_name p])))) (\<lambda>r.
     let would_change = list_ex (\<lambda>l. contains l (if enable then ''enable service'' else ''remove service''))
                          (split_on nl (cr_stderr r)) in
     pbind (set_changed would_change) (\<lambda>_.
       if \<not> would_change then pret []
       else
         pbind (checked (svc_execute (vt_sys t) (line ([cmd] @ (if enable then [] else [''-r'']) @ [vp_name p])))) (\<lambda>r.
           if cr_rc r \<noteq> 0 \<or> cr_stderr r \<noteq> [] then plift (Err (ModuleError ''failed to install or remove service''))
           else pret []))))"

text \<open>
  The run levels of the service in the listing of OpenRC, if it is there; a line without a bar
  panics when it is reached, and so does the empty text after the last line.
\<close>

fun find_runlevels :: "string \<Rightarrow> string list \<Rightarrow> (command_error, string option) outcome" where
  "find_runlevels name [] = Ok None"
| "find_runlevels name (l # ls) =
     (case splitn2 (CHR ''|'') l of
        [service, levels] \<Rightarrow> if service = name then Ok (Some levels) else find_runlevels name ls
      | _ \<Rightarrow> Panic)"

definition openrc_service_enable :: "service_tools \<Rightarrow> service_params \<Rightarrow> bool \<Rightarrow> string svc" where
  "openrc_service_enable t p enable =
     pbind (sv_get sv_enable_cmd) (\<lambda>cmd.
     pbind (checked (svc_execute (vt_sys t) (line [cmd, ''show'']))) (\<lambda>r.
     pbind (plift (find_runlevels (vp_name p) (split_on nl (cr_stdout r)))) (\<lambda>levels.
     pbind (case levels of
              None \<Rightarrow> if enable then set_changed False else pret ()
            | Some ls \<Rightarrow> if enable = (vp_runlevel p \<in> set (vt_spaces t ls)) then set_changed False else pret ()) (\<lambda>_.
     pbind (sv_get sv_changed) (\<lambda>changed.
       pret (if changed then [] else if enable then ''add'' else ''delete''))))))"

text \<open>At most one suffix fits, so the order in which the map is visited does not matter.\<close>

definition enable_methods :: "service_tools \<Rightarrow> service_params \<Rightarrow> (string \<times> (bool \<Rightarrow> string svc)) list" where
  "enable_methods t p =
     [(''initctl'', initctl_service_enable t p), (''chkconfig'', sysv_service_enable t p),
      (''systemctl'', systemd_service_enable t), (''rc-update'', openrc_service_enable t p),
      (''update-rc.d'', update_rc_d_enable t p), (''insserv'', insserv_enable t p)]"

definition enable_line :: "service_params \<Rightarrow> service_state \<Rightarrow> string \<Rightarrow> string" where
  "enable_line p s action =
     (if has_suffix (sv_enable_cmd s) ''rc-update'' then line [sv_enable_cmd s, action, vp_name p, vp_runlevel p]
      else if has_suffix (sv_enable_cmd s) ''systemctl'' then line [sv_enable_cmd s, action, sv_unit s]
      else line [sv_enable_cmd s, vp_name p, action])"

definition linux_enable :: "service_tools \<Rightarrow> service_params \<Rightarrow> bool \<Rightarrow> unit svc" where
  "linux_enable t p enable =
     pbind (sv_get sv_enable_cmd) (\<lambda>cmd.
       if cmd = [] then plift (Err (ModuleError (''cannot detect command to enable service '' @ vp_name p)))
       else
         pbind (set_changed True) (\<lambda>_.
         pbind (case find (\<lambda>m. has_suffix cmd (fst m)) (enable_methods t p) of
                  Some (_, f) \<Rightarrow> f enable
                | None \<Rightarrow> pret []) (\<lambda>action.
           if action = [] then pret ()
           else
             pbind (set_changed True) (\<lambda>_.
             pbind (sv_get (\<lambda>s. enable_line p s action)) (\<lambda>cmd. run_or_fail t cmd)))))"

section \<open>The platform\<close>

definition linux_deriver :: "service_tools \<Rightarrow> service_params \<Rightarrow> deriver" where
  "linux_deriver t p =
     \<lparr>d_tools = linux_tools t p, d_enable = linux_enable t p, d_status = linux_status t p,
      d_control = service_control t p\<rparr>"

definition platform_to_service ::
  "service_tools \<Rightarrow> service_params \<Rightarrow> (string \<rightharpoonup> (string \<rightharpoonup> deriver))" where
  "platform_to_service t p = [''Linux'' \<mapsto> [[] \<mapsto> linux_deriver t p]]"

definition service_run :: "service_tools \<Rightarrow> vars \<Rightarrow> host_state \<Rightarrow> host_state \<times> (string, mod_return) outcome" where
  "service_run t vs h =
     (case service_start t vs of
        Err e \<Rightarrow> (h, Ok (mark_return_failed (vt_error t e) new_return))
      | Panic \<Rightarrow> (h, Panic)
      | Ok p \<Rightarrow>
          (case platform_specific_value (vt_machine t) (platform_to_service t p) of
             Err e \<Rightarrow> (h, Err e)
           | Panic \<Rightarrow> (h, Panic)
           | Ok None \<Rightarrow>
               (h, Ok (mark_return_failed (vt_error t (ModuleError (unimplemented_error (vt_machine t)))) new_return))
           | Ok (Some d) \<Rightarrow>
               service_finish t (instantiation_debug (vt_machine t) new_return)
                 (service_body t d p (new_service h))))"

section \<open>The contract holds\<close>

lemma keeps_get_locations [keeps_intros]: "keeps sv_base_changed (get_locations t bs loc)"
  by (induction bs arbitrary: loc) (auto intro!: keeps_intros)

lemma keeps_sv_parts [keeps_intros]:
  "keeps sv_base_changed (check_systemd t loc)" "keeps sv_base_changed (get_upstart_version t loc)"
  "keeps sv_base_changed (set_enable_cmd c)" "keeps sv_base_changed (must_match t re txt')"
  "keeps sv_base_changed (glob t pat)" "keeps sv_base_changed (sysv_exists t name)" "keeps sv_base_changed (run_or_fail t cmd)"
  unfolding check_systemd_def get_upstart_version_def set_enable_cmd_def must_match_def glob_def sysv_exists_def run_or_fail_def
  by (auto intro!: keeps_intros split: sum.splits option.splits outcome.splits) (simp_all add: keeps_def)

lemma keeps_linux_tools: "keeps sv_base_changed (linux_tools t p)"
proof -
  have "keeps sv_base_changed (get_enable_and_svc_cmd t p loc)" for loc
    unfolding get_enable_and_svc_cmd_def by (auto intro!: keeps_intros split: if_splits)
  then show ?thesis
    unfolding linux_tools_def by (auto intro!: keeps_intros) (simp add: keeps_def Let_def)
qed

lemma keeps_handle_non_restart [keeps_intros]: "keeps sv_base_changed (handle_non_restart t p action cmd args)"
  unfolding handle_non_restart_def by (auto intro!: keeps_intros)

lemma keeps_handle_restart [keeps_intros]: "keeps sv_base_changed (handle_restart t p cmd args)"
  unfolding handle_restart_def by (auto intro!: keeps_intros)

lemma keeps_service_control [keeps_intros]: "keeps sv_base_changed (service_control t p action)"
  unfolding service_control_def by (auto intro!: keeps_intros split: prod.splits option.splits)

lemma keeps_guess: "sv_base_changed (guess_status p r s) = sv_base_changed s"
  by (simp add: guess_status_def if_unknown_def)

lemma keeps_linux_status: "keeps sv_base_changed (linux_status t p)"
proof -
  have "keeps sv_base_changed (systemd_service_status t)"
    unfolding systemd_service_status_def systemd_status_dict_def
    by (auto intro!: keeps_intros split: option.splits)
  moreover have "keeps sv_base_changed (upstart_status t p)" "keeps sv_base_changed (openrc_status t p)"
    unfolding upstart_status_def openrc_status_def by (auto intro!: keeps_intros)
  ultimately show ?thesis
    unfolding linux_status_def by (auto intro!: keeps_intros keeps_guess split: option.splits)
qed

lemma keeps_methods [keeps_intros]:
  "keeps sv_base_changed (initctl_service_enable t p b)" "keeps sv_base_changed (sysv_service_enable t p b)"
  "keeps sv_base_changed (openrc_service_enable t p b)" "keeps sv_base_changed (update_rc_d_enable t p b)"
  "keeps sv_base_changed (insserv_enable t p b)"
  unfolding initctl_service_enable_def override_change_def sysv_service_enable_def openrc_service_enable_def
    update_rc_d_enable_def insserv_enable_def Let_def
  by (auto intro!: keeps_intros split: sum.splits option.splits)

lemma keeps_systemd_enable [keeps_intros]: "keeps sv_base_changed (systemd_service_enable t b)"
  unfolding systemd_service_enable_def systemd_service_enabled_def sysv_is_enabled_def
  by (auto intro!: keeps_intros split: prod.splits)

lemma keeps_enable_method: "(name, f) \<in> set (enable_methods t p) \<Longrightarrow> keeps sv_base_changed (f b)"
  by (auto simp: enable_methods_def intro: keeps_methods keeps_systemd_enable)

lemma find_in_set: "find f xs = Some y \<Longrightarrow> y \<in> set xs"
  by (auto simp: find_Some_iff)

lemma keeps_linux_enable: "keeps sv_base_changed (linux_enable t p b)"
  unfolding linux_enable_def
  by (auto intro!: keeps_intros split: option.splits dest!: find_in_set keeps_enable_method)

interpretation linux: platform_service "linux_deriver t p" for t p
  by unfold_locales
     (simp_all add: linux_deriver_def keeps_linux_tools keeps_linux_enable keeps_linux_status keeps_service_control)

section \<open>What the module cannot do\<close>

lemma read_without_prompt: "read_output None b out reads = (r, True) \<Longrightarrow> r = None"
  by (induction "None :: (string \<Rightarrow> bool) option" b out reads rule: read_output.induct) (auto split: if_splits)

lemma error_without_result:
  assumes "run_command x raw (default_kwargs\<lparr>k_environ := env\<rparr>) h = (h', Ok (r, raw'))" "res_err r \<noteq> None"
  shows "res r = None"
proof -
  let ?k = "default_kwargs\<lparr>k_environ := env\<rparr>"
  have k: "k_data ?k = None" "\<not> k_check_rc ?k" "get_prompt_re x ?k = Ok None"
    by (simp_all add: default_kwargs_def get_prompt_re_def)
  have "res (finish_process None ?k p) = None" if err: "res_err (finish_process None ?k p) \<noteq> None" for p
  proof -
    obtain out failed where r: "read_output None False [] (p_reads p) = (out, failed)" by force
    show ?thesis
    proof (cases failed)
      case True
      then have "out = None"
        using r read_without_prompt [of False "[]" "p_reads p" out] by simp
      with True r k show ?thesis
        by (simp add: finish_process_def read_output_error_def failed_call_def split: option.splits)
    next
      case False
      with r k err show ?thesis
        by (auto simp: finish_process_def wait_error_def failed_call_def split: wait_result.splits)
    qed
  qed
  with assms k(3) show ?thesis
    by (auto simp: run_command_def pbind_def plift_def pret_def failed_call_def
        split: prod.splits outcome.splits sum.splits)
qed

lemma svc_execute_error:
  assumes "svc_execute x cmd s = (s', Ok r)" "res_err r \<noteq> None"
  shows "res r = None"
proof -
  obtain env s1 where "on_sv (pbind (run_command x (ArgText cmd) (default_kwargs\<lparr>k_environ := env\<rparr>)) (\<lambda>(r, _). pret r)) s1 = (s', Ok r)"
    using assms(1) by (auto simp: svc_execute_def pbind_Ok_iff)
  then obtain h h' where "pbind (run_command x (ArgText cmd) (default_kwargs\<lparr>k_environ := env\<rparr>)) (\<lambda>(r, _). pret r) h = (h', Ok r)"
    by (auto simp: on_sv_def split: prod.splits)
  then obtain raw' where "run_command x (ArgText cmd) (default_kwargs\<lparr>k_environ := env\<rparr>) h = (h', Ok (r, raw'))"
    by (auto simp: pbind_Ok_iff pret_def)
  from error_without_result [OF this assms(2)] show ?thesis .
qed

text \<open>
  The status of a service under systemd is never found out: asking ends in an error or a panic,
  whatever \<open>systemctl\<close> answers, since the answer is thrown away when the call works.
\<close>

theorem systemd_status_never:
  assumes "has_suffix (sv_svc_cmd s) ''systemctl''"
  shows "snd (linux_status t p s) \<noteq> Ok b"
proof -
  have dict: "d = Map.empty" if "systemd_status_dict t s = (s', Ok d)" for s' d
    using that
    by (auto simp: systemd_status_dict_def pbind_Ok_iff sv_get_def pret_def plift_def the_res_def
        split: if_splits option.splits dest: svc_execute_error)
  have "linux_status t p s = systemd_service_status t s"
    using assms by (simp add: linux_status_def pbind_def sv_get_def)
  moreover have "systemd_service_status t s \<noteq> (s', Ok b)" for s'
    by (auto simp: systemd_service_status_def pbind_Ok_iff plift_def dest!: dict)
  ultimately show ?thesis
    by (metis prod.collapse)
qed

lemma keeps_sv_files:
  assumes "keeps (\<lambda>fs. fs) f"
  shows "keeps (\<lambda>s. s) (sv_files f)"
proof (rule keepsI)
  fix s
  show "fst (sv_files f s) = s"
    using keepsD [OF assms, of "h_fs (sv_host s)"]
    by (cases "f (h_fs (sv_host s))") (simp add: sv_files_def on_sv_def on_fs_def)
qed

lemma get_locations_same: "keeps (\<lambda>s. s) (get_locations t bs loc)"
  by (induction bs arbitrary: loc) (auto intro!: keeps_pbind keeps_pret keeps_sv_files keeps_get_bin_path)

lemma no_script_no_tools:
  assumes "follow_links 40 (h_fs (sv_host s)) (init_script p) = Err NotExist"
  shows "fst (linux_tools t p s) = s" and "\<forall>u. snd (linux_tools t p s) \<noteq> Ok u"
proof -
  obtain r where loc: "get_locations t service_binaries (\<lambda>_. []) s = (s, r)"
    using keepsD [OF get_locations_same, of t service_binaries "\<lambda>_. []" s] by (metis prod.collapse)
  obtain e where "is_regular (s_os (vt_sys t)) (init_script p) (h_fs (sv_host s)) = (h_fs (sv_host s), Err e)"
    using assms by (cases "o_refuse (s_os (vt_sys t)) Stat [init_script p]")
      (simp_all add: is_regular_def os_stat_eq pbind_def)
  then have "sv_files (is_regular (s_os (vt_sys t)) (init_script p)) s = (s, Err (FsError e))"
    by (simp add: sv_files_def on_sv_def on_fs_def)
  then show "fst (linux_tools t p s) = s" "\<forall>u. snd (linux_tools t p s) \<noteq> Ok u"
    by (cases r; simp add: linux_tools_def pbind_def loc)+
qed

lemma linux_platform:
  "mc_goos (vt_machine t) = ''linux'' \<Longrightarrow>
   platform_specific_value (vt_machine t) (platform_to_service t p) = Ok (Some (linux_deriver t p))"
proof -
  assume "mc_goos (vt_machine t) = ''linux''"
  moreover have "upper_char (CHR ''l'') = CHR ''L''" by code_simp
  ultimately have pf: "platform (vt_machine t) = Ok ''Linux''"
    by (simp add: platform_def capitalize_def)
  have "distro_id (vt_machine t) \<noteq> [] \<or> distribution (vt_machine t) = Ok ''OtherLinux''"
    by (simp add: distribution_def Let_def pf)
  then show ?thesis
    by (auto simp: platform_specific_value_def pf platform_to_service_def distribution_def Let_def)
qed

text \<open>
  A service without a script in \<open>/etc/init.d\<close> cannot be managed on Linux, not even under systemd:
  the module changes nothing on the host and fails (or panics), whatever state is asked for.
\<close>

theorem no_init_script_fails:
  assumes "service_start t vs = Ok p" "mc_goos (vt_machine t) = ''linux''"
    and "follow_links 40 (h_fs h) (init_script p) = Err NotExist"
  shows "fst (service_run t vs h) = h \<and>
    (case snd (service_run t vs h) of Ok r \<Rightarrow> r_failed r | Err e \<Rightarrow> False | Panic \<Rightarrow> True)"
proof -
  let ?s = "new_service h"
  have "follow_links 40 (h_fs (sv_host ?s)) (init_script p) = Err NotExist"
    using assms(3) by (simp add: new_service_def)
  note tools = no_script_no_tools [OF this, of t]
  obtain r where t: "linux_tools t p ?s = (?s, r)" "\<forall>u. r \<noteq> Ok u"
    using tools by (metis prod.collapse)
  have run: "service_run t vs h = service_finish t (instantiation_debug (vt_machine t) new_return)
      (service_body t (linux_deriver t p) p ?s)"
    by (simp add: service_run_def assms(1) linux_platform [OF assms(2)])
  have "sv_host ?s = h" by (simp add: new_service_def)
  then show ?thesis
    using t unfolding run
    by (cases r) (simp_all add: service_body_def pbind_def linux_deriver_def service_finish_def
        mark_return_failed_def warn_def Let_def)
qed

text \<open>
  The module service never reports a change: when it returns, its return says unchanged, also
  after services were started, stopped or enabled, since what it found out is dropped.
\<close>

theorem service_never_changed:
  "case snd (service_run t vs h) of Ok r \<Rightarrow> \<not> r_changed r \<and> r_specific r = r_specific new_return | _ \<Rightarrow> True"
proof -
  have base: "\<not> r_changed new_return"
    by (simp add: new_return_def empty_return_def)
  have debug: "r_changed (instantiation_debug mc new_return) = r_changed new_return
    \<and> r_specific (instantiation_debug mc new_return) = r_specific new_return" for mc
    by (simp add: instantiation_debug_def debug_msg_def split: outcome.splits)
  have fail: "r_changed (mark_return_failed e r) = r_changed r \<and> r_specific (mark_return_failed e r) = r_specific r" for e r
    by (simp add: mark_return_failed_def warn_def Let_def)
  show ?thesis
    by (auto simp: service_run_def service_finish_def base debug fail
        split: outcome.splits option.splits prod.splits)
qed

text \<open>What is known of the status stays, and a return code of zero means running when nothing else is known.\<close>

lemma guess_keeps_known: "sv_running s = Some b \<Longrightarrow> guess_status p r s = s"
  by (simp add: guess_status_def if_unknown_def)

lemma guess_zero_runs:
  assumes "sv_running s = None" "cr_rc r = 0" "keyword_status (vp_name p) (cr_stdout r) = None"
  shows "sv_running (guess_status p r s) = Some True"
  using assms by (auto simp: guess_status_def if_unknown_def)

text \<open>OpenRC: a service that is missing from the run level is not added, and one that is there is added again.\<close>

lemma openrc_inverted:
  assumes "checked (svc_execute (vt_sys t) (line [sv_enable_cmd s, ''show''])) s = (s', Ok r)"
    and "find_runlevels (vp_name p) (split_on nl (cr_stdout r)) = Ok (Some levels)" and "sv_changed s'"
  shows "snd (openrc_service_enable t p True s) = Ok (if vp_runlevel p \<in> set (vt_spaces t levels) then ''add'' else [])"
  using assms by (simp add: openrc_service_enable_def pbind_def sv_get_def plift_def set_changed_def sv_put_def pret_def)

section \<open>Witnesses\<close>

definition nginx_params :: service_params where
  "nginx_params =
     \<lparr>vp_arguments = [], vp_enabled = None, vp_name = ''nginx'', vp_pattern = [], vp_runlevel = ''default'',
      vp_state = ''started''\<rparr>"

definition nginx_tools :: service_tools where
  "nginx_tools =
     \<lparr>vt_sys = \<lparr>s_os = \<lparr>o_refuse = (\<lambda>_ _. None), o_umask = 0, o_env = (\<lambda>_. ''/bin''), o_uid = 0, o_gid = 0,
                        o_eval_links = (\<lambda>_. None), o_cwd = ''/''\<rparr>,
                 s_environ = [], s_regex = (\<lambda>_. None), s_quote = (\<lambda>s. s), s_shlex = (\<lambda>_. None),
                 s_spawn = (\<lambda>_ _ _. Inl ''no programs'')\<rparr>,
      vt_machine = \<lparr>mc_goos = ''linux'', mc_vendor = ''Debian'', mc_release = ''12'', mc_version = ''12''\<rparr>,
      vt_decode = (\<lambda>_ _. Inr nginx_params), vt_error = (\<lambda>_. ''failed''), vt_glob = (\<lambda>_ _. Ok []), vt_access = (\<lambda>_ _. None),
      vt_upstart_match = (\<lambda>_. None), vt_replace = (\<lambda>_ s. s), vt_spaces = (\<lambda>s. [s])\<rparr>"

definition empty_host :: host_state where "empty_host = \<lparr>h_fs = Map.empty, h_ran = []\<rparr>"

lemma no_init_script_fails_witness:
  "fst (service_run nginx_tools Map.empty empty_host) = empty_host \<and>
   (case snd (service_run nginx_tools Map.empty empty_host) of Ok r \<Rightarrow> r_failed r | Err e \<Rightarrow> False | Panic \<Rightarrow> True)"
proof (rule no_init_script_fails)
  show "service_start nginx_tools Map.empty = Ok nginx_params"
    by (simp add: service_start_def nginx_tools_def validate_service_def nginx_params_def)
  show "mc_goos (vt_machine nginx_tools) = ''linux''"
    by (simp add: nginx_tools_def)
  show "follow_links 40 (h_fs empty_host) (init_script nginx_params) = Err NotExist"
    by (simp add: empty_host_def numeral_eq_Suc)
qed

definition systemd_sample :: service_state where
  "systemd_sample = (new_service empty_host)\<lparr>sv_svc_cmd := ''/bin/systemctl''\<rparr>"

lemma systemd_status_never_witness: "snd (linux_status nginx_tools nginx_params systemd_sample) \<noteq> Ok (Some True)"
  by (rule systemd_status_never) code_simp

end
