(* ===== verification/Hostname.thy ===== *)
theory Hostname
  imports Complex_Main System_Info Run_Command
begin

text \<open>
  The module \<open>hostname\<close> (\<open>modules/hostname/hostname.go\<close>).  A way to keep the name of a host, the
  interface \<open>baseStrategyDeriver\<close> of the code, is a record of programs; the locale \<open>name_file\<close> has
  the contract of those that keep it in a file.  Wrapping an error in another is left out.
\<close>

section \<open>Strategies\<close>

record strategy =
  get_current :: "string run"
  get_permanent :: "string run"
  set_permanent :: "string \<Rightarrow> unit run"
  set_current :: "string \<Rightarrow> unit run"

definition validate_result :: "cmd_result \<Rightarrow> (command_error, unit) outcome" where
  "validate_result r = (if cr_rc r \<noteq> 0 then Err (ExitCode (cr_rc r)) else Ok ())"

text \<open>A command whose result must be that of a success.\<close>

definition run_validated :: "sys \<Rightarrow> string list \<Rightarrow> cmd_result run" where
  "run_validated x args =
     pbind (run_checked x args default_kwargs) (\<lambda>r. pbind (plift (validate_result r)) (\<lambda>_. pret r))"

definition no_set :: "string \<Rightarrow> unit run" where "no_set name = pret ()"

text \<open>The permissions \<open>0644\<close>.\<close>

definition rw_r_r :: file_mode where "rw_r_r = 0x1A4"

subsection \<open>A file with the name\<close>

definition file_get :: "sys \<Rightarrow> string \<Rightarrow> string run" where
  "file_get x file =
     pbind (on_fs (is_regular (s_os x) file)) (\<lambda>b.
       if \<not> b then pret []
       else pbind (on_fs (os_read_file (s_os x) file)) (\<lambda>content. pret (trim_space content)))"

definition file_set :: "sys \<Rightarrow> string \<Rightarrow> string \<Rightarrow> unit run" where
  "file_set x file name = on_fs (os_write_file (s_os x) file (name @ [nl]) rw_r_r)"

definition file_strategy :: "sys \<Rightarrow> string \<Rightarrow> strategy" where
  "file_strategy x file =
     \<lparr>get_current = file_get x file, get_permanent = file_get x file, set_permanent = file_set x file,
      set_current = no_set\<rparr>"

subsection \<open>A file with a line for the name\<close>

text \<open>The file opened for reading, and its content.\<close>

definition open_read :: "sys \<Rightarrow> string \<Rightarrow> string run" where
  "open_read x file =
     on_fs (pbind (os_open (s_os x) file) (\<lambda>q fs.
       (fs, case fs q of Some (File i) \<Rightarrow> Ok (i_data i) | _ \<Rightarrow> Err NotExist)))"

definition file_lines :: "string \<Rightarrow> fs \<Rightarrow> string list" where
  "file_lines q fs = (case fs q of Some (File i) \<Rightarrow> scanned_lines (i_data i) | _ \<Rightarrow> [])"

text \<open>The lines with the entry replaced wherever it stands, or added at the end.\<close>

definition is_entry :: "string \<Rightarrow> string \<Rightarrow> bool" where
  "is_entry key l \<longleftrightarrow> has_prefix (trim_space l) key"

definition put_entry :: "string \<Rightarrow> string \<Rightarrow> string list \<Rightarrow> string list" where
  "put_entry key entry ls =
     (let ls' = map (\<lambda>l. if is_entry key l then entry else l) ls
      in if list_ex (is_entry key) ls then ls' else ls' @ [entry])"

definition rewrite_lines :: "sys \<Rightarrow> string \<Rightarrow> string \<Rightarrow> string \<Rightarrow> unit run" where
  "rewrite_lines x file key entry =
     on_fs (pbind (os_open_rw (s_os x) file rw_r_r) (\<lambda>q fs.
       os_rewrite (s_os x) q (join [nl] (put_entry key entry (file_lines q fs)) @ [nl]) fs))"

text \<open>Red Hat: what stands after the first equals sign; a line without one is passed over.\<close>

fun redhat_find :: "string list \<Rightarrow> string option" where
  "redhat_find [] = None"
| "redhat_find (l # ls) =
     (if is_entry ''HOSTNAME'' l then
        (case split_on (CHR ''='') (trim_space l) of _ # v # _ \<Rightarrow> Some (trim_space v) | _ \<Rightarrow> redhat_find ls)
      else redhat_find ls)"

definition redhat_get :: "sys \<Rightarrow> string \<Rightarrow> string run" where
  "redhat_get x file =
     pbind (open_read x file) (\<lambda>content.
       case redhat_find (scanned_lines content) of
         Some n \<Rightarrow> pret n
       | None \<Rightarrow> plift (Err (ModuleError ''unable to locate HOSTNAME entry'')))"

definition redhat_set :: "sys \<Rightarrow> string \<Rightarrow> string \<Rightarrow> unit run" where
  "redhat_set x file name = rewrite_lines x file ''HOSTNAME'' (''HOSTNAME='' @ name)"

definition redhat_strategy :: "sys \<Rightarrow> strategy" where
  "redhat_strategy x =
     (let file = ''/etc/sysconfig/network'' in
      \<lparr>get_current = redhat_get x file, get_permanent = redhat_get x file, set_permanent = redhat_set x file,
       set_current = no_set\<rparr>)"

text \<open>
  OpenRC and FreeBSD: the value from the tenth byte after the start of the entry, without quotes;
  a line that ends before panics.
\<close>

definition quoted_value :: "string \<Rightarrow> (command_error, string) outcome" where
  "quoted_value l = (if length l < 10 then Panic else Ok (trim_set [CHR 0x22] (drop 10 l)))"

definition quoted_find :: "string list \<Rightarrow> (command_error, string) outcome" where
  "quoted_find ls =
     (case find (is_entry ''hostname='') ls of
        Some l \<Rightarrow> quoted_value (trim_space l)
      | None \<Rightarrow> Err (ModuleError ''couldn't find hostname line''))"

definition quoted_get :: "sys \<Rightarrow> string \<Rightarrow> string run" where
  "quoted_get x file =
     pbind (on_fs (is_regular (s_os x) file)) (\<lambda>b.
       if \<not> b then pret []
       else pbind (open_read x file) (\<lambda>content. plift (quoted_find (scanned_lines content))))"

definition quoted_entry :: "string \<Rightarrow> string" where
  "quoted_entry name = ''hostname='' @ [CHR 0x22] @ name @ [CHR 0x22]"

definition openrc_set :: "sys \<Rightarrow> string \<Rightarrow> string \<Rightarrow> unit run" where
  "openrc_set x file name = rewrite_lines x file ''hostname='' (quoted_entry name)"

definition openrc_strategy :: "sys \<Rightarrow> strategy" where
  "openrc_strategy x =
     (let file = ''/etc/conf.d/hostname'' in
      \<lparr>get_current = quoted_get x file, get_permanent = quoted_get x file, set_permanent = openrc_set x file,
       set_current = no_set\<rparr>)"

text \<open>FreeBSD keeps the other lines without the blanks around them, and makes the file if it is no regular one.\<close>

definition freebsd_set :: "sys \<Rightarrow> string \<Rightarrow> string \<Rightarrow> unit run" where
  "freebsd_set x file name =
     pbind (on_fs (is_regular (s_os x) file)) (\<lambda>b.
       on_fs (pbind (if b then os_open_rw (s_os x) file rw_r_r else os_create (s_os x) file) (\<lambda>q fs.
         os_rewrite (s_os x) q
           (join [nl] (put_entry ''hostname='' (quoted_entry name)
                         (if b then map trim_space (file_lines q fs) else [])) @ [nl]) fs)))"

definition command_get :: "sys \<Rightarrow> string list \<Rightarrow> string run" where
  "command_get x args = pbind (run_validated x args) (\<lambda>r. pret (trim_space (cr_stdout r)))"

definition command_set :: "sys \<Rightarrow> string list \<Rightarrow> unit run" where
  "command_set x args = pbind (run_validated x args) (\<lambda>_. pret ())"

definition freebsd_strategy :: "sys \<Rightarrow> string \<Rightarrow> strategy" where
  "freebsd_strategy x cmd =
     (let file = ''/etc/rc.conf.d/hostname'' in
      \<lparr>get_current = command_get x [cmd], get_permanent = quoted_get x file, set_permanent = freebsd_set x file,
       set_current = (\<lambda>name. command_set x [cmd, name])\<rparr>)"

subsection \<open>Commands\<close>

definition alpine_set_current :: "sys \<Rightarrow> string \<Rightarrow> unit run" where
  "alpine_set_current x name =
     pbind (on_fs (get_bin_path (s_os x) ''hostname'' [] True)) (\<lambda>cmd. command_set x [cmd, ''-F'', ''/etc/hostname''])"

definition alpine_strategy :: "sys \<Rightarrow> strategy" where
  "alpine_strategy x = (file_strategy x ''/etc/hostname'')\<lparr>set_current := alpine_set_current x\<rparr>"

definition solaris_get :: "sys \<Rightarrow> string run" where
  "solaris_get x =
     pbind (run_command x (ArgText ''/usr/sbin/svccfg -s svc:/system/identity:node listprop -o value config/nodename'')
              (default_kwargs\<lparr>k_unsafe_shell := True\<rparr>)) (\<lambda>(r, _).
     case res_err r of
       Some e \<Rightarrow> plift (Err e)
     | None \<Rightarrow>
         pbind (plift (the_res r)) (\<lambda>r.
         pbind (plift (validate_result r)) (\<lambda>_. pret (trim_space (cr_stdout r)))))"

definition solaris_set :: "sys \<Rightarrow> string \<Rightarrow> bool \<Rightarrow> string \<Rightarrow> unit run" where
  "solaris_set x cmd permanent name = command_set x (if permanent then [cmd, name] else [cmd, ''-t'', name])"

definition solaris_strategy :: "sys \<Rightarrow> string \<Rightarrow> strategy" where
  "solaris_strategy x cmd =
     \<lparr>get_current = solaris_get x, get_permanent = solaris_get x, set_permanent = solaris_set x cmd True,
      set_current = solaris_set x cmd False\<rparr>"

definition systemd_get :: "sys \<Rightarrow> string \<Rightarrow> bool \<Rightarrow> string run" where
  "systemd_get x cmd permanent =
     command_get x [cmd, if permanent then ''--static'' else ''--transient'', ''status'']"

definition systemd_set :: "sys \<Rightarrow> string \<Rightarrow> string \<Rightarrow> string \<Rightarrow> unit run" where
  "systemd_set x cmd flag name =
     (if length name > 64 then plift (Err (ModuleError ''name cannot be longer than 64 characters on systemd servers''))
      else command_set x [cmd, flag, ''set-hostname'', name])"

definition systemd_strategy :: "sys \<Rightarrow> string \<Rightarrow> strategy" where
  "systemd_strategy x cmd =
     \<lparr>get_current = systemd_get x cmd False, get_permanent = systemd_get x cmd True,
      set_permanent = (\<lambda>name. pbind (systemd_set x cmd ''--pretty'' name) (\<lambda>_. systemd_set x cmd ''--static'' name)),
      set_current = systemd_set x cmd ''--transient''\<rparr>"

definition base_strategy :: strategy where
  "base_strategy =
     \<lparr>get_current = plift (Err (ModuleError ''getting hostname is not implemented'')),
      get_permanent = plift (Err (ModuleError ''getting hostname is not implemented'')),
      set_permanent = (\<lambda>_. plift (Err (ModuleError ''setting hostname is not implemented''))),
      set_current = no_set\<rparr>"

section \<open>Updating\<close>

text \<open>
  The error of setting a name is compared with the error of getting it, nil here, and that nil is
  returned when they differ: setting that fails counts as success without a change.
\<close>

definition update_current :: "strategy \<Rightarrow> string \<Rightarrow> bool run" where
  "update_current d name =
     pbind (get_current d) (\<lambda>cur.
       if cur = name then pret False
       else pbind (ptry (set_current d name)) (\<lambda>r. pret (case r of Inr _ \<Rightarrow> True | Inl _ \<Rightarrow> False)))"

definition update_permanent :: "strategy \<Rightarrow> string \<Rightarrow> bool run" where
  "update_permanent d name =
     pbind (get_permanent d) (\<lambda>cur.
       if cur = name then pret False
       else pbind (ptry (set_permanent d name)) (\<lambda>r. pret (case r of Inr _ \<Rightarrow> True | Inl _ \<Rightarrow> False)))"

definition update_both :: "strategy \<Rightarrow> string \<Rightarrow> bool run" where
  "update_both d name =
     pbind (ptry (update_current d name)) (\<lambda>c.
       case c of
         Inl _ \<Rightarrow> pret False
       | Inr c \<Rightarrow>
           pbind (ptry (update_permanent d name)) (\<lambda>p. pret (case p of Inl _ \<Rightarrow> False | Inr p \<Rightarrow> c \<or> p)))"

section \<open>The module\<close>

record hostname_params =
  hp_name :: string
  hp_use :: string

record hostname_tools =
  ht_sys :: sys
  ht_machine :: machine
  ht_decode :: "vars \<Rightarrow> hostname_params \<Rightarrow> string + hostname_params"
  ht_fqdn :: "host_state \<Rightarrow> string + string"
  ht_float :: "string \<Rightarrow> rat option"

definition unimplemented_strategy :: "machine \<Rightarrow> (command_error, 'a) outcome" where
  "unimplemented_strategy mc =
     obind (platform mc) (\<lambda>pf.
     obind (distribution mc) (\<lambda>d.
       Err (ModuleError (''hostname module cannot be used on platform '' @ pf @ (if d = [] then [] else '' ('' @ d @ '')'')))))"

definition new_sles :: "hostname_tools \<Rightarrow> strategy run" where
  "new_sles t =
     pbind (plift (distribution_version (ht_machine t))) (\<lambda>v.
       case ht_float t v of
         None \<Rightarrow> plift (Err (ModuleError ''invalid syntax''))
       | Some n \<Rightarrow>
           if 10 \<le> n \<and> n \<le> 12 then pret (file_strategy (ht_sys t) ''/etc/HOSTNAME'')
           else plift (unimplemented_strategy (ht_machine t)))"

definition new_with_binary :: "hostname_tools \<Rightarrow> string \<Rightarrow> (sys \<Rightarrow> string \<Rightarrow> strategy) \<Rightarrow> strategy run" where
  "new_with_binary t bin f =
     pbind (on_fs (get_bin_path (s_os (ht_sys t)) bin [] True)) (\<lambda>path. pret (f (ht_sys t) path))"

definition new_freebsd :: "hostname_tools \<Rightarrow> strategy run" where
  "new_freebsd t = new_with_binary t ''hostname'' freebsd_strategy"

definition new_solaris :: "hostname_tools \<Rightarrow> strategy run" where
  "new_solaris t = new_with_binary t ''hostname'' solaris_strategy"

definition new_systemd :: "hostname_tools \<Rightarrow> strategy run" where
  "new_systemd t = new_with_binary t ''hostnamectl'' systemd_strategy"

definition new_darwin :: "strategy run" where
  "new_darwin = plift (Err (ModuleError ''darwin strategy is not implemented''))"

definition redhat_like :: "string list" where
  "redhat_like =
     [''Redhat'', ''Anolis'', ''Cloudlinuxserver'', ''Cloudlinux'', ''Alinux'', ''Scientific'', ''Oracle'',
      ''Virtuozzo'', ''Amazon'', ''Altlinux'', ''Eurolinux'']"

definition debian_like :: "string list" where
  "debian_like =
     [''Debian'', ''Kylin'', ''Cumulus-linux'', ''Kali'', ''Parrot'', ''Ubuntu'', ''Linuxmint'', ''Linaro'',
      ''Devuan'', ''Raspbian'', ''Neon'', ''Void'', ''Pop'']"

definition linux_strategies :: "hostname_tools \<Rightarrow> string \<rightharpoonup> strategy run" where
  "linux_strategies t d =
     (if d = ''Sles'' then Some (new_sles t)
      else if d \<in> set redhat_like then Some (pret (redhat_strategy (ht_sys t)))
      else if d \<in> set debian_like then Some (pret (file_strategy (ht_sys t) ''/etc/hostname''))
      else if d = ''Gentoo'' then Some (pret (openrc_strategy (ht_sys t)))
      else if d = ''Alpine'' then Some (pret (alpine_strategy (ht_sys t)))
      else None)"

definition platform_to_strategy :: "hostname_tools \<Rightarrow> string \<rightharpoonup> (string \<rightharpoonup> strategy run)" where
  "platform_to_strategy t =
     [''Linux'' \<mapsto> linux_strategies t,
      ''OpenBSD'' \<mapsto> [[] \<mapsto> pret (file_strategy (ht_sys t) ''/etc/myname'')],
      ''SunOS'' \<mapsto> [[] \<mapsto> new_solaris t],
      ''FreeBSD'' \<mapsto> [[] \<mapsto> new_freebsd t],
      ''NetBSD'' \<mapsto> [[] \<mapsto> new_freebsd t],
      ''Darwin'' \<mapsto> [[] \<mapsto> new_darwin]]"

definition strats :: "hostname_tools \<Rightarrow> string \<rightharpoonup> strategy run" where
  "strats t =
     [''alpine'' \<mapsto> pret (alpine_strategy (ht_sys t)), ''debian'' \<mapsto> new_systemd t, ''freebsd'' \<mapsto> new_freebsd t,
      ''generic'' \<mapsto> pret base_strategy, ''macos'' \<mapsto> new_darwin, ''macosx'' \<mapsto> new_darwin, ''darwin'' \<mapsto> new_darwin,
      ''openbsd'' \<mapsto> pret (file_strategy (ht_sys t) ''/etc/myname''), ''openrc'' \<mapsto> pret (openrc_strategy (ht_sys t)),
      ''redhat'' \<mapsto> pret (redhat_strategy (ht_sys t)), ''sles'' \<mapsto> new_sles t, ''solaris'' \<mapsto> new_solaris t,
      ''systemd'' \<mapsto> new_systemd t]"

definition get_strategy :: "hostname_tools \<Rightarrow> hostname_params \<Rightarrow> strategy run" where
  "get_strategy t p =
     (if hp_use p \<noteq> [] then (case strats t (hp_use p) of Some s \<Rightarrow> s | None \<Rightarrow> plift Panic)
      else
        pbind (on_fs (is_systemd_managed (s_os (ht_sys t)))) (\<lambda>systemd.
        pbind (plift (platform (ht_machine t))) (\<lambda>pf.
          if pf = ''Linux'' \<and> systemd then new_systemd t
          else
            pbind (plift (platform_specific_value (ht_machine t) (platform_to_strategy t))) (\<lambda>s.
              case s of Some s \<Rightarrow> s | None \<Rightarrow> plift (unimplemented_strategy (ht_machine t))))))"

definition validate_hostname :: "hostname_tools \<Rightarrow> hostname_params \<Rightarrow> (command_error, unit) outcome" where
  "validate_hostname t p =
     (if hp_name p = [] then Err (ModuleError ''parameter name for module hostname must be provided'')
      else if hp_use p \<noteq> [] \<and> strats t (hp_use p) = None then Err (ModuleError (''unknown stategy '' @ hp_use p))
      else Ok ())"

record hostname_return =
  hn_changed :: bool
  hn_diff :: "string \<times> string"
  hn_name :: string
  hn_facts :: "string \<rightharpoonup> string"
  hn_exception :: string

definition hostname_facts :: "string \<Rightarrow> string + string \<Rightarrow> string \<rightharpoonup> string" where
  "hostname_facts name fqdn =
     (let facts = [''ansible_hostname'' \<mapsto> hd (split_on (CHR ''.'') name), ''ansible_nodename'' \<mapsto> name]
      in case fqdn of
           Inl e \<Rightarrow> facts
         | Inr f \<Rightarrow> facts(''ansible_fqdn'' \<mapsto> f, ''ansible_domain'' \<mapsto> join ''.'' (tl (split_on (CHR ''.'') f))))"

definition hostname_body :: "hostname_tools \<Rightarrow> hostname_params \<Rightarrow> hostname_return run" where
  "hostname_body t p =
     pbind (get_strategy t p) (\<lambda>d.
     pbind (get_current d) (\<lambda>cur.
     pbind (get_permanent d) (\<lambda>perm.
     pbind (update_both d (hp_name p)) (\<lambda>changed h.
       let before = (if hp_name p \<noteq> cur then cur else perm)
       in (h, Ok \<lparr>hn_changed = changed,
                  hn_diff = (if changed then (''hostname = '' @ before @ [nl], ''hostname = '' @ hp_name p @ [nl]) else ([], [])),
                  hn_name = hp_name p, hn_facts = hostname_facts (hp_name p) (ht_fqdn t h),
                  hn_exception = (case ht_fqdn t h of Inl e \<Rightarrow> e | Inr _ \<Rightarrow> [])\<rparr>)))))"

text \<open>
  The module embeds the module of the helpers by a pointer, which \<open>New\<close> leaves nil: \<open>None\<close>.
\<close>

definition new_hostname :: "hostname_params option" where
  "new_hostname = None"

definition hostname_run :: "hostname_tools \<Rightarrow> hostname_params option \<Rightarrow> vars \<Rightarrow> hostname_return run" where
  "hostname_run t m vs =
     (case m of
        None \<Rightarrow> plift Panic
      | Some dflt \<Rightarrow>
          (case ht_decode t vs dflt of
             Inl e \<Rightarrow> plift (Err (ModuleError e))
           | Inr p \<Rightarrow> pbind (plift (validate_hostname t p)) (\<lambda>_. hostname_body t p)))"

lemma new_hostname_panics: "hostname_run t new_hostname vs h = (h, Panic)"
  by (simp add: hostname_run_def new_hostname_def plift_def)

section \<open>Names kept in a file\<close>

definition host_char :: "char \<Rightarrow> bool" where
  "host_char c \<longleftrightarrow> c \<in> set ''abcdefghijklmnopqrstuvwxyzABCDEFGHIJKLMNOPQRSTUVWXYZ0123456789-.''"

definition plain_name :: "string \<Rightarrow> bool" where
  "plain_name name \<longleftrightarrow> name \<noteq> [] \<and> length name < 1000 \<and> list_all host_char name"

lemma host_char_plain:
  assumes "host_char c"
  shows "no_space_byte c" "c \<noteq> nl" "c \<noteq> CHR 0x0D" "c \<noteq> CHR ''=''" "c \<noteq> CHR 0x22"
proof -
  have "list_all (\<lambda>c. no_space_byte c \<and> c \<noteq> nl \<and> c \<noteq> CHR 0x0D \<and> c \<noteq> CHR ''='' \<and> c \<noteq> CHR 0x22)
      ''abcdefghijklmnopqrstuvwxyzABCDEFGHIJKLMNOPQRSTUVWXYZ0123456789-.''"
    by code_simp
  with assms show "no_space_byte c" "c \<noteq> nl" "c \<noteq> CHR 0x0D" "c \<noteq> CHR ''=''" "c \<noteq> CHR 0x22"
    by (auto simp: host_char_def list_all_iff)
qed

text \<open>The contract of a strategy that keeps the name in a file: what was set is what is got.\<close>

locale name_file =
  fixes d :: strategy and ready :: "host_state \<Rightarrow> bool"
  assumes same: "get_current d = get_permanent d"
    and set_get: "ready h \<Longrightarrow> plain_name name \<Longrightarrow> set_permanent d name h = (h', Ok ()) \<Longrightarrow>
      get_permanent d h' = (h', Ok name)"
begin

lemma settled:
  assumes "ready h" "plain_name name" "set_permanent d name h = (h', Ok ())"
  shows "get_permanent d h' = (h', Ok name) \<and> update_both d name h' = (h', Ok False)"
  using set_get [OF assms]
  by (simp add: update_both_def update_current_def update_permanent_def same pbind_def ptry_def pret_def)

end

section \<open>The file with the name alone\<close>

text \<open>The file may be read, and is missing or a regular one.\<close>

definition readable :: "sys \<Rightarrow> string \<Rightarrow> bool" where
  "readable x file \<longleftrightarrow> o_refuse (s_os x) Stat [file] = None \<and> o_refuse (s_os x) OpenRead [file] = None"

definition regular_or_missing :: "sys \<Rightarrow> string \<Rightarrow> host_state \<Rightarrow> bool" where
  "regular_or_missing x file h \<longleftrightarrow> readable x file \<and>
     (\<forall>q i. follow_links 40 (h_fs h) file = Ok (q, i) \<longrightarrow> i_mode i AND mode_type = 0)"

lemma on_fs_Ok_iff: "on_fs f h = (h', Ok a) \<longleftrightarrow> (\<exists>fs'. f (h_fs h) = (fs', Ok a) \<and> h' = h\<lparr>h_fs := fs'\<rparr>)"
  by (cases "f (h_fs h)"; cases "snd (f (h_fs h))") (auto simp: on_fs_def)

lemma new_file_regular: "(rw_r_r AND NOT m) AND mode_type = 0"
proof -
  have "rw_r_r AND mode_type = 0"
    by (simp add: rw_r_r_def mode_type_def)
  moreover have "(rw_r_r AND NOT m) AND mode_type = (rw_r_r AND mode_type) AND NOT m"
    by (simp add: ac_simps)
  ultimately show ?thesis by simp
qed

lemma os_open_Ok:
  "os_open x p fs = (fs', Ok q) \<longleftrightarrow> fs' = fs \<and> o_refuse x OpenRead [p] = None \<and> (\<exists>i. follow_links 40 fs p = Ok (q, i))"
  by (cases "o_refuse x OpenRead [p]"; cases "follow_links 40 fs p")
     (auto simp: os_open_def pbind_def refused_def plift_def resolve_def pret_def)

lemma regular_no_directory: "i_mode i AND mode_type = 0 \<Longrightarrow> \<not> is_directory i"
proof -
  assume r: "i_mode i AND mode_type = 0"
  have "mode_type AND mode_dir = mode_dir" by (simp add: mode_type_def mode_dir_def)
  then have "i_mode i AND mode_dir = (i_mode i AND mode_type) AND mode_dir"
    by (simp add: and.assoc)
  with r show ?thesis by (simp add: is_directory_def)
qed

lemma readable_file:
  assumes "readable x file" "follow_links 40 (h_fs h) file = Ok (q, i)" "i_mode i AND mode_type = 0"
  shows "on_fs (is_regular (s_os x) file) h = (h, Ok True)"
    and "on_fs (os_read_file (s_os x) file) h = (h, Ok (i_data i))"
    and "open_read x file h = (h, Ok (i_data i))"
  using assms(1,2) follow_links_found [OF assms(2)] regular_no_directory [OF assms(3)] assms(3)
  by (simp_all add: on_fs_def is_regular_def os_read_file_def open_read_def os_open_def readable_def os_stat_def
      pbind_def refused_def plift_def resolve_def pret_def)

lemma written_file:
  assumes "os_write_file x p d rw_r_r fs = (fs', Ok ())"
    and "\<And>q i. follow_links 40 fs p = Ok (q, i) \<Longrightarrow> i_mode i AND mode_type = 0"
  shows "\<exists>q i. follow_links 40 fs' p = Ok (q, i) \<and> i_data i = d \<and> i_mode i AND mode_type = 0"
proof (cases "follow_links 40 fs p")
  case (Ok a)
  then obtain q i where fl: "follow_links 40 fs p = Ok (q, i)" by (cases a) auto
  then have "fs' = fs(q \<mapsto> File (i\<lparr>i_data := d\<rparr>))"
    using assms(1) by (auto simp: os_write_file_def pbind_def refused_def plift_def split: option.splits if_splits)
  then show ?thesis
    using follow_links_upd [OF fl] assms(2) [OF fl] by auto
next
  case (Err e)
  then have "\<exists>i. fs' = fs(p \<mapsto> File i) \<and> i_data i = d \<and> i_mode i AND mode_type = 0"
    using assms(1) by (cases e) (auto simp: os_write_file_def pbind_def refused_def plift_def new_file_regular split: option.splits)
  moreover have "follow_links 40 (fs(p \<mapsto> File i)) p = Ok (p, i)" for i
    using follow_links.simps(2) [of 39 "fs(p \<mapsto> File i)" p] by simp
  ultimately show ?thesis by auto
qed (use assms(1) in \<open>auto simp: os_write_file_def pbind_def refused_def plift_def split: option.splits\<close>)

lemma plain_ends: "plain_name name \<Longrightarrow> name \<noteq> [] \<and> no_space_byte (hd name) \<and> no_space_byte (last name)"
  using host_char_plain(1) by (auto simp: plain_name_def list_all_iff)

lemma trim_name:
  assumes "plain_name name"
  shows "trim_space (name @ [nl]) = name" "trim_space name = name"
proof -
  note ends = plain_ends [OF assms]
  have "strip_words go_spaces (name @ [nl]) = name @ [nl]"
    using ends by (intro strip_words_no_space) (simp add: hd_append)
  moreover have "strip_words (map rev go_spaces) (nl # rev name) = strip_words (map rev go_spaces) (rev name)"
  proof -
    have "find (\<lambda>w. w \<noteq> [] \<and> has_prefix (nl # rev name) w) (map rev go_spaces) = Some [nl]"
      by (simp add: go_spaces_def has_prefix_def)
    then show ?thesis
      by (simp add: strip_words.simps [of "map rev go_spaces" "nl # rev name"])
  qed
  moreover have "strip_words (map rev go_spaces) (rev name) = rev name"
    using ends by (intro strip_words_no_space) (simp add: hd_rev)
  ultimately show "trim_space (name @ [nl]) = name"
    by (simp add: trim_space_def)
  show "trim_space name = name"
    using ends by (intro trim_space_id) simp
qed

lemma file_set_get:
  assumes "regular_or_missing x file h" "plain_name name" "file_set x file name h = (h', Ok ())"
  shows "file_get x file h' = (h', Ok name)"
proof -
  obtain fs' where w: "os_write_file (s_os x) file (name @ [nl]) rw_r_r (h_fs h) = (fs', Ok ())" "h' = h\<lparr>h_fs := fs'\<rparr>"
    using assms(3) by (auto simp: file_set_def on_fs_Ok_iff)
  obtain q i where i: "follow_links 40 (h_fs h') file = Ok (q, i)" "i_data i = name @ [nl]" "i_mode i AND mode_type = 0"
    using written_file [OF w(1)] assms(1) w(2) by (auto simp: regular_or_missing_def)
  have "readable x file" using assms(1) by (simp add: regular_or_missing_def)
  from readable_file [OF this i(1,3)] show ?thesis
    by (simp add: file_get_def pbind_def pret_def i(2) trim_name [OF assms(2)])
qed

text \<open>Alpine sets the current name by a command; the other strategies of a file leave it alone.\<close>

interpretation plain_file: name_file "file_strategy x path" "regular_or_missing x path" for x path
  by unfold_locales (simp_all add: file_strategy_def file_set_get)

section \<open>The line for the name\<close>

definition no_cr_file :: "sys \<Rightarrow> string \<Rightarrow> host_state \<Rightarrow> bool" where
  "no_cr_file x file h \<longleftrightarrow> readable x file \<and>
     (\<forall>q i. follow_links 40 (h_fs h) file = Ok (q, i) \<longrightarrow> i_mode i AND mode_type = 0 \<and> CHR 0x0D \<notin> set (i_data i))"

definition good_line :: "string \<Rightarrow> bool" where
  "good_line l \<longleftrightarrow> nl \<notin> set l \<and> CHR 0x0D \<notin> set l \<and> length l < 65536"

lemma put_entry_good: "list_all good_line ls \<Longrightarrow> good_line entry \<Longrightarrow> list_all good_line (put_entry key entry ls)"
  by (auto simp: put_entry_def list_all_iff Let_def)

lemma put_entry_ne: "put_entry key entry ls \<noteq> []"
  by (auto simp: put_entry_def Let_def)

lemma scanned_good: "CHR 0x0D \<notin> set s \<Longrightarrow> list_all good_line (scanned_lines s)"
  using scanned_lines_no_nl scanned_lines_no_cr by (fastforce simp: list_all_iff good_line_def)

text \<open>The first line that is an entry is the one put.\<close>

lemma find_put_entry: "is_entry key entry \<Longrightarrow> find (is_entry key) (put_entry key entry ls) = Some entry"
proof -
  assume e: "is_entry key entry"
  have "find (is_entry key) (map (\<lambda>l. if is_entry key l then entry else l) ls) = Some entry"
    if "list_ex (is_entry key) ls"
    using that e by (induction ls) auto
  moreover have "find (is_entry key) (map (\<lambda>l. if is_entry key l then entry else l) ls @ [entry]) = Some entry"
    if "\<not> list_ex (is_entry key) ls"
    using that e by (induction ls) auto
  ultimately show ?thesis
    by (cases "list_ex (is_entry key) ls") (simp_all add: put_entry_def Let_def)
qed

lemma open_rw_Ok:
  assumes "os_open_rw x p rw_r_r fs = (fs', Ok q)"
    and "\<And>q i. follow_links 40 fs p = Ok (q, i) \<Longrightarrow> i_mode i AND mode_type = 0 \<and> CHR 0x0D \<notin> set (i_data i)"
  shows "\<exists>i. follow_links 40 fs' p = Ok (q, i) \<and> i_mode i AND mode_type = 0 \<and> CHR 0x0D \<notin> set (i_data i)"
proof (cases "follow_links 40 fs p")
  case (Ok a)
  then obtain q' i where fl: "follow_links 40 fs p = Ok (q', i)" by (cases a) auto
  then have "fs' = fs" "q = q'"
    using assms(1) by (auto simp: os_open_rw_def pbind_def refused_def plift_def split: option.splits if_splits)
  with fl assms(2) [OF fl] show ?thesis by auto
next
  case (Err e)
  then have "q = p" "\<exists>i. fs' = fs(p \<mapsto> File i) \<and> i_data i = [] \<and> i_mode i AND mode_type = 0"
    using assms(1)
    by (cases e; auto simp: os_open_rw_def pbind_def refused_def plift_def new_file_regular split: option.splits)+
  moreover have "follow_links 40 (fs(p \<mapsto> File i)) p = Ok (p, i)" for i
    using follow_links.simps(2) [of 39 "fs(p \<mapsto> File i)" p] by simp
  ultimately show ?thesis by auto
qed (use assms(1) in \<open>auto simp: os_open_rw_def pbind_def refused_def plift_def split: option.splits\<close>)

lemma os_rewrite_Ok:
  assumes "os_rewrite x q d fs = (fs', Ok ())" "follow_links 40 fs p = Ok (q, i)"
  shows "follow_links 40 fs' p = Ok (q, i\<lparr>i_data := d\<rparr>)"
proof -
  have "fs' = fs(q \<mapsto> File (i\<lparr>i_data := d\<rparr>))"
    using assms(1) follow_links_found [OF assms(2)]
    by (auto simp: os_rewrite_def pbind_def refused_def plift_def set_data_def split: option.splits)
  then show ?thesis using follow_links_upd [OF assms(2)] by simp
qed

lemma rewritten:
  assumes "no_cr_file x file h" "good_line entry" "rewrite_lines x file key entry h = (h', Ok ())"
  shows "\<exists>q i ls. follow_links 40 (h_fs h') file = Ok (q, i) \<and> i_mode i AND mode_type = 0
    \<and> scanned_lines (i_data i) = put_entry key entry ls"
proof -
  obtain q fs1 fs2 where o: "os_open_rw (s_os x) file rw_r_r (h_fs h) = (fs1, Ok q)"
    and w: "os_rewrite (s_os x) q (join [nl] (put_entry key entry (file_lines q fs1)) @ [nl]) fs1 = (fs2, Ok ())"
    and h': "h' = h\<lparr>h_fs := fs2\<rparr>"
    using assms(3) by (auto simp: rewrite_lines_def on_fs_Ok_iff pbind_Ok_iff)
  obtain i where i: "follow_links 40 fs1 file = Ok (q, i)" "i_mode i AND mode_type = 0" "CHR 0x0D \<notin> set (i_data i)"
    using open_rw_Ok [OF o] assms(1) by (auto simp: no_cr_file_def)
  have "file_lines q fs1 = scanned_lines (i_data i)"
    using follow_links_found [OF i(1)] by (simp add: file_lines_def)
  then have "list_all good_line (put_entry key entry (file_lines q fs1))"
    using put_entry_good scanned_good i(3) assms(2) by simp
  then have "scanned_lines (join [nl] (put_entry key entry (file_lines q fs1)) @ [nl]) = put_entry key entry (file_lines q fs1)"
    by (intro scanned_lines_join put_entry_ne) (auto simp: list_all_iff good_line_def)
  then show ?thesis
    using os_rewrite_Ok [OF w i(1)] i(2) h' by auto
qed

lemma name_set: "plain_name name \<Longrightarrow> nl \<notin> set name \<and> CHR 0x0D \<notin> set name \<and> CHR ''='' \<notin> set name \<and> CHR 0x22 \<notin> set name"
  using host_char_plain by (fastforce simp: plain_name_def list_all_iff)

subsection \<open>Red Hat\<close>

definition redhat_entry :: "string \<Rightarrow> string" where
  "redhat_entry name = ''HOSTNAME='' @ name"

lemma entry_ends: "no_space_byte (CHR ''H'')" "no_space_byte (CHR ''h'')" "no_space_byte (CHR 0x22)"
  by code_simp+

lemma redhat_entry_facts:
  assumes "plain_name name"
  shows "trim_space (redhat_entry name) = redhat_entry name"
    "split_on (CHR ''='') (redhat_entry name) = [''HOSTNAME'', name]"
    "is_entry ''HOSTNAME'' (redhat_entry name)" "good_line (redhat_entry name)"
proof -
  note ends = plain_ends [OF assms] and ns = name_set [OF assms]
  show t: "trim_space (redhat_entry name) = redhat_entry name"
    using ends entry_ends by (intro trim_space_id) (simp add: redhat_entry_def)
  show "split_on (CHR ''='') (redhat_entry name) = [''HOSTNAME'', name]"
    using split_on_append [of "CHR ''=''" "''HOSTNAME''" name] split_on_single [of "CHR ''=''" name] ns
    by (simp add: redhat_entry_def)
  show "is_entry ''HOSTNAME'' (redhat_entry name)"
    unfolding is_entry_def t by (simp add: redhat_entry_def has_prefix_def)
  show "good_line (redhat_entry name)"
    using ns assms by (auto simp: good_line_def redhat_entry_def plain_name_def)
qed

lemma redhat_find_first:
  assumes "find (is_entry ''HOSTNAME'') ls = Some l" "split_on (CHR ''='') (trim_space l) = k # v # r"
  shows "redhat_find ls = Some (trim_space v)"
  using assms by (induction ls) (auto split: if_splits)

lemma redhat_set_get:
  assumes "no_cr_file x file h" "plain_name name" "redhat_set x file name h = (h', Ok ())"
  shows "redhat_get x file h' = (h', Ok name)"
proof -
  note e = redhat_entry_facts [OF assms(2)]
  obtain q i ls where i: "follow_links 40 (h_fs h') file = Ok (q, i)" "i_mode i AND mode_type = 0"
    "scanned_lines (i_data i) = put_entry ''HOSTNAME'' (redhat_entry name) ls"
    using rewritten [OF assms(1) e(4)] assms(3) unfolding redhat_set_def redhat_entry_def by blast
  have found: "redhat_find (scanned_lines (i_data i)) = Some name"
    unfolding i(3)
    using redhat_find_first [OF find_put_entry [OF e(3)], of "''HOSTNAME''" name "[]"] e(1,2) trim_name(2) [OF assms(2)]
    by simp
  have "readable x file" using assms(1) by (simp add: no_cr_file_def)
  from readable_file(3) [OF this i(1,2)] found show ?thesis
    by (simp add: redhat_get_def pbind_def pret_def)
qed

interpretation redhat: name_file "redhat_strategy x" "no_cr_file x ''/etc/sysconfig/network''" for x
  by unfold_locales (simp_all add: redhat_strategy_def Let_def redhat_set_get)

subsection \<open>OpenRC\<close>

lemma trim_quote:
  assumes "CHR 0x22 \<notin> set name"
  shows "trim_set [CHR 0x22] (name @ [CHR 0x22]) = name"
proof -
  have keep: "dropWhile (\<lambda>c. c = CHR 0x22) s = s" if "CHR 0x22 \<notin> set s" for s
    using that by (cases s) auto
  have "dropWhile (\<lambda>c. c = CHR 0x22) (name @ [CHR 0x22]) = (if name = [] then [] else name @ [CHR 0x22])"
    using assms by (cases name) auto
  then show ?thesis
    using keep [of "rev name"] assms by (simp add: trim_set_def)
qed

lemma quoted_entry_facts:
  assumes "plain_name name"
  shows "trim_space (quoted_entry name) = quoted_entry name" "quoted_value (quoted_entry name) = Ok name"
    "is_entry ''hostname='' (quoted_entry name)" "good_line (quoted_entry name)"
proof -
  note ends = plain_ends [OF assms] and ns = name_set [OF assms]
  show t: "trim_space (quoted_entry name) = quoted_entry name"
    using entry_ends by (intro trim_space_id) (simp add: quoted_entry_def)
  show "quoted_value (quoted_entry name) = Ok name"
    using ns trim_quote [of name] by (simp add: quoted_value_def quoted_entry_def)
  show "is_entry ''hostname='' (quoted_entry name)"
    unfolding is_entry_def t by (simp add: quoted_entry_def has_prefix_def)
  show "good_line (quoted_entry name)"
    using ns assms by (auto simp: good_line_def quoted_entry_def plain_name_def)
qed

lemma openrc_set_get:
  assumes "no_cr_file x file h" "plain_name name" "openrc_set x file name h = (h', Ok ())"
  shows "quoted_get x file h' = (h', Ok name)"
proof -
  note e = quoted_entry_facts [OF assms(2)]
  obtain q i ls where i: "follow_links 40 (h_fs h') file = Ok (q, i)" "i_mode i AND mode_type = 0"
    "scanned_lines (i_data i) = put_entry ''hostname='' (quoted_entry name) ls"
    using rewritten [OF assms(1) e(4)] assms(3) unfolding openrc_set_def by blast
  have found: "quoted_find (scanned_lines (i_data i)) = Ok name"
    unfolding i(3) quoted_find_def find_put_entry [OF e(3)] using e(1,2) by simp
  have "readable x file" using assms(1) by (simp add: no_cr_file_def)
  from readable_file(1,3) [OF this i(1,2)] found show ?thesis
    by (simp add: quoted_get_def pbind_def plift_def)
qed

interpretation openrc: name_file "openrc_strategy x" "no_cr_file x ''/etc/conf.d/hostname''" for x
  by unfold_locales (simp_all add: openrc_strategy_def Let_def openrc_set_get)

section \<open>Setting that fails\<close>

text \<open>The short lines: an entry of nine bytes panics.\<close>

lemma short_entry_panics: "quoted_find (''hostname='' # ls) = Panic"
proof -
  have "trim_space ''hostname='' = ''hostname=''" by code_simp
  then show ?thesis by (simp add: quoted_find_def quoted_value_def is_entry_def has_prefix_def)
qed

lemma failed_setting_hidden:
  assumes "get_permanent d h = (h1, Ok cur)" "cur \<noteq> name" "set_permanent d name h1 = (h2, Err e)"
  shows "update_permanent d name h = (h2, Ok False)"
  using assms by (simp add: update_permanent_def pbind_def ptry_def pret_def)

text \<open>
  Setting the name of a host never fails: whatever goes wrong in getting or setting, the update
  gives a verdict, and no error.
\<close>

theorem hostname_update_no_error: "snd (update_both d name h) \<noteq> Err e"
  by (auto simp: update_both_def update_current_def update_permanent_def pbind_def ptry_def pret_def
      split: outcome.splits sum.splits prod.splits)

text \<open>
  C34.  On Red Hat and OpenRC hosts, and where a file holds the name alone, a name that was written
  is the one read back, whatever the file held before, and asking for it again changes nothing.
\<close>

theorem hostname_roundtrip:
  assumes "plain_name name" "set_permanent d name h = (h', Ok ())"
    and "d = redhat_strategy x \<and> no_cr_file x ''/etc/sysconfig/network'' h
      \<or> d = openrc_strategy x \<and> no_cr_file x ''/etc/conf.d/hostname'' h
      \<or> d = file_strategy x path \<and> regular_or_missing x path h"
  shows "get_permanent d h' = (h', Ok name) \<and> update_both d name h' = (h', Ok False)"
  using assms(3)
  by (elim disjE conjE)
     (use assms(1,2) redhat.settled openrc.settled plain_file.settled in blast)+

text \<open>A host whose network file has another name, a comment and an entry of its own.\<close>

definition plain_sys :: sys where
  "plain_sys =
     \<lparr>s_os = \<lparr>o_refuse = (\<lambda>_ _. None), o_umask = 0, o_env = (\<lambda>_. []), o_uid = 0, o_gid = 0,
               o_eval_links = (\<lambda>_. None), o_cwd = ''/''\<rparr>,
      s_environ = [], s_regex = (\<lambda>_. None), s_quote = (\<lambda>s. s), s_shlex = (\<lambda>_. None),
      s_spawn = (\<lambda>_ _ _. Inl ''no programs'')\<rparr>"

definition network_inode :: inode where
  "network_inode =
     \<lparr>i_mode = 0x1A4, i_uid = 0, i_gid = 0, i_mtime = 0, i_label = [],
      i_data = ''# network'' @ [nl] @ ''NETWORKING=yes'' @ [nl] @ '' HOSTNAME = old'' @ [nl]\<rparr>"

definition network_host :: host_state where
  "network_host = \<lparr>h_fs = [''/etc/sysconfig/network'' \<mapsto> File network_inode], h_ran = []\<rparr>"

definition renamed_host :: host_state where
  "renamed_host = fst (set_permanent (redhat_strategy plain_sys) ''web-1.example'' network_host)"

lemma rewrite_lines_allowed:
  assumes "o_refuse (s_os x) = (\<lambda>_ _. None)" "follow_links 40 (h_fs h) file = Ok (q, i)" "\<not> is_directory i"
  shows "rewrite_lines x file key entry h = (fst (rewrite_lines x file key entry h), Ok ())"
  using assms follow_links_found [OF assms(2)]
  by (simp add: rewrite_lines_def on_fs_def os_open_rw_def os_rewrite_def set_data_def refused_def pbind_def plift_def)

lemma hostname_roundtrip_witness:
  "get_permanent (redhat_strategy plain_sys) renamed_host = (renamed_host, Ok ''web-1.example'')
   \<and> update_both (redhat_strategy plain_sys) ''web-1.example'' renamed_host = (renamed_host, Ok False)"
proof (rule hostname_roundtrip)
  have forty: "40 = Suc 39" by simp
  have "follow_links (Suc 39) (h_fs network_host) ''/etc/sysconfig/network'' = Ok (''/etc/sysconfig/network'', network_inode)"
    by (subst follow_links.simps) (simp add: network_host_def)
  then have found: "follow_links 40 (h_fs network_host) ''/etc/sysconfig/network'' = Ok (''/etc/sysconfig/network'', network_inode)"
    by (simp only: forty)
  have regular: "i_mode network_inode AND mode_type = 0" and "list_all (\<lambda>c. c \<noteq> CHR 0x0D) (i_data network_inode)"
    by code_simp+
  then have "no_cr_file plain_sys ''/etc/sysconfig/network'' network_host"
    by (auto simp: no_cr_file_def readable_def plain_sys_def found list_all_iff)
  then show "redhat_strategy plain_sys = redhat_strategy plain_sys \<and> no_cr_file plain_sys ''/etc/sysconfig/network'' network_host
      \<or> redhat_strategy plain_sys = openrc_strategy plain_sys \<and> no_cr_file plain_sys ''/etc/conf.d/hostname'' network_host
      \<or> redhat_strategy plain_sys = file_strategy plain_sys [] \<and> regular_or_missing plain_sys [] network_host"
    by blast
  show "plain_name ''web-1.example''" by code_simp
  show "set_permanent (redhat_strategy plain_sys) ''web-1.example'' network_host = (renamed_host, Ok ())"
    using rewrite_lines_allowed [OF _ found regular_no_directory] regular
    by (simp add: renamed_host_def redhat_strategy_def Let_def redhat_set_def plain_sys_def)
qed

end
