(* ===== verification/Urls.thy ===== *)
theory Urls
  imports Selinux
begin

text \<open>
  Requests over HTTP (\<open>module_utils/urls/urls.go\<close>): merging request data, authorization, headers.
  The parser of addresses, the file of \<open>netrc\<close>, the form of dates, the decoding of
  \<open>mapstructure\<close> and what comes back from the network are parameters (record \<open>net\<close>); the state of
  a program is the list of requests sent.
\<close>

section \<open>Headers\<close>

text \<open>A nil header is \<open>None\<close>.\<close>

type_synonym header = "string \<rightharpoonup> string list"

text \<open>\<open>textproto.CanonicalMIMEHeaderKey\<close>: a key with a byte that no token has stays as it is.\<close>

definition token_byte :: "char \<Rightarrow> bool" where
  "token_byte c \<longleftrightarrow>
     c \<in> set ''abcdefghijklmnopqrstuvwxyzABCDEFGHIJKLMNOPQRSTUVWXYZ0123456789!#$%&*+-.^_|~''
     \<or> c = CHR 0x27 \<or> c = CHR 0x60"

fun canonical :: "bool \<Rightarrow> string \<Rightarrow> string" where
  "canonical up [] = []"
| "canonical up (c # s) = (if up then upper_char c else lower_char c) # canonical (c = CHR ''-'') s"

definition canonical_key :: "string \<Rightarrow> string" where
  "canonical_key s = (if list_all token_byte s then canonical True s else s)"

definition header_set :: "string \<Rightarrow> string \<Rightarrow> header \<Rightarrow> header" where
  "header_set k v h = h(canonical_key k \<mapsto> [v])"

definition header_get :: "string \<Rightarrow> header \<Rightarrow> string" where
  "header_get k h = (case h (canonical_key k) of Some (v # vs) \<Rightarrow> v | _ \<Rightarrow> [])"

definition header_add :: "string \<Rightarrow> string \<Rightarrow> header \<Rightarrow> header" where
  "header_add k v h =
     h(canonical_key k \<mapsto> (case h (canonical_key k) of Some vs \<Rightarrow> vs | None \<Rightarrow> []) @ [v])"

section \<open>Basic authorization\<close>

text \<open>The encoding \<open>base64.StdEncoding\<close>, six bits at a time.\<close>

definition b64_char :: "nat \<Rightarrow> char" where
  "b64_char n =
     char_of (if n < 26 then n + 65 else if n < 52 then n + 71 else if n < 62 then n - 4
              else if n = 62 then 43 else 47)"

fun b64 :: "string \<Rightarrow> string" where
  "b64 [] = []"
| "b64 [a] = (let x = of_char a in [b64_char (x div 4), b64_char (x mod 4 * 16), CHR ''='', CHR ''=''])"
| "b64 [a, b] =
     (let x = of_char a; y = of_char b
      in [b64_char (x div 4), b64_char (x mod 4 * 16 + y div 16), b64_char (y mod 16 * 4), CHR ''=''])"
| "b64 (a # b # c # s) =
     (let x = of_char a; y = of_char b; z = of_char c
      in b64_char (x div 4) # b64_char (x mod 4 * 16 + y div 16) # b64_char (y mod 16 * 4 + z div 64)
         # b64_char (z mod 64) # b64 s)"

definition basic_auth_header :: "string \<Rightarrow> string \<Rightarrow> string" where
  "basic_auth_header username password = ''Basic '' @ b64 (username @ '':'' @ password)"

section \<open>Request data\<close>

record url_common =
  uc_client_cert :: string
  uc_client_key :: string
  uc_force :: bool
  uc_force_basic :: bool
  uc_agent :: string
  uc_url :: string
  uc_password :: string
  uc_user :: string
  uc_gssapi :: bool
  uc_proxy :: bool
  uc_validate :: bool

text \<open>Times are seconds; a jar of cookies is an identifier.\<close>

record request_data =
  rd_common :: "url_common option"
  rd_data :: string
  rd_last_mod :: "int option"
  rd_socket :: string
  rd_ca_path :: string
  rd_cookies :: "nat option"
  rd_headers :: "header option"
  rd_unredirected :: "string list"
  rd_follow :: string
  rd_timeout :: int

record parsed_url =
  pu_scheme :: string
  pu_path :: string
  pu_host :: string

text \<open>The client is part of the request here: how long it waits and whether it verifies.\<close>

record http_request =
  hr_method :: string
  hr_url :: string
  hr_body :: string
  hr_header :: header
  hr_timeout :: "64 word"
  hr_cookies :: "nat option"
  hr_insecure :: bool

text \<open>The body with the error that ends reading it; a request made by a client has no request URI.\<close>

record response =
  rsp_status :: int
  rsp_header :: header
  rsp_body :: string
  rsp_body_error :: "string option"

record net =
  n_parse :: "string \<Rightarrow> parsed_url option"
  n_decode :: "request_data option \<Rightarrow> request_data \<Rightarrow> request_data"
  n_netrc :: "(string \<Rightarrow> (string \<times> string) option) option"
  n_date :: "int \<Rightarrow> string"
  n_send :: "http_request list \<Rightarrow> http_request \<Rightarrow> string + response"

definition new_url_params :: url_common where
  "new_url_params =
     \<lparr>uc_client_cert = [], uc_client_key = [], uc_force = False, uc_force_basic = False,
      uc_agent = ''ansible-httpget'', uc_url = [], uc_password = [], uc_user = [], uc_gssapi = False,
      uc_proxy = True, uc_validate = True\<rparr>"

definition zero_request_data :: request_data where
  "zero_request_data =
     \<lparr>rd_common = None, rd_data = [], rd_last_mod = None, rd_socket = [], rd_ca_path = [], rd_cookies = None,
      rd_headers = None, rd_unredirected = [], rd_follow = [], rd_timeout = 0\<rparr>"

definition new_request_data :: request_data where
  "new_request_data =
     zero_request_data\<lparr>rd_common := Some new_url_params, rd_timeout := 10, rd_follow := ''urllib2''\<rparr>"

text \<open>Either argument may be nil.\<close>

definition merge_data :: "net \<Rightarrow> request_data option \<Rightarrow> request_data option \<Rightarrow> request_data" where
  "merge_data n r d = n_decode n d (n_decode n r zero_request_data)"

section \<open>Sending\<close>

definition set_authorization :: "string \<Rightarrow> string \<Rightarrow> request_data \<Rightarrow> (string, request_data) outcome" where
  "set_authorization user pw d =
     (case rd_headers d of
        None \<Rightarrow> Panic
      | Some h \<Rightarrow> Ok (d\<lparr>rd_headers := Some (header_set ''Authorization'' (basic_auth_header user pw) h)\<rparr>))"

definition handle_auth :: "net \<Rightarrow> url_common \<Rightarrow> request_data \<Rightarrow> (string, request_data) outcome" where
  "handle_auth n c d =
     (case n_parse n (uc_url c) of
        None \<Rightarrow> Err ''cannot parse url''
      | Some parsed \<Rightarrow>
          if pu_scheme parsed = ''ftp'' then Ok d
          else if uc_gssapi c then Ok d
          else if uc_user c \<noteq> [] then
            (if uc_force_basic c then set_authorization (uc_user c) (uc_password c) d else Ok d)
          else
            (case n_netrc n of
               None \<Rightarrow> Ok d
             | Some machine \<Rightarrow>
                 (case machine (pu_host parsed) of
                    None \<Rightarrow> Ok d
                  | Some (user, pw) \<Rightarrow> set_authorization user pw d)))"

text \<open>
  The headers given replace the ones set here; each is copied by \<open>slices.Copy\<close>, which gives an
  empty slice.
\<close>

definition own_header :: "net \<Rightarrow> url_common \<Rightarrow> request_data \<Rightarrow> header" where
  "own_header n c d =
     (let h = (if uc_agent c \<noteq> [] then header_set ''User-agent'' (uc_agent c) Map.empty else Map.empty)
      in if uc_force c then header_set ''cache-control'' ''no-cache'' h
         else case rd_last_mod d of
                Some t \<Rightarrow> header_set ''If-Modified-Since'' (n_date n t) h
              | None \<Rightarrow> h)"

definition get_header :: "net \<Rightarrow> url_common \<Rightarrow> request_data \<Rightarrow> header" where
  "get_header n c d =
     own_header n c d ++
       (case rd_headers d of Some h \<Rightarrow> (\<lambda>k. map_option slices_copy (h k)) | None \<Rightarrow> Map.empty)"

definition make_request :: "net \<Rightarrow> string \<Rightarrow> string \<Rightarrow> url_common \<Rightarrow> request_data \<Rightarrow> http_request" where
  "make_request n method url c d =
     \<lparr>hr_method = method, hr_url = url, hr_body = rd_data d, hr_header = get_header n c d,
      hr_timeout = word_of_int (rd_timeout d) * 1000000000, hr_cookies = rd_cookies d,
      hr_insecure = (\<not> uc_validate c)\<rparr>"

type_synonym 'a sending = "(http_request list, string, 'a) prog"

definition open_url :: "net \<Rightarrow> request_data option \<Rightarrow> string \<Rightarrow> string \<Rightarrow> request_data option \<Rightarrow> response sending" where
  "open_url n r url method od sent =
     (let d = merge_data n r od in
      case rd_common d of
        None \<Rightarrow> (sent, Panic)
      | Some c \<Rightarrow>
          (case handle_auth n c d of
             Panic \<Rightarrow> (sent, Panic)
           | Err e \<Rightarrow> (sent, Err e)
           | Ok d \<Rightarrow>
               if n_parse n url = None then (sent, Err ''cannot parse url'')
               else
                 let q = make_request n method url c d
                 in (sent @ [q], case n_send n sent q of Inl e \<Rightarrow> Err e | Inr rsp \<Rightarrow> Ok rsp)))"

definition response_msg :: "response \<Rightarrow> string" where
  "response_msg rsp =
     (let len = header_get ''Content-Length'' (rsp_header rsp)
      in ''OK ('' @ (if len = [] then ''unknown'' else len) @ '')'')"

definition url_get :: "net \<Rightarrow> request_data option \<Rightarrow> string \<Rightarrow> request_data option \<Rightarrow> response sending" where
  "url_get n r url od = open_url n r url ''GET'' od"

definition url_options :: "net \<Rightarrow> request_data option \<Rightarrow> string \<Rightarrow> request_data option \<Rightarrow> response sending" where
  "url_options n r url od = open_url n r url ''OPTIONS'' od"

definition url_head :: "net \<Rightarrow> request_data option \<Rightarrow> string \<Rightarrow> request_data option \<Rightarrow> response sending" where
  "url_head n r url od = open_url n r url ''HEAD'' od"

definition url_post :: "net \<Rightarrow> request_data option \<Rightarrow> string \<Rightarrow> request_data option \<Rightarrow> response sending" where
  "url_post n r url od = open_url n r url ''POST'' od"

definition url_patch :: "net \<Rightarrow> request_data option \<Rightarrow> string \<Rightarrow> request_data option \<Rightarrow> response sending" where
  "url_patch n r url od = open_url n r url ''PATCH'' od"

definition url_delete :: "net \<Rightarrow> request_data option \<Rightarrow> string \<Rightarrow> request_data option \<Rightarrow> response sending" where
  "url_delete n r url od = open_url n r url ''DELETE'' od"

section \<open>Authorization can be read back\<close>

definition b64_val :: "char \<Rightarrow> nat" where
  "b64_val c =
     (let n = of_char c
      in if 65 \<le> n \<and> n \<le> 90 then n - 65 else if 97 \<le> n \<and> n \<le> 122 then n - 71
         else if 48 \<le> n \<and> n \<le> 57 then n + 4 else if n = 43 then 62 else 63)"

fun b64_read :: "string \<Rightarrow> string" where
  "b64_read (a # b # c # d # s) =
     (let w = b64_val a; x = b64_val b; y = b64_val c; z = b64_val d
      in if c = CHR ''='' then [char_of (w * 4 + x div 16)]
         else if d = CHR ''='' then [char_of (w * 4 + x div 16), char_of (x mod 16 * 16 + y div 4)]
         else char_of (w * 4 + x div 16) # char_of (x mod 16 * 16 + y div 4) # char_of (y mod 4 * 64 + z) # b64_read s)"
| "b64_read _ = []"

lemma b64_val_char: "n < 64 \<Longrightarrow> b64_val (b64_char n) = n"
  by (auto simp: b64_val_def b64_char_def Let_def)

lemma b64_char_no_pad: "n < 64 \<Longrightarrow> b64_char n \<noteq> CHR ''=''"
proof -
  assume n: "n < 64"
  have "(of_char (b64_char n) :: nat) \<noteq> 61"
    using n by (auto simp: b64_char_def)
  then show ?thesis by auto
qed

lemma sixths:
  fixes x y z :: nat
  assumes "x < 256" "y < 256" "z < 256"
  shows "x div 4 < 64" "x mod 4 * 16 + y div 16 < 64" "y mod 16 * 4 + z div 64 < 64" "z mod 64 < 64"
    "x mod 4 * 16 < 64" "y mod 16 * 4 < 64"
    "x div 4 * 4 + (x mod 4 * 16 + y div 16) div 16 = x"
    "x div 4 * 4 + x mod 4 * 16 div 16 = x"
    "(x mod 4 * 16 + y div 16) mod 16 * 16 + (y mod 16 * 4 + z div 64) div 4 = y"
    "(x mod 4 * 16 + y div 16) mod 16 * 16 + y mod 16 * 4 div 4 = y"
    "(y mod 16 * 4 + z div 64) mod 4 * 64 + z mod 64 = z"
proof -
  have y: "y div 16 < 16" and z: "z div 64 < 4"
    using assms by simp_all
  have x4: "x mod 4 \<le> 3" and y16: "y mod 16 \<le> 15"
    by (simp_all add: less_Suc_eq_le [symmetric])
  have e1: "(x mod 4 * 16 + y div 16) div 16 = x mod 4" "(x mod 4 * 16 + y div 16) mod 16 = y div 16"
    using y by (simp_all add: div_mult_self3 mod_mult_self3)
  have e2: "(y mod 16 * 4 + z div 64) div 4 = y mod 16" "(y mod 16 * 4 + z div 64) mod 4 = z div 64"
    using z by (simp_all add: div_mult_self3 mod_mult_self3)
  show "x div 4 < 64" "z mod 64 < 64" using assms by simp_all
  show "x mod 4 * 16 + y div 16 < 64" "x mod 4 * 16 < 64" using x4 y by linarith+
  show "y mod 16 * 4 + z div 64 < 64" "y mod 16 * 4 < 64" using y16 z by linarith+
  show "x div 4 * 4 + (x mod 4 * 16 + y div 16) div 16 = x" "x div 4 * 4 + x mod 4 * 16 div 16 = x"
    by (simp_all add: e1 div_mult_mod_eq)
  show "(x mod 4 * 16 + y div 16) mod 16 * 16 + (y mod 16 * 4 + z div 64) div 4 = y"
    "(x mod 4 * 16 + y div 16) mod 16 * 16 + y mod 16 * 4 div 4 = y"
    using y by (simp_all add: e1 e2 div_mult_mod_eq)
  show "(y mod 16 * 4 + z div 64) mod 4 * 64 + z mod 64 = z"
    using z by (simp add: e2 div_mult_mod_eq)
qed

lemma of_char_less: "(of_char c :: nat) < 256"
  by simp

lemma b64_read_b64: "b64_read (b64 s) = s"
proof (induction s rule: b64.induct)
  case (2 a)
  note l = of_char_less [of a]
  show ?case
    using sixths [OF l l l] by (simp add: Let_def b64_val_char)
next
  case (3 a b)
  note l = of_char_less [of a] of_char_less [of b]
  show ?case
    using sixths [OF l(1) l(2) l(2)] by (simp add: Let_def b64_val_char b64_char_no_pad)
next
  case (4 a b c s)
  note l = of_char_less [of a] of_char_less [of b] of_char_less [of c]
  show ?case
    using sixths [OF l] 4 by (simp add: Let_def b64_val_char b64_char_no_pad)
qed simp

text \<open>How a server reads the header: RFC 7617.\<close>

definition read_basic :: "string \<Rightarrow> (string \<times> string) option" where
  "read_basic v =
     (if has_prefix v ''Basic '' then
        (case splitn 2 (CHR '':'') (b64_read (drop 6 v)) of [user, pw] \<Rightarrow> Some (user, pw) | _ \<Rightarrow> None)
      else None)"

lemma takeWhile_upto: "c \<notin> set u \<Longrightarrow> takeWhile (\<lambda>d. d \<noteq> c) (u @ c # s) = u \<and> dropWhile (\<lambda>d. d \<noteq> c) (u @ c # s) = c # s"
  by (induction u) auto

lemma splitn_two: "c \<notin> set u \<Longrightarrow> splitn 2 c (u @ c # s) = [u, s]"
  using takeWhile_upto [of c u s] by (simp add: numeral_2_eq_2)



text \<open>The example of the RFC.\<close>

lemma basic_auth_example:
  "basic_auth_header ''Aladdin'' ''open sesame'' = ''Basic QWxhZGRpbjpvcGVuIHNlc2FtZQ==''"
  by code_simp

section \<open>Authorization is never sent\<close>

definition no_credentials :: "http_request \<Rightarrow> bool" where
  "no_credentials q \<longleftrightarrow> hr_header q ''Authorization'' \<in> {None, Some []}"

lemma canonical_keys:
  "canonical_key ''User-agent'' = ''User-Agent''" "canonical_key ''cache-control'' = ''Cache-Control''"
  "canonical_key ''If-Modified-Since'' = ''If-Modified-Since''" "canonical_key ''Authorization'' = ''Authorization''"
  by code_simp+

lemma own_header_keys: "dom (own_header n c d) \<subseteq> {''User-Agent'', ''Cache-Control'', ''If-Modified-Since''}"
  by (auto simp: own_header_def header_set_def canonical_keys Let_def split: option.splits if_splits)

lemma user_headers_emptied: "rd_headers d = Some h \<Longrightarrow> h k = Some vs \<Longrightarrow> get_header n c d k = Some []"
  by (simp add: get_header_def slices_copy_def)

lemma get_header_no_credentials: "get_header n c d ''Authorization'' \<in> {None, Some []}"
proof -
  have "own_header n c d ''Authorization'' = None"
    using own_header_keys [of n c d] by auto
  then show ?thesis
    by (auto simp: get_header_def slices_copy_def map_add_def split: option.splits)
qed


text \<open>Basic authorization without headers of one's own writes to a nil map.\<close>

lemma basic_auth_panics:
  assumes "merge_data n r od = d" "rd_common d = Some c" "rd_headers d = None"
    and "n_parse n (uc_url c) = Some p" "pu_scheme p \<noteq> ''ftp''" "\<not> uc_gssapi c" "uc_user c \<noteq> []" "uc_force_basic c"
  shows "open_url n r url method od sent = (sent, Panic)"
  using assms by (simp add: open_url_def handle_auth_def set_authorization_def)

end
