(* ===== verification/Get_Url.thy ===== *)
theory Get_Url
  imports File_Attributes Urls
begin

text \<open>
  The module \<open>get_url\<close> (\<open>modules/get_url/get_url.go\<close>) and the parameters for files that
  modules share (\<open>LoadFileCommonParams\<close> of \<open>gosible_module.go\<close>).  The state is that of
  the module, with the return so far and the requests sent.  How \<open>mapstructure\<close> folds one
  return into another is the parameter \<open>gt_update\<close>; the texts of errors are shortened.
\<close>

section \<open>Parameters of files\<close>

record file_common =
  fc_attributes :: string
  fc_group :: string
  fc_mode :: "mode_arg option"
  fc_owner :: string
  fc_follow :: bool
  fc_user :: string
  fc_role :: string
  fc_type :: string
  fc_level :: string

text \<open>A default context with more parts than the context asked for panics.\<close>

fun fill_default :: "string list \<Rightarrow> string list \<Rightarrow> ('e, string list) outcome" where
  "fill_default ctx [] = Ok ctx"
| "fill_default [] (d # ds) = Panic"
| "fill_default (c # ctx) (d # ds) = omap (\<lambda>r. (if c = ''_default'' then d else c) # r) (fill_default ctx ds)"

definition string_var :: "vars \<Rightarrow> string \<Rightarrow> string option" where
  "string_var vs k = Option.bind (vs k) as_string"

definition params_path :: "vars \<Rightarrow> string \<Rightarrow> string option" where
  "params_path vs path =
     (if path \<noteq> [] then Some path
      else case string_var vs ''path'' of Some v \<Rightarrow> Some v | None \<Rightarrow> string_var vs ''dest'')"

text \<open>The error of asking for the default context is dropped.\<close>

definition load_file_params ::
  "file_tools \<Rightarrow> (vars \<Rightarrow> string + file_common) \<Rightarrow> vars \<Rightarrow> string \<Rightarrow> file_params option fprog" where
  "load_file_params t dec vs path =
     (case params_path vs path of
        None \<Rightarrow> pret None
      | Some path \<Rightarrow>
          (case dec vs of
             Inl e \<Rightarrow> plift (Err (ModuleError e))
           | Inr c \<Rightarrow>
               pbind (if fc_follow c then
                        pbind (on_files (is_symlink (ft_os t) path)) (\<lambda>link.
                          if link then on_files (os_readlink (ft_os t) path) else pret path)
                      else pret path) (\<lambda>path.
               pbind (on_se (mls_enabled (ft_se t))) (\<lambda>mls.
               pbind (ptry (on_se (default_context (ft_se t) path))) (\<lambda>dflt.
               pbind (plift (fill_default ([fc_user c, fc_role c, fc_type c] @ (if mls then [fc_level c] else []))
                               (case dflt of Inr d \<Rightarrow> d | Inl _ \<Rightarrow> []))) (\<lambda>ctx.
                 pret (Some \<lparr>fp_path = path, fp_owner = fc_owner c, fp_group = fc_group c, fp_mode = fc_mode c,
                             fp_attributes = fc_attributes c, fp_context = ctx\<rparr>)))))))"

section \<open>The module\<close>

record get_url_params =
  gq_backup :: bool
  gq_checksum :: string
  gq_dest :: string
  gq_tmp_dest :: string
  gq_timeout :: int
  gq_unsafe :: bool
  gq_headers :: "header option"
  gq_unredirected :: "string list"
  gq_common :: url_common

definition default_get_url_params :: get_url_params where
  "default_get_url_params =
     \<lparr>gq_backup = False, gq_checksum = [], gq_dest = [], gq_tmp_dest = [], gq_timeout = 0, gq_unsafe = False,
      gq_headers = None, gq_unredirected = [], gq_common = new_url_params\<rparr>"

text \<open>The fields of the return the code sets; nil bytes are \<open>[]\<close>.\<close>

record get_url_return =
  gu_backup_file :: string
  gu_sum_dest :: string
  gu_sum_src :: string
  gu_dest :: string
  gu_elapsed :: int
  gu_md5 :: string
  gu_response :: string
  gu_src :: string
  gu_status :: int
  gu_url :: string

definition empty_get_url_return :: get_url_return where
  "empty_get_url_return =
     \<lparr>gu_backup_file = [], gu_sum_dest = [], gu_sum_src = [], gu_dest = [], gu_elapsed = 0, gu_md5 = [],
      gu_response = [], gu_src = [], gu_status = 0, gu_url = []\<rparr>"

text \<open>A return with its part special to the module, \<open>None\<close> when it is no pointer to one.\<close>

record get_out =
  go_ret :: mod_return
  go_spec :: "get_url_return option"

record get_url_state =
  gs_mod :: module_state
  gs_force :: bool
  gs_last_mod :: "int option"
  gs_ret :: get_out
  gs_sent :: "http_request list"

datatype access_mode = R_OK | W_OK

record get_url_tools =
  gt_files :: file_tools
  gt_net :: net
  gt_decode :: "vars \<Rightarrow> get_url_params \<Rightarrow> string + get_url_params"
  gt_decode_file :: "vars \<Rightarrow> string + file_common"
  gt_access :: "access_mode \<Rightarrow> fs \<Rightarrow> string \<Rightarrow> os_error option"
  gt_update :: "get_out \<Rightarrow> get_out \<Rightarrow> get_out"
  gt_error :: "command_error \<Rightarrow> string"
  gt_elapsed :: "http_request list \<Rightarrow> int"
  gt_total :: "http_request list \<Rightarrow> int"

type_synonym 'a gprog = "(get_url_state, command_error, 'a) prog"

definition gt_os :: "get_url_tools \<Rightarrow> os" where
  "gt_os t = ft_os (gt_files t)"

definition on_mod :: "'a fprog \<Rightarrow> 'a gprog" where
  "on_mod f s = (case f (gs_mod s) of (m, r) \<Rightarrow> (s\<lparr>gs_mod := m\<rparr>, r))"

definition on_net :: "'a sending \<Rightarrow> 'a gprog" where
  "on_net f s =
     (case f (gs_sent s) of
        (sent, r) \<Rightarrow>
          (s\<lparr>gs_sent := sent\<rparr>, case r of Ok a \<Rightarrow> Ok a | Err e \<Rightarrow> Err (ModuleError e) | Panic \<Rightarrow> Panic))"

definition fail_with :: "string \<Rightarrow> 'a gprog" where
  "fail_with msg = plift (Err (ModuleError msg))"

text \<open>\<open>Access\<close>: a refusal is the answer no, every other error is an error.\<close>

definition access :: "get_url_tools \<Rightarrow> access_mode \<Rightarrow> string \<Rightarrow> bool gprog" where
  "access t mode p s =
     (s, case gt_access t mode (files_of (gs_mod s)) p of
           None \<Rightarrow> Ok True | Some NotPermitted \<Rightarrow> Ok False | Some e \<Rightarrow> Err (FsError e))"

definition update_out :: "get_url_tools \<Rightarrow> get_out \<Rightarrow> unit gprog" where
  "update_out t u s = (s\<lparr>gs_ret := gt_update t (gs_ret s) u\<rparr>, Ok ())"

definition out_changed :: "bool \<Rightarrow> get_out" where
  "out_changed b = \<lparr>go_ret = empty_return\<lparr>r_changed := b\<rparr>, go_spec = None\<rparr>"

definition out_msg :: "string \<Rightarrow> get_out" where
  "out_msg msg = \<lparr>go_ret = empty_return\<lparr>r_msg := msg\<rparr>, go_spec = None\<rparr>"

definition out_spec :: "get_url_return \<Rightarrow> get_out" where
  "out_spec r = \<lparr>go_ret = empty_return, go_spec = Some r\<rparr>"

text \<open>Writing a field of the special part, a type assertion.\<close>

definition set_spec :: "(get_url_return \<Rightarrow> get_url_return) \<Rightarrow> unit gprog" where
  "set_spec f s =
     (case go_spec (gs_ret s) of
        None \<Rightarrow> (s, Panic)
      | Some r \<Rightarrow> (s\<lparr>gs_ret := (gs_ret s)\<lparr>go_spec := Some (f r)\<rparr>\<rparr>, Ok ()))"

definition prepare_vars :: "vars \<Rightarrow> vars" where
  "prepare_vars vs =
     (let vs = (if string_var vs ''url_username'' = None then vs(''url_username'' \<mapsto> arg_value vs ''username'') else vs)
      in if string_var vs ''url_password'' = None then vs(''url_password'' \<mapsto> arg_value vs ''password'') else vs)"

definition validate_get_url :: "get_url_params \<Rightarrow> (command_error, unit) outcome" where
  "validate_get_url p =
     (if uc_url (gq_common p) = [] then Err (ModuleError ''required url argument does not exist'')
      else if gq_dest p = [] then Err (ModuleError ''required dest argument does not exist'')
      else Ok ())"

section \<open>Names of files\<close>

text \<open>
  The search for \<open>attachment; ?filename="?([^"]+)\<close>: the first place where it matches, and the
  bytes up to the next quotation mark.
\<close>

definition skip_char :: "char \<Rightarrow> string \<Rightarrow> string" where
  "skip_char c s = (if has_prefix s [c] then tl s else s)"

definition filename_here :: "string \<Rightarrow> string option" where
  "filename_here s =
     (if has_prefix s ''attachment;'' then
        let s = skip_char spc (drop 11 s)
        in if has_prefix s ''filename='' then
             let n = takeWhile (\<lambda>c. c \<noteq> CHR 0x22) (skip_char (CHR 0x22) (drop 9 s))
             in if n = [] then None else Some n
           else None
      else None)"

fun find_filename :: "string \<Rightarrow> string option" where
  "find_filename [] = None"
| "find_filename (c # s) =
     (case filename_here (c # s) of Some n \<Rightarrow> Some n | None \<Rightarrow> find_filename s)"

definition header_filename :: "header \<Rightarrow> string" where
  "header_filename h = (case find_filename (header_get ''content-disposition'' h) of Some n \<Rightarrow> path_base n | None \<Rightarrow> [])"

definition is_url :: "net \<Rightarrow> string \<Rightarrow> bool" where
  "is_url n s = (case n_parse n s of None \<Rightarrow> False | Some u \<Rightarrow> pu_scheme u \<in> {''http'', ''https'', ''ftp'', ''file''})"

definition url_filename :: "net \<Rightarrow> string \<Rightarrow> string" where
  "url_filename n url =
     (case n_parse n url of
        None \<Rightarrow> ''index.html''
      | Some u \<Rightarrow> if path_base (pu_path u) = [] then ''index.html'' else path_base (pu_path u))"

section \<open>Downloading\<close>

definition own_request_data :: "get_url_params \<Rightarrow> int option \<Rightarrow> request_data" where
  "own_request_data p last_mod =
     zero_request_data\<lparr>rd_common := Some (gq_common p), rd_headers := gq_headers p,
        rd_unredirected := gq_unredirected p, rd_timeout := gq_timeout p, rd_last_mod := last_mod\<rparr>"

definition request_data_of :: "net \<Rightarrow> get_url_params \<Rightarrow> int option \<Rightarrow> request_data" where
  "request_data_of n p last_mod = merge_data n (Some new_request_data) (Some (own_request_data p last_mod))"

text \<open>\<open>os.CreateTemp\<close> makes a file for its owner alone.\<close>

definition create_temp :: "file_tools \<Rightarrow> string \<Rightarrow> string fprog" where
  "create_temp t dir m =
     (let temp = ft_temp t dir [] (files_of m) in
      on_files (pbind (refused (ft_os t) Create [temp]) (\<lambda>_ fs.
        (fs(temp \<mapsto> File \<lparr>i_mode = 0x180 AND NOT (o_umask (ft_os t)), i_uid = o_uid (ft_os t), i_gid = o_gid (ft_os t),
                          i_mtime = 0, i_label = [], i_data = []\<rparr>), Ok temp))) m)"

definition save_body :: "file_tools \<Rightarrow> string \<Rightarrow> response \<Rightarrow> unit fprog" where
  "save_body t temp rsp =
     pbind (ptry (pbind (on_files (refused (ft_os t) WriteData [temp])) (\<lambda>_.
                  pbind (on_files (set_data temp (rsp_body rsp))) (\<lambda>_.
                    plift (case rsp_body_error rsp of None \<Rightarrow> Ok () | Some e \<Rightarrow> Err (ModuleError e)))))) (\<lambda>r.
       case r of
         Inr _ \<Rightarrow> pret ()
       | Inl e \<Rightarrow>
           pbind (ptry (on_files (os_remove (ft_os t) temp))) (\<lambda>_.
             plift (Err (ModuleError ''failed to create temporary content file''))))"

definition good_status :: "string \<Rightarrow> response \<Rightarrow> bool" where
  "good_status url rsp \<longleftrightarrow>
     rsp_status rsp = 200 \<or> has_prefix url ''file:/'' \<or> has_prefix url ''ftp:/'' \<and> has_prefix (response_msg rsp) ''OK''"

definition temp_dest :: "get_url_tools \<Rightarrow> get_url_params \<Rightarrow> string fprog" where
  "temp_dest t p =
     (if gq_tmp_dest p = [] then tmp_dir (gt_files t)
      else
        pbind (pmap_err (\<lambda>e. if e = FsError NotExist then ModuleError ''is a file but should be a directory'' else e)
                 (on_files (is_dir (gt_os t) (gq_tmp_dest p)))) (\<lambda>b.
          if b then pret (gq_tmp_dest p) else plift (Err (ModuleError ''directory does not exist''))))"

definition fetch :: "get_url_tools \<Rightarrow> get_url_params \<Rightarrow> string \<Rightarrow> (string \<times> response) gprog" where
  "fetch t p url =
     pbind (\<lambda>s. on_net (open_url (gt_net t) None url ''GET'' (Some (request_data_of (gt_net t) p (gs_last_mod s)))) s) (\<lambda>rsp.
     pbind (\<lambda>s. (s, Ok (gt_elapsed t (gs_sent s)))) (\<lambda>elapsed.
       if \<not> good_status url rsp then
         pbind (update_out t (out_spec (empty_get_url_return\<lparr>gu_elapsed := elapsed, gu_status := rsp_status rsp,
                  gu_response := response_msg rsp, gu_dest := gq_dest p, gu_url := url\<rparr>))) (\<lambda>_.
           fail_with ''request failed'')
       else
         pbind (update_out t (out_spec (empty_get_url_return\<lparr>gu_elapsed := elapsed\<rparr>))) (\<lambda>_.
         pbind (on_mod (temp_dest t p)) (\<lambda>dir.
         pbind (on_mod (create_temp (gt_files t) dir)) (\<lambda>temp.
         pbind (on_mod (save_body (gt_files t) temp rsp)) (\<lambda>_. pret (temp, rsp)))))))"

definition download :: "get_url_tools \<Rightarrow> get_url_params \<Rightarrow> (string \<times> response) gprog" where
  "download t p =
     pbind (fetch t p (uc_url (gq_common p))) (\<lambda>(temp, rsp).
     pbind (\<lambda>s. set_spec (\<lambda>r. r\<lparr>gu_elapsed := gt_total t (gs_sent s), gu_src := temp\<rparr>) s) (\<lambda>_.
       pret (temp, rsp)))"

section \<open>Checksums\<close>

text \<open>
  A file of checksums is read with the digest taken for the name and the name for the digest; the
  leading type of a name is looked for at the digest.
\<close>

definition add_sum :: "string \<Rightarrow> (string \<rightharpoonup> string) \<Rightarrow> (command_error, string \<rightharpoonup> string) outcome" where
  "add_sum line sums =
     (case splitn 2 spc line of
        [name, rest] \<Rightarrow>
          obind (if has_prefix name [spc] \<or> has_prefix name ''*''
                 then (case rest of [] \<Rightarrow> Panic | _ # r \<Rightarrow> Ok r) else Ok rest) (\<lambda>rest.
            Ok (if sums name = None then sums(name \<mapsto> dropWhile (\<lambda>c. c \<in> set ''./'') rest) else sums))
      | _ \<Rightarrow> Ok sums)"

definition checksum_from_url :: "get_url_tools \<Rightarrow> get_url_params \<Rightarrow> string \<Rightarrow> string gprog" where
  "checksum_from_url t p url =
     pbind (fetch t p url) (\<lambda>(temp, rsp).
     pbind (on_mod (on_files (os_read_file (gt_os t) temp))) (\<lambda>contents.
     pbind (on_mod (on_files (os_remove (gt_os t) temp))) (\<lambda>_.
     pbind (plift (ofold add_sum (split_on nl contents) Map.empty)) (\<lambda>sums.
       case sums (url_filename (gt_net t) (uc_url (gq_common p))) of
         Some v \<Rightarrow> pret v
       | None \<Rightarrow> fail_with ''unable to find a checksum''))))"

text \<open>The checksum cleaned of everything but letters, digits and underscores.\<close>

definition clean_sum :: "string \<Rightarrow> string" where
  "clean_sum s = to_lower (filter name_byte s)"

text \<open>
  The digest and the algorithm.  What an address gives is fetched and then overwritten by the
  cleaned address itself; the digest must be a number of 64 bits.
\<close>

definition handle_checksum :: "get_url_tools \<Rightarrow> get_url_params \<Rightarrow> (string \<times> string) gprog" where
  "handle_checksum t p =
     (case splitn 2 (CHR '':'') (gq_checksum p) of
        [algorithm, csum] \<Rightarrow>
          pbind (if is_url (gt_net t) csum then checksum_from_url t p csum else pret []) (\<lambda>_.
            if parse_int 16 64 (clean_sum csum) = None then fail_with ''the checksum format is invalid''
            else pret (clean_sum csum, algorithm))
      | _ \<Rightarrow> fail_with ''the checksum parameter has to be in format algorithm:checksum'')"

definition digest :: "get_url_tools \<Rightarrow> string \<Rightarrow> string \<Rightarrow> string gprog" where
  "digest t p algorithm =
     pbind (on_mod (digest_from_file (gt_files t) p algorithm)) (\<lambda>d.
       pret (case d of Some d \<Rightarrow> d | None \<Rightarrow> []))"

definition check_checksum :: "get_url_tools \<Rightarrow> get_url_params \<Rightarrow> string \<Rightarrow> string \<Rightarrow> unit gprog" where
  "check_checksum t p csum algorithm =
     (if csum = [] then pret ()
      else pbind (digest t (gq_dest p) algorithm) (\<lambda>d.
             if d = csum then pret () else fail_with ''the checksum did not match''))"

definition set_attributes :: "get_url_tools \<Rightarrow> get_url_params \<Rightarrow> vars \<Rightarrow> bool gprog" where
  "set_attributes t p vs =
     pbind (on_mod (load_file_params (gt_files t) (gt_decode_file t) vs (gq_dest p))) (\<lambda>fp.
       case fp of
         None \<Rightarrow> plift Panic
       | Some fp \<Rightarrow> on_mod (set_fs_attributes_if_different (gt_files t) fp True))"

text \<open>
  A file that is there: one whose checksum differs is kept and the module ends, one that has the
  checksum is downloaded again.
\<close>

definition prepare_download :: "get_url_tools \<Rightarrow> get_url_params \<Rightarrow> string \<Rightarrow> string \<Rightarrow> vars \<Rightarrow> bool gprog" where
  "prepare_download t p csum algorithm vs s =
     pbind (if \<not> gs_force s \<and> csum \<noteq> []
            then pbind (digest t (gq_dest p) algorithm) (\<lambda>d. pret (d \<noteq> csum))
            else pret False) (\<lambda>differs.
       if differs then
         pbind (\<lambda>s. (s\<lparr>gs_force := True\<rparr>, Ok ())) (\<lambda>_.
         pbind (set_attributes t p vs) (\<lambda>changed.
         pbind (update_out t (out_changed changed)) (\<lambda>_. pret True)))
       else
         pbind (on_mod (on_files (os_stat (gt_os t) (gq_dest p)))) (\<lambda>i s.
           (s\<lparr>gs_last_mod := Some (i_mtime i)\<rparr>, Ok False))) s"

section \<open>Putting the file in place\<close>

definition check_tmp_src :: "get_url_tools \<Rightarrow> string \<Rightarrow> unit gprog" where
  "check_tmp_src t src =
     pbind (on_mod (on_files (path_exists (gt_os t) src))) (\<lambda>b.
       if \<not> b then fail_with ''request failed''
       else pbind (access t R_OK src) (\<lambda>b. if b then pret () else fail_with ''source is not readable''))"

definition check_no_dest_file :: "get_url_tools \<Rightarrow> get_url_params \<Rightarrow> string gprog" where
  "check_no_dest_file t p =
     pbind (on_mod (on_files (path_exists (gt_os t) (gq_dest p)))) (\<lambda>b.
       if b then
         pbind (access t W_OK (gq_dest p)) (\<lambda>w.
           if \<not> w then fail_with ''destination is not writable''
           else pbind (access t R_OK (gq_dest p)) (\<lambda>r.
                  if \<not> r then fail_with ''destination is not readable''
                  else digest t (gq_dest p) ''sha1''))
       else
         pbind (pmap_err (\<lambda>e. if e = FsError NotExist then ModuleError ''destination does not exist'' else e)
                  (access t W_OK (path_dir (gq_dest p)))) (\<lambda>w.
           if w then pret [] else fail_with ''destination is not writable''))"

definition handle_backup :: "get_url_tools \<Rightarrow> get_url_params \<Rightarrow> string \<Rightarrow> string \<Rightarrow> string \<Rightarrow> string gprog" where
  "handle_backup t p sum_src sum_dest temp =
     (if sum_src = sum_dest then pbind (update_out t (out_changed False)) (\<lambda>_. pret [])
      else
        pbind (if gq_backup p then
                 pbind (on_mod (on_files (path_exists (gt_os t) (gq_dest p)))) (\<lambda>b.
                   if b then pmap_err (\<lambda>_. ModuleError ''failed to copy'')
                               (on_mod (backup_local (gt_files t) (gq_dest p)))
                   else pret [])
               else pret []) (\<lambda>backup.
        pbind (pmap_err (\<lambda>_. ModuleError ''failed to copy'')
                 (on_mod (atomic_move (gt_files t) temp (gq_dest p) (gq_unsafe p)))) (\<lambda>_.
        pbind (update_out t (out_changed True)) (\<lambda>_. pret backup))))"

definition out_response :: "response \<Rightarrow> get_out" where
  "out_response rsp =
     \<lparr>go_ret = empty_return\<lparr>r_changed := (rsp_status rsp = 200), r_failed := (rsp_status rsp \<noteq> 200),
        r_internal := Some (no_internal\<lparr>ir_exception := (if rsp_status rsp \<noteq> 200 then ''download failed'' else [])\<rparr>)\<rparr>,
      go_spec = Some (empty_get_url_return\<lparr>gu_status := rsp_status rsp\<rparr>)\<rparr>"

text \<open>
  After the download.  The name in a directory is only reported; everything below works on the
  destination given.
\<close>

definition install :: "get_url_tools \<Rightarrow> get_url_params \<Rightarrow> vars \<Rightarrow> bool \<Rightarrow> string \<Rightarrow> string \<Rightarrow> string \<Rightarrow> response \<Rightarrow> unit gprog" where
  "install t p vs isd csum algorithm temp rsp =
     pbind (update_out t (out_response rsp)) (\<lambda>_.
     pbind (if isd then
              set_spec (\<lambda>r. r\<lparr>gu_dest := path_join [gq_dest p,
                 if header_filename (rsp_header rsp) = [] then url_filename (gt_net t) (uc_url (gq_common p))
                 else header_filename (rsp_header rsp)]\<rparr>)
            else pret ()) (\<lambda>_.
     pbind (check_tmp_src t temp) (\<lambda>_.
     pbind (digest t temp ''sha1'') (\<lambda>sum_src.
     pbind (check_no_dest_file t p) (\<lambda>sum_dest.
     pbind (handle_backup t p sum_src sum_dest temp) (\<lambda>backup.
     pbind (check_checksum t p csum algorithm) (\<lambda>_.
     pbind (set_attributes t p vs) (\<lambda>changed.
     pbind (if changed then update_out t (out_changed True) else pret ()) (\<lambda>_.
     pbind (ptry (digest t (gq_dest p) ''md5'')) (\<lambda>md5.
     pbind (on_mod (close_module (gt_files t))) (\<lambda>_.
       update_out t (out_spec (empty_get_url_return\<lparr>gu_sum_src := sum_src, gu_sum_dest := sum_dest,
         gu_backup_file := backup, gu_md5 := (case md5 of Inr d \<Rightarrow> d | Inl _ \<Rightarrow> [])\<rparr>)))))))))))))"

definition get_url_body :: "get_url_tools \<Rightarrow> get_url_params \<Rightarrow> vars \<Rightarrow> unit gprog" where
  "get_url_body t p vs =
     pbind (update_out t (out_spec (empty_get_url_return\<lparr>gu_dest := gq_dest p, gu_url := uc_url (gq_common p)\<rparr>))) (\<lambda>_.
     pbind (if gq_checksum p \<noteq> [] then handle_checksum t p else pret ([], [])) (\<lambda>(csum, algorithm).
     pbind (on_mod (on_files (path_exists (gt_os t) (gq_dest p)))) (\<lambda>exists.
     pbind (if exists then on_mod (on_files (is_dir (gt_os t) (gq_dest p))) else pret False) (\<lambda>isd.
     pbind (if \<not> isd \<and> exists then prepare_download t p csum algorithm vs else pret False) (\<lambda>can_exit.
       if can_exit then
         (\<lambda>s. update_out t (out_msg (if r_changed (go_ret (gs_ret s)) then ''file already exists but file attributes changed''
                                     else ''file already exists'')) s)
       else
         pbind (download t p) (\<lambda>(temp, rsp).
           pdefer (install t p vs isd csum algorithm temp rsp) (on_mod (on_files (os_remove (gt_os t) temp)))))))))"

definition get_url_start :: "get_url_tools \<Rightarrow> vars \<Rightarrow> (command_error, get_url_params) outcome" where
  "get_url_start t vs =
     (case gt_decode t vs default_get_url_params of
        Inl e \<Rightarrow> Err (ModuleError e)
      | Inr p \<Rightarrow> omap (\<lambda>_. p) (validate_get_url p))"

text \<open>A failure is marked in the return so far.\<close>

definition get_url_run :: "get_url_tools \<Rightarrow> vars \<Rightarrow> get_out gprog" where
  "get_url_run t vs s =
     (case pbind (plift (get_url_start t (prepare_vars vs))) (\<lambda>p. get_url_body t p (prepare_vars vs)) s of
        (s, Ok _) \<Rightarrow> (s, Ok (gs_ret s))
      | (s, Err e) \<Rightarrow>
          (let r = (gs_ret s)\<lparr>go_ret := mark_return_failed (gt_error t e) (go_ret (gs_ret s))\<rparr>
           in (s\<lparr>gs_ret := r\<rparr>, Ok r))
      | (s, Panic) \<Rightarrow> (s, Panic))"

section \<open>What keeps the requests sent\<close>

lemma keeps_on_mod [keeps_intros]: "keeps gs_sent (on_mod f)"
  by (auto simp: keeps_def on_mod_def split: prod.splits)

lemma keeps_update_out [keeps_intros]: "keeps gs_sent (update_out t u)"
  by (simp add: keeps_def update_out_def)

lemma keeps_set_attributes: "keeps gs_sent (set_attributes t p vs)"
  unfolding set_attributes_def by (auto intro!: keeps_intros split: option.splits)

text \<open>A regular file that may be read, and the questions asked about it.\<close>

definition readable_at :: "get_url_tools \<Rightarrow> string \<Rightarrow> get_url_state \<Rightarrow> inode \<Rightarrow> bool" where
  "readable_at t p s i \<longleftrightarrow>
     o_refuse (gt_os t) Stat [p] = None \<and> o_refuse (gt_os t) OpenRead [p] = None
     \<and> map_option snd (case follow_links 40 (files_of (gs_mod s)) p of Ok r \<Rightarrow> Some r | _ \<Rightarrow> None) = Some i"

lemma readable_atE:
  assumes "readable_at t p s i"
  obtains q where "follow_links 40 (files_of (gs_mod s)) p = Ok (q, i)" "files_of (gs_mod s) q = Some (File i)"
    "o_refuse (gt_os t) Stat [p] = None" "o_refuse (gt_os t) OpenRead [p] = None"
proof (cases "follow_links 40 (files_of (gs_mod s)) p")
  case (Ok a)
  then obtain q where "follow_links 40 (files_of (gs_mod s)) p = Ok (q, i)"
    using assms by (cases a) (simp add: readable_at_def)
  with that follow_links_found [OF this] assms show ?thesis by (simp add: readable_at_def)
qed (use assms in \<open>simp_all add: readable_at_def\<close>)

lemma on_mod_files_same: "f (files_of (gs_mod s)) = (files_of (gs_mod s), Ok a) \<Longrightarrow> on_mod (on_files f) s = (s, Ok a)"
  by (simp add: on_mod_def on_files_def on_host_def on_fs_def files_of_def)

lemma on_mod_sameD: "on_mod f s = (s, Ok a) \<Longrightarrow> f (gs_mod s) = (gs_mod s, Ok a)"
  by (cases "f (gs_mod s)") (auto simp: on_mod_def dest: arg_cong [where f = gs_mod])

lemma stat_readable:
  assumes "readable_at t p s i"
  shows "os_stat (gt_os t) p (files_of (gs_mod s)) = (files_of (gs_mod s), Ok i)"
  using assms by (rule readable_atE) (simp add: os_stat_eq)

lemma questions_readable:
  assumes "readable_at t p s i"
  shows "on_mod (on_files (path_exists (gt_os t) p)) s = (s, Ok True)"
    "on_mod (on_files (is_dir (gt_os t) p)) s = (s, Ok (is_directory i))"
  by (rule on_mod_files_same,
      simp add: path_exists_def is_dir_def pbind_def ptry_def pret_def stat_readable [OF assms])+

lemma digest_directory:
  assumes "readable_at t p s i" "is_directory i"
  shows "digest t p algorithm s = (s, Err (ModuleError (''attempted to take checksum of directory: '' @ p)))"
proof -
  let ?m = "gs_mod s"
  have "on_files (path_exists (gt_os t) p) ?m = (?m, Ok True)" "on_files (is_dir (gt_os t) p) ?m = (?m, Ok True)"
    using questions_readable [OF assms(1)] assms(2) by (simp_all add: on_mod_sameD)
  then show ?thesis
    by (simp add: digest_def on_mod_def digest_from_file_def pbind_def plift_def gt_os_def)
qed

lemma digest_file:
  assumes "readable_at t p s i" "\<not> is_directory i" "ft_hash (gt_files t) algorithm = Some h"
  shows "digest t p algorithm s = (s, Ok (h (i_data i)))"
proof -
  let ?m = "gs_mod s"
  have q: "on_files (path_exists (gt_os t) p) ?m = (?m, Ok True)" "on_files (is_dir (gt_os t) p) ?m = (?m, Ok False)"
    using questions_readable [OF assms(1)] assms(2) by (simp_all add: on_mod_sameD)
  obtain q where "files_of ?m q = Some (File i)" "on_files (os_open (gt_os t) p) ?m = (?m, Ok q)"
    using assms(1) by (rule readable_atE)
      (auto simp: on_files_def on_host_def on_fs_def os_open_def files_of_def pbind_def refused_def plift_def resolve_def pret_def)
  with q show ?thesis
    by (simp add: digest_def on_mod_def digest_from_file_def pbind_def pret_def gt_os_def assms(3))
qed

text \<open>
  Downloading over a directory never works: before anything is put in place the digest of the
  destination is taken, which fails for a directory.
\<close>

lemma directory_destination_fails:
  assumes "readable_at t (gq_dest p) s i" "is_directory i"
  shows "snd (check_no_dest_file t p s) \<noteq> Ok d"
  using questions_readable [OF assms(1)] digest_directory [OF assms]
  by (auto simp: check_no_dest_file_def access_def pbind_def fail_with_def plift_def split: option.splits os_error.splits)

lemma url_filename_never_empty: "path_base p \<noteq> []"
  by (auto simp: path_base_def Let_def)

section \<open>Checksums that do not match\<close>

lemma prepare_download_differs:
  assumes "readable_at t (gq_dest p) s i" "\<not> is_directory i" "ft_hash (gt_files t) algorithm = Some h"
    and "\<not> gs_force s" "csum \<noteq> []" "h (i_data i) \<noteq> csum"
  shows "gs_sent (fst (prepare_download t p csum algorithm vs s)) = gs_sent s
    \<and> snd (prepare_download t p csum algorithm vs s) \<noteq> Ok False"
proof -
  let ?s = "s\<lparr>gs_force := True\<rparr>"
  have step: "pbind (digest t (gq_dest p) algorithm) (\<lambda>d. pret (d \<noteq> csum)) s = (s, Ok True)"
    using digest_file [OF assms(1-3)] assms(6) by (simp add: pbind_def pret_def)
  have first: "pbind (pbind (digest t (gq_dest p) algorithm) (\<lambda>d. pret (d \<noteq> csum))) g s = g True s" for g :: "bool \<Rightarrow> bool gprog"
    using step by (rule pbind_simps)
  have force: "pbind (\<lambda>s. (s\<lparr>gs_force := True\<rparr>, Ok ())) g s = g () ?s" for g :: "unit \<Rightarrow> bool gprog"
    by (simp add: pbind_def)
  have "prepare_download t p csum algorithm vs s =
      pbind (set_attributes t p vs) (\<lambda>changed. pbind (update_out t (out_changed changed)) (\<lambda>_. pret True)) ?s"
    using assms(4,5) by (simp add: prepare_download_def first force)
  moreover have "gs_sent (fst (pbind (set_attributes t p vs) (\<lambda>changed. pbind (update_out t (out_changed changed)) (\<lambda>_. pret True)) ?s)) = gs_sent ?s"
    by (rule keepsD) (intro keeps_pbind keeps_set_attributes keeps_update_out keeps_pret)
  moreover have "snd (pbind (set_attributes t p vs) (\<lambda>changed. pbind (update_out t (out_changed changed)) (\<lambda>_. pret True)) ?s) \<noteq> Ok False"
    by (auto simp: pbind_def update_out_def pret_def split: prod.splits outcome.splits)
  ultimately show ?thesis by simp
qed

lemma handle_checksum_plain:
  assumes "splitn 2 (CHR '':'') (gq_checksum p) = [algorithm, csum]" "\<not> is_url (gt_net t) csum"
  shows "handle_checksum t p s =
     (if parse_int 16 64 (clean_sum csum) = None then (s, Err (ModuleError ''the checksum format is invalid''))
      else (s, Ok (clean_sum csum, algorithm)))"
  using assms by (simp add: handle_checksum_def pbind_pret fail_with_def plift_def pret_def)

lemma parse_int_ne: "parse_int b n s \<noteq> None \<Longrightarrow> s \<noteq> []"
  by (auto simp: parse_int_def)

lemma run_ret: "gs_sent (fst (get_url_run t vs s)) =
    gs_sent (fst (pbind (plift (get_url_start t (prepare_vars vs))) (\<lambda>p. get_url_body t p (prepare_vars vs)) s))"
  by (auto simp: get_url_run_def Let_def split: prod.splits outcome.splits)


section \<open>Checksums that are too long\<close>

lemma digits_val_ge: "digits_val b acc s = Some n \<Longrightarrow> acc * b ^ length s \<le> n"
proof (induction s arbitrary: acc)
  case (Cons c s)
  then obtain d where "digit_val c = Some d" "digits_val b (acc * b + d) s = Some n"
    by (auto split: option.splits if_splits)
  with Cons.IH [of "acc * b + d"] have "(acc * b + d) * b ^ length s \<le> n" by blast
  moreover have "acc * b ^ length (c # s) \<le> (acc * b + d) * b ^ length s"
    by (simp add: algebra_simps)
  ultimately show ?case by (rule le_trans [rotated])
qed simp

lemma digit_val_0: "digit_val c = Some 0 \<Longrightarrow> c = CHR ''0''"
proof -
  assume "digit_val c = Some 0"
  then have "(of_char c :: nat) = 48"
    by (auto simp: digit_val_def Let_def split: if_splits)
  then have "char_of (of_char c :: nat) = (char_of (48 :: nat) :: char)" by simp
  moreover have "(char_of (48 :: nat) :: char) = CHR ''0''" by code_simp
  ultimately show "c = CHR ''0''" by simp
qed

lemma long_hex_rejected:
  assumes "c \<noteq> CHR ''0''" "c \<noteq> CHR ''-''" "c \<noteq> CHR ''+''" "16 \<le> length s"
  shows "parse_int 16 64 (c # s) = None"
proof (rule ccontr)
  assume a: "parse_int 16 64 (c # s) \<noteq> None"
  then obtain n where n: "digits_val 16 0 (c # s) = Some n" "int n < 2 ^ 63"
    using assms(2,3) by (auto simp: parse_int_def Let_def split: option.splits if_splits)
  then obtain d where d: "digit_val c = Some d" "digits_val 16 d s = Some n"
    by (auto split: option.splits if_splits)
  have "d \<noteq> 0" using digit_val_0 [of c] assms(1) d(1) by (cases "d = 0") auto
  then have "1 * 16 ^ length s \<le> d * 16 ^ length s" by (intro mult_le_mono1) simp
  moreover have "d * 16 ^ length s \<le> n" by (rule digits_val_ge [OF d(2)])
  moreover have "(16 :: nat) ^ 16 \<le> 16 ^ length s" using assms(4) by (intro power_increasing) simp_all
  ultimately have "(16 :: nat) ^ 16 \<le> n" by linarith
  then have "int (16 ^ 16) \<le> int n" by (simp only: zle_int)
  with n(2) show False by simp
qed

lemma name_byte_lower: "name_byte c \<Longrightarrow> lower_char c \<noteq> CHR ''-'' \<and> lower_char c \<noteq> CHR ''+''"
proof -
  have "list_all (\<lambda>c. lower_char c \<noteq> CHR ''-'' \<and> lower_char c \<noteq> CHR ''+'')
      ''_0123456789abcdefghijklmnopqrstuvwxyzABCDEFGHIJKLMNOPQRSTUVWXYZ''"
    by code_simp
  then show "name_byte c \<Longrightarrow> lower_char c \<noteq> CHR ''-'' \<and> lower_char c \<noteq> CHR ''+''"
    by (simp only: name_byte_def list_all_iff) blast
qed

lemma clean_sum_unsigned: "c \<in> set (clean_sum s) \<Longrightarrow> c \<noteq> CHR ''-'' \<and> c \<noteq> CHR ''+''"
  using name_byte_lower by (auto simp: clean_sum_def to_lower_def)

text \<open>
  A checksum of more than sixteen digits, so every digest in use, is refused: the module
  fails, touches no file and sends no request.
\<close>

theorem long_checksum_rejected:
  assumes "get_url_start t (prepare_vars vs) = Ok p" "gq_checksum p \<noteq> []"
    and "splitn 2 (CHR '':'') (gq_checksum p) = [algorithm, csum]" "\<not> is_url (gt_net t) csum"
    and "clean_sum csum = c # cs" "c \<noteq> CHR ''0''" "16 \<le> length cs"
  shows "gs_mod (fst (get_url_run t vs s)) = gs_mod s \<and> gs_sent (fst (get_url_run t vs s)) = gs_sent s
    \<and> (case snd (get_url_run t vs s) of Ok r \<Rightarrow> r_failed (go_ret r) | _ \<Rightarrow> False)"
proof -
  have "parse_int 16 64 (clean_sum csum) = None"
    using clean_sum_unsigned [of c csum] assms(5-7) by (simp add: long_hex_rejected)
  then have "get_url_body t p (prepare_vars vs) s =
      (fst (update_out t (out_spec (empty_get_url_return\<lparr>gu_dest := gq_dest p, gu_url := uc_url (gq_common p)\<rparr>)) s),
       Err (ModuleError ''the checksum format is invalid''))"
    using handle_checksum_plain [OF assms(3,4)] assms(2)
    by (simp add: get_url_body_def update_out_def pbind_def)
  then show ?thesis
    by (simp add: get_url_run_def assms(1) pbind_plift Let_def update_out_def mark_return_failed_def warn_def)
qed

section \<open>Examples\<close>

definition sample_params :: get_url_params where
  "sample_params =
     default_get_url_params\<lparr>gq_checksum := ''md5:00ff'', gq_dest := ''/s'',
       gq_common := new_url_params\<lparr>uc_url := ''http://example.org/s''\<rparr>\<rparr>"

definition sample_tools :: get_url_tools where
  "sample_tools =
     \<lparr>gt_files = busy_tools\<lparr>ft_hash := (\<lambda>a. if a = ''md5'' then Some (\<lambda>s. ''digest'') else None)\<rparr>,
      gt_net = \<lparr>n_parse = (\<lambda>s. Some \<lparr>pu_scheme = [], pu_path = s, pu_host = []\<rparr>), n_decode = (\<lambda>d r. r),
                n_netrc = None, n_date = (\<lambda>_. []), n_send = (\<lambda>_ _. Inl ''no network'')\<rparr>,
      gt_decode = (\<lambda>vs p. Inr (case vs ''checksum'' of Some (GStr c) \<Rightarrow> sample_params\<lparr>gq_checksum := c\<rparr> | _ \<Rightarrow> sample_params)),
      gt_decode_file = (\<lambda>_. Inl ''not decoded''), gt_access = (\<lambda>_ _ _. None), gt_update = (\<lambda>old new. new),
      gt_error = (\<lambda>_. ''failed''), gt_elapsed = (\<lambda>_. 0), gt_total = (\<lambda>_. 0)\<rparr>"

definition sample_state :: get_url_state where
  "sample_state =
     \<lparr>gs_mod = two_files, gs_force = False, gs_last_mod = None,
      gs_ret = \<lparr>go_ret = new_return, go_spec = None\<rparr>, gs_sent = []\<rparr>"

lemma sample_readable: "readable_at sample_tools ''/s'' sample_state (plain_inode ''new'')"
proof -
  have forty: "40 = Suc 39" by simp
  have "follow_links (Suc 39) (files_of two_files) ''/s'' = Ok (''/s'', plain_inode ''new'')"
    by (subst follow_links.simps) (simp add: files_of_def two_files_def)
  then have "follow_links 40 (files_of two_files) ''/s'' = Ok (''/s'', plain_inode ''new'')"
    by (simp only: forty)
  then show ?thesis
    by (simp add: readable_at_def sample_state_def sample_tools_def gt_os_def ft_os_def busy_tools_def busy_os_def)
qed


definition sha1_vars :: vars where
  "sha1_vars = [''checksum'' \<mapsto> GStr ''sha1:da39a3ee5e6b4b0d3255bfef95601890afd80709'']"

lemma long_checksum_rejected_witness:
  "gs_mod (fst (get_url_run sample_tools sha1_vars sample_state)) = gs_mod sample_state
   \<and> gs_sent (fst (get_url_run sample_tools sha1_vars sample_state)) = gs_sent sample_state
   \<and> (case snd (get_url_run sample_tools sha1_vars sample_state) of Ok r \<Rightarrow> r_failed (go_ret r) | _ \<Rightarrow> False)"
proof (rule long_checksum_rejected)
  let ?p = "sample_params\<lparr>gq_checksum := ''sha1:da39a3ee5e6b4b0d3255bfef95601890afd80709''\<rparr>"
  show "get_url_start sample_tools (prepare_vars sha1_vars) = Ok ?p"
    by (simp add: get_url_start_def sample_tools_def prepare_vars_def string_var_def arg_value_def
        validate_get_url_def sample_params_def sha1_vars_def Let_def)
  show "gq_checksum ?p \<noteq> []" by simp
  show "splitn 2 (CHR '':'') (gq_checksum ?p) = [''sha1'', ''da39a3ee5e6b4b0d3255bfef95601890afd80709'']" by code_simp
  show "\<not> is_url (gt_net sample_tools) ''da39a3ee5e6b4b0d3255bfef95601890afd80709''"
    by (simp add: is_url_def sample_tools_def)
  show "clean_sum ''da39a3ee5e6b4b0d3255bfef95601890afd80709'' = CHR ''d'' # ''a39a3ee5e6b4b0d3255bfef95601890afd80709''"
    by code_simp
  show "CHR ''d'' \<noteq> CHR ''0''" "16 \<le> length ''a39a3ee5e6b4b0d3255bfef95601890afd80709''" by simp_all
qed

text \<open>A context with a level, asked for without one, panics.\<close>

lemma fill_default_level: "length ctx < length d \<Longrightarrow> fill_default ctx d = Panic"
  by (induction ctx d rule: fill_default.induct) auto

end
