(* ===== verification/Python_Module.thy ===== *)
theory Python_Module
  imports Files Actions "HOL-Library.Word"
begin

text \<open>
  Modules written in Python (\<open>module_utils/pythonModule\<close>): requests and responses are lines of
  JSON over a pipe, numbered by tags.  JSON, and what the Python process accepts and prints
  (depending on all lines it was given), are parameters.
\<close>

section \<open>The executor\<close>

datatype py_error = NoRuntime | PyError string

text \<open>The lines a request is made of, before they are encoded.\<close>

datatype py_line = HeaderLine string "64 word" | HelloLine | ExecLine string vars

record py_response =
  pr_result :: vars
  pr_exception :: "string option"

datatype write_result = Written | ShortWrite | WriteFailed string

text \<open>
  A process: how it takes a line, and the next line it prints, given the lines written so far and
  the number of lines read; \<open>Inl\<close> is the end of its output or an error.
\<close>

record py_process =
  pp_write :: "string list \<Rightarrow> string \<Rightarrow> write_result"
  pp_line :: "string list \<Rightarrow> nat \<Rightarrow> string + string"

record executor =
  ex_proc :: py_process
  ex_written :: "string list"
  ex_read :: nat
  ex_invalid :: bool
  ex_tag :: "64 word"

record py_tools =
  py_marshal :: "py_line \<Rightarrow> string option"
  py_read_tag :: "string \<Rightarrow> 64 word option"
  py_read_hello :: "string \<Rightarrow> unit option"
  py_read_exec :: "string \<Rightarrow> py_response option"
  py_binary_dir :: "string option"
  py_os :: os
  py_environ :: "string list"
  py_python_path :: "string option"
  py_start :: "nat \<Rightarrow> string list \<Rightarrow> string list \<Rightarrow> string + py_process"
  py_error_text :: "py_error \<Rightarrow> string"

type_synonym 'a exec = "(executor, py_error, 'a) prog"

definition invalidate :: "unit exec" where
  "invalidate e = (e\<lparr>ex_invalid := True\<rparr>, Ok ())"

definition write_line :: "py_tools \<Rightarrow> py_line \<Rightarrow> unit exec" where
  "write_line t l e =
     (case py_marshal t l of
        None \<Rightarrow> (e, Err (PyError ''json''))
      | Some s \<Rightarrow>
          (case pp_write (ex_proc e) (ex_written e) (s @ [nl]) of
             Written \<Rightarrow> (e\<lparr>ex_written := ex_written e @ [s @ [nl]]\<rparr>, Ok ())
           | ShortWrite \<Rightarrow> (e\<lparr>ex_invalid := True\<rparr>, Err (PyError ''incorrect number of bytes written''))
           | WriteFailed m \<Rightarrow> (e\<lparr>ex_invalid := True\<rparr>, Err (PyError m))))"

definition read_line :: "(string \<Rightarrow> 'a option) \<Rightarrow> 'a exec" where
  "read_line decode e =
     (case pp_line (ex_proc e) (ex_written e) (ex_read e) of
        Inl m \<Rightarrow> (e\<lparr>ex_invalid := True\<rparr>, Err (PyError m))
      | Inr l \<Rightarrow>
          (case decode l of
             None \<Rightarrow> (e\<lparr>ex_read := Suc (ex_read e), ex_invalid := True\<rparr>, Err (PyError ''json''))
           | Some a \<Rightarrow> (e\<lparr>ex_read := Suc (ex_read e)\<rparr>, Ok a)))"

definition next_tag :: "64 word exec" where
  "next_tag e = (e\<lparr>ex_tag := ex_tag e + 1\<rparr>, Ok (ex_tag e))"

definition execute_command :: "py_tools \<Rightarrow> string \<Rightarrow> py_line \<Rightarrow> (string \<Rightarrow> 'a option) \<Rightarrow> 'a exec" where
  "execute_command t cmd req decode e =
     (if ex_invalid e then (e, Err (PyError ''cannot use an invalidated executor''))
      else
        pbind next_tag (\<lambda>tag.
        pbind (write_line t (HeaderLine cmd tag)) (\<lambda>_.
        pbind (ptry (write_line t req)) (\<lambda>r.
          case r of
            Inl err \<Rightarrow> pbind invalidate (\<lambda>_. plift (Err err))
          | Inr _ \<Rightarrow>
              pbind (read_line (py_read_tag t)) (\<lambda>tag'.
                if tag' \<noteq> tag then pbind invalidate (\<lambda>_. plift (Err (PyError ''response header tag does not match'')))
                else read_line decode)))) e)"

definition start_executor :: "py_process \<Rightarrow> executor" where
  "start_executor p = \<lparr>ex_proc = p, ex_written = [], ex_read = 0, ex_invalid = False, ex_tag = 1\<rparr>"

section \<open>The manager\<close>

record py_host =
  ph_fs :: fs
  ph_current :: "executor option"
  ph_started :: nat

type_synonym 'a py = "(py_host, py_error, 'a) prog"

definition py_files :: "'a io \<Rightarrow> (py_host, os_error, 'a) prog" where
  "py_files f h = (case f (ph_fs h) of (fs, r) \<Rightarrow> (h\<lparr>ph_fs := fs\<rparr>, r))"

definition runtime_path :: "py_tools \<Rightarrow> (py_error, string) outcome" where
  "runtime_path t =
     (case py_binary_dir t of None \<Rightarrow> Err (PyError ''binary directory'') | Some d \<Rightarrow> Ok (path_join [d, ''py_runtime.zip'']))"

definition python_environ :: "py_tools \<Rightarrow> string \<Rightarrow> string list" where
  "python_environ t zip_path =
     py_environ t @ [''PYTHONPATH='' @ zip_path @ (case py_python_path t of Some p \<Rightarrow> '':'' @ p | None \<Rightarrow> [])]"

text \<open>A new executor says hello; when that fails it is not kept.\<close>

definition new_executor :: "py_tools \<Rightarrow> string \<Rightarrow> executor py" where
  "new_executor t zip_path h =
     (case py_start t (ph_started h) [''/usr/bin/python3'', ''-m'', ''py_runtime.py_runtime''] (python_environ t zip_path) of
        Inl m \<Rightarrow> (h, Err (PyError m))
      | Inr p \<Rightarrow>
          (h\<lparr>ph_started := Suc (ph_started h)\<rparr>,
           case execute_command t ''hello'' HelloLine (py_read_hello t) (start_executor p) of
             (e, Ok _) \<Rightarrow> Ok e
           | (e, Err m) \<Rightarrow> Err m
           | (e, Panic) \<Rightarrow> Panic))"

text \<open>An error of the status other than a missing file is passed over.\<close>

definition fresh_executor :: "py_tools \<Rightarrow> executor py" where
  "fresh_executor t =
     pbind (plift (runtime_path t)) (\<lambda>p.
     pbind (ptry (py_files (os_stat (py_os t) p))) (\<lambda>st.
       if st = Inl NotExist then plift (Err NoRuntime)
       else pbind (new_executor t p) (\<lambda>e h. (h\<lparr>ph_current := Some e\<rparr>, Ok e))))"

definition get_executor :: "py_tools \<Rightarrow> executor py" where
  "get_executor t h =
     (case ph_current h of
        Some e \<Rightarrow> if \<not> ex_invalid e then (h, Ok e) else fresh_executor t h
      | None \<Rightarrow> fresh_executor t h)"

section \<open>The module\<close>

definition save_runtime :: "py_tools \<Rightarrow> string \<Rightarrow> unit py" where
  "save_runtime t data =
     pbind (plift (runtime_path t)) (\<lambda>p.
       pmap_err (\<lambda>_. PyError ''cannot write the runtime'') (py_files (os_write_file (py_os t) p data 0x1A4)))"

definition error_return :: "py_tools \<Rightarrow> py_error \<Rightarrow> mod_return" where
  "error_return t e =
     empty_return\<lparr>r_failed := True,
       r_internal := Some (no_internal\<lparr>ir_exception := py_error_text t e, ir_needs_python := (e = NoRuntime)\<rparr>)\<rparr>"

text \<open>The result of Python: three entries move to the return, the others stay as its special part.\<close>

definition convert_result :: "vars \<Rightarrow> mod_return \<times> vars" where
  "convert_result r =
     (let changed = Option.bind (r ''changed'') as_bool;
          failed = Option.bind (r ''failed'') as_bool;
          msg = Option.bind (r ''msg'') as_string;
          drop = (\<lambda>k found m. if found then m(k := None) else m)
      in (empty_return\<lparr>r_changed := (changed = Some True), r_failed := (failed = Some True),
            r_msg := (case msg of Some s \<Rightarrow> s | None \<Rightarrow> [])\<rparr>,
          drop ''msg'' (msg \<noteq> None) (drop ''failed'' (failed \<noteq> None) (drop ''changed'' (changed \<noteq> None) r))))"

definition standard_module :: "string \<Rightarrow> string \<Rightarrow> string \<times> string" where
  "standard_module name pre = (pre @ name, ''ansible.modules.'' @ name)"

definition on_current :: "'a exec \<Rightarrow> executor \<Rightarrow> 'a py" where
  "on_current f e h = (case f e of (e, r) \<Rightarrow> (h\<lparr>ph_current := Some e\<rparr>, r))"

definition python_body :: "py_tools \<Rightarrow> string \<Rightarrow> string \<Rightarrow> vars \<Rightarrow> py_response py" where
  "python_body t module_name zip_data vs =
     pbind (if zip_data \<noteq> [] then save_runtime t zip_data else pret ()) (\<lambda>_.
     pbind (get_executor t) (\<lambda>e.
     pbind (on_current (execute_command t ''execute'' (ExecLine module_name vs) (py_read_exec t)) e) (\<lambda>r.
       case pr_exception r of Some m \<Rightarrow> plift (Err (PyError m)) | None \<Rightarrow> pret r)))"

definition python_run :: "py_tools \<Rightarrow> string \<Rightarrow> string \<Rightarrow> vars \<Rightarrow> (mod_return \<times> vars) py" where
  "python_run t module_name zip_data vs h =
     (case python_body t module_name zip_data vs h of
        (h, Ok r) \<Rightarrow> (h, Ok (convert_result (pr_result r)))
      | (h, Err e) \<Rightarrow> (h, Ok (error_return t e, Map.empty))
      | (h, Panic) \<Rightarrow> (h, Panic))"

section \<open>Executors that failed\<close>

lemma write_line_cases:
  obtains "py_marshal t l = None" "write_line t l e = (e, Err (PyError ''json''))"
  | s where "py_marshal t l = Some s" "write_line t l e = (e\<lparr>ex_written := ex_written e @ [s @ [nl]]\<rparr>, Ok ())"
  | s m where "py_marshal t l = Some s" "write_line t l e = (e\<lparr>ex_invalid := True\<rparr>, Err m)"
  by (cases "py_marshal t l"; cases "pp_write (ex_proc e) (ex_written e) (the (py_marshal t l) @ [nl])")
     (simp_all add: write_line_def)

lemma read_line_Err: "snd (read_line d e) = Err x \<Longrightarrow> ex_invalid (fst (read_line d e))"
  by (auto simp: read_line_def split: sum.splits option.splits)

lemma read_line_no_panic: "snd (read_line d e) \<noteq> Panic"
  by (auto simp: read_line_def split: sum.splits option.splits)

lemma execute_command_unfold:
  fixes d :: "string \<Rightarrow> 'a option"
  assumes "\<not> ex_invalid e"
  shows "execute_command t cmd req d e =
    pbind (write_line t (HeaderLine cmd (ex_tag e))) (\<lambda>_.
    pbind (ptry (write_line t req)) (\<lambda>r.
      case r of
        Inl err \<Rightarrow> pbind invalidate (\<lambda>_. plift (Err err))
      | Inr _ \<Rightarrow>
          pbind (read_line (py_read_tag t)) (\<lambda>tag'.
            if tag' \<noteq> ex_tag e then pbind invalidate (\<lambda>_. plift (Err (PyError ''response header tag does not match'')))
            else read_line d))) (e\<lparr>ex_tag := ex_tag e + 1\<rparr>)"
proof -
  have "pbind next_tag g e = g (ex_tag e) (e\<lparr>ex_tag := ex_tag e + 1\<rparr>)" for g :: "64 word \<Rightarrow> 'a exec"
    by (simp add: pbind_def next_tag_def)
  with assms show ?thesis by (simp add: execute_command_def)
qed

text \<open>
  C13.  A call that fails ends the executor: unless the header itself could not be encoded, an error
  leaves an executor that is never used again, so no answer is read for another request.
\<close>

theorem failed_call_invalidates:
  assumes "py_marshal t (HeaderLine cmd (ex_tag e)) \<noteq> None"
    and "execute_command t cmd req d e = (e', Err m)"
  shows "ex_invalid e'"
proof (cases "ex_invalid e")
  case True
  then show ?thesis using assms(2) by (simp add: execute_command_def)
next
  case False
  let ?e = "e\<lparr>ex_tag := ex_tag e + 1\<rparr>"
  note run = assms(2) [unfolded execute_command_unfold [OF False]]
  show ?thesis
  proof (rule write_line_cases [of t "HeaderLine cmd (ex_tag e)" ?e])
    fix s assume hdr: "write_line t (HeaderLine cmd (ex_tag e)) ?e = (?e\<lparr>ex_written := ex_written ?e @ [s @ [nl]]\<rparr>, Ok ())"
    let ?e1 = "?e\<lparr>ex_written := ex_written ?e @ [s @ [nl]]\<rparr>"
    obtain e2 r where w: "write_line t req ?e1 = (e2, r)" by force
    show ?thesis
    proof (cases r)
      case (Ok u)
      then have "pbind (read_line (py_read_tag t)) (\<lambda>tag'.
            if tag' \<noteq> ex_tag e then pbind invalidate (\<lambda>_. plift (Err (PyError ''response header tag does not match'')))
            else read_line d) e2 = (e', Err m)"
        using run hdr w by (simp add: pbind_def ptry_def)
      then show ?thesis
        using read_line_Err [of "py_read_tag t" e2 m] read_line_Err [of d]
        by (auto simp: pbind_def invalidate_def plift_def split: prod.splits outcome.splits if_splits)
           (metis fst_conv snd_conv)+
    qed (use run hdr w in \<open>auto simp: pbind_def ptry_def invalidate_def plift_def\<close>)
  qed (use run assms(1) in \<open>auto simp: pbind_def\<close>)
qed

section \<open>Answers belong to their requests\<close>

text \<open>A process that answers each header and each request by a line.\<close>

fun answers :: "(string \<Rightarrow> string) \<Rightarrow> (string \<Rightarrow> string) \<Rightarrow> string list \<Rightarrow> string list" where
  "answers head reply (h # r # ws) = head h # reply r # answers head reply ws"
| "answers head reply _ = []"

lemma answers_append:
  assumes "even (length ws)"
  shows "answers head reply (ws @ [h, r]) = answers head reply ws @ [head h, reply r]
    \<and> length (answers head reply ws) = length ws"
  using assms by (induction head reply ws rule: answers.induct) auto

definition serving :: "(string \<Rightarrow> string) \<Rightarrow> (string \<Rightarrow> string) \<Rightarrow> py_process" where
  "serving head reply =
     \<lparr>pp_write = (\<lambda>_ _. Written),
      pp_line = (\<lambda>ws n. if n < length (answers head reply ws) then Inr (answers head reply ws ! n) else Inl ''end of file'')\<rparr>"

definition in_step :: "executor \<Rightarrow> bool" where
  "in_step e \<longleftrightarrow> \<not> ex_invalid e \<and> even (length (ex_written e)) \<and> ex_read e = length (ex_written e)"

text \<open>Headers can be encoded, and the answer to a header has its tag.\<close>

definition echoes_tags :: "py_tools \<Rightarrow> (string \<Rightarrow> string) \<Rightarrow> bool" where
  "echoes_tags t head \<longleftrightarrow>
     (\<forall>cmd tag. \<exists>s. py_marshal t (HeaderLine cmd tag) = Some s \<and> py_read_tag t (head (s @ [nl])) = Some tag)"

lemma read_line_serving:
  assumes "ex_proc e = serving head reply" "ex_read e < length (answers head reply (ex_written e))"
    and "d (answers head reply (ex_written e) ! ex_read e) = Some a"
  shows "read_line d e = (e\<lparr>ex_read := Suc (ex_read e)\<rparr>, Ok a)"
  using assms by (simp add: read_line_def serving_def)

lemma answered:
  assumes "ex_proc e = serving head reply" "in_step e" "echoes_tags t head"
    and "py_marshal t req = Some s" "d (reply (s @ [nl])) = Some a"
  shows "\<exists>e'. execute_command t cmd req d e = (e', Ok a) \<and> in_step e' \<and> ex_proc e' = ex_proc e"
proof -
  obtain h where h: "py_marshal t (HeaderLine cmd (ex_tag e)) = Some h" "py_read_tag t (head (h @ [nl])) = Some (ex_tag e)"
    using assms(3) by (auto simp: echoes_tags_def)
  let ?ws = "ex_written e @ [h @ [nl], s @ [nl]]"
  let ?e = "e\<lparr>ex_tag := ex_tag e + 1, ex_written := ?ws\<rparr>"
  have ev: "even (length (ex_written e))" and rd: "ex_read e = length (ex_written e)" and v: "\<not> ex_invalid e"
    using assms(2) by (auto simp: in_step_def)
  note ans = answers_append [OF ev, of head reply "h @ [nl]" "s @ [nl]"]
  have first: "read_line (py_read_tag t) ?e = (?e\<lparr>ex_read := Suc (ex_read e)\<rparr>, Ok (ex_tag e))"
    using read_line_serving [of ?e head reply "py_read_tag t" "ex_tag e"] assms(1) ans h(2) rd
    by (simp add: nth_append)
  have second: "read_line d (?e\<lparr>ex_read := Suc (ex_read e)\<rparr>) = (?e\<lparr>ex_read := Suc (Suc (ex_read e))\<rparr>, Ok a)"
    using read_line_serving [of "?e\<lparr>ex_read := Suc (ex_read e)\<rparr>" head reply d a] assms(1,5) ans rd
    by (simp add: nth_append)
  have "execute_command t cmd req d e = (?e\<lparr>ex_read := Suc (Suc (ex_read e))\<rparr>, Ok a)"
    unfolding execute_command_unfold [OF v]
    using h(1) assms(1,4) first second
    by (simp add: write_line_def serving_def pbind_def ptry_def)
  moreover have "in_step (?e\<lparr>ex_read := Suc (Suc (ex_read e))\<rparr>)"
    using ev rd v by (simp add: in_step_def)
  ultimately show ?thesis by auto
qed

text \<open>A session: calls one after the other, as the manager makes them on its current executor.\<close>

fun call_session :: "py_tools \<Rightarrow> (string \<times> vars) list \<Rightarrow> py_response list exec" where
  "call_session t [] = pret []"
| "call_session t ((n, vs) # calls) =
     pbind (execute_command t ''execute'' (ExecLine n vs) (py_read_exec t)) (\<lambda>r.
     pbind (call_session t calls) (\<lambda>rs. pret (r # rs)))"


section \<open>Asking for the runtime\<close>

lemma read_line_not_missing: "read_line d e \<noteq> (e', Err NoRuntime)"
  by (auto simp: read_line_def split: option.splits sum.splits)

lemma read_line_not_missing_snd: "snd (read_line d e) \<noteq> Err NoRuntime"
  using read_line_not_missing [of d e] by (metis prod.collapse)

lemma write_line_not_missing: "write_line t l e \<noteq> (e', Err NoRuntime)"
  by (auto simp: write_line_def split: option.splits write_result.splits)

lemma execute_command_not_missing: "snd (execute_command t cmd req d e) \<noteq> Err NoRuntime"
proof (cases "ex_invalid e")
  case False
  show ?thesis
    unfolding execute_command_unfold [OF False]
    by (auto simp: pbind_def ptry_def invalidate_def plift_def read_line_not_missing read_line_not_missing_snd write_line_not_missing
        split: prod.splits outcome.splits sum.splits)
qed (simp add: execute_command_def)

definition runtime_missing :: "py_tools \<Rightarrow> py_host \<Rightarrow> bool" where
  "runtime_missing t h \<longleftrightarrow>
     (case ph_current h of Some e \<Rightarrow> ex_invalid e | None \<Rightarrow> True)
     \<and> (case runtime_path t of Ok p \<Rightarrow> snd (os_stat (py_os t) p (ph_fs h)) = Err NotExist | _ \<Rightarrow> False)"

lemma fresh_executor_missing:
  "snd (fresh_executor t h) = Err NoRuntime \<longleftrightarrow>
     (case runtime_path t of Ok p \<Rightarrow> snd (os_stat (py_os t) p (ph_fs h)) = Err NotExist | _ \<Rightarrow> False)"
proof (cases "runtime_path t")
  case (Ok p)
  have "snd (new_executor t p h') \<noteq> Err NoRuntime" for h'
    using execute_command_not_missing [of t "''hello''" HelloLine "py_read_hello t"]
    by (auto simp: new_executor_def split: sum.splits prod.splits outcome.splits) (metis snd_conv)
  then have new: "new_executor t p h' \<noteq> (h2, Err NoRuntime)" for h' h2
    by (metis snd_conv)
  obtain fs r where r: "os_stat (py_os t) p (ph_fs h) = (fs, r)" by force
  show ?thesis
    using new Ok r
    by (cases r) (auto simp: fresh_executor_def pbind_def plift_def ptry_def py_files_def split: prod.splits outcome.splits)
qed (auto simp: fresh_executor_def pbind_def plift_def runtime_path_def split: option.splits)

lemma get_executor_missing: "snd (get_executor t h) = Err NoRuntime \<longleftrightarrow> runtime_missing t h"
  by (auto simp: get_executor_def runtime_missing_def fresh_executor_missing split: option.splits)

text \<open>
  A call without the runtime at hand asks for it, by the mark in its return that makes the
  controller send it, exactly when there is no usable executor and the runtime file is missing.
\<close>

theorem asks_for_runtime_iff:
  assumes "python_run t n [] vs h = (h', Ok (r, rest))"
  shows "ir_needs_python (the_internal r) \<longleftrightarrow> runtime_missing t h"
proof -
  obtain h1 res where g: "get_executor t h = (h1, res)" by force
  have "\<not> ir_needs_python (the_internal (fst (convert_result x)))" for x
    by (simp add: convert_result_def Let_def the_internal_def empty_return_def no_internal_def)
  then have conv: "convert_result x = (r', rest') \<Longrightarrow> \<not> ir_needs_python (the_internal r')" for x r' rest'
    by (metis fst_conv)
  have err: "ir_needs_python (the_internal (error_return t x)) \<longleftrightarrow> x = NoRuntime" for x
    by (simp add: error_return_def the_internal_def no_internal_def)
  show ?thesis
  proof (cases res)
    case (Ok e)
    obtain e1 res1 where x: "execute_command t ''execute'' (ExecLine n vs) (py_read_exec t) e = (e1, res1)" by force
    have "res1 \<noteq> Err NoRuntime"
      using execute_command_not_missing [of t "''execute''" "ExecLine n vs" "py_read_exec t" e] x by simp
    then have "\<not> ir_needs_python (the_internal r)"
      using assms g Ok x conv err
      by (cases res1) (auto simp: python_run_def python_body_def on_current_def pbind_def pret_def plift_def split: option.splits)
    then show ?thesis using get_executor_missing [of t h] g Ok by simp
  next
    case (Err m)
    then show ?thesis
      using assms g err get_executor_missing [of t h] by (auto simp: python_run_def python_body_def pbind_def pret_def)
  qed (use assms g in \<open>simp add: python_run_def python_body_def pbind_def pret_def\<close>)
qed

section \<open>Examples\<close>

text \<open>Headers are encoded by their tag in unary, requests by the name of the module.\<close>

definition py_sample :: py_tools where
  "py_sample =
     \<lparr>py_marshal = (\<lambda>l. case l of HeaderLine cmd tag \<Rightarrow> Some (itoa (uint tag)) | HelloLine \<Rightarrow> Some ''{}'' | ExecLine n vs \<Rightarrow> Some n),
      py_read_tag = (\<lambda>s. map_option word_of_int (parse_int 10 65 s)), py_read_hello = (\<lambda>s. Some ()),
      py_read_exec = (\<lambda>s. Some \<lparr>pr_result = [''msg'' \<mapsto> GStr s], pr_exception = None\<rparr>),
      py_binary_dir = Some ''/tmp'',
      py_os = \<lparr>o_refuse = (\<lambda>_ _. None), o_umask = 0, o_env = (\<lambda>_. []), o_uid = 0, o_gid = 0,
               o_eval_links = (\<lambda>_. None), o_cwd = ''/''\<rparr>,
      py_environ = [], py_python_path = None, py_start = (\<lambda>_ _ _. Inl ''no python''), py_error_text = (\<lambda>_. ''failed'')\<rparr>"

lemma py_sample_echoes: "echoes_tags py_sample butlast"
proof -
  have "parse_int 10 65 (itoa (uint tag)) = Some (uint tag)" for tag :: "64 word"
  proof (rule parse_int_itoa)
    show "- (2 ^ (65 - 1)) \<le> uint tag" using uint_ge_0 [of tag] by (rule order_trans [rotated]) simp
    show "uint tag < 2 ^ (65 - 1)" using uint_lt2p [of tag] by simp
  qed
  then show ?thesis by (simp add: echoes_tags_def py_sample_def)
qed


text \<open>A process that repeats an old tag.\<close>

definition stale_executor :: executor where
  "stale_executor = (start_executor (serving (\<lambda>_. ''7'') (\<lambda>s. s)))\<lparr>ex_tag := 8\<rparr>"

lemma failed_call_invalidates_witness:
  "ex_invalid (fst (execute_command py_sample ''execute'' (ExecLine ''apt'' Map.empty) (py_read_exec py_sample) stale_executor))"
proof -
  have tag: "parse_int 10 65 ''7'' = Some 7" by code_simp
  have "snd (execute_command py_sample ''execute'' (ExecLine ''apt'' Map.empty) (py_read_exec py_sample) stale_executor)
      = Err (PyError ''response header tag does not match'')"
    by (subst execute_command_unfold)
       (simp_all add: stale_executor_def start_executor_def pbind_def write_line_def py_sample_def serving_def ptry_def
          read_line_def tag invalidate_def plift_def)
  then have "execute_command py_sample ''execute'' (ExecLine ''apt'' Map.empty) (py_read_exec py_sample) stale_executor
      = (fst (execute_command py_sample ''execute'' (ExecLine ''apt'' Map.empty) (py_read_exec py_sample) stale_executor),
         Err (PyError ''response header tag does not match''))"
    by (metis prod.collapse)
  moreover have "py_marshal py_sample (HeaderLine ''execute'' (ex_tag stale_executor)) \<noteq> None"
    by (simp add: py_sample_def)
  ultimately show ?thesis by (intro failed_call_invalidates)
qed

definition bare_host :: py_host where
  "bare_host = \<lparr>ph_fs = Map.empty, ph_current = None, ph_started = 0\<rparr>"

lemma asks_for_runtime_iff_witness:
  "ir_needs_python (the_internal (error_return py_sample NoRuntime)) \<longleftrightarrow> runtime_missing py_sample bare_host"
proof -
  have st: "os_stat (py_os py_sample) p Map.empty = (Map.empty, Err NotExist)" for p
    by (simp add: os_stat_eq py_sample_def numeral_eq_Suc)
  have "fresh_executor py_sample bare_host = (bare_host, Err NoRuntime)"
    using st by (simp add: fresh_executor_def runtime_path_def pbind_def plift_def ptry_def py_files_def bare_host_def
        py_sample_def)
  then have "python_run py_sample ''apt'' [] Map.empty bare_host = (bare_host, Ok (error_return py_sample NoRuntime, Map.empty))"
    by (simp add: python_run_def python_body_def get_executor_def bare_host_def pbind_def pret_def)
  then show ?thesis by (rule asks_for_runtime_iff)
qed

end
