(* ===== verification/Display.thy ===== *)
theory Display
  imports Go_Effects Go_Values
begin

text \<open>
  Messages on the terminal and in the log (\<open>utils/display\<close>, colors of \<open>constants\<close>).  The state
  holds what \<open>display\<close> and the package keep and everything written so far.  Formatting of
  \<open>fmt\<close>, wrapping and measuring texts, the terminal and failing writes are parameters.
\<close>

section \<open>Colors\<close>

definition color_codes :: "string \<rightharpoonup> string" where
  "color_codes =
     [''black'' \<mapsto> ''0;30'', ''bright gray'' \<mapsto> ''0;37'', ''blue'' \<mapsto> ''0;34'', ''white'' \<mapsto> ''1;37'',
      ''green'' \<mapsto> ''0;32'', ''bright blue'' \<mapsto> ''1;34'', ''cyan'' \<mapsto> ''0;36'', ''bright green'' \<mapsto> ''1;32'',
      ''red'' \<mapsto> ''0;31'', ''bright cyan'' \<mapsto> ''1;36'', ''purple'' \<mapsto> ''0;35'', ''bright red'' \<mapsto> ''1;31'',
      ''yellow'' \<mapsto> ''0;33'', ''bright purple'' \<mapsto> ''1;35'', ''dark gray'' \<mapsto> ''1;30'',
      ''bright yellow'' \<mapsto> ''1;33'', ''magenta'' \<mapsto> ''0;35'', ''bright magenta'' \<mapsto> ''1;35'', ''normal'' \<mapsto> ''0'']"

text \<open>What the expression for colors finds: the first place where one of its alternatives matches.\<close>

datatype color_match = NumberedColor string | RgbColor nat nat nat | GrayColor string

definition is_digit :: "char \<Rightarrow> bool" where
  "is_digit c \<longleftrightarrow> c \<in> set ''0123456789''"

definition small_digit :: "char \<Rightarrow> bool" where
  "small_digit c \<longleftrightarrow> c \<in> set ''012345''"

definition digit_nat :: "char \<Rightarrow> nat" where
  "digit_nat c = of_char c - 48"

definition match_color_here :: "string \<Rightarrow> color_match option" where
  "match_color_here s =
     (if has_prefix s ''Color'' \<and> takeWhile is_digit (drop 5 s) \<noteq> []
      then Some (NumberedColor (takeWhile is_digit (drop 5 s)))
      else if has_prefix s ''rgb'' \<and> length s \<ge> 6 \<and> list_all small_digit (take 3 (drop 3 s))
      then Some (RgbColor (digit_nat (s ! 3)) (digit_nat (s ! 4)) (digit_nat (s ! 5)))
      else if has_prefix s ''gray'' \<and> takeWhile is_digit (drop 4 s) \<noteq> []
      then Some (GrayColor (takeWhile is_digit (drop 4 s)))
      else None)"

fun match_color :: "string \<Rightarrow> color_match option" where
  "match_color [] = None"
| "match_color (c # s) = (case match_color_here (c # s) of Some m \<Rightarrow> Some m | None \<Rightarrow> match_color s)"

text \<open>A number too large for an \<open>int\<close> panics; a name that is not known has no code.\<close>

definition parse_color :: "string \<Rightarrow> ('e, string) outcome" where
  "parse_color color =
     (case match_color color of
        None \<Rightarrow> Ok (case color_codes color of Some c \<Rightarrow> c | None \<Rightarrow> [])
      | Some (NumberedColor n) \<Rightarrow> (case parse_int 10 64 n of Some i \<Rightarrow> Ok (''38;5;'' @ itoa i) | None \<Rightarrow> Panic)
      | Some (RgbColor r g b) \<Rightarrow> Ok (''38;5;'' @ itoa (int (16 + 36 * r + 6 * g + b)))
      | Some (GrayColor n) \<Rightarrow> (case parse_int 10 64 n of Some i \<Rightarrow> Ok (''38;5;'' @ itoa (232 + i)) | None \<Rightarrow> Panic))"

definition esc :: char where "esc = CHR 0x1B"

definition sgr :: "string \<Rightarrow> string" where
  "sgr code = [esc, CHR ''[''] @ code @ ''m''"

definition color_line :: "bool \<Rightarrow> string \<Rightarrow> string \<Rightarrow> string" where
  "color_line wrap code l =
     (if wrap then [CHR 0x01] @ sgr code @ [CHR 0x02] @ l @ [CHR 0x01] @ sgr ''0'' @ [CHR 0x02]
      else sgr code @ l @ sgr ''0'')"

definition stringc :: "bool \<Rightarrow> string \<Rightarrow> string \<Rightarrow> bool \<Rightarrow> ('e, string) outcome" where
  "stringc enabled s color wrap =
     (if \<not> enabled then Ok s
      else omap (\<lambda>code. join [nl] (map (color_line wrap code) (split_on nl s))) (parse_color color))"

section \<open>State\<close>

datatype log_level = LevelInfo | LevelError | LevelWarning | LevelDebug

datatype shown = ToStdout string | ToStderr string | ToLog log_level string

record display_settings =
  se_ok :: string
  se_error :: string
  se_warn :: string
  se_skip :: string
  se_unreachable :: string
  se_debug :: string
  se_changed :: string
  se_verbose :: string
  se_debug_on :: bool
  se_verbose_stderr :: bool
  se_system_warnings :: bool
  se_nocolor :: bool
  se_force_color :: bool
  se_log_path :: string

record display_state =
  dp_columns :: int
  dp_verbosity :: int
  dp_color :: bool
  dp_levels :: "(string \<rightharpoonup> log_level) option"
  dp_logger :: bool
  dp_shown :: "shown list"
  dp_exited :: bool

datatype write_error = BrokenPipe | WriteError string

record display_tools =
  dt_settings :: display_settings
  dt_sprintf :: "string \<Rightarrow> gval list \<Rightarrow> string"
  dt_write :: "shown list \<Rightarrow> shown \<Rightarrow> write_error option"
  dt_wrap :: "string \<Rightarrow> int \<Rightarrow> string list"
  dt_width :: "string \<Rightarrow> int"
  dt_terminal :: bool
  dt_stamp :: string

type_synonym 'a disp = "(display_state, string, 'a) prog"

record display_options =
  do_color :: string
  do_stderr :: bool
  do_screen_only :: bool
  do_log_only :: bool
  do_no_newline :: bool

definition no_options :: display_options where
  "no_options = \<lparr>do_color = [], do_stderr = False, do_screen_only = False, do_log_only = False, do_no_newline = False\<rparr>"

definition color_levels :: "display_settings \<Rightarrow> string \<rightharpoonup> log_level" where
  "color_levels s =
     [se_ok s \<mapsto> LevelInfo, se_error s \<mapsto> LevelError, se_warn s \<mapsto> LevelWarning, se_skip s \<mapsto> LevelWarning,
      se_unreachable s \<mapsto> LevelError, se_debug s \<mapsto> LevelDebug, se_changed s \<mapsto> LevelInfo, se_verbose s \<mapsto> LevelInfo]"

definition create_color_levels :: "display_tools \<Rightarrow> unit disp" where
  "create_color_levels t d = (d\<lparr>dp_levels := Some (color_levels (dt_settings t))\<rparr>, Ok ())"

definition get_log_level :: "display_tools \<Rightarrow> string \<Rightarrow> log_level disp" where
  "get_log_level t color =
     pbind (\<lambda>d. if dp_levels d = None then create_color_levels t d else (d, Ok ())) (\<lambda>_ d.
       (d, Ok (case Option.bind (dp_levels d) (\<lambda>m. m color) of Some l \<Rightarrow> l | None \<Rightarrow> LevelInfo)))"

definition set_ansible_color :: "display_tools \<Rightarrow> unit disp" where
  "set_ansible_color t d =
     (let on = (if se_nocolor (dt_settings t) then False else dt_terminal t)
      in (d\<lparr>dp_color := (se_force_color (dt_settings t) \<or> on)\<rparr>, Ok ()))"

definition set_verbosity :: "int \<Rightarrow> unit disp" where
  "set_verbosity v d =
     (if v < 0 \<or> v > 5 then (d, Err (''invalid verbosity level '' @ itoa v)) else (d\<lparr>dp_verbosity := v\<rparr>, Ok ()))"

definition set_column_width :: "unit disp" where
  "set_column_width d = (d\<lparr>dp_columns := 79\<rparr>, Ok ())"

definition max_verbosity :: int where "max_verbosity = 5"

text \<open>The one display: its width and its verbosity.\<close>

definition new_display :: "unit disp" where
  "new_display =
     pbind set_column_width (\<lambda>_.
     pbind (ptry (set_verbosity max_verbosity)) (\<lambda>r. case r of Inl e \<Rightarrow> plift Panic | Inr _ \<Rightarrow> pret ()))"

section \<open>Messages\<close>

text \<open>A broken pipe is no error.\<close>

definition emit :: "display_tools \<Rightarrow> shown \<Rightarrow> unit disp" where
  "emit t x d =
     (case dt_write t (dp_shown d) x of
        None \<Rightarrow> (d\<lparr>dp_shown := dp_shown d @ [x]\<rparr>, Ok ())
      | Some BrokenPipe \<Rightarrow> (d, Ok ())
      | Some (WriteError e) \<Rightarrow> (d, Err e))"

text \<open>The text for the screen; the last byte of an empty message is read too, which panics.\<close>

definition screen_text :: "display_options \<Rightarrow> bool \<Rightarrow> string \<Rightarrow> (string, string) outcome" where
  "screen_text opts enabled msg =
     (if msg = [] then Panic
      else
        (let has_newline = (last msg = nl);
             msg2 = (if has_newline then butlast msg else msg)
         in obind (if do_color opts \<noteq> [] then stringc enabled msg2 (do_color opts) False else Ok msg2) (\<lambda>msg2.
              Ok (if has_newline \<or> \<not> do_no_newline opts then msg2 @ [nl] else msg2))))"

definition display :: "display_tools \<Rightarrow> display_options \<Rightarrow> string \<Rightarrow> gval list \<Rightarrow> unit disp" where
  "display t opts msg args d =
     (let msg = dt_sprintf t msg args in
      pbind (if do_log_only opts then pret ()
             else pbind (plift (screen_text opts (dp_color d) msg)) (\<lambda>s.
                    emit t (if do_stderr opts then ToStderr s else ToStdout s))) (\<lambda>_ d.
        if dp_logger d \<and> \<not> do_screen_only opts
        then pbind (get_log_level t (do_color opts)) (\<lambda>l d. (d\<lparr>dp_shown := dp_shown d @ [ToLog l msg]\<rparr>, Ok ())) d
        else (d, Ok ())) d)"

definition verbose :: "display_tools \<Rightarrow> string option \<Rightarrow> int \<Rightarrow> string \<Rightarrow> gval list \<Rightarrow> unit disp" where
  "verbose t host caplevel msg args d =
     (if dp_verbosity d > caplevel then
        display t (no_options\<lparr>do_color := se_verbose (dt_settings t), do_stderr := se_verbose_stderr (dt_settings t)\<rparr>)
          (case host of Some h \<Rightarrow> ''<'' @ h @ ''> '' @ msg | None \<Rightarrow> msg) args d
      else (d, Ok ()))"

text \<open>All levels of verbosity ask for the same.\<close>

definition disp_v :: "display_tools \<Rightarrow> string option \<Rightarrow> string \<Rightarrow> gval list \<Rightarrow> unit disp" where
  "disp_v t host msg args = verbose t host 0 msg args"

definition disp_vvvvvv :: "display_tools \<Rightarrow> string option \<Rightarrow> string \<Rightarrow> gval list \<Rightarrow> unit disp" where
  "disp_vvvvvv t host msg args = verbose t host 0 msg args"

text \<open>\<open>dt_stamp\<close> is the number of the process and the time.\<close>

definition debug_display :: "display_tools \<Rightarrow> string option \<Rightarrow> string \<Rightarrow> gval list \<Rightarrow> unit disp" where
  "debug_display t host msg args =
     (if \<not> se_debug_on (dt_settings t) then pret ()
      else display t (no_options\<lparr>do_color := se_debug (dt_settings t)\<rparr>)
             (dt_stamp t @ (case host of None \<Rightarrow> '': '' | Some h \<Rightarrow> '' ['' @ h @ '']: '') @ msg) args)"

definition warning :: "display_tools \<Rightarrow> bool \<Rightarrow> string \<Rightarrow> gval list \<Rightarrow> unit disp" where
  "warning t formatted msg args d =
     display t (no_options\<lparr>do_color := se_warn (dt_settings t), do_stderr := True\<rparr>)
       (if \<not> formatted then join [nl] (dt_wrap t (''[WARNING]: '' @ msg) (dp_columns d)) @ [nl]
        else [nl] @ ''[WARNING]: '' @ [nl] @ msg) args d"

definition system_warning :: "display_tools \<Rightarrow> string \<Rightarrow> gval list \<Rightarrow> unit disp" where
  "system_warning t msg args = (if se_system_warnings (dt_settings t) then warning t False msg args else pret ())"

definition banner :: "display_tools \<Rightarrow> string \<Rightarrow> string \<Rightarrow> gval list \<Rightarrow> unit disp" where
  "banner t color msg args d =
     (let msg = trim_space msg;
          stars = dp_columns d - dt_width t msg;
          stars = (if stars \<le> 3 then 3 else stars)
      in display t (no_options\<lparr>do_color := color\<rparr>) ([nl] @ msg @ [spc] @ replicate (nat stars) (CHR ''*'')) args d)"

definition error_display :: "display_tools \<Rightarrow> bool \<Rightarrow> string \<Rightarrow> gval list \<Rightarrow> unit disp" where
  "error_display t dont_wrap msg args d =
     display t (no_options\<lparr>do_stderr := True, do_color := se_error (dt_settings t)\<rparr>)
       (if dont_wrap then ''ERROR! '' @ msg
        else join [nl] (dt_wrap t ([nl] @ ''[ERROR]: '' @ msg) (dp_columns d)) @ [nl]) args d"

text \<open>The functions of the package drop the error; \<open>Fatal\<close> ends the program.\<close>

definition quietly :: "unit disp \<Rightarrow> unit disp" where
  "quietly f = pbind (ptry f) (\<lambda>_. pret ())"

definition fatal :: "display_tools \<Rightarrow> bool \<Rightarrow> string \<Rightarrow> gval list \<Rightarrow> unit disp" where
  "fatal t dont_wrap msg args =
     pbind (quietly (error_display t dont_wrap msg args)) (\<lambda>_ d. (d\<lparr>dp_exited := True\<rparr>, Ok ()))"

definition setup_logger :: "display_tools \<Rightarrow> unit disp" where
  "setup_logger t =
     (if se_log_path (dt_settings t) = []
      then quietly (verbose t None 0 ''No default log path specified. Logging to file will be disabled.'' [])
      else (\<lambda>d. (d\<lparr>dp_logger := True\<rparr>, Ok ())))"

section \<open>Colors do not change the text\<close>

text \<open>What a terminal shows: the text without the sequences that select colors.\<close>

function strip_sgr :: "string \<Rightarrow> string" where
  "strip_sgr [] = []"
| "strip_sgr (c # s) =
     (if c = esc then strip_sgr (drop 1 (dropWhile (\<lambda>d. d \<noteq> CHR ''m'') s)) else c # strip_sgr s)"
  by pat_completeness auto
termination
proof (relation "measure length")
  fix c :: char and s :: string
  have "length (dropWhile (\<lambda>d. d \<noteq> CHR ''m'') s) \<le> length s" by (rule length_dropWhile_le)
  then show "(drop 1 (dropWhile (\<lambda>d. d \<noteq> CHR ''m'') s), c # s) \<in> measure length" by simp
qed simp_all

lemma dropWhile_code: "CHR ''m'' \<notin> set code \<Longrightarrow> dropWhile (\<lambda>d. d \<noteq> CHR ''m'') (code @ CHR ''m'' # s) = CHR ''m'' # s"
  by (induction code) auto

lemma strip_sgr_code: "CHR ''m'' \<notin> set code \<Longrightarrow> strip_sgr (sgr code @ s) = strip_sgr s"
  by (simp add: sgr_def dropWhile_code)

lemma strip_sgr_plain: "esc \<notin> set s \<Longrightarrow> strip_sgr (s @ t) = s @ strip_sgr t"
  by (induction s) auto

lemma strip_color_line:
  assumes "CHR ''m'' \<notin> set code" "esc \<notin> set l"
  shows "strip_sgr (color_line False code l @ t) = l @ strip_sgr t"
  using assms strip_sgr_code [of code "l @ sgr ''0'' @ t"] strip_sgr_plain [of l "sgr ''0'' @ t"]
    strip_sgr_code [of "''0''" t]
  by (simp add: color_line_def)

lemma strip_join_lines:
  assumes "CHR ''m'' \<notin> set code" "\<And>l. l \<in> set ls \<Longrightarrow> esc \<notin> set l"
  shows "strip_sgr (join [nl] (map (color_line False code) ls)) = join [nl] ls"
  using assms(2)
proof (induction ls rule: induct_list012)
  case (2 l)
  then show ?case using strip_color_line [OF assms(1), of l "[]"] by simp
next
  case (3 l k ls)
  have "esc \<noteq> nl" by (simp add: esc_def)
  with 3 show ?case using strip_color_line [OF assms(1), of l] by simp
qed simp

lemma nat_str_no_m: "CHR ''m'' \<notin> set (nat_str n)"
  using nat_str_digits by fastforce

lemma itoa_no_m: "CHR ''m'' \<notin> set (itoa i)"
  using nat_str_no_m by (simp add: itoa_def)

lemma color_codes_no_m: "color_codes color = Some c \<Longrightarrow> CHR ''m'' \<notin> set c"
  by (auto simp: color_codes_def split: if_splits)

lemma parse_color_no_m: "parse_color color = Ok code \<Longrightarrow> CHR ''m'' \<notin> set code"
  using color_codes_no_m itoa_no_m by (auto simp: parse_color_def split: option.splits color_match.splits)



section \<open>Numbers of colors\<close>

lemma small_digit_nat: "small_digit c \<Longrightarrow> digit_nat c \<le> 5"
  by (auto simp: small_digit_def digit_nat_def)

lemma match_rgb_small: "match_color s = Some (RgbColor r g b) \<Longrightarrow> r \<le> 5 \<and> g \<le> 5 \<and> b \<le> 5"
proof (induction s rule: match_color.induct)
  case (2 c s)
  have "r \<le> 5 \<and> g \<le> 5 \<and> b \<le> 5" if m: "match_color_here (c # s) = Some (RgbColor r g b)"
  proof -
    let ?w = "c # s"
    have "6 \<le> length ?w" "list_all small_digit (take 3 (drop 3 ?w))"
      "r = digit_nat (?w ! 3)" "g = digit_nat (?w ! 4)" "b = digit_nat (?w ! 5)"
      using m by (auto simp: match_color_here_def split: if_splits)
    then have "small_digit (take 3 (drop 3 ?w) ! 0)" "small_digit (take 3 (drop 3 ?w) ! 1)" "small_digit (take 3 (drop 3 ?w) ! 2)"
      by (simp_all add: list_all_length del: nth_take nth_drop)
    then show ?thesis
      using small_digit_nat \<open>6 \<le> length ?w\<close> \<open>r = _\<close> \<open>g = _\<close> \<open>b = _\<close> by simp
  qed
  with 2 show ?case by (auto split: option.splits)
qed simp

text \<open>The colors given by red, green and blue are those of the cube of the palette, 16 to 231.\<close>

lemma rgb_in_palette:
  assumes "match_color color = Some (RgbColor r g b)"
  shows "\<exists>n. parse_color color = Ok (''38;5;'' @ itoa n) \<and> 16 \<le> n \<and> n \<le> 231"
  using match_rgb_small [OF assms] assms by (intro exI [of _ "int (16 + 36 * r + 6 * g + b)"]) (simp add: parse_color_def)

section \<open>Messages\<close>

lemma empty_message_panics:
  assumes "dt_sprintf t msg args = []" "\<not> do_log_only opts"
  shows "display t opts msg args d = (d, Panic)"
  using assms by (simp add: display_def screen_text_def pbind_def plift_def)

lemma screen_text_ends:
  assumes "screen_text opts enabled msg = Ok s" "\<not> do_no_newline opts"
  shows "last s = nl"
  using assms by (auto simp: screen_text_def Let_def split: if_splits outcome.splits elim!: obind.elims)

text \<open>The sixth level asks for no more than the first.\<close>

lemma all_levels_same: "disp_vvvvvv = disp_v"
  by (intro ext) (simp add: disp_v_def disp_vvvvvv_def)

lemma new_display_verbose: "fst (new_display d) = d\<lparr>dp_columns := 79, dp_verbosity := 5\<rparr>"
  by (simp add: new_display_def set_column_width_def set_verbosity_def max_verbosity_def pbind_def ptry_def pret_def)

end
