(* ===== verification/Config.thy ===== *)
theory Config
  imports Files "HOL-Library.Multiset"
begin

text \<open>
  The configuration (\<open>config/ini_config_loader.go\<close>, \<open>config/manager.go\<close>) and the events it
  raises (\<open>utils/callbacks\<close>).  Settings are of any type here: their fields and the assignment of one
  key are theory \<open>Settings\<close>.  Reading ini texts and copying settings are parameters.
\<close>

section \<open>Callbacks of events\<close>

record callback =
  cb_name :: string
  cb_registerer :: string

record callbacks_collection =
  co_once :: "callback list"
  co_persistent :: "callback list"

text \<open>The package keeps collections and persistent events; \<open>ev_ran\<close> is what was called.\<close>

record events =
  ev_scheduled :: "string \<rightharpoonup> callbacks_collection"
  ev_store :: "string \<Rightarrow> bool"
  ev_ran :: "callback list"

definition no_events :: events where
  "no_events = \<lparr>ev_scheduled = Map.empty, ev_store = (\<lambda>_. False), ev_ran = []\<rparr>"

definition register_event :: "string \<Rightarrow> events \<Rightarrow> events" where
  "register_event e s =
     (case ev_scheduled s e of
        None \<Rightarrow> s
      | Some c \<Rightarrow>
          s\<lparr>ev_ran := ev_ran s @ co_persistent c @ co_once c,
            ev_scheduled := (ev_scheduled s)(e \<mapsto> c\<lparr>co_once := []\<rparr>)\<rparr>)"

definition register_persistent_event :: "string \<Rightarrow> events \<Rightarrow> events" where
  "register_persistent_event e s = register_event e (s\<lparr>ev_store := (ev_store s)(e := True)\<rparr>)"

definition schedule_callback :: "string \<Rightarrow> bool \<Rightarrow> callback \<Rightarrow> events \<Rightarrow> events" where
  "schedule_callback e once cb s =
     (let c = (case ev_scheduled s e of Some c \<Rightarrow> c | None \<Rightarrow> \<lparr>co_once = [], co_persistent = []\<rparr>);
          s = (if ev_store s e then s\<lparr>ev_ran := ev_ran s @ [cb]\<rparr> else s);
          c = (if \<not> ev_store s e \<and> once then c\<lparr>co_once := co_once c @ [cb]\<rparr> else c);
          c = (if \<not> once then c\<lparr>co_persistent := co_persistent c @ [cb]\<rparr> else c)
      in s\<lparr>ev_scheduled := (ev_scheduled s)(e \<mapsto> c)\<rparr>)"

definition purge :: "events \<Rightarrow> events" where
  "purge s = s\<lparr>ev_scheduled := Map.empty, ev_store := (\<lambda>_. False)\<rparr>"

section \<open>Finding the file\<close>

record config_env =
  ce_os :: os
  ce_config :: "string option"
  ce_cwd :: "string option"

text \<open>The file in the working directory, and whether it was skipped because anyone may write there.\<close>

definition find_cwd_config :: "config_env \<Rightarrow> (string \<times> bool) io" where
  "find_cwd_config x =
     (case ce_cwd x of
        None \<Rightarrow> pret ([], False)
      | Some cwd \<Rightarrow>
          pbind (ptry (os_stat (ce_os x) cwd)) (\<lambda>st.
            case st of
              Inl e \<Rightarrow> pret ([], False)
            | Inr i \<Rightarrow>
                let path = path_join [cwd, ''ansible.cfg''] in
                if i_mode i AND 2 \<noteq> 0 then
                  pbind (ptry (path_exists (ce_os x) path)) (\<lambda>b. pret ([], b = Inr True))
                else pret (path, False)))"

definition readable_config :: "os \<Rightarrow> string \<Rightarrow> bool io" where
  "readable_config x p =
     pbind (ptry (path_exists x p)) (\<lambda>b.
       if b \<noteq> Inr True then pret False
       else pbind (ptry (has_read_permission x p)) (\<lambda>r. pret (r = Inr True)))"

fun first_readable :: "os \<Rightarrow> string list \<Rightarrow> string io" where
  "first_readable x [] = pret []"
| "first_readable x (p # ps) = pbind (readable_config x p) (\<lambda>b. if b then pret p else first_readable x ps)"

definition env_config :: "config_env \<Rightarrow> string option io" where
  "env_config x =
     (case ce_config x of
        None \<Rightarrow> pret None
      | Some p \<Rightarrow>
          pbind (unfrack_path (ce_os x) p [] True) (\<lambda>p.
          pbind (ptry (is_dir (ce_os x) p)) (\<lambda>d.
            pret (Some (if d = Inr True then path_join [p, ''ansible.cfg''] else p)))))"

text \<open>The path, and whether a warning is given.\<close>

definition find_ini_config :: "config_env \<Rightarrow> (string \<times> bool) io" where
  "find_ini_config x =
     pbind (env_config x) (\<lambda>env.
     pbind (find_cwd_config x) (\<lambda>(cwd, public).
     pbind (unfrack_path (ce_os x) ''~/.ansible.cfg'' [] True) (\<lambda>home.
     pbind (first_readable (ce_os x)
              ((case env of Some p \<Rightarrow> [p] | None \<Rightarrow> []) @ (if cwd \<noteq> [] then [cwd] else []) @ [home, ''/etc/ansible/ansible.cfg'']))
       (\<lambda>path. pret (path, (case env of Some p \<Rightarrow> p | None \<Rightarrow> []) \<noteq> path \<and> public)))))"

section \<open>Reading the file\<close>

definition path_ext :: "string \<Rightarrow> string" where
  "path_ext p =
     (let r = rev p; k = length (takeWhile (\<lambda>c. c \<noteq> CHR ''.'' \<and> c \<noteq> CHR ''/'') r)
      in if k < length r \<and> r ! k = CHR ''.'' then rev (take (Suc k) r) else [])"

definition config_type :: "string \<Rightarrow> (string, string) outcome" where
  "config_type p =
     (if path_ext p = ''.ini'' \<or> path_ext p = ''.cfg'' then Ok ''ini''
      else Err (''unsupported configuration file extension for '' @ p))"

text \<open>The text before the first occurrence of a separator.\<close>

fun before :: "string \<Rightarrow> string \<Rightarrow> string option" where
  "before sep [] = (if sep = [] then Some [] else None)"
| "before sep (c # s) =
     (if has_prefix (c # s) sep then Some [] else map_option (\<lambda>r. c # r) (before sep s))"

definition strip_comment :: "string \<Rightarrow> string" where
  "strip_comment line =
     (let line = trim_space line in
      if line = [] then line
      else if hd line = CHR '';'' \<or> hd line = CHR ''#'' then []
      else case before '' ;'' line of Some l \<Rightarrow> trim_space l | None \<Rightarrow> line)"

record 'c config_tools =
  ct_env :: config_env
  ct_base :: "string + 'c"
  ct_zero :: 'c
  ct_copy :: "'c \<Rightarrow> 'c \<Rightarrow> 'c + string"
  ct_ini :: "string \<Rightarrow> string + (string \<times> (string \<times> string) list) list"
  ct_update :: "string \<Rightarrow> string \<times> string \<Rightarrow> 'c \<Rightarrow> 'c \<times> string option"

text \<open>Keys are assigned one by one; the first failure ends it, with the fields so far changed.\<close>

fun update_keys :: "'c config_tools \<Rightarrow> string \<Rightarrow> (string \<times> string) list \<Rightarrow> 'c \<Rightarrow> 'c \<times> string option" where
  "update_keys t sec [] c = (c, None)"
| "update_keys t sec (k # ks) c =
     (case ct_update t sec k c of (c, Some e) \<Rightarrow> (c, Some e) | (c, None) \<Rightarrow> update_keys t sec ks c)"

fun update_sections :: "'c config_tools \<Rightarrow> (string \<times> (string \<times> string) list) list \<Rightarrow> 'c \<Rightarrow> 'c \<times> string option" where
  "update_sections t [] c = (c, None)"
| "update_sections t ((sec, ks) # ss) c =
     (case update_keys t sec ks c of (c, Some e) \<Rightarrow> (c, Some e) | (c, None) \<Rightarrow> update_sections t ss c)"

definition ini_text :: "string \<Rightarrow> string" where
  "ini_text content = join [nl] (map strip_comment (scanned_lines content))"

text \<open>The lines of a directory, which cannot be read, are none.\<close>

definition config_content :: "os \<Rightarrow> string \<Rightarrow> fs \<Rightarrow> string option" where
  "config_content x p fs =
     (case snd (os_open x p fs) of
        Ok q \<Rightarrow> Some (case fs q of Some (File i) \<Rightarrow> if is_directory i then [] else i_data i | _ \<Rightarrow> [])
      | _ \<Rightarrow> None)"

definition parse_config :: "'c config_tools \<Rightarrow> fs \<Rightarrow> string \<Rightarrow> 'c \<Rightarrow> 'c \<times> string option" where
  "parse_config t fs path c =
     (case config_type path of
        Ok _ \<Rightarrow>
          (case config_content (ce_os (ct_env t)) path fs of
             Some content \<Rightarrow>
               (case ct_ini t (ini_text content) of
                  Inl e \<Rightarrow> (c, Some e)
                | Inr secs \<Rightarrow> update_sections t secs c)
           | None \<Rightarrow> (c, Some ''cannot open''))
      | Err e \<Rightarrow> (c, Some e)
      | Panic \<Rightarrow> (c, Some []))"

section \<open>The manager\<close>

record 'c manager =
  mg_settings :: 'c
  mg_base :: 'c
  mg_path :: string

text \<open>The one manager, made when it is first asked for; base definitions that cannot be read panic.\<close>

definition the_manager :: "'c config_tools \<Rightarrow> 'c manager option \<Rightarrow> (string, 'c manager) outcome" where
  "the_manager t m =
     (case m of
        Some m \<Rightarrow> Ok m
      | None \<Rightarrow>
          (case ct_base t of
             Inl e \<Rightarrow> Panic
           | Inr b \<Rightarrow>
               (case ct_copy t (ct_zero t) b of
                  Inr e \<Rightarrow> Panic
                | Inl s \<Rightarrow> Ok \<lparr>mg_settings = s, mg_base = b, mg_path = []\<rparr>)))"

definition destroy_manager :: "'c manager option \<Rightarrow> 'c manager option" where
  "destroy_manager m = None"

definition load_file :: "'c config_tools \<Rightarrow> fs \<Rightarrow> string \<Rightarrow> 'c manager \<Rightarrow> 'c manager \<times> string option" where
  "load_file t fs path m =
     (if path = [] then (m, None)
      else case parse_config t fs path (mg_settings m) of
             (c, Some e) \<Rightarrow>
               (m\<lparr>mg_settings := (case ct_copy t c (mg_base m) of Inl s \<Rightarrow> s | Inr _ \<Rightarrow> c)\<rparr>, Some e)
           | (c, None) \<Rightarrow> (m\<lparr>mg_settings := c, mg_path := path\<rparr>, None))"

text \<open>Whatever happens, the event that the configuration is loaded is raised in the end.\<close>

definition try_load ::
  "'c config_tools \<Rightarrow> fs \<Rightarrow> string \<Rightarrow> 'c manager \<times> events \<Rightarrow> ('c manager \<times> events) \<times> (string, unit) outcome" where
  "try_load t fs path s =
     (case (if path = [] then snd (find_ini_config (ct_env t) fs) else Ok (path, False)) of
        Ok (p, _) \<Rightarrow>
          (case load_file t fs p (fst s) of
             (m, e) \<Rightarrow> ((m, register_persistent_event ''ConfigLoaded'' (snd s)),
                        case e of None \<Rightarrow> Ok () | Some e \<Rightarrow> Err e))
      | _ \<Rightarrow> ((fst s, register_persistent_event ''ConfigLoaded'' (snd s)), Panic))"

section \<open>Comments\<close>

lemma has_prefix_trans: "has_prefix q w \<Longrightarrow> has_prefix (q @ r) w"
  by (auto simp: has_prefix_iff)

lemma strip_words_done: "w \<in> set ws \<Longrightarrow> w \<noteq> [] \<Longrightarrow> \<not> has_prefix (strip_words ws s) w"
proof (induction ws s rule: strip_words.induct)
  case (1 ws s)
  show ?case
  proof (cases "find (\<lambda>w. w \<noteq> [] \<and> has_prefix s w) ws")
    case None
    then have "strip_words ws s = s" by (subst strip_words.simps) simp
    then show ?thesis using 1(2,3) None by (auto simp: find_None_iff)
  next
    case (Some v)
    then show ?thesis
      using 1(1) [OF Some 1(2,3)] by (subst strip_words.simps) simp
  qed
qed

lemma trim_space_prefix: "\<exists>u. strip_words go_spaces s = trim_space s @ u"
proof -
  obtain u where "rev (strip_words go_spaces s) = u @ strip_words (map rev go_spaces) (rev (strip_words go_spaces s))"
    using strip_words_suffix by blast
  then have "strip_words go_spaces s = rev (u @ strip_words (map rev go_spaces) (rev (strip_words go_spaces s)))"
    by (metis rev_rev_ident)
  then show ?thesis by (auto simp: trim_space_def)
qed

lemma trim_space_done:
  assumes "\<And>w. w \<in> set go_spaces \<Longrightarrow> \<not> has_prefix s w"
  shows "\<exists>u. s = trim_space s @ u"
proof -
  have "strip_words go_spaces s = s"
    using assms by (intro strip_words_id) auto
  with trim_space_prefix [of s] show ?thesis by simp
qed

lemma trim_space_no_prefix: "w \<in> set go_spaces \<Longrightarrow> \<not> has_prefix (trim_space s) w"
proof -
  assume w: "w \<in> set go_spaces"
  obtain u where "strip_words go_spaces s = trim_space s @ u"
    using trim_space_prefix by blast
  with strip_words_done [OF w go_spaces_nonempty [OF w], of s] has_prefix_trans [of "trim_space s" w u]
  show ?thesis by auto
qed

lemma trim_space_idem [simp]: "trim_space (trim_space s) = trim_space s"
proof -
  let ?b = "strip_words (map rev go_spaces) (rev (strip_words go_spaces s))"
  have t: "trim_space s = rev ?b" by (simp add: trim_space_def)
  have "strip_words go_spaces (rev ?b) = rev ?b"
    using trim_space_no_prefix [of _ s] by (intro strip_words_id) (auto simp: t)
  moreover have "strip_words (map rev go_spaces) ?b = ?b"
    using strip_words_done [of _ "map rev go_spaces" "rev (strip_words go_spaces s)"]
    by (intro strip_words_id) blast
  ultimately have "trim_space (rev ?b) = rev ?b"
    by (simp only: trim_space_def [of "rev ?b"] rev_rev_ident)
  then show ?thesis by (simp only: t)
qed

lemma before_Some: "before sep s = Some p \<Longrightarrow> \<exists>r. s = p @ sep @ r"
proof (induction s arbitrary: p)
  case (Cons c s)
  show ?case
  proof (cases "has_prefix (c # s) sep")
    case True
    then have "c # s = sep @ drop (length sep) (c # s)"
      by (metis append_take_drop_id has_prefix_def)
    with True Cons.prems show ?thesis by auto
  next
    case False
    with Cons.prems obtain q where "before sep s = Some q" "p = c # q" by auto
    with Cons.IH show ?thesis by auto
  qed
qed (auto split: if_splits)

lemma before_none: "before sep s = Some (q @ u) \<Longrightarrow> sep \<noteq> [] \<Longrightarrow> before sep q = None"
proof (induction s arbitrary: q)
  case (Cons c s)
  show ?case
  proof (cases q)
    case (Cons d q')
    then have no: "\<not> has_prefix (c # s) sep" and d: "d = c" "before sep s = Some (q' @ u)"
      using Cons.prems(1) by (auto split: if_splits)
    obtain r where "s = q' @ u @ sep @ r"
      using before_Some [OF d(2)] by auto
    then have "\<not> has_prefix (c # q') sep"
      using no has_prefix_trans [of "c # q'" sep "u @ sep @ r"] by auto
    with Cons.IH [OF d(2) Cons.prems(2)] show ?thesis
      using Cons d(1) by simp
  qed (use Cons.prems(2) in simp)
qed auto

lemma space_word: "'' '' \<in> set go_spaces"
  by code_simp

text \<open>
  Stripping comments is done once and for all: stripping a stripped line changes nothing.
\<close>

theorem strip_comment_idem: "strip_comment (strip_comment l) = strip_comment l"
proof -
  define t where "t = trim_space l"
  have tt: "trim_space t = t" by (simp add: t_def)
  have empty: "strip_comment [] = []" by code_simp
  consider "t = []" | "t \<noteq> []" "hd t = CHR '';'' \<or> hd t = CHR ''#''"
    | "t \<noteq> []" "hd t \<noteq> CHR '';''" "hd t \<noteq> CHR ''#''" "before '' ;'' t = None"
    | p where "t \<noteq> []" "hd t \<noteq> CHR '';''" "hd t \<noteq> CHR ''#''" "before '' ;'' t = Some p"
    by fastforce
  then show ?thesis
  proof cases
    case 1
    then have "strip_comment l = []" by (simp add: strip_comment_def t_def [symmetric])
    then show ?thesis by (simp add: empty)
  next
    case 2
    then have "strip_comment l = []" by (simp add: strip_comment_def t_def [symmetric] Let_def)
    then show ?thesis by (simp add: empty)
  next
    case 3
    then have "strip_comment l = t" "strip_comment t = t"
      by (simp_all add: strip_comment_def t_def [symmetric] Let_def tt)
    then show ?thesis by simp
  next
    case (4 p)
    then have s: "strip_comment l = trim_space p"
      by (simp add: strip_comment_def t_def [symmetric])
    obtain r where r: "t = p @ '' ;'' @ r" using before_Some [OF 4(4)] by blast
    have nop: "\<not> has_prefix t w" if "w \<in> set go_spaces" for w
      using trim_space_no_prefix [OF that, of l] by (simp add: t_def)
    then have "\<not> has_prefix p w" if "w \<in> set go_spaces" for w
      using that has_prefix_trans r by blast
    then obtain u where u: "p = trim_space p @ u" using trim_space_done by blast
    have "before '' ;'' (trim_space p) = None"
      by (rule before_none [of _ t _ u]) (use 4(4) u in simp_all)
    moreover have "trim_space p \<noteq> [] \<Longrightarrow> hd (trim_space p) = hd t"
      using r u by (metis append_assoc hd_append2)
    ultimately have "strip_comment (trim_space p) = trim_space p"
      using 4(2,3) empty by (cases "trim_space p = []") (simp_all add: strip_comment_def Let_def)
    then show ?thesis by (simp only: s)
  qed
qed

section \<open>One-off callbacks run once\<close>

datatype event_step = Schedule string bool callback | RegisterEvent string | RegisterPersistent string

fun do_step :: "event_step \<Rightarrow> events \<Rightarrow> events" where
  "do_step (Schedule e once cb) s = schedule_callback e once cb s"
| "do_step (RegisterEvent e) s = register_event e s"
| "do_step (RegisterPersistent e) s = register_persistent_event e s"

definition run_events :: "event_step list \<Rightarrow> events" where
  "run_events steps = fold do_step steps no_events"

definition once_of :: "events \<Rightarrow> string \<Rightarrow> callback list" where
  "once_of s e = (case ev_scheduled s e of Some c \<Rightarrow> co_once c | None \<Rightarrow> [])"

definition persistent_of :: "events \<Rightarrow> string \<Rightarrow> callback list" where
  "persistent_of s e = (case ev_scheduled s e of Some c \<Rightarrow> co_persistent c | None \<Rightarrow> [])"

lemma register_event_facts:
  "ev_ran (register_event e s) = ev_ran s @ persistent_of s e @ once_of s e"
  "once_of (register_event e s) d = (if d = e then [] else once_of s d)"
  "persistent_of (register_event e s) d = persistent_of s d"
  "ev_store (register_event e s) = ev_store s"
  by (auto simp: register_event_def once_of_def persistent_of_def split: option.splits)

lemma register_persistent_facts:
  "ev_ran (register_persistent_event e s) = ev_ran s @ persistent_of s e @ once_of s e"
  "once_of (register_persistent_event e s) d = (if d = e then [] else once_of s d)"
  "persistent_of (register_persistent_event e s) d = persistent_of s d"
  "ev_store (register_persistent_event e s) = (ev_store s)(e := True)"
  by (auto simp: register_persistent_event_def register_event_facts) (auto simp: once_of_def persistent_of_def)

lemma schedule_facts:
  "ev_ran (schedule_callback e once cb s) = ev_ran s @ (if ev_store s e then [cb] else [])"
  "once_of (schedule_callback e once cb s) d = once_of s d @ (if d = e \<and> once \<and> \<not> ev_store s e then [cb] else [])"
  "persistent_of (schedule_callback e once cb s) d = persistent_of s d @ (if d = e \<and> \<not> once then [cb] else [])"
  "ev_store (schedule_callback e once cb s) = ev_store s"
  by (auto simp: schedule_callback_def once_of_def persistent_of_def Let_def split: option.splits)

text \<open>A callback that is only scheduled as a one-off for one event.\<close>

definition only_once :: "string \<Rightarrow> callback \<Rightarrow> event_step list \<Rightarrow> bool" where
  "only_once e cb steps \<longleftrightarrow>
     list_all (\<lambda>s. case s of Schedule d once c \<Rightarrow> c = cb \<longrightarrow> d = e \<and> once | _ \<Rightarrow> True) steps"

text \<open>
  Nothing is lost and nothing runs twice: what ran and what waits is what was scheduled.
\<close>

lemma events_balance:
  assumes "only_once e cb steps"
  shows "count (mset (ev_ran (run_events steps))) cb + count (mset (once_of (run_events steps) e)) cb
      = count (mset steps) (Schedule e True cb)
    \<and> (\<forall>d. cb \<notin> set (persistent_of (run_events steps) d)) \<and> (\<forall>d. d \<noteq> e \<longrightarrow> cb \<notin> set (once_of (run_events steps) d))
    \<and> (ev_store (run_events steps) e \<longleftrightarrow> RegisterPersistent e \<in> set steps)
    \<and> (ev_store (run_events steps) e \<longrightarrow> once_of (run_events steps) e = [])"
  using assms
proof (induction steps rule: rev_induct)
  case Nil
  then show ?case by (simp add: run_events_def no_events_def once_of_def persistent_of_def)
next
  case (snoc st steps)
  define s where "s = run_events steps"
  have step: "run_events (steps @ [x]) = do_step x s" for x
    by (simp add: run_events_def s_def)
  have IH: "count (mset (ev_ran s)) cb + count (mset (once_of s e)) cb = count (mset steps) (Schedule e True cb)"
    "\<And>d. cb \<notin> set (persistent_of s d)" "\<And>d. d \<noteq> e \<Longrightarrow> cb \<notin> set (once_of s d)"
    "ev_store s e \<longleftrightarrow> RegisterPersistent e \<in> set steps" "ev_store s e \<longrightarrow> once_of s e = []"
    using snoc by (auto simp: s_def only_once_def)
  have none: "count (mset (persistent_of s d)) cb = 0" "d \<noteq> e \<Longrightarrow> count (mset (once_of s d)) cb = 0" for d
    using IH(2,3) by (simp_all add: count_eq_zero_iff)
  show ?case
  proof (cases st)
    case (Schedule d once c)
    then have c: "c = cb \<Longrightarrow> d = e \<and> once" using snoc.prems by (simp add: only_once_def)
    have balance: "count (mset (ev_ran (do_step st s))) cb + count (mset (once_of (do_step st s) e)) cb
        = count (mset (steps @ [st])) (Schedule e True cb)"
    proof (cases "c = cb")
      case True
      then show ?thesis using IH(1) c by (cases "ev_store s e") (simp_all add: Schedule schedule_facts)
    next
      case False
      then show ?thesis using IH(1) by (auto simp: Schedule schedule_facts)
    qed
    have "cb \<notin> set (persistent_of (do_step st s) x)" for x
      using IH(2) [of x] c by (auto simp: Schedule schedule_facts)
    moreover have "x \<noteq> e \<Longrightarrow> cb \<notin> set (once_of (do_step st s) x)" for x
      using IH(3) [of x] c by (auto simp: Schedule schedule_facts)
    moreover have "ev_store (do_step st s) e \<longleftrightarrow> RegisterPersistent e \<in> set (steps @ [st])"
      using IH(4) by (simp add: Schedule schedule_facts)
    moreover have "ev_store (do_step st s) e \<longrightarrow> once_of (do_step st s) e = []"
      using IH(5) by (simp add: Schedule schedule_facts)
    ultimately show ?thesis using balance by (simp only: step) blast
  next
    case (RegisterEvent d)
    then show ?thesis
      using IH by (cases "d = e") (auto simp: step register_event_facts none)
  next
    case (RegisterPersistent d)
    then show ?thesis
      using IH by (cases "d = e") (auto simp: step register_persistent_facts none)
  qed
qed


definition logger_callback :: callback where
  "logger_callback = \<lparr>cb_name = ''setup default logger'', cb_registerer = ''display''\<rparr>"


section \<open>Loading\<close>

lemma config_loaded_raised: "ev_store (snd (fst (try_load t fs path s))) ''ConfigLoaded''"
  by (auto simp: try_load_def register_persistent_facts split: outcome.splits prod.splits)

text \<open>A file that cannot be read leaves the settings at the base definitions, when copying does.\<close>

lemma failed_load_restores:
  assumes "\<And>c b. ct_copy t c b = Inl b" "load_file t fs path m = (m', Some e)"
  shows "mg_settings m' = mg_base m \<and> mg_base m' = mg_base m \<and> mg_path m' = mg_path m"
  using assms by (auto simp: load_file_def split: if_splits prod.splits option.splits)

section \<open>The file that is read\<close>

lemma io_total:
  assumes "keeps (\<lambda>s. s) f" "snd (f fs) \<noteq> Panic"
  obtains r where "f fs = (fs, Ok r)" | e where "f fs = (fs, Err e)"
  using keepsD [OF assms(1), of fs] assms(2) that by (cases "f fs"; cases "snd (f fs)") auto

lemma questions_no_panic: "snd (path_exists x p fs) \<noteq> Panic" "snd (has_read_permission x p fs) \<noteq> Panic"
  using follow_links_no_panic
  by (auto simp: path_exists_def has_read_permission_def os_stat_def os_open_def resolve_def refused_def pbind_def ptry_def
      pret_def plift_def split: outcome.splits option.splits os_error.splits prod.splits sum.splits)

lemma keeps_has_read: "keeps (\<lambda>s. s) (has_read_permission x p)"
  unfolding has_read_permission_def by (auto intro!: keeps_intros split: sum.splits os_error.splits)

lemma readable_config_total: "\<exists>b. readable_config x p fs = (fs, Ok b)"
proof (rule io_total [of "path_exists x p" fs])
  fix r assume r: "path_exists x p fs = (fs, Ok r)"
  show ?thesis
    by (rule io_total [of "has_read_permission x p" fs])
       (use r in \<open>auto simp: keeps_has_read questions_no_panic readable_config_def pbind_def ptry_def pret_def\<close>)
qed (auto simp: keeps_path_exists questions_no_panic readable_config_def pbind_def ptry_def pret_def)

definition can_read :: "os \<Rightarrow> fs \<Rightarrow> string \<Rightarrow> bool" where
  "can_read x fs p \<longleftrightarrow> snd (readable_config x p fs) = Ok True"

lemma first_readable_find:
  "first_readable x ps fs = (fs, Ok (case find (can_read x fs) ps of Some p \<Rightarrow> p | None \<Rightarrow> []))"
proof (induction ps)
  case (Cons p ps)
  obtain b where "readable_config x p fs = (fs, Ok b)" using readable_config_total by blast
  with Cons show ?case by (cases b) (simp_all add: pbind_def can_read_def pret_def)
qed (simp add: pret_def)

text \<open>A working directory others may write to gives no file.\<close>

lemma cwd_public_skipped:
  assumes "ce_cwd x = Some cwd" "os_stat (ce_os x) cwd fs = (fs, Ok i)" "i_mode i AND 2 \<noteq> 0"
  shows "\<exists>w. find_cwd_config x fs = (fs, Ok ([], w))"
  by (rule io_total [of "path_exists (ce_os x) (path_join [cwd, ''ansible.cfg''])" fs])
     (use assms in \<open>auto simp: keeps_path_exists questions_no_panic find_cwd_config_def pbind_def ptry_def pret_def Let_def\<close>)

lemma kept_run: "keeps (\<lambda>s. s) f \<Longrightarrow> f fs = (fs, snd (f fs))"
  using keepsD by (metis prod.collapse)

lemma keeps_search: "keeps (\<lambda>s. s) (env_config x)" "keeps (\<lambda>s. s) (find_cwd_config x)"
  "keeps (\<lambda>s. s) (unfrack_path (ce_os x) p b f)"
proof -
  show unfrack: "keeps (\<lambda>s. s) (unfrack_path (ce_os x) p b f)" for p b f
    unfolding unfrack_path_def Let_def by (auto intro!: keeps_intros)
  show "keeps (\<lambda>s. s) (env_config x)"
    unfolding env_config_def by (auto intro!: keeps_intros unfrack split: option.splits)
  show "keeps (\<lambda>s. s) (find_cwd_config x)"
    unfolding find_cwd_config_def Let_def by (auto intro!: keeps_intros split: option.splits sum.splits)
qed

definition shared_dir :: "config_env \<Rightarrow> fs \<Rightarrow> bool" where
  "shared_dir x fs \<longleftrightarrow>
     (case ce_cwd x of
        None \<Rightarrow> False
      | Some d \<Rightarrow> (case os_stat (ce_os x) d fs of (fs', Ok i) \<Rightarrow> i_mode i AND 2 \<noteq> 0 | _ \<Rightarrow> False))"

lemma cwd_shared_skipped:
  assumes "find_cwd_config x fs = (fs, Ok (cwd, public))"
  shows "shared_dir x fs \<longrightarrow> cwd = []"
proof
  assume "shared_dir x fs"
  then obtain d fs' i where d: "ce_cwd x = Some d" "os_stat (ce_os x) d fs = (fs', Ok i)" "i_mode i AND 2 \<noteq> 0"
    by (auto simp: shared_dir_def split: option.splits prod.splits outcome.splits)
  have "fs' = fs" using kept_run [OF keeps_os_stat, of "ce_os x" d fs] d(2) by simp
  with d show "cwd = []" using cwd_public_skipped [of x] assms by fastforce
qed


text \<open>A controller that works in a directory anyone may write to, with a file of its own there.\<close>

definition plain_node :: "file_mode \<Rightarrow> node" where
  "plain_node mode = File \<lparr>i_mode = mode, i_uid = 0, i_gid = 0, i_mtime = 0, i_label = [], i_data = []\<rparr>"

definition shared_env :: config_env where
  "shared_env =
     \<lparr>ce_os = \<lparr>o_refuse = (\<lambda>_ _. None), o_umask = 0, o_env = (\<lambda>_. ''/root''), o_uid = 0, o_gid = 0,
               o_eval_links = (\<lambda>_. None), o_cwd = ''/w''\<rparr>,
      ce_config = None, ce_cwd = Some ''/w''\<rparr>"

definition shared_fs :: fs where
  "shared_fs =
     [''/w'' \<mapsto> plain_node (mode_dir OR 0x1FF), ''/w/ansible.cfg'' \<mapsto> plain_node 0x1A4,
      ''/etc/ansible/ansible.cfg'' \<mapsto> plain_node 0x1A4]"


end
