(* ===== verification/Template_Vars.thy ===== *)
theory Template_Vars
  imports Files
begin

text \<open>
  The variables a template sees about itself (\<open>template/template_vars.go\<close>).  The user database,
  the name of the host, the clock and the form of dates are parameters.
\<close>

record template_tools =
  tv_os :: os
  tv_user :: "int \<Rightarrow> string option"
  tv_host :: "string + string"
  tv_now :: int
  tv_managed :: string
  tv_strftime :: "string \<Rightarrow> int \<Rightarrow> string"

record template_facts =
  tf_path :: string
  tf_mtime :: int
  tf_uid :: string
  tf_run_date :: int
  tf_host :: string
  tf_destpath :: "string option"
  tf_fullpath :: "string option"
  tf_managed :: string

section \<open>Formatting\<close>

text \<open>
  \<open>strings.Replacer\<close> for keys in braces: at each place the first key of the list that stands
  there is replaced, and the search goes on behind it.  The empty keys the code passes as well
  match everywhere and insert nothing.
\<close>

function replacer :: "(string \<times> string) list \<Rightarrow> string \<Rightarrow> string" where
  "replacer kvs [] = []"
| "replacer kvs (c # s) =
     (case find (\<lambda>(k, v). k \<noteq> [] \<and> has_prefix (c # s) k) kvs of
        Some (k, v) \<Rightarrow> v @ replacer kvs (drop (length k) (c # s))
      | None \<Rightarrow> c # replacer kvs s)"
  by pat_completeness auto
termination
proof (relation "measure (\<lambda>(kvs, s). length s)")
  fix kvs :: "(string \<times> string) list" and c s p and k v :: string
  assume "find (\<lambda>(k, v). k \<noteq> [] \<and> has_prefix (c # s) k) kvs = Some p" "(k, v) = p"
  then have "k \<noteq> []" by (auto simp: find_Some_iff)
  then show "((kvs, drop (length k) (c # s)), (kvs, c # s)) \<in> measure (\<lambda>(kvs, s). length s)"
    by (cases k) auto
qed simp_all

definition brace :: "string \<Rightarrow> string" where
  "brace k = ''{'' @ k @ ''}''"

definition format_string :: "string \<Rightarrow> (string \<times> string) list \<Rightarrow> string" where
  "format_string template kvs =
     replacer (replicate (length kvs) ([], []) @ map (\<lambda>(k, v). (brace k, v)) kvs) template"

section \<open>The variables\<close>

definition get_modification_time :: "template_tools \<Rightarrow> string \<Rightarrow> int io" where
  "get_modification_time t p = pbind (os_stat (tv_os t) p) (\<lambda>i. pret (i_mtime i))"

text \<open>The test is the wrong way round: a user that is known gives the number, an unknown one panics.\<close>

definition get_template_uid :: "template_tools \<Rightarrow> string \<Rightarrow> int io" where
  "get_template_uid t p =
     pbind (os_stat (tv_os t) p) (\<lambda>i.
       case tv_user t (i_uid i) of None \<Rightarrow> plift Panic | Some name \<Rightarrow> pret (i_uid i))"

definition abs_path :: "os \<Rightarrow> string \<Rightarrow> string" where
  "abs_path x p = (if is_abs p then path_clean p else path_join [o_cwd x, p])"

definition generate_template_vars ::
  "template_tools \<Rightarrow> string \<Rightarrow> string option \<Rightarrow> string option \<Rightarrow> template_facts io" where
  "generate_template_vars t p full dest =
     (let chosen = (case full of Some f \<Rightarrow> f | None \<Rightarrow> p) in
      pbind (get_template_uid t chosen) (\<lambda>uid.
      pbind (get_modification_time t chosen) (\<lambda>mtime.
        case tv_host t of
          Inl e \<Rightarrow> plift (Err (OsError e))
        | Inr host \<Rightarrow>
            pret \<lparr>tf_path = p, tf_mtime = mtime, tf_uid = itoa uid, tf_run_date = tv_now t, tf_host = host,
                  tf_destpath = dest, tf_fullpath = map_option (abs_path (tv_os t)) full,
                  tf_managed = tv_strftime t
                    (format_string (tv_managed t) [(''host'', host), (''uid'', itoa uid), (''file'', p)]) mtime\<rparr>)))"

section \<open>The order of the replacements\<close>

lemma find_unique:
  assumes "\<And>x y. x \<in> set xs \<Longrightarrow> y \<in> set xs \<Longrightarrow> P x \<Longrightarrow> P y \<Longrightarrow> x = y"
  shows "find P xs = (if \<exists>x \<in> set xs. P x then Some (THE x. x \<in> set xs \<and> P x) else None)"
proof (cases "find P xs")
  case None
  then show ?thesis by (auto simp: find_None_iff)
next
  case (Some x)
  then have x: "x \<in> set xs" "P x" by (auto simp: find_Some_iff)
  then have "(THE x. x \<in> set xs \<and> P x) = x" using assms by blast
  with x Some show ?thesis by auto
qed

lemma find_same_set:
  assumes "set xs = set ys" "\<And>x y. x \<in> set xs \<Longrightarrow> y \<in> set xs \<Longrightarrow> P x \<Longrightarrow> P y \<Longrightarrow> x = y"
  shows "find P xs = find P ys"
  using find_unique [of xs P] find_unique [of ys P] assms by simp

lemma brace_prefix:
  assumes "has_prefix s (brace k)" "has_prefix s (brace l)" "CHR ''}'' \<notin> set k" "CHR ''}'' \<notin> set l"
  shows "k = l"
proof -
  obtain u where u: "s = brace k @ u"
    using assms(1) by (auto simp: has_prefix_iff prefix_def)
  obtain v where v: "s = brace l @ v"
    using assms(2) by (auto simp: has_prefix_iff prefix_def)
  have tw: "takeWhile (\<lambda>c. c \<noteq> CHR ''}'') (m @ CHR ''}'' # w) = m" if "CHR ''}'' \<notin> set m" for m w
    using that by (induction m) auto
  have "k @ CHR ''}'' # u = l @ CHR ''}'' # v" using u v by (simp add: brace_def)
  then show ?thesis using tw [OF assms(3)] tw [OF assms(4)] by metis
qed

lemma replacer_cong:
  assumes "\<And>s. find (\<lambda>(k, v). k \<noteq> [] \<and> has_prefix s k) xs = find (\<lambda>(k, v). k \<noteq> [] \<and> has_prefix s k) ys"
  shows "replacer xs s = replacer ys s"
proof (induction s rule: measure_induct_rule [of length])
  case (less s)
  show ?case
  proof (cases s)
    case (Cons c s')
    show ?thesis
    proof (cases "find (\<lambda>(k, v). k \<noteq> [] \<and> has_prefix s k) xs")
      case None
      then show ?thesis using less [of s'] assms [of s] Cons by simp
    next
      case (Some p)
      obtain k v where p: "p = (k, v)" by force
      with Some have "k \<noteq> []" by (auto simp: find_Some_iff)
      then have "length (drop (length k) s) < length s" using Cons by (cases k) auto
      from less [OF this] show ?thesis
        using Some assms [of s] unfolding Cons p by simp
    qed
  qed simp
qed

text \<open>
  The order in which Go visits the map of replacements does not matter for the text.
\<close>

theorem format_order:
  assumes "set kvs = set kvs'" "distinct (map fst kvs)" "length kvs = length kvs'"
    and "list_all (\<lambda>(k, v). CHR ''}'' \<notin> set k) kvs"
  shows "format_string template kvs = format_string template kvs'"
proof -
  let ?args = "\<lambda>kvs. replicate (length kvs) ([], []) @ map (\<lambda>(k, v). (brace k, v)) kvs"
  have same: "set (?args kvs) = set (?args kvs')"
    using assms(1,3) by auto
  have uniq: "x = y"
    if "x \<in> set (?args kvs)" "y \<in> set (?args kvs)" "case x of (k, v) \<Rightarrow> k \<noteq> [] \<and> has_prefix s k"
      "case y of (k, v) \<Rightarrow> k \<noteq> [] \<and> has_prefix s k" for x y s
  proof -
    note h = that
    obtain k v where x: "x = (brace k, v)" "(k, v) \<in> set kvs" "has_prefix s (brace k)"
      using h(1,3) by auto
    obtain l w where y: "y = (brace l, w)" "(l, w) \<in> set kvs" "has_prefix s (brace l)"
      using h(2,4) by auto
    have "k = l" using brace_prefix [OF x(3) y(3)] x(2) y(2) assms(4) by (auto simp: list_all_iff)
    moreover have "v = w" using x(2) y(2) assms(2) \<open>k = l\<close> by (metis eq_key_imp_eq_value)
    ultimately show ?thesis using x(1) y(1) by simp
  qed
  have "find (\<lambda>(k, v). k \<noteq> [] \<and> has_prefix s k) (?args kvs) = find (\<lambda>(k, v). k \<noteq> [] \<and> has_prefix s k) (?args kvs')" for s
    by (rule find_same_set [OF same]) (rule uniq)
  then have "replacer (?args kvs) template = replacer (?args kvs') template"
    by (rule replacer_cong)
  then show ?thesis by (simp only: format_string_def)
qed

lemma format_order_witness:
  "format_string ''Ansible managed: {file} by {uid} on {host}'' [(''host'', ''web''), (''uid'', ''0''), (''file'', ''a.j2'')]
   = format_string ''Ansible managed: {file} by {uid} on {host}'' [(''file'', ''a.j2''), (''host'', ''web''), (''uid'', ''0'')]"
  by (rule format_order) auto

lemma format_example:
  "format_string ''{file} by {uid}'' [(''host'', ''web''), (''uid'', ''0''), (''file'', ''a.j2'')] = ''a.j2 by 0''"
  by code_simp

text \<open>A template of a user that is not in the database panics; the name of a user is never given.\<close>

lemma unknown_owner_panics:
  assumes "os_stat (tv_os t) p fs = (fs, Ok i)" "tv_user t (i_uid i) = None"
  shows "snd (generate_template_vars t p None dest fs) = Panic"
  using assms by (simp add: generate_template_vars_def get_template_uid_def pbind_def plift_def)

lemma uid_is_number:
  assumes "generate_template_vars t p full dest fs = (fs', Ok r)"
  shows "\<exists>i. tf_uid r = itoa i"
  using assms by (cases "tv_host t") (auto simp: generate_template_vars_def Let_def pbind_Ok_iff pret_def plift_def)

end
