(* ===== verification/Lookup_Url.thy ===== *)
theory Lookup_Url
  imports Urls Lookups
begin

text \<open>
  The lookup plugin \<open>url\<close> (\<open>plugins/lookup/url/url.go\<close>) over the requests of theory \<open>Urls\<close>.  How
  the template engine reads a value as a text, a truth value or a number are parameters.
\<close>

record url_lookup_tools =
  ul_net :: net
  ul_text :: "gval \<Rightarrow> string"
  ul_true :: "gval \<Rightarrow> bool"
  ul_int :: "gval \<Rightarrow> int"

definition kwarg :: "(string \<rightharpoonup> gval) \<Rightarrow> string \<Rightarrow> gval \<Rightarrow> gval" where
  "kwarg kw k d = (case kw k of Some v \<Rightarrow> v | None \<Rightarrow> d)"

text \<open>What \<open>reflect.Value.String\<close> gives for an element that is an interface value.\<close>

definition interface_text :: string where
  "interface_text = ''<interface {} Value>''"

text \<open>The texts of a list of any values are not its elements.\<close>

definition to_string_slice :: "gval \<Rightarrow> string list" where
  "to_string_slice v =
     (case v of
        GStrs ss \<Rightarrow> ss
      | GList vs \<Rightarrow> map (\<lambda>_. interface_text) vs
      | GMapSlice kvs \<Rightarrow> map (\<lambda>_. ''<yaml.MapItem Value>'') kvs
      | _ \<Rightarrow> [])"

definition to_header :: "gval \<Rightarrow> header option" where
  "to_header v =
     (case v of
        GMap kvs \<Rightarrow> Some (fold (\<lambda>(k, _). header_add k interface_text) kvs Map.empty)
      | GIMap kvs \<Rightarrow> Some (fold (\<lambda>_. header_add interface_text interface_text) kvs Map.empty)
      | _ \<Rightarrow> None)"

definition lookup_common :: "url_lookup_tools \<Rightarrow> (string \<rightharpoonup> gval) \<Rightarrow> url_common" where
  "lookup_common t kw =
     (let flag = (\<lambda>k. ul_true t (kwarg kw k (GBool False))); str = (\<lambda>k. ul_text t (kwarg kw k (GStr [])))
      in new_url_params\<lparr>uc_validate := flag ''validate_certs'', uc_proxy := flag ''use_proxy'', uc_user := str ''username'',
           uc_password := str ''password'', uc_force := flag ''force'', uc_agent := str ''http_agent'',
           uc_force_basic := flag ''force_basic_auth'', uc_gssapi := flag ''use_gssapi''\<rparr>)"

definition lookup_request :: "url_lookup_tools \<Rightarrow> (string \<rightharpoonup> gval) \<Rightarrow> request_data" where
  "lookup_request t kw =
     (let str = (\<lambda>k. ul_text t (kwarg kw k (GStr [])))
      in new_request_data\<lparr>rd_common := Some (lookup_common t kw), rd_headers := to_header (kwarg kw ''headers'' GNil),
           rd_timeout := ul_int t (kwarg kw ''timeout'' (GInt 0)), rd_follow := str ''follow_redirects'',
           rd_socket := str ''unix_socket'', rd_ca_path := str ''ca_path'',
           rd_unredirected := to_string_slice (kwarg kw ''unredirected_headers'' GNil)\<rparr>)"

text \<open>A body that cannot be read counts as empty.\<close>

definition response_text :: "response \<Rightarrow> string" where
  "response_text rsp = (if rsp_body_error rsp = None then rsp_body rsp else [])"

fun url_terms :: "url_lookup_tools \<Rightarrow> request_data \<Rightarrow> bool \<Rightarrow> gval list \<Rightarrow> string list \<Rightarrow> lvalue sending" where
  "url_terms t req lines [] acc = pret (LVal (GStrs acc))"
| "url_terms t req lines (a # args) acc =
     pbind (ptry (url_get (ul_net t) (Some req) (ul_text t a) None)) (\<lambda>r.
       case r of
         Inl e \<Rightarrow> pret (LError e)
       | Inr rsp \<Rightarrow>
           url_terms t req lines args (acc @ (if lines then split_on nl (response_text rsp) else [response_text rsp])))"

definition lookup_url :: "url_lookup_tools \<Rightarrow> (string \<rightharpoonup> gval) \<Rightarrow> gval list \<Rightarrow> lvalue sending" where
  "lookup_url t kw args =
     url_terms t (lookup_request t kw) (ul_true t (kwarg kw ''split_lines'' (GBool False))) args []"

section \<open>Certificates\<close>

text \<open>
  What the documentation of \<open>mapstructure\<close> says: a value of the same type is taken over, nil
  changes nothing.
\<close>

definition decodes_same_type :: "net \<Rightarrow> bool" where
  "decodes_same_type n \<longleftrightarrow> (\<forall>d z. n_decode n (Some d) z = d) \<and> (\<forall>z. n_decode n None z = z)"

lemma open_url_sent:
  "\<exists>qs. fst (open_url n r url method od sent) = sent @ qs
    \<and> list_all (\<lambda>q. \<exists>c d. rd_common (merge_data n r od) = Some c \<and> q = make_request n method url c d) qs"
  by (cases "rd_common (merge_data n r od)"; cases "handle_auth n (the (rd_common (merge_data n r od))) (merge_data n r od)")
     (auto simp: open_url_def Let_def)

lemma url_terms_sent:
  assumes "\<And>a sent. \<exists>qs. fst (url_get (ul_net t) (Some req) (ul_text t a) None sent) = sent @ qs \<and> list_all P qs"
  shows "\<exists>qs. fst (url_terms t req lines args acc sent) = sent @ qs \<and> list_all P qs"
proof (induction args arbitrary: acc sent)
  case (Cons a args)
  obtain qs where qs: "fst (url_get (ul_net t) (Some req) (ul_text t a) None sent) = sent @ qs" "list_all P qs"
    using assms by blast
  obtain r where r: "url_get (ul_net t) (Some req) (ul_text t a) None sent = (sent @ qs, r)"
    using qs(1) by (metis prod.collapse)
  show ?case
  proof (cases r)
    case (Ok rsp)
    let ?acc = "acc @ (if lines then split_on nl (response_text rsp) else [response_text rsp])"
    have step: "url_terms t req lines (a # args) acc sent = url_terms t req lines args ?acc (sent @ qs)"
      using r Ok by (simp add: pbind_def ptry_def)
    obtain qs' where "fst (url_terms t req lines args ?acc (sent @ qs)) = (sent @ qs) @ qs'" "list_all P qs'"
      using Cons.IH by blast
    then show ?thesis unfolding step using qs(2) by (intro exI [of _ "qs @ qs'"]) simp
  qed (use r qs(2) in \<open>auto simp: pbind_def ptry_def pret_def\<close>)
qed (simp add: pret_def)

lemma make_request_insecure [simp]: "hr_insecure (make_request n m u c d) \<longleftrightarrow> \<not> uc_validate c"
  by (simp add: make_request_def)

text \<open>
  Without the option \<open>validate_certs\<close> no request of the lookup checks the certificate of the
  server, although the parameters of requests check by default.
\<close>

theorem lookup_url_insecure:
  assumes "decodes_same_type (ul_net t)" "kw ''validate_certs'' = None" "\<not> ul_true t (GBool False)"
  shows "list_all hr_insecure (drop (length sent) (fst (lookup_url t kw args sent))) \<and> uc_validate new_url_params"
proof -
  let ?req = "lookup_request t kw"
  have merged: "rd_common (merge_data (ul_net t) (Some ?req) None) = Some (lookup_common t kw)"
    using assms(1) by (simp add: merge_data_def decodes_same_type_def lookup_request_def Let_def)
  have "\<not> uc_validate (lookup_common t kw)"
    using assms(2,3) by (simp add: lookup_common_def kwarg_def Let_def)
  then have "\<exists>qs. fst (url_get (ul_net t) (Some ?req) (ul_text t a) None s) = s @ qs \<and> list_all hr_insecure qs" for a s
  proof -
    obtain qs where qs: "fst (open_url (ul_net t) (Some ?req) (ul_text t a) ''GET'' None s) = s @ qs"
      "list_all (\<lambda>q. \<exists>c d. rd_common (merge_data (ul_net t) (Some ?req) None) = Some c
        \<and> q = make_request (ul_net t) ''GET'' (ul_text t a) c d) qs"
      using open_url_sent [of "ul_net t" "Some ?req" "ul_text t a" "''GET''" None s] by blast
    have "list_all hr_insecure qs"
      using qs(2) by (rule list.pred_mono_strong) (use merged \<open>\<not> uc_validate (lookup_common t kw)\<close> in auto)
    then show ?thesis using qs(1) unfolding url_get_def by blast
  qed
  from url_terms_sent [OF this] show ?thesis
    unfolding lookup_url_def by (auto simp: new_url_params_def) (metis append_eq_conv_conj)
qed

definition web :: url_lookup_tools where
  "web =
     \<lparr>ul_net = \<lparr>n_parse = (\<lambda>s. Some \<lparr>pu_scheme = ''https'', pu_path = [], pu_host = s\<rparr>),
                n_decode = (\<lambda>d z. case d of Some d \<Rightarrow> d | None \<Rightarrow> z), n_netrc = None, n_date = (\<lambda>_. []),
                n_send = (\<lambda>_ q. Inr \<lparr>rsp_status = 200, rsp_header = Map.empty, rsp_body = hr_url q, rsp_body_error = None\<rparr>)\<rparr>,
      ul_text = (\<lambda>v. case v of GStr s \<Rightarrow> s | _ \<Rightarrow> []), ul_true = (\<lambda>v. v = GBool True), ul_int = (\<lambda>_. 0)\<rparr>"

lemma lookup_url_insecure_witness:
  "list_all hr_insecure (drop (length ([] :: http_request list)) (fst (lookup_url web Map.empty [GStr ''https://a'', GStr ''https://b''] [])))
   \<and> uc_validate new_url_params"
  by (rule lookup_url_insecure) (simp_all add: web_def decodes_same_type_def)

text \<open>In the example two requests are sent.\<close>

lemma web_sends: "length (fst (lookup_url web Map.empty [GStr ''https://a'', GStr ''https://b''] [])) = 2"
  by code_simp

lemma header_values_lost: "to_header (GMap [(''X-Token'', GStr ''secret'')]) = Some [''X-Token'' \<mapsto> [interface_text]]"
proof -
  have "canonical_key ''X-Token'' = ''X-Token''" by code_simp
  then show ?thesis by (simp add: to_header_def header_add_def)
qed

end
