(* ===== verification/Remote.thy ===== *)
theory Remote
  imports Files Become Actions Playbook
begin

text \<open>
  The subprogram on the host: uploading and starting it (\<open>remote/handler.go\<close>,
  \<open>remote/system_info.go\<close>), what it does first (\<open>remote/main/main.go\<close>) and the calls it serves
  (\<open>remote/main/server.go\<close>).  The shell, scp and starting programs of the host, SHA-256, JSON and
  what modules do are parameters.
\<close>

section \<open>State and parameters\<close>

definition client_file_name :: string where "client_file_name = ''gosible_client''"
definition client_tmp_file_name :: string where "client_tmp_file_name = ''gosible_client_tmp''"

text \<open>
  \<open>rt_start\<close> answers what program a command of the host starts, if it can tell; \<open>rt_dial\<close> is the
  connection to the program that was started.
\<close>

record remote_tools =
  rt_binary_dir :: "string option"
  rt_local :: os
  rt_host :: os
  rt_sha256 :: "string \<Rightarrow> string"
  rt_shell :: "string \<Rightarrow> fs \<Rightarrow> fs \<times> (string, string) outcome"
  rt_send :: "string \<Rightarrow> string \<Rightarrow> string \<Rightarrow> fs \<Rightarrow> fs \<times> (string, unit) outcome"
  rt_start :: "string \<Rightarrow> become_args \<Rightarrow> fs \<Rightarrow> string + string option"
  rt_dial :: "string \<Rightarrow> fs \<Rightarrow> string option"

text \<open>Files of the controller and of the host, the paths sent and the commands started so far.\<close>

record upload_world =
  uw_local :: fs
  uw_host :: fs
  uw_sent :: "string list"
  uw_started :: "string list"

type_synonym 'a up = "(upload_world, string, 'a) prog"

definition on_local :: "'a io \<Rightarrow> (upload_world, os_error, 'a) prog" where
  "on_local f w = (case f (uw_local w) of (fs, r) \<Rightarrow> (w\<lparr>uw_local := fs\<rparr>, r))"

definition exec_remote :: "remote_tools \<Rightarrow> string \<Rightarrow> string up" where
  "exec_remote t cmd w = (case rt_shell t cmd (uw_host w) of (fs, r) \<Rightarrow> (w\<lparr>uw_host := fs\<rparr>, r))"

definition send_file :: "remote_tools \<Rightarrow> string \<Rightarrow> string \<Rightarrow> string \<Rightarrow> unit up" where
  "send_file t q path mode w =
     (case rt_send t (case uw_local w q of Some (File i) \<Rightarrow> i_data i | _ \<Rightarrow> []) path mode (uw_host w) of
        (fs, r) \<Rightarrow> (w\<lparr>uw_host := fs, uw_sent := uw_sent w @ [path]\<rparr>, r))"

section \<open>Facts about the host\<close>

record system_info =
  si_dir :: string
  si_exists :: bool
  si_bin :: string
  si_tmp :: string
  si_uname :: string

definition no_info :: system_info where
  "no_info = \<lparr>si_dir = [], si_exists = False, si_bin = [], si_tmp = [], si_uname = []\<rparr>"

definition cache_dir :: "string \<Rightarrow> string" where
  "cache_dir sha = ''$HOME/.cache/gosible_client/'' @ sha"

definition gather_script :: "string \<Rightarrow> string" where
  "gather_script dir =
     ''DIR='' @ [dquote] @ dir @ [dquote] @ ''; echo '' @ [dquote] @ ''Dir=$DIR'' @ [dquote] @ ''; echo '' @ [dquote]
     @ ''Sys=$(uname -a)'' @ [dquote] @ ''; ([ -e '' @ [dquote] @ ''$DIR/'' @ client_file_name @ [dquote]
     @ '' ] && echo HasRunner=1); mkdir -p '' @ [dquote] @ ''$DIR'' @ [dquote] @ ''; chmod 1775 '' @ [dquote]
     @ ''$DIR'' @ [dquote]"

definition info_line :: "string \<Rightarrow> system_info \<Rightarrow> system_info" where
  "info_line line si =
     (if CHR ''='' \<notin> set line then si
      else
        let key = takeWhile (\<lambda>c. c \<noteq> CHR ''='') line; val = drop (Suc (length key)) line
        in if key = ''Sys'' then si\<lparr>si_uname := val\<rparr>
           else if key = ''Dir'' then si\<lparr>si_dir := val\<rparr>
           else if key = ''HasRunner'' then si\<lparr>si_exists := True\<rparr>
           else si)"

definition finish_info :: "system_info \<Rightarrow> (string, system_info) outcome" where
  "finish_info si =
     (if si_dir si = [] then Err ''failed to resolve remote gosible directory''
      else Ok (si\<lparr>si_bin := si_dir si @ ''/'' @ client_file_name, si_tmp := si_dir si @ ''/'' @ client_tmp_file_name\<rparr>))"

text \<open>A binary that cannot be read ends the program, a fatal log.\<close>

definition get_hash_str :: "remote_tools \<Rightarrow> string \<Rightarrow> string up" where
  "get_hash_str t path =
     pbind (ptry (on_local (os_read_file (rt_local t) path))) (\<lambda>r.
       case r of Inl e \<Rightarrow> plift Panic | Inr d \<Rightarrow> pret (rt_sha256 t d))"

definition gather_system_info :: "remote_tools \<Rightarrow> string \<Rightarrow> system_info up" where
  "gather_system_info t path =
     pbind (get_hash_str t path) (\<lambda>sha.
     pbind (exec_remote t (gather_script (cache_dir sha))) (\<lambda>out.
       plift (finish_info (fold info_line (scanned_lines out) no_info))))"

section \<open>Upload\<close>

definition open_binary :: "remote_tools \<Rightarrow> string \<Rightarrow> string up" where
  "open_binary t path = pmap_err (\<lambda>_. ''failed to open binary'') (on_local (os_open (rt_local t) path))"

definition get_dir_path_legacy :: "remote_tools \<Rightarrow> string up" where
  "get_dir_path_legacy t =
     pbind (exec_remote t (''DIR=$(mktemp -d); echo '' @ [dquote] @ ''$DIR'' @ [dquote] @ ''; chmod 1775 '' @ [dquote]
                            @ ''$DIR'' @ [dquote])) (\<lambda>out. pret (trim_space out))"

definition send_to_remote_legacy :: "remote_tools \<Rightarrow> string \<Rightarrow> string up" where
  "send_to_remote_legacy t path =
     pbind (open_binary t path) (\<lambda>q.
     pbind (get_dir_path_legacy t) (\<lambda>dir.
       let remote = dir @ ''/'' @ client_file_name
       in pbind (send_file t q remote ''0555'') (\<lambda>_. pret remote)))"

definition send_to_remote :: "remote_tools \<Rightarrow> string \<Rightarrow> become_args \<Rightarrow> string up" where
  "send_to_remote t path args =
     (if ba_user args \<noteq> [] then send_to_remote_legacy t path
      else
        pbind (open_binary t path) (\<lambda>q.
        pbind (gather_system_info t path) (\<lambda>si.
          if si_exists si then pret (si_bin si)
          else pbind (send_file t q (si_tmp si) ''0555'') (\<lambda>_. pret (si_tmp si)))))"

section \<open>The subprogram\<close>

text \<open>It takes its name only now, so that a file of that name is complete.\<close>

definition rename_self :: "os \<Rightarrow> string option \<Rightarrow> unit io" where
  "rename_self x bin =
     (case bin of
        None \<Rightarrow> plift (Err (OsError ''executable''))
      | Some p \<Rightarrow>
          if path_base p = client_tmp_file_name then os_rename x p (path_join [path_dir p, client_file_name])
          else pret ())"

definition remote_main :: "remote_tools \<Rightarrow> string option \<Rightarrow> fs \<Rightarrow> fs" where
  "remote_main t bin fs = fst (rename_self (rt_host t) bin fs)"

definition execute_path :: "remote_tools \<Rightarrow> string \<Rightarrow> become_args \<Rightarrow> unit up" where
  "execute_path t path args w =
     (case rt_start t path args (uw_host w) of
        Inl e \<Rightarrow> (w, Err e)
      | Inr bin \<Rightarrow>
          let w = w\<lparr>uw_host := remote_main t bin (uw_host w), uw_started := uw_started w @ [path]\<rparr>
          in (w, case rt_dial t path (uw_host w) of Some e \<Rightarrow> Err e | None \<Rightarrow> Ok ()))"

definition get_binary_path :: "remote_tools \<Rightarrow> (string, string) outcome" where
  "get_binary_path t =
     (case rt_binary_dir t of None \<Rightarrow> Err ''failed to get binary path'' | Some d \<Rightarrow> Ok (path_join [d, ''remote'', ''gosible_client'']))"

definition remote_execute :: "remote_tools \<Rightarrow> become_args \<Rightarrow> unit up" where
  "remote_execute t args =
     pbind (plift (get_binary_path t)) (\<lambda>bin.
     pbind (pmap_err (\<lambda>e. ''failed to send binary to remote: '' @ e) (send_to_remote t bin args)) (\<lambda>path.
       execute_path t path args))"

definition read_python_runtime :: "remote_tools \<Rightarrow> string up" where
  "read_python_runtime t =
     (case rt_binary_dir t of
        None \<Rightarrow> plift (Err ''binary path'')
      | Some d \<Rightarrow> pmap_err (\<lambda>_. ''read'') (on_local (os_read_file (rt_local t) (path_join [d, ''remote'', ''py_runtime.zip'']))))"

section \<open>One upload per host\<close>

definition host_dir :: "string \<Rightarrow> string \<Rightarrow> string" where
  "host_dir home sha = home @ ''/.cache/gosible_client/'' @ sha"

definition bin_at :: "string \<Rightarrow> string \<Rightarrow> string" where
  "bin_at home sha = host_dir home sha @ ''/'' @ client_file_name"

definition tmp_at :: "string \<Rightarrow> string \<Rightarrow> string" where
  "tmp_at home sha = host_dir home sha @ ''/'' @ client_tmp_file_name"

definition script_output :: "string \<Rightarrow> string \<Rightarrow> bool \<Rightarrow> string" where
  "script_output dir uname runner =
     join [nl] ([''Dir='' @ dir, ''Sys='' @ uname] @ (if runner then [''HasRunner=1''] else [])) @ [nl]"

definition path_char :: "char \<Rightarrow> bool" where
  "path_char c \<longleftrightarrow> c \<in> set ''/._-0123456789abcdefghijklmnopqrstuvwxyzABCDEFGHIJKLMNOPQRSTUVWXYZ''"

text \<open>
  What the shell of a host does with the script, in which \<open>$HOME\<close> is the directory \<open>home\<close>; scp to
  a path that is free; starting a file by a path without special characters; renaming files.
\<close>

definition shell_law :: "remote_tools \<Rightarrow> string \<Rightarrow> string \<Rightarrow> string \<Rightarrow> bool" where
  "shell_law t home uname sha \<longleftrightarrow>
     (\<forall>fs. \<exists>fs'.
        rt_shell t (gather_script (cache_dir sha)) fs =
          (fs', Ok (script_output (host_dir home sha) uname (\<exists>r. follow_links 40 fs (bin_at home sha) = Ok r)))
        \<and> (\<forall>f. f \<noteq> [] \<longrightarrow> fs' (host_dir home sha @ ''/'' @ f) = fs (host_dir home sha @ ''/'' @ f)))"

definition send_law :: "remote_tools \<Rightarrow> bool" where
  "send_law t \<longleftrightarrow>
     (\<forall>d p fs. fs p = None \<longrightarrow>
        (\<exists>fs' i. rt_send t d p ''0555'' fs = (fs', Ok ()) \<and> fs' p = Some (File i) \<and> i_data i = d
                \<and> (\<forall>q. q \<noteq> p \<longrightarrow> fs' q = fs q)))"

definition start_law :: "remote_tools \<Rightarrow> bool" where
  "start_law t \<longleftrightarrow>
     (\<forall>p a fs i. list_all path_char p \<longrightarrow> fs p = Some (File i) \<longrightarrow> rt_start t p a fs = Inr (Some p))
     \<and> (\<forall>p fs. rt_dial t p fs = None) \<and> (\<forall>ps. o_refuse (rt_host t) Rename ps = None)"

definition plain_home :: "string \<Rightarrow> string \<Rightarrow> bool" where
  "plain_home home sha \<longleftrightarrow>
     list_all path_char (host_dir home sha) \<and> is_abs (host_dir home sha) \<and> host_dir home sha \<noteq> ''/''
     \<and> path_clean (host_dir home sha) = host_dir home sha \<and> length (host_dir home sha) < 65532"

definition one_line :: "string \<Rightarrow> bool" where
  "one_line s \<longleftrightarrow> nl \<notin> set s \<and> CHR 0x0D \<notin> set s \<and> length s < 65532"

lemma clean_parts_snoc:
  "c \<notin> {[], ''.'', ''..''} \<Longrightarrow> clean_parts r done (xs @ [c]) = clean_parts r done xs @ [c]"
  by (induction xs arbitrary: "done") auto

lemma clean_parts_empty: "clean_parts r done (xs @ [[]]) = clean_parts r done xs"
  by (induction xs arbitrary: "done") auto

lemma join_snoc: "xs \<noteq> [] \<Longrightarrow> join s (xs @ [x]) = join s xs @ s @ x"
  by (induction xs rule: induct_list012) auto

lemma split_slash: "CHR ''/'' \<notin> set f \<Longrightarrow> split_on (CHR ''/'') (d @ CHR ''/'' # f) = split_on (CHR ''/'') d @ [f]"
  by (simp add: split_on_append_sep split_on_single)

lemma is_abs_Cons: "is_abs d \<longleftrightarrow> (\<exists>s. d = CHR ''/'' # s)"
  by (cases d) (auto simp: is_abs_def has_prefix_def)

lemma is_abs_append: "is_abs d \<Longrightarrow> is_abs (d @ x)"
  by (auto simp: is_abs_Cons)

lemma path_clean_slash: "is_abs d \<Longrightarrow> path_clean (d @ ''/'') = path_clean d"
  using split_slash [of "[]" d] by (simp add: path_clean_def is_abs_append clean_parts_empty)

lemma path_clean_file:
  assumes "is_abs d" "d \<noteq> ''/''" "path_clean d = d" "CHR ''/'' \<notin> set f" "f \<notin> {[], ''.'', ''..''}"
  shows "path_clean (d @ ''/'' @ f) = d @ ''/'' @ f"
proof -
  let ?ps = "clean_parts True [] (split_on (CHR ''/'') d)"
  have d: "d = ''/'' @ join ''/'' ?ps"
    using assms(1,3) by (simp add: path_clean_def)
  then have ne: "?ps \<noteq> []" using assms(2) by (metis append_Nil2 join.simps(1))
  have "path_clean (d @ ''/'' @ f) = ''/'' @ join ''/'' (?ps @ [f])"
    using assms(1,4,5) split_slash [of f d] clean_parts_snoc [of f True "[]" "split_on (CHR ''/'') d"]
    by (simp add: path_clean_def is_abs_append)
  also have "\<dots> = (''/'' @ join ''/'' ?ps) @ ''/'' @ f" using join_snoc [OF ne] by simp
  finally show ?thesis using d by simp
qed

lemma path_base_file: "CHR ''/'' \<notin> set f \<Longrightarrow> f \<noteq> [] \<Longrightarrow> path_base (d @ ''/'' @ f) = f"
proof -
  assume f: "CHR ''/'' \<notin> set f" "f \<noteq> []"
  have "dropWhile (\<lambda>c. c = CHR ''/'') (rev (d @ ''/'' @ f)) = rev f @ CHR ''/'' # rev d"
    using f by (cases f rule: rev_cases) auto
  moreover have "takeWhile (\<lambda>c. c \<noteq> CHR ''/'') (rev f @ CHR ''/'' # rev d) = rev f"
    using f by (simp add: takeWhile_append)
  ultimately show ?thesis using f by (simp add: path_base_def Let_def)
qed

lemma path_dir_file: "CHR ''/'' \<notin> set f \<Longrightarrow> path_dir (d @ ''/'' @ f) = path_clean (d @ ''/'')"
  by (simp add: path_dir_def dropWhile_append)

lemma rename_self_moves:
  assumes "plain_home home sha" "start_law t" "fs (tmp_at home sha) = Some n"
  shows "remote_main t (Some (tmp_at home sha)) fs = (fs(bin_at home sha \<mapsto> n))(tmp_at home sha := None)"
proof -
  let ?d = "host_dir home sha"
  have d: "is_abs ?d" "?d \<noteq> ''/''" "path_clean ?d = ?d" using assms(1) by (auto simp: plain_home_def)
  have base: "path_base (tmp_at home sha) = client_tmp_file_name"
    unfolding tmp_at_def by (rule path_base_file) (simp_all add: client_tmp_file_name_def)
  have "path_dir (tmp_at home sha) = ?d"
    unfolding tmp_at_def using d path_clean_slash [of ?d]
    by (subst path_dir_file) (simp_all add: client_tmp_file_name_def)
  then have to: "path_join [path_dir (tmp_at home sha), client_file_name] = bin_at home sha"
    using d(1) path_clean_file [OF d, of client_file_name]
    by (auto simp: path_join_def bin_at_def client_file_name_def is_abs_Cons)
  have "tmp_at home sha \<noteq> bin_at home sha"
    by (simp add: tmp_at_def bin_at_def client_file_name_def client_tmp_file_name_def)
  then show ?thesis
    using assms(2,3) base to
    by (simp add: remote_main_def rename_self_def os_rename_def refused_def start_law_def pbind_plift)
qed

lemma rename_self_stays:
  "path_base p \<noteq> client_tmp_file_name \<Longrightarrow> remote_main t (Some p) fs = fs"
  by (simp add: remote_main_def rename_self_def pret_def)

lemma info_of_script:
  assumes "one_line uname" "plain_home home sha"
  shows "finish_info (fold info_line (scanned_lines (script_output (host_dir home sha) uname b)) no_info) =
    Ok \<lparr>si_dir = host_dir home sha, si_exists = b, si_bin = bin_at home sha, si_tmp = tmp_at home sha, si_uname = uname\<rparr>"
proof -
  let ?d = "host_dir home sha"
  have odd: "\<not> path_char nl" "\<not> path_char (CHR 0x0D)" by (simp_all add: path_char_def)
  have "list_all path_char ?d" "is_abs ?d" "length ?d < 65532" using assms(2) by (simp_all add: plain_home_def)
  then have "\<forall>c \<in> set ?d. path_char c" "?d \<noteq> []" by (auto simp only: list_all_iff is_abs_Cons)
  then have d: "nl \<notin> set ?d" "CHR 0x0D \<notin> set ?d" "length ?d < 65532" "?d \<noteq> []"
    using odd \<open>length ?d < 65532\<close> by - (blast | assumption)+
  have u: "nl \<notin> set uname" "CHR 0x0D \<notin> set uname" "length uname < 65532"
    using assms(1) by (auto simp: one_line_def)
  let ?ls = "[''Dir='' @ ?d, ''Sys='' @ uname] @ (if b then [''HasRunner=1''] else [])"
  have ok: "nl \<notin> set l \<and> CHR 0x0D \<notin> set l \<and> length l < 65536" if l: "l \<in> set ?ls" for l
  proof -
    from l have "l = ''Dir='' @ ?d \<or> l = ''Sys='' @ uname \<or> l = ''HasRunner=1''" by (cases b) auto
    then show ?thesis using d(1-3) u by (elim disjE) simp_all
  qed
  have lines: "scanned_lines (script_output ?d uname b) = ?ls"
    unfolding script_output_def by (rule scanned_lines_join [OF _ ok]) simp_all
  show ?thesis unfolding lines using d(4)
    by (simp add: info_line_def no_info_def finish_info_def bin_at_def tmp_at_def)
qed


lemma paths_plain:
  assumes "plain_home home sha"
  shows "list_all path_char (bin_at home sha)" "list_all path_char (tmp_at home sha)"
proof -
  have "list_all path_char ''/gosible_client''" "list_all path_char ''/gosible_client_tmp''" by code_simp+
  moreover have "list_all path_char (host_dir home sha)" using assms by (simp add: plain_home_def)
  ultimately show "list_all path_char (bin_at home sha)" "list_all path_char (tmp_at home sha)"
    by (simp_all add: bin_at_def tmp_at_def client_file_name_def client_tmp_file_name_def)
qed

lemma paths_differ: "tmp_at home sha \<noteq> bin_at home sha" "path_base (bin_at home sha) \<noteq> client_tmp_file_name"
proof -
  show "tmp_at home sha \<noteq> bin_at home sha"
    by (simp add: tmp_at_def bin_at_def client_file_name_def client_tmp_file_name_def)
  have "path_base (bin_at home sha) = client_file_name"
    unfolding bin_at_def by (rule path_base_file) (simp_all add: client_file_name_def)
  then show "path_base (bin_at home sha) \<noteq> client_tmp_file_name"
    by (simp add: client_file_name_def client_tmp_file_name_def)
qed

lemma read_file_Ok:
  assumes "os_read_file x p fs = (fs', Ok d)"
  shows "fs' = fs \<and> (\<exists>q i. os_open x p fs = (fs, Ok q) \<and> fs q = Some (File i) \<and> i_data i = d)"
proof -
  obtain q fs1 where q: "os_open x p fs = (fs1, Ok q)"
    using assms by (auto simp: os_read_file_def pbind_Ok_iff)
  have "fs1 = fs" using keepsD [OF keeps_os_open, of "\<lambda>s. s" x p fs] q by simp
  with q assms show ?thesis
    by (auto simp: os_read_file_def pbind_simps(1) [where f = "os_open x p", OF q] split: option.splits node.splits if_splits)
qed

text \<open>The binary that the controller sends, and its hash.\<close>

definition sends_binary :: "remote_tools \<Rightarrow> string \<Rightarrow> upload_world \<Rightarrow> bool" where
  "sends_binary t d w \<longleftrightarrow>
     (case get_binary_path t of
        Ok p \<Rightarrow> snd (os_read_file (rt_local t) p (uw_local w)) = Ok d
      | _ \<Rightarrow> False)"

lemma sends_binary_local: "uw_local w' = uw_local w \<Longrightarrow> sends_binary t d w' = sends_binary t d w"
  by (auto simp: sends_binary_def split: outcome.splits)

lemma sends_binaryD:
  assumes "sends_binary t d w"
  obtains p q i where "get_binary_path t = Ok p" "open_binary t p w = (w, Ok q)" "uw_local w q = Some (File i)"
    "i_data i = d" "get_hash_str t p w = (w, Ok (rt_sha256 t d))"
proof -
  obtain p where p: "get_binary_path t = Ok p" "snd (os_read_file (rt_local t) p (uw_local w)) = Ok d"
    using assms by (auto simp: sends_binary_def split: outcome.splits)
  obtain fs' where r: "os_read_file (rt_local t) p (uw_local w) = (fs', Ok d)"
    using p(2) by (metis prod.collapse)
  obtain q i where q: "os_open (rt_local t) p (uw_local w) = (uw_local w, Ok q)" "uw_local w q = Some (File i)" "i_data i = d"
    and fs': "fs' = uw_local w"
    using read_file_Ok [OF r] by blast
  show ?thesis
  proof (rule that [OF p(1) _ q(2,3)])
    show "open_binary t p w = (w, Ok q)" using q(1) by (simp add: open_binary_def pmap_err_def on_local_def)
    show "get_hash_str t p w = (w, Ok (rt_sha256 t d))"
      using r fs' by (simp add: get_hash_str_def pbind_def ptry_def on_local_def pret_def)
  qed
qed

lemma gather_run:
  assumes "shell_law t home uname sha" "one_line uname" "plain_home home sha" "get_hash_str t p w = (w, Ok sha)"
  obtains fs where
    "gather_system_info t p w = (w\<lparr>uw_host := fs\<rparr>,
       Ok \<lparr>si_dir = host_dir home sha, si_exists = (\<exists>r. follow_links 40 (uw_host w) (bin_at home sha) = Ok r),
           si_bin = bin_at home sha, si_tmp = tmp_at home sha, si_uname = uname\<rparr>)"
    "fs (bin_at home sha) = uw_host w (bin_at home sha)" "fs (tmp_at home sha) = uw_host w (tmp_at home sha)"
proof -
  let ?b = "\<exists>r. follow_links 40 (uw_host w) (bin_at home sha) = Ok r"
  obtain fs where fs: "rt_shell t (gather_script (cache_dir sha)) (uw_host w) = (fs, Ok (script_output (host_dir home sha) uname ?b))"
    "\<forall>f. f \<noteq> [] \<longrightarrow> fs (host_dir home sha @ ''/'' @ f) = uw_host w (host_dir home sha @ ''/'' @ f)"
    using assms(1) unfolding shell_law_def by blast
  have run: "exec_remote t (gather_script (cache_dir sha)) w = (w\<lparr>uw_host := fs\<rparr>, Ok (script_output (host_dir home sha) uname ?b))"
    by (simp add: exec_remote_def fs(1))
  show ?thesis
  proof (rule that)
    show "gather_system_info t p w = (w\<lparr>uw_host := fs\<rparr>,
       Ok \<lparr>si_dir = host_dir home sha, si_exists = ?b, si_bin = bin_at home sha, si_tmp = tmp_at home sha, si_uname = uname\<rparr>)"
      unfolding gather_system_info_def pbind_simps(1) [where f = "get_hash_str t p", OF assms(4)]
        pbind_simps(1) [where f = "exec_remote t (gather_script (cache_dir sha))", OF run]
        plift_def info_of_script [OF assms(2,3)] ..
  qed (use fs(2) in \<open>simp_all add: bin_at_def tmp_at_def client_file_name_def client_tmp_file_name_def\<close>)
qed


lemma execute_known:
  assumes "start_law t" "plain_home home sha" "uw_host w (bin_at home sha) = Some (File i)"
  shows "execute_path t (bin_at home sha) args w = (w\<lparr>uw_started := uw_started w @ [bin_at home sha]\<rparr>, Ok ())"
proof -
  have "rt_start t (bin_at home sha) args (uw_host w) = Inr (Some (bin_at home sha))"
    using assms paths_plain [OF assms(2)] by (auto simp: start_law_def)
  then show ?thesis
    using assms(1) rename_self_stays [OF paths_differ(2)] by (simp add: execute_path_def start_law_def)
qed

lemma execute_new:
  assumes "start_law t" "plain_home home sha" "uw_host w (tmp_at home sha) = Some (File i)"
  shows "execute_path t (tmp_at home sha) args w =
    (w\<lparr>uw_host := ((uw_host w)(bin_at home sha \<mapsto> File i))(tmp_at home sha := None),
       uw_started := uw_started w @ [tmp_at home sha]\<rparr>, Ok ())"
proof -
  have "rt_start t (tmp_at home sha) args (uw_host w) = Inr (Some (tmp_at home sha))"
    using assms paths_plain [OF assms(2)] by (auto simp: start_law_def)
  then show ?thesis
    using assms(1) rename_self_moves [where fs = "uw_host w", OF assms(2,1,3)] by (simp add: execute_path_def start_law_def)
qed

text \<open>A host on which no upload was broken off.\<close>

definition host_ready :: "string \<Rightarrow> string \<Rightarrow> fs \<Rightarrow> bool" where
  "host_ready home sha fs \<longleftrightarrow>
     fs (tmp_at home sha) = None \<and> (fs (bin_at home sha) = None \<or> (\<exists>i. fs (bin_at home sha) = Some (File i)))"

definition holds_binary :: "string \<Rightarrow> string \<Rightarrow> string \<Rightarrow> fs \<Rightarrow> bool" where
  "holds_binary home sha d fs \<longleftrightarrow> (\<exists>i. fs (bin_at home sha) = Some (File i) \<and> i_data i = d)"

lemma execute_once:
  assumes laws: "shell_law t home uname (rt_sha256 t d)" "send_law t" "start_law t" "one_line uname" "plain_home home (rt_sha256 t d)"
    and w: "sends_binary t d w" "host_ready home (rt_sha256 t d) (uw_host w)" and user: "ba_user args = []"
  shows "\<exists>w' i. remote_execute t args w = (w', Ok ()) \<and> uw_local w' = uw_local w
    \<and> uw_host w' (tmp_at home (rt_sha256 t d)) = None \<and> uw_host w' (bin_at home (rt_sha256 t d)) = Some (File i)
    \<and> (if uw_host w (bin_at home (rt_sha256 t d)) = None then i_data i = d else uw_host w (bin_at home (rt_sha256 t d)) = Some (File i))
    \<and> uw_sent w' = uw_sent w @ (if uw_host w (bin_at home (rt_sha256 t d)) = None then [tmp_at home (rt_sha256 t d)] else [])"
proof -
  let ?sha = "rt_sha256 t d" let ?bin = "bin_at home ?sha" let ?tmp = "tmp_at home ?sha"
  obtain p q j where b: "get_binary_path t = Ok p" "open_binary t p w = (w, Ok q)" "uw_local w q = Some (File j)"
    "i_data j = d" "get_hash_str t p w = (w, Ok ?sha)"
    using sends_binaryD [OF w(1)] .
  let ?e = "\<exists>r. follow_links 40 (uw_host w) ?bin = Ok r"
  obtain fs where g: "gather_system_info t p w = (w\<lparr>uw_host := fs\<rparr>,
       Ok \<lparr>si_dir = host_dir home ?sha, si_exists = ?e, si_bin = ?bin, si_tmp = ?tmp, si_uname = uname\<rparr>)"
    and fs: "fs ?bin = uw_host w ?bin" "fs ?tmp = uw_host w ?tmp"
    using gather_run [OF laws(1,4,5) b(5)] .
  have forty: "40 = Suc 39" by simp
  have tmp: "uw_host w ?tmp = None" using w(2) by (simp add: host_ready_def)
  have go: "remote_execute t args w =
      pbind (pmap_err (\<lambda>e. ''failed to send binary to remote: '' @ e)
               (\<lambda>w. if ?e then (w, Ok ?bin) else pbind (send_file t q ?tmp ''0555'') (\<lambda>_. pret ?tmp) w))
        (\<lambda>path. execute_path t path args) (w\<lparr>uw_host := fs\<rparr>)"
    using user
    by (simp add: remote_execute_def b(1) pbind_plift send_to_remote_def pbind_def [of "pmap_err _ _"] pmap_err_def
        pbind_simps(1) [where f = "open_binary t p", OF b(2)] pbind_simps(1) [where f = "gather_system_info t p", OF g] pret_def)
  show ?thesis
  proof (cases "uw_host w ?bin")
    case None
    then have e: "\<not> ?e" by (subst forty, subst follow_links.simps) simp
    have "fs ?tmp = None" using fs(2) tmp by simp
    then obtain fs' i where s: "rt_send t d ?tmp ''0555'' fs = (fs', Ok ())" "fs' ?tmp = Some (File i)" "i_data i = d"
      using laws(2) unfolding send_law_def by blast
    let ?w = "w\<lparr>uw_host := fs', uw_sent := uw_sent w @ [?tmp]\<rparr>"
    have "send_file t q ?tmp ''0555'' (w\<lparr>uw_host := fs\<rparr>) = (?w, Ok ())"
      using b(3,4) s(1) by (simp add: send_file_def)
    then have "remote_execute t args w = execute_path t ?tmp args ?w"
      unfolding go using e by (simp add: pbind_def pmap_err_def pret_def)
    moreover have "uw_host ?w ?tmp = Some (File i)" using s(2) by simp
    ultimately show ?thesis
      using execute_new [OF laws(3,5), of ?w i args] None s(3) paths_differ(1) [of home ?sha] by simp
  next
    case (Some n)
    then obtain i where i: "uw_host w ?bin = Some (File i)" using w(2) by (auto simp: host_ready_def)
    then have e: ?e by (subst forty, subst follow_links.simps) simp
    then have "remote_execute t args w = execute_path t ?bin args (w\<lparr>uw_host := fs\<rparr>)"
      unfolding go by (simp add: pbind_def pmap_err_def)
    then show ?thesis
      using execute_known [OF laws(3,5), of "w\<lparr>uw_host := fs\<rparr>" i args] i fs tmp by simp
  qed
qed

fun executions :: "remote_tools \<Rightarrow> become_args list \<Rightarrow> unit up" where
  "executions t [] = pret ()"
| "executions t (a # as) = pbind (remote_execute t a) (\<lambda>_. executions t as)"


lemma executions_known:
  assumes laws: "shell_law t home uname (rt_sha256 t d)" "send_law t" "start_law t" "one_line uname" "plain_home home (rt_sha256 t d)"
    and users: "list_all (\<lambda>a. ba_user a = []) as"
    and w: "sends_binary t d w" "uw_host w (tmp_at home (rt_sha256 t d)) = None" "uw_host w (bin_at home (rt_sha256 t d)) = Some (File i)"
  shows "\<exists>w'. executions t as w = (w', Ok ()) \<and> uw_sent w' = uw_sent w
    \<and> uw_host w' (bin_at home (rt_sha256 t d)) = Some (File i)"
  using users w
proof (induction as arbitrary: w)
  case (Cons a as)
  have "host_ready home (rt_sha256 t d) (uw_host w)" using Cons.prems by (simp add: host_ready_def)
  from execute_once [OF laws Cons.prems(2) this, of a] Cons.prems
  obtain w1 where w1: "remote_execute t a w = (w1, Ok ())" "uw_local w1 = uw_local w"
    "uw_host w1 (tmp_at home (rt_sha256 t d)) = None" "uw_host w1 (bin_at home (rt_sha256 t d)) = Some (File i)" "uw_sent w1 = uw_sent w"
    by auto
  have "sends_binary t d w1" using Cons.prems(2) sends_binary_local [OF w1(2)] by simp
  with Cons.IH [OF _ this w1(3,4)] Cons.prems(1) obtain w' where
    "executions t as w1 = (w', Ok ())" "uw_sent w' = uw_sent w1" "uw_host w' (bin_at home (rt_sha256 t d)) = Some (File i)"
    by auto
  with w1 show ?case by (simp add: pbind_def)
qed (simp add: pret_def)


text \<open>As another user every start uploads again.\<close>

lemma keeps_sent [keeps_intros]:
  "keeps uw_sent (on_local f)" "keeps uw_sent (exec_remote t cmd)" "keeps uw_sent (execute_path t p args)"
  by (auto simp: keeps_def on_local_def exec_remote_def execute_path_def Let_def split: prod.splits sum.splits)

lemma keeps_sent_parts [keeps_intros]: "keeps uw_sent (open_binary t p)" "keeps uw_sent (get_dir_path_legacy t)"
  unfolding open_binary_def get_dir_path_legacy_def by (intro keeps_intros)+

lemma legacy_sends_again:
  assumes "ba_user args \<noteq> []" "remote_execute t args w = (w', Ok ())"
  shows "length (uw_sent w') = Suc (length (uw_sent w))"
proof -
  obtain p path w3 where p: "send_to_remote_legacy t p w = (w3, Ok path)" "execute_path t path args w3 = (w', Ok ())"
    using assms
    by (auto simp: remote_execute_def send_to_remote_def pbind_Ok_iff plift_def pmap_err_Ok)
  then obtain q dir w1 w2 u where steps: "open_binary t p w = (w1, Ok q)" "get_dir_path_legacy t w1 = (w2, Ok dir)"
    "send_file t q (dir @ ''/'' @ client_file_name) ''0555'' w2 = (w3, Ok u)"
    by (auto simp: send_to_remote_legacy_def pbind_Ok_iff Let_def pret_def)
  have "uw_sent w1 = uw_sent w" "uw_sent w2 = uw_sent w1" "uw_sent w' = uw_sent w3"
    using keepsD [OF keeps_sent_parts(1), of t p w] keepsD [OF keeps_sent_parts(2), of t w1]
      keepsD [OF keeps_sent(3), of t path args w3] steps p(2) by simp_all
  moreover have "uw_sent w3 = uw_sent w2 @ [dir @ ''/'' @ client_file_name]"
    using steps(3) by (auto simp: send_file_def split: prod.splits)
  ultimately show ?thesis by simp
qed

section \<open>Calls\<close>

text \<open>A request names a module and carries its encoded arguments and perhaps the Python runtime.\<close>

record module_request =
  mq_module :: string
  mq_vars :: string
  mq_runtime :: string

record 's server_tools =
  sv_decode :: "string \<Rightarrow> vars option"
  sv_encode :: "mod_return \<Rightarrow> string option"
  sv_run :: "module_fn \<Rightarrow> string \<Rightarrow> vars \<Rightarrow> 's \<Rightarrow> 's \<times> (string, mod_return) outcome"

definition serve_module :: "'s server_tools \<Rightarrow> module_registry \<Rightarrow> module_request \<Rightarrow> ('s, string, string) prog" where
  "serve_module t mods q =
     (case find_module (mq_module q) mods of
        None \<Rightarrow> plift (Err ''module not found'')
      | Some fn \<Rightarrow>
          (case sv_decode t (mq_vars q) of
             None \<Rightarrow> plift (Err ''json'')
           | Some vs \<Rightarrow>
               pbind (sv_run t fn (mq_runtime q) vs) (\<lambda>r.
                 case sv_encode t r of None \<Rightarrow> plift (Err ''json'') | Some s \<Rightarrow> pret s)))"

text \<open>The registry of \<open>main\<close> of the subprogram.\<close>

definition served_modules :: module_registry where
  "served_modules = default_modules_register_python (default_modules_register new_registry)"

text \<open>The call of the controller: the arguments go out as JSON, the return comes back as JSON.\<close>

record client_tools =
  cl_encode :: "vars \<Rightarrow> string option"
  cl_decode :: "string \<Rightarrow> mod_return option"

definition call_module ::
  "client_tools \<Rightarrow> 's server_tools \<Rightarrow> module_registry \<Rightarrow> string \<Rightarrow> vars \<Rightarrow> string \<Rightarrow> ('s, string, mod_return) prog" where
  "call_module c t mods name vs runtime =
     (case cl_encode c vs of
        None \<Rightarrow> plift (Err ''json'')
      | Some j \<Rightarrow>
          pbind (serve_module t mods \<lparr>mq_module = name, mq_vars = j, mq_runtime = runtime\<rparr>) (\<lambda>s.
            case cl_decode c s of None \<Rightarrow> plift (Err ''json'') | Some r \<Rightarrow> pret r))"


lemma serve_known:
  assumes "find_module name mods = Some fn" "sv_decode t j = Some vs"
  shows "serve_module t mods \<lparr>mq_module = name, mq_vars = j, mq_runtime = rt\<rparr> =
    pbind (sv_run t fn rt vs) (\<lambda>r. case sv_encode t r of None \<Rightarrow> plift (Err ''json'') | Some s \<Rightarrow> pret s)"
  using assms by (simp add: serve_module_def)

lemma serve_unknown:
  "find_module (mq_module q) mods = None \<Longrightarrow> serve_module t mods q s = (s, Err ''module not found'')"
  by (simp add: serve_module_def plift_def)

section \<open>A host\<close>

definition plain_os :: os where
  "plain_os =
     \<lparr>o_refuse = (\<lambda>_ _. None), o_umask = 0, o_env = (\<lambda>_. ''/root''), o_uid = 0, o_gid = 0,
      o_eval_links = (\<lambda>_. None), o_cwd = ''/''\<rparr>"

definition data_file :: "string \<Rightarrow> node" where
  "data_file d = File \<lparr>i_mode = 0x16D, i_uid = 0, i_gid = 0, i_mtime = 0, i_label = [], i_data = d\<rparr>"

definition sample_remote :: remote_tools where
  "sample_remote =
     \<lparr>rt_binary_dir = Some ''/opt'', rt_local = plain_os, rt_host = plain_os, rt_sha256 = (\<lambda>_. ''ab12''),
      rt_shell = (\<lambda>cmd fs.
        if cmd = gather_script (cache_dir ''ab12'')
        then (fs, Ok (script_output (host_dir ''/root'' ''ab12'') ''Linux''
                     (case follow_links 40 fs (bin_at ''/root'' ''ab12'') of Ok r \<Rightarrow> True | _ \<Rightarrow> False)))
        else (fs, Err ''unknown command'')),
      rt_send = (\<lambda>d p m fs. (fs(p \<mapsto> data_file d), Ok ())),
      rt_start = (\<lambda>p a fs. Inr (Some p)),
      rt_dial = (\<lambda>_ _. None)\<rparr>"

definition sample_upload :: upload_world where
  "sample_upload =
     \<lparr>uw_local = [''/opt/remote/gosible_client'' \<mapsto> data_file ''elf''], uw_host = Map.empty, uw_sent = [], uw_started = []\<rparr>"

lemma is_Ok_case: "(case r of Ok a \<Rightarrow> True | _ \<Rightarrow> False) = (\<exists>a. r = Ok a)"
  by (cases r) simp_all

lemma sample_remote_laws:
  "shell_law sample_remote ''/root'' ''Linux'' (rt_sha256 sample_remote ''elf'')" "send_law sample_remote" "start_law sample_remote"
  by (auto simp: shell_law_def send_law_def start_law_def sample_remote_def data_file_def plain_os_def is_Ok_case)


end
