(* ===== verification/Ssh.thy ===== *)
theory Ssh
  imports Remote Vars_Manager
begin

text \<open>
  The connection to a host (\<open>connection/ssh\<close>, \<open>connection/factory\<close>, the default command of
  \<open>connection/connection.go\<close>), the streams the gRPC calls go over (\<open>utils/stdIoConn\<close>), the
  contexts of plugins (\<open>plugins/*_context.go\<close>) and the small helpers of
  \<open>utils/shell\<close>, \<open>utils/osUtils\<close>, \<open>utils/types\<close> and \<open>utils/maps\<close>.  Splitting a command
  line, reading the options of ssh, dialling and the sessions of the library are parameters.
\<close>

section \<open>Options of a connection\<close>

text \<open>The options the library reads; \<open>so_rest\<close> are those the program does not touch.\<close>

record ssh_options =
  so_user :: string
  so_identity :: string
  so_host :: string
  so_port :: int
  so_rest :: "string list"

record connection_data =
  cd_user :: string
  cd_host :: string
  cd_identity :: string
  cd_password :: string
  cd_port :: string
  cd_args :: string

record ssh_tools =
  sh_split :: "string \<Rightarrow> string list option"
  sh_parse :: "string list \<Rightarrow> ssh_options option"
  sh_connect :: "ssh_options \<Rightarrow> string option"

definition set_port :: "string \<Rightarrow> ssh_options \<Rightarrow> (string, ssh_options) outcome" where
  "set_port p opts =
     (if p = [] then Ok opts
      else case parse_int 10 64 p of
             None \<Rightarrow> Err ''port''
           | Some n \<Rightarrow> Ok (opts\<lparr>so_port := n\<rparr>))"

definition get_ssh_config :: "ssh_tools \<Rightarrow> connection_data \<Rightarrow> (string, ssh_options) outcome" where
  "get_ssh_config t d =
     (case sh_split t (cd_args d) of
        None \<Rightarrow> Err ''words''
      | Some ws \<Rightarrow>
          (case sh_parse t ws of
             None \<Rightarrow> Err ''options''
           | Some opts \<Rightarrow>
               let opts = (if cd_user d \<noteq> [] then opts\<lparr>so_user := cd_user d\<rparr> else opts);
                   opts = (if cd_identity d \<noteq> [] then opts\<lparr>so_identity := cd_identity d\<rparr> else opts)
               in omap (\<lambda>opts. if cd_host d \<noteq> [] then opts\<lparr>so_host := cd_host d\<rparr> else opts)
                    (set_port (cd_port d) opts)))"

text \<open>A connection is known by the options it was made with.\<close>

definition new_ssh :: "ssh_tools \<Rightarrow> connection_data \<Rightarrow> (string, ssh_options) outcome" where
  "new_ssh t d =
     obind (get_ssh_config t d) (\<lambda>cfg. case sh_connect t cfg of Some e \<Rightarrow> Err e | None \<Rightarrow> Ok cfg)"

definition text_var :: "vars \<Rightarrow> string \<Rightarrow> string" where
  "text_var vs k = (case Option.bind (vs k) as_string of Some s \<Rightarrow> s | None \<Rightarrow> [])"

definition data_of_vars :: "vars \<Rightarrow> connection_data" where
  "data_of_vars vs =
     \<lparr>cd_user = text_var vs ''remote_user'', cd_host = text_var vs ''remote_addr'',
      cd_identity = text_var vs ''private_key_file'', cd_password = text_var vs ''password'',
      cd_port = text_var vs ''port'', cd_args = text_var vs ''ssh_extra_args''\<rparr>"

definition ssh_from_vars :: "ssh_tools \<Rightarrow> vars \<Rightarrow> (string, ssh_options) outcome" where
  "ssh_from_vars t vs = new_ssh t (data_of_vars vs)"

text \<open>
  \<open>createConnection\<close> of the connection manager: the connection, then the subprogram over it; what
  is done at a host depends on the options.
\<close>

definition dial_host :: "ssh_tools \<Rightarrow> (ssh_options \<Rightarrow> remote_tools) \<Rightarrow> vars \<Rightarrow> become_args \<Rightarrow> ssh_options up" where
  "dial_host t remote vs args =
     pbind (plift (ssh_from_vars t vs)) (\<lambda>cfg. pbind (remote_execute (remote cfg) args) (\<lambda>_. pret cfg))"

section \<open>Commands\<close>

text \<open>
  What a session of the library answers: the errors of opening it, of its three pipes, of starting a
  command and of writing to it, and the error the command ends with if it ends before the caller
  has the result, as both are handed over by one variable of two goroutines.
\<close>

record ssh_session =
  ss_open :: "string option"
  ss_stdout :: "string option"
  ss_stderr :: "string option"
  ss_stdin :: "string option"
  ss_start :: "string option"
  ss_write :: "string option"
  ss_exit :: "string option"

definition error_or :: "'e option \<Rightarrow> ('e, 'a) outcome \<Rightarrow> ('e, 'a) outcome" where
  "error_or e r = (case e of Some e \<Rightarrow> Err e | None \<Rightarrow> r)"

definition new_pipes :: "ssh_session \<Rightarrow> (string, unit) outcome" where
  "new_pipes x = error_or (ss_stdout x) (error_or (ss_stderr x) (error_or (ss_stdin x) (Ok ())))"

definition run_session ::
  "tools \<Rightarrow> (string \<Rightarrow> (become_args \<Rightarrow> become_base) option) \<Rightarrow> string \<Rightarrow> ssh_session \<Rightarrow> string \<Rightarrow> become_args
   \<Rightarrow> session \<Rightarrow> session \<times> (string, unit) outcome" where
  "run_session tls plugins ident x cmd args s =
     (case new_pipes x of
        Err e \<Rightarrow> (s, Err e)
      | Panic \<Rightarrow> (s, Panic)
      | Ok _ \<Rightarrow>
          if ba_become args then start_become tls plugins ident (ss_start x) (ss_write x) cmd args s
          else (case ss_start x of Some e \<Rightarrow> (s, Err e) | None \<Rightarrow> (s\<lparr>s_started := Some cmd\<rparr>, Ok ())))"

definition exec_interactive ::
  "tools \<Rightarrow> (string \<Rightarrow> (become_args \<Rightarrow> become_base) option) \<Rightarrow> string \<Rightarrow> ssh_session \<Rightarrow> string \<Rightarrow> become_args
   \<Rightarrow> session \<Rightarrow> session \<times> (string, unit) outcome" where
  "exec_interactive tls plugins ident x cmd args s =
     (case ss_open x of
        Some e \<Rightarrow> (s, Err e)
      | None \<Rightarrow>
          (case run_session tls plugins ident x cmd args s of
             (s, Ok _) \<Rightarrow> (s, error_or (ss_exit x) (Ok ()))
           | r \<Rightarrow> r))"

text \<open>Closing gives the error of the command before that of closing.\<close>

definition close_session :: "string option \<Rightarrow> string option \<Rightarrow> string option" where
  "close_session err closing = (case err of Some e \<Rightarrow> Some e | None \<Rightarrow> closing)"

text \<open>
  The default command: the input is written, then the whole standard error is read, then the whole
  standard output; each may fail after what it gave.
\<close>

record process_io =
  pi_input :: "string option"
  pi_stderr :: "string + string"
  pi_stdout :: "string + string"

definition default_exec_command ::
  "tools \<Rightarrow> (string \<Rightarrow> (become_args \<Rightarrow> become_base) option) \<Rightarrow> string \<Rightarrow> ssh_session \<Rightarrow> process_io \<Rightarrow> string
   \<Rightarrow> string option \<Rightarrow> become_args \<Rightarrow> session \<Rightarrow> session \<times> (string, string \<times> string) outcome" where
  "default_exec_command tls plugins ident x io cmd input args =
     pbind (exec_interactive tls plugins ident x cmd args) (\<lambda>_.
     pbind (\<lambda>s. case input of
                  None \<Rightarrow> (s, Ok ())
                | Some d \<Rightarrow> (case pi_input io of Some e \<Rightarrow> (s, Err e) | None \<Rightarrow> (s\<lparr>s_written := s_written s @ d\<rparr>, Ok ())))
       (\<lambda>_. plift (case pi_stderr io of
                     Inl e \<Rightarrow> Err e
                   | Inr err \<Rightarrow> (case pi_stdout io of Inl e \<Rightarrow> Err e | Inr out \<Rightarrow> Ok (out, err)))))"

text \<open>The command of a connection ignores whether it may become another user at all.\<close>

definition exec_command ::
  "tools \<Rightarrow> (string \<Rightarrow> (become_args \<Rightarrow> become_base) option) \<Rightarrow> string \<Rightarrow> ssh_session \<Rightarrow> process_io \<Rightarrow> string
   \<Rightarrow> string option \<Rightarrow> bool \<Rightarrow> become_args \<Rightarrow> session \<Rightarrow> session \<times> (string, string \<times> string) outcome" where
  "exec_command tls plugins ident x io cmd input sudoable args = default_exec_command tls plugins ident x io cmd input args"


section \<open>Streams\<close>

text \<open>The two ends of the stream: what their operations answer, and the calls made so far.\<close>

datatype stream_call = StopServing | CloseIn | CloseOut | ReadDeadline int | WriteDeadline int

record stream_ends =
  se_close_in :: "string option"
  se_close_out :: "string option"
  se_read_deadline :: "string option"
  se_write_deadline :: "string option"

type_synonym 'a streaming = "(stream_call list, string, 'a) prog"

definition stream_call :: "stream_call \<Rightarrow> string option \<Rightarrow> unit streaming" where
  "stream_call c e calls = (calls @ [c], error_or e (Ok ()))"

definition file_conn_close :: "stream_ends \<Rightarrow> unit streaming" where
  "file_conn_close x =
     pbind (stream_call StopServing None) (\<lambda>_.
     pbind (ptry (stream_call CloseIn (se_close_in x))) (\<lambda>i.
     pbind (ptry (stream_call CloseOut (se_close_out x))) (\<lambda>e. plift
       (case (i, e) of
          (Inl ei, Inl eo) \<Rightarrow> Err (''closing both in and out failed; in: '' @ ei @ ''; out: '' @ eo)
        | (Inl ei, Inr _) \<Rightarrow> Err ei
        | (Inr _, Inl eo) \<Rightarrow> Err eo
        | (Inr _, Inr _) \<Rightarrow> Ok ()))))"

definition set_read_deadline :: "stream_ends \<Rightarrow> int \<Rightarrow> unit streaming" where
  "set_read_deadline x d = stream_call (ReadDeadline d) (se_read_deadline x)"

definition set_write_deadline :: "stream_ends \<Rightarrow> int \<Rightarrow> unit streaming" where
  "set_write_deadline x d = stream_call (WriteDeadline d) (se_write_deadline x)"

definition file_conn_set_deadline :: "stream_ends \<Rightarrow> int \<Rightarrow> unit streaming" where
  "file_conn_set_deadline x d = pbind (set_read_deadline x d) (\<lambda>_. set_write_deadline x d)"

text \<open>The connection over the standard streams of a command; without a closer the program ends.\<close>

definition std_conn_close :: "(string option) option \<Rightarrow> (string, unit) outcome" where
  "std_conn_close closer = (case closer of None \<Rightarrow> Panic | Some e \<Rightarrow> error_or e (Ok ()))"

definition std_conn_set_deadline :: "int \<Rightarrow> (string, unit) outcome" where
  "std_conn_set_deadline d = Ok ()"

definition std_io_addr :: string where
  "std_io_addr = ''stdio''"

text \<open>The listener that has its one connection already; \<open>None\<close> is a call that never returns.\<close>

definition accept :: "'c option \<Rightarrow> 'c option \<times> 'c option" where
  "accept l = (case l of None \<Rightarrow> (None, None) | Some c \<Rightarrow> (None, Some c))"

fun accepted :: "nat \<Rightarrow> 'c option \<Rightarrow> 'c option list" where
  "accepted 0 l = []"
| "accepted (Suc n) l = (case accept l of (l, c) \<Rightarrow> c # accepted n l)"

section \<open>Contexts of plugins\<close>

definition context_close :: "string option \<Rightarrow> string option \<Rightarrow> string option" where
  "context_close re c =
     (case re of
        None \<Rightarrow> c
      | Some e \<Rightarrow> (case c of None \<Rightarrow> re | Some e' \<Rightarrow> Some (e @ [nl] @ e')))"

text \<open>The text and whether it was found; an argument of another type is not.\<close>

definition get_string_arg :: "vars \<Rightarrow> string \<Rightarrow> string \<times> bool" where
  "get_string_arg args name =
     (case args name of
        None \<Rightarrow> ([], False)
      | Some v \<Rightarrow> (case as_string v of Some s \<Rightarrow> (s, True) | None \<Rightarrow> ([], False)))"

definition get_or_default :: "vars \<Rightarrow> string \<Rightarrow> gval \<Rightarrow> gval" where
  "get_or_default vs k d = (case vs k of Some v \<Rightarrow> v | None \<Rightarrow> d)"

section \<open>Small helpers\<close>

definition shell_exists :: "tools \<Rightarrow> string \<Rightarrow> string" where
  "shell_exists tls p = ''test -e '' @ quote tls p"

definition shell_echo :: string where "shell_echo = ''echo''"
definition shell_command_sep :: string where "shell_command_sep = '';''"

text \<open>Reading the mask sets it to zero for a moment; the state is the mask.\<close>

definition swap_umask :: "file_mode \<Rightarrow> (file_mode, 'e, file_mode) prog" where
  "swap_umask m old = (m, Ok old)"

definition get_umask :: "(file_mode, 'e, file_mode) prog" where
  "get_umask = pbind (swap_umask 0) (\<lambda>m. pbind (swap_umask m) (\<lambda>_. pret m))"

text \<open>\<open>exe\<close> is the path the system knows for the program.\<close>

definition binary_path :: "os \<Rightarrow> string option \<Rightarrow> string option" where
  "binary_path x exe = Option.bind exe (o_eval_links x)"

definition binary_dir :: "os \<Rightarrow> string option \<Rightarrow> string option" where
  "binary_dir x exe = map_option path_dir (binary_path x exe)"

definition map_keys :: "visit \<Rightarrow> vars \<Rightarrow> string list" where
  "map_keys visit m = visit m"

definition map_values :: "visit \<Rightarrow> vars \<Rightarrow> gval list" where
  "map_values visit m = map (\<lambda>k. the (m k)) (visit m)"

section \<open>What decides a connection\<close>

definition given_or :: "string \<Rightarrow> string \<Rightarrow> string" where
  "given_or s d = (if s \<noteq> [] then s else d)"

lemma get_ssh_config_iff:
  "get_ssh_config t d = Ok cfg \<longleftrightarrow>
    (\<exists>ws opts. sh_split t (cd_args d) = Some ws \<and> sh_parse t ws = Some opts
      \<and> (cd_port d = [] \<or> parse_int 10 64 (cd_port d) \<noteq> None)
      \<and> cfg = opts\<lparr>so_user := given_or (cd_user d) (so_user opts), so_identity := given_or (cd_identity d) (so_identity opts),
          so_host := given_or (cd_host d) (so_host opts),
          so_port := (if cd_port d = [] then so_port opts else the (parse_int 10 64 (cd_port d)))\<rparr>)"
  by (cases "sh_split t (cd_args d)"; cases "sh_parse t (the (sh_split t (cd_args d)))"; cases "parse_int 10 64 (cd_port d)")
     (auto simp: get_ssh_config_def set_port_def given_or_def Let_def)

text \<open>
  C9.  A connection to a host is made exactly when the extra arguments of ssh can be read, the port
  is empty or a number and the library can connect.  Each of user, key, host and port is then that
  of the variables, or where they give none, that of the extra arguments; other options are those
  of the arguments.
\<close>

theorem connection_options_exact:
  "ssh_from_vars t vs = Ok cfg \<longleftrightarrow>
    (\<exists>ws opts. sh_split t (text_var vs ''ssh_extra_args'') = Some ws \<and> sh_parse t ws = Some opts
      \<and> (text_var vs ''port'' = [] \<or> (\<exists>n. parse_int 10 64 (text_var vs ''port'') = Some n)) \<and> sh_connect t cfg = None
      \<and> cfg = opts\<lparr>so_user := given_or (text_var vs ''remote_user'') (so_user opts),
          so_identity := given_or (text_var vs ''private_key_file'') (so_identity opts),
          so_host := given_or (text_var vs ''remote_addr'') (so_host opts),
          so_port := (if text_var vs ''port'' = [] then so_port opts else the (parse_int 10 64 (text_var vs ''port'')))\<rparr>)"
proof -
  have "ssh_from_vars t vs = Ok cfg \<longleftrightarrow> get_ssh_config t (data_of_vars vs) = Ok cfg \<and> sh_connect t cfg = None"
    by (cases "get_ssh_config t (data_of_vars vs)")
       (auto simp: ssh_from_vars_def new_ssh_def split: option.splits)
  then show ?thesis unfolding get_ssh_config_iff not_None_eq by (auto simp: data_of_vars_def)
qed

text \<open>The password of a connection is never used.\<close>

lemma password_never_used: "ssh_from_vars t (vs(''password'' := x)) = ssh_from_vars t vs"
proof -
  have sel: "cd_user (d\<lparr>cd_password := p\<rparr>) = cd_user d" "cd_host (d\<lparr>cd_password := p\<rparr>) = cd_host d"
    "cd_identity (d\<lparr>cd_password := p\<rparr>) = cd_identity d" "cd_port (d\<lparr>cd_password := p\<rparr>) = cd_port d"
    "cd_args (d\<lparr>cd_password := p\<rparr>) = cd_args d" for d p
    by simp_all
  have "get_ssh_config t (d\<lparr>cd_password := p\<rparr>) = get_ssh_config t d" for d p
    unfolding get_ssh_config_def sel by (rule refl)
  moreover have "data_of_vars (vs(''password'' := x)) = (data_of_vars vs)\<lparr>cd_password := text_var (vs(''password'' := x)) ''password''\<rparr>"
    by (simp add: data_of_vars_def text_var_def)
  ultimately show ?thesis by (simp add: ssh_from_vars_def new_ssh_def)
qed

lemma not_text_ignored:
  assumes "vs k = Some v" "as_string v = None"
  shows "ssh_from_vars t vs = ssh_from_vars t (vs(k := None))"
proof -
  have "text_var (vs(k := None)) = text_var vs" using assms by (auto simp: text_var_def)
  then show ?thesis by (simp add: ssh_from_vars_def data_of_vars_def)
qed

text \<open>
  A port written as a number in the variables of a host is lost on its way: the variables of
  the host hold it as \<open>ansible_port\<close>, the magic variable \<open>port\<close> takes it over, and the connection
  is made as if there were none.
\<close>

theorem numeric_port_lost:
  assumes "all ''ansible_port'' = Some (GInt n)"
  shows "combine_vars all (set_magic_vars all) ''port'' = Some (GInt n)
    \<and> ssh_from_vars t (combine_vars all (set_magic_vars all)) = ssh_from_vars t ((combine_vars all (set_magic_vars all))(''port'' := None))"
proof
  have "magic_variable_mapped_names ''port'' = [''ansible_ssh_port'', ''ansible_port'']"
    by (simp add: magic_variable_mapped_names_def magic_mapping_def)
  then show port: "combine_vars all (set_magic_vars all) ''port'' = Some (GInt n)"
    using assms by (simp add: combine_vars_def set_magic_vars_def split: option.splits)
  show "ssh_from_vars t (combine_vars all (set_magic_vars all)) = ssh_from_vars t ((combine_vars all (set_magic_vars all))(''port'' := None))"
    by (rule not_text_ignored [where k = "''port''" and v = "GInt n"]) (use port in simp_all)
qed

lemma numeric_port_lost_witness:
  "combine_vars [''ansible_port'' \<mapsto> GInt 2222] (set_magic_vars [''ansible_port'' \<mapsto> GInt 2222]) ''port'' = Some (GInt 2222)
   \<and> ssh_from_vars \<lparr>sh_split = (\<lambda>_. Some []), sh_parse = (\<lambda>_. None), sh_connect = (\<lambda>_. None)\<rparr>
       (combine_vars [''ansible_port'' \<mapsto> GInt 2222] (set_magic_vars [''ansible_port'' \<mapsto> GInt 2222]))
     = ssh_from_vars \<lparr>sh_split = (\<lambda>_. Some []), sh_parse = (\<lambda>_. None), sh_connect = (\<lambda>_. None)\<rparr>
       ((combine_vars [''ansible_port'' \<mapsto> GInt 2222] (set_magic_vars [''ansible_port'' \<mapsto> GInt 2222]))(''port'' := None))"
  by (rule numeric_port_lost) simp

section \<open>Streams and commands\<close>

text \<open>Both ends are closed whatever happens, after serving has stopped.\<close>

lemma file_conn_close_calls: "fst (file_conn_close x calls) = calls @ [StopServing, CloseIn, CloseOut]"
  by (cases "se_close_in x"; cases "se_close_out x")
     (simp_all add: file_conn_close_def stream_call_def error_or_def pbind_def ptry_def plift_def)

lemma deadline_read_first:
  "se_read_deadline x = Some e \<Longrightarrow> file_conn_set_deadline x d calls = (calls @ [ReadDeadline d], Err e)"
  by (simp add: file_conn_set_deadline_def set_read_deadline_def stream_call_def error_or_def pbind_def)

lemma accepted_none: "accepted n None = replicate n None"
  by (induction n) (simp_all add: accept_def)

lemma accepted_once: "accepted (Suc n) (Some c) = Some c # replicate n None"
  by (simp add: accept_def accepted_none)

lemma context_close_fails: "context_close re c = None \<longleftrightarrow> re = None \<and> c = None"
  by (auto simp: context_close_def split: option.splits)

lemma umask_kept: "get_umask m = (m, Ok m)"
  by (simp add: get_umask_def swap_umask_def pbind_def pret_def)

lemma map_values_all: "visits visit m \<Longrightarrow> set (map_keys visit m) = dom m \<and> set (map_values visit m) = ran m"
  by (auto simp: visits_def map_keys_def map_values_def ran_def dom_def image_iff) force+

text \<open>A command that was started without becoming another user is the one that was asked for.\<close>

lemma plain_command_started:
  "exec_interactive tls plugins ident x cmd args s = (s', Ok ()) \<Longrightarrow> \<not> ba_become args \<Longrightarrow> s' = s\<lparr>s_started := Some cmd\<rparr>"
  by (auto simp: exec_interactive_def run_session_def new_pipes_def error_or_def split: option.splits)

text \<open>A command that ends at once with an error may make starting it fail.\<close>

lemma early_exit_fails:
  "ss_open x = None \<Longrightarrow> run_session tls plugins ident x cmd args s = (s', Ok ()) \<Longrightarrow> ss_exit x = Some e \<Longrightarrow>
   exec_interactive tls plugins ident x cmd args s = (s', Err e)"
  by (simp add: exec_interactive_def error_or_def)

end
