(* ===== verification/Play.thy ===== *)
theory Play
  imports Executor_Runs Inventory_Yaml Config Ssh
begin

text \<open>
  The command that plays a playbook (\<open>command/playbook/play.go\<close>), the middleware of commands
  (\<open>command/middleware.go\<close>): configuration, registries, inventory, extra variables, playbook,
  passwords and execution, in this order, over the models of those parts.  The library of
  command lines sets the options from the words; the terminal answers the questions for
  passwords.
\<close>

section \<open>Options\<close>

text \<open>The settings the command reads besides those of the executor.\<close>

record play_settings =
  ps_become :: bool
  ps_become_method :: string
  ps_ask_become :: bool
  ps_ask_pass :: bool
  ps_agnostic :: bool

record play_options =
  po_inventory :: string
  po_extra_vars :: "string list"
  po_ask_become :: bool
  po_become_file :: string
  po_ask_connection :: bool
  po_connection_file :: string
  po_become :: bool
  po_method :: string
  po_user :: string

definition no_play_options :: play_options where
  "no_play_options =
     \<lparr>po_inventory = [], po_extra_vars = [], po_ask_become = False, po_become_file = [], po_ask_connection = False,
      po_connection_file = [], po_become = False, po_method = [], po_user = []\<rparr>"

text \<open>
  Registering an option sets it to its default.  The options for files of passwords are not
  registered, but their empty paths are expanded.
\<close>

definition add_become_prompt_options :: "os \<Rightarrow> play_settings \<Rightarrow> play_options \<Rightarrow> play_options io" where
  "add_become_prompt_options x cfg c =
     (let c = c\<lparr>po_ask_become := ps_ask_become cfg\<rparr>
      in pbind (unfrack_path x (po_become_file c) [] False) (\<lambda>p. pret (c\<lparr>po_become_file := p\<rparr>)))"

definition add_become_options :: "os \<Rightarrow> play_settings \<Rightarrow> play_options \<Rightarrow> play_options io" where
  "add_become_options x cfg c =
     add_become_prompt_options x cfg
       (c\<lparr>po_become := ps_become cfg, po_method := ps_become_method cfg, po_user := []\<rparr>)"

definition add_connection_prompt :: "os \<Rightarrow> play_settings \<Rightarrow> play_options \<Rightarrow> play_options io" where
  "add_connection_prompt x cfg c =
     (let c = c\<lparr>po_ask_connection := ps_ask_pass cfg\<rparr>
      in pbind (unfrack_path x (po_connection_file c) [] False) (\<lambda>p. pret (c\<lparr>po_connection_file := p\<rparr>)))"

definition register_options :: "os \<Rightarrow> play_settings \<Rightarrow> play_options io" where
  "register_options x cfg =
     pbind (add_become_options x cfg (no_play_options\<lparr>po_inventory := []\<rparr>)) (\<lambda>c.
     pbind (add_connection_prompt x cfg c) (\<lambda>c. pret (c\<lparr>po_extra_vars := []\<rparr>)))"

section \<open>Passwords\<close>

record passwords =
  pw_ssh :: string
  pw_become :: string

text \<open>The prompts shown so far, and what is typed.\<close>

record prompting =
  pr_shown :: "string list"
  pr_typed :: "(string + string) list"

type_synonym 'a asking = "(prompting, string, 'a) prog"

definition get_secret :: "string \<Rightarrow> string asking" where
  "get_secret prompt w =
     (let w = w\<lparr>pr_shown := pr_shown w @ [prompt]\<rparr> in
      case pr_typed w of
        [] \<Rightarrow> (w, Err ''EOF'')
      | Inl e # typed \<Rightarrow> (w\<lparr>pr_typed := typed\<rparr>, Err e)
      | Inr s # typed \<Rightarrow> (w\<lparr>pr_typed := typed\<rparr>, Ok s))"

definition become_prompt :: "play_settings \<Rightarrow> play_options \<Rightarrow> string" where
  "become_prompt cfg c =
     (if ps_agnostic cfg then ''BECOME'' else map upper_char (po_method c))
     @ (if po_ask_connection c then '' password[defaults to SSH password]: '' else '' password: '')"

definition ask_passwords :: "play_settings \<Rightarrow> play_options \<Rightarrow> passwords asking" where
  "ask_passwords cfg c =
     pbind (if po_ask_connection c then get_secret ''SSH password: '' else pret []) (\<lambda>ssh.
     pbind (if po_ask_become c then get_secret (become_prompt cfg c) else pret []) (\<lambda>become.
       pret \<lparr>pw_ssh = ssh, pw_become = become\<rparr>))"

section \<open>Playing\<close>

text \<open>
  \<open>'c\<close> are the settings of the configuration, of which \<open>pt_settings\<close> and \<open>pt_play\<close> are parts;
  \<open>pt_files\<close> the files of the controller for it; the files of inventory and playbook are read by
  the parameters of their readers.
\<close>

record 'c play_tools =
  pt_config :: "'c config_tools"
  pt_files :: fs
  pt_settings :: "'c \<Rightarrow> settings"
  pt_play :: "'c \<Rightarrow> play_settings"
  pt_inventory :: "string \<Rightarrow> string option"
  pt_typed :: "string \<Rightarrow> (string \<times> raw_group) list option"
  pt_ordered :: "string \<Rightarrow> (gval \<times> gval) list option"
  pt_lines :: "string \<Rightarrow> string list"
  pt_orders :: orders
  pt_playbook :: "string \<Rightarrow> raw_play option list option option"
  pt_visit :: visit
  pt_externals :: externals

datatype play_error =
    InventoryError inv_error
  | ExtraVarsError vars_error
  | PlaybookError playbook_error
  | PasswordError string

text \<open>How the command ends; a fatal message ends the program.\<close>

datatype play_end = Finished | Failed play_error | Fatal string | Crashed

record 'c play_state =
  py_manager :: "'c manager"
  py_events :: events
  py_vars :: "vars_manager option"
  py_prompting :: prompting
  py_world :: "world option"

text \<open>The registries the command fills.\<close>

definition play_actions :: action_registry where
  "play_actions = register_default_actions Map.empty"

definition play_modules :: module_registry where
  "play_modules = default_modules_register_python (default_modules_register new_registry)"

definition first_world :: "vars_manager \<Rightarrow> world" where
  "first_world vm = \<lparr>w_vm = vm, w_hosts = [], w_conns = Map.empty, w_log = (\<lambda>_. [])\<rparr>"

definition play_externals :: "'c play_tools \<Rightarrow> settings \<Rightarrow> externals" where
  "play_externals t cfg = (pt_externals t)\<lparr>x_visit := pt_visit t, x_settings := cfg, x_actions := play_actions\<rparr>"

text \<open>The passwords are handed on, but nothing reads them.\<close>

definition execute_plays :: "'c play_tools \<Rightarrow> settings \<Rightarrow> play list \<Rightarrow> vars_manager \<Rightarrow> passwords \<Rightarrow> 'c play_state \<Rightarrow> 'c play_state \<times> play_end" where
  "execute_plays t cfg ps vm pw s =
     (case execute_playbook (play_externals t cfg) ps (first_world vm) of
        (w, r) \<Rightarrow> (s\<lparr>py_world := Some w, py_vars := Some (w_vm w)\<rparr>,
                   case r of Ok _ \<Rightarrow> Finished | Err e \<Rightarrow> Fatal ''error executing playbook'' | Panic \<Rightarrow> Crashed))"

definition play_with_vars ::
  "'c play_tools \<Rightarrow> play_options \<Rightarrow> string \<Rightarrow> inventory \<Rightarrow> 'c play_state \<Rightarrow> 'c play_state \<times> play_end" where
  "play_with_vars t c book inven s =
     (let cfg = pt_settings t (mg_settings (py_manager s)) in
      case set_extra_vars (po_extra_vars c) (make_manager (py_vars s) inven) of
        (vm, Err e) \<Rightarrow> (s\<lparr>py_vars := Some vm\<rparr>, Failed (ExtraVarsError e))
      | (vm, Panic) \<Rightarrow> (s\<lparr>py_vars := Some vm\<rparr>, Crashed)
      | (vm, Ok _) \<Rightarrow>
          (case parse_playbook (pt_visit t) play_actions play_modules cfg (pt_playbook t book) of
             Err e \<Rightarrow> (s\<lparr>py_vars := Some vm\<rparr>, Failed (PlaybookError e))
           | Panic \<Rightarrow> (s\<lparr>py_vars := Some vm\<rparr>, Crashed)
           | Ok ps \<Rightarrow>
               (case ask_passwords (pt_play t (mg_settings (py_manager s))) c (py_prompting s) of
                  (pr, Err e) \<Rightarrow> (s\<lparr>py_vars := Some vm, py_prompting := pr\<rparr>, Failed (PasswordError e))
                | (pr, Panic) \<Rightarrow> (s\<lparr>py_vars := Some vm, py_prompting := pr\<rparr>, Crashed)
                | (pr, Ok pw) \<Rightarrow> execute_plays t cfg ps vm pw (s\<lparr>py_prompting := pr\<rparr>))))"

definition play_run :: "'c play_tools \<Rightarrow> play_options \<Rightarrow> string \<Rightarrow> 'c play_state \<Rightarrow> 'c play_state \<times> play_end" where
  "play_run t c book s =
     (case try_load (pt_config t) (pt_files t) [] (py_manager s, py_events s) of
        ((m, ev), Err e) \<Rightarrow> (s\<lparr>py_manager := m, py_events := ev\<rparr>, Fatal ''could not load config file'')
      | ((m, ev), Panic) \<Rightarrow> (s\<lparr>py_manager := m, py_events := ev\<rparr>, Crashed)
      | ((m, ev), Ok _) \<Rightarrow>
          let s = s\<lparr>py_manager := m, py_events := ev\<rparr> in
          case parse_inventory (pt_typed t) (pt_ordered t) (pt_lines t) (pt_orders t) (pt_inventory t (po_inventory c)) of
            Err e \<Rightarrow> (s, Failed (InventoryError e))
          | Panic \<Rightarrow> (s, Crashed)
          | Ok inven \<Rightarrow> play_with_vars t c book inven s)"

section \<open>Middleware\<close>

text \<open>A command with what it runs and its subcommands.\<close>

datatype 'r command_tree = CommandTree 'r "'r command_tree list"

primrec use_middleware :: "('r \<Rightarrow> 'r) \<Rightarrow> 'r command_tree \<Rightarrow> 'r command_tree" where
  "use_middleware mw (CommandTree run subs) = CommandTree (mw run) (map (use_middleware mw) subs)"


section \<open>Checks before anything is played\<close>

text \<open>What a task needs: a plugin of the controller or a module the subprogram serves.\<close>

definition task_served :: "task \<Rightarrow> bool" where
  "task_served tk \<longleftrightarrow>
     (case task_action tk of
        None \<Rightarrow> False
      | Some a \<Rightarrow> find_action (act_name a) play_actions \<noteq> None \<or> find_module (act_name a) served_modules \<noteq> None)"

lemma same_modules: "play_modules = served_modules"
  by (simp add: play_modules_def served_modules_def)

lemma play_ok_served: "play_ok play_actions play_modules p \<Longrightarrow> list_all task_served (play_tasks p)"
  by (auto simp: play_ok_def task_ok_def task_served_def is_action_def same_modules list_all_iff split: option.splits)

lemma execute_plays_world: "py_world (fst (execute_plays t cfg ps vm pw s)) = Some (fst (execute_playbook (play_externals t cfg) ps (first_world vm)))"
  by (simp add: execute_plays_def split: prod.splits)

lemma play_with_vars_world:
  assumes "py_world s = None" "py_world (fst (play_with_vars t c book inven s)) = Some w"
  shows "\<exists>vm ps. set_extra_vars (po_extra_vars c) (make_manager (py_vars s) inven) = (vm, Ok ())
    \<and> parse_playbook (pt_visit t) play_actions play_modules (pt_settings t (mg_settings (py_manager s))) (pt_playbook t book) = Ok ps
    \<and> w = fst (execute_playbook (play_externals t (pt_settings t (mg_settings (py_manager s)))) ps (first_world vm))"
  using assms
  by (auto simp: play_with_vars_def Let_def execute_plays_world split: prod.splits outcome.splits)

lemma play_with_vars_manager: "py_manager (fst (play_with_vars t c book inven s)) = py_manager s"
  by (auto simp: play_with_vars_def Let_def execute_plays_def split: prod.splits outcome.splits)


text \<open>
  C5.  A call of a module that a play of the command makes is answered by exactly one module, the
  one whose name or alias the task uses: the subprogram never answers that there is none.
\<close>

theorem calls_reach_module:
  assumes "parse_playbook visit play_actions play_modules cfg dat = Ok ps" "p \<in> set ps" "tk \<in> set (play_tasks p)"
    and "task_action tk = Some a" "find_action (act_name a) play_actions = None" "sv_decode t j = Some vs"
  shows "\<exists>!fn. fn \<in> set all_module_fns \<and> act_name a \<in> set (to_internal_fqcns (mod_name fn))
    \<and> serve_module t served_modules \<lparr>mq_module = act_name a, mq_vars = j, mq_runtime = rt\<rparr> s =
        pbind (sv_run t fn rt vs) (\<lambda>r. case sv_encode t r of None \<Rightarrow> plift (Err ''json'') | Some x \<Rightarrow> pret x) s"
proof -
  have dist: "distinct (map mod_name all_module_fns)" "\<forall>f \<in> set all_module_fns. CHR ''.'' \<notin> set (mod_name f)"
    by (simp_all add: all_module_fns_def)
  have "list_all (play_ok play_actions play_modules) ps"
    using assms(1) parsed_plays by (auto simp: parse_playbook_def split: option.splits)
  then have "task_ok play_actions play_modules tk" using assms(2,3) by (auto simp: list_all_iff play_ok_def)
  then obtain fn where fn: "find_module (act_name a) served_modules = Some fn"
    using assms(4,5) by (auto simp: task_ok_def is_action_def same_modules)
  have found: "find_module (act_name a) served_modules = Some f \<longleftrightarrow>
      f \<in> set all_module_fns \<and> act_name a \<in> set (to_internal_fqcns (mod_name f))" for f
    unfolding served_modules_def default_registry_all by (rule find_registered_modules [OF dist])
  show ?thesis
  proof (rule ex1I [of _ fn])
    show "fn \<in> set all_module_fns \<and> act_name a \<in> set (to_internal_fqcns (mod_name fn))
      \<and> serve_module t served_modules \<lparr>mq_module = act_name a, mq_vars = j, mq_runtime = rt\<rparr> s =
        pbind (sv_run t fn rt vs) (\<lambda>r. case sv_encode t r of None \<Rightarrow> plift (Err ''json'') | Some x \<Rightarrow> pret x) s"
      using fn found serve_known [OF fn, of t j vs rt] assms(6) by simp
  next
    fix f
    assume "f \<in> set all_module_fns \<and> act_name a \<in> set (to_internal_fqcns (mod_name f))
      \<and> serve_module t served_modules \<lparr>mq_module = act_name a, mq_vars = j, mq_runtime = rt\<rparr> s =
        pbind (sv_run t f rt vs) (\<lambda>r. case sv_encode t r of None \<Rightarrow> plift (Err ''json'') | Some x \<Rightarrow> pret x) s"
    then show "f = fn" using found [of f] fn by simp
  qed
qed

section \<open>Options and passwords\<close>

lemma become_options_unused:
  "play_run t (c\<lparr>po_become := b, po_user := u\<rparr>) book s = play_run t c book s"
proof -
  have sel: "po_inventory (c\<lparr>po_become := b, po_user := u\<rparr>) = po_inventory c"
    "po_extra_vars (c\<lparr>po_become := b, po_user := u\<rparr>) = po_extra_vars c"
    "ask_passwords cfg (c\<lparr>po_become := b, po_user := u\<rparr>) = ask_passwords cfg c" for cfg
    by (simp_all add: ask_passwords_def become_prompt_def)
  have "play_with_vars t (c\<lparr>po_become := b, po_user := u\<rparr>) = play_with_vars t c"
    by (intro ext) (unfold play_with_vars_def sel, rule refl)
  then show ?thesis unfolding play_run_def sel by (simp only:)
qed

lemma passwords_unused: "execute_plays t cfg ps vm pw s = execute_plays t cfg ps vm pw' s"
  by (simp add: execute_plays_def)

text \<open>An empty answer to the second prompt is not replaced by the first password, as the prompt says.\<close>

lemma become_default_missing:
  assumes "po_ask_connection c" "po_ask_become c" "pr_typed w = [Inr s, Inr []]"
  shows "\<exists>w'. ask_passwords cfg c w = (w', Ok \<lparr>pw_ssh = s, pw_become = []\<rparr>)"
  using assms by (simp add: ask_passwords_def get_secret_def pbind_def pret_def)

text \<open>Without questions no prompt is shown.\<close>

lemma no_questions: "\<not> po_ask_connection c \<Longrightarrow> \<not> po_ask_become c \<Longrightarrow> ask_passwords cfg c w = (w, Ok \<lparr>pw_ssh = [], pw_become = []\<rparr>)"
  by (simp add: ask_passwords_def pbind_def pret_def)

lemma use_middleware_twice: "use_middleware f (use_middleware g c) = use_middleware (\<lambda>r. f (g r)) c"
  by (induction c) simp

section \<open>An example\<close>

definition no_files_env :: config_env where
  "no_files_env = \<lparr>ce_os = plain_os, ce_config = None, ce_cwd = None\<rparr>"

definition sample_play_tools :: "unit play_tools" where
  "sample_play_tools =
     \<lparr>pt_config = \<lparr>ct_env = no_files_env, ct_base = Inr (), ct_zero = (), ct_copy = (\<lambda>_ _. Inl ()), ct_ini = (\<lambda>_. Inr []),
                   ct_update = (\<lambda>_ _ _. ((), None))\<rparr>,
      pt_files = Map.empty, pt_settings = (\<lambda>_. sample_settings),
      pt_play = (\<lambda>_. \<lparr>ps_become = False, ps_become_method = ''sudo'', ps_ask_become = False, ps_ask_pass = False, ps_agnostic = True\<rparr>),
      pt_inventory = (\<lambda>_. Some []), pt_typed = (\<lambda>_. Some []), pt_ordered = (\<lambda>_. Some []), pt_lines = (\<lambda>_. []),
      pt_orders = (\<lambda>_ xs. xs), pt_playbook = (\<lambda>_. Some (Some [Some sample_raw])), pt_visit = list_visit sample_names,
      pt_externals = sample_externals\<rparr>"

definition sample_play_state :: "unit play_state" where
  "sample_play_state =
     \<lparr>py_manager = \<lparr>mg_settings = (), mg_base = (), mg_path = []\<rparr>, py_events = no_events, py_vars = None,
      py_prompting = \<lparr>pr_shown = [], pr_typed = []\<rparr>, py_world = None\<rparr>"

lemma sample_played: "py_world (fst (play_run sample_play_tools no_play_options ''site.yml'' sample_play_state)) \<noteq> None"
  by code_simp



definition sample_plays :: "play list" where
  "sample_plays =
     (case parse_playbook (list_visit sample_names) play_actions play_modules sample_settings (Some (Some [Some sample_raw])) of
        Ok ps \<Rightarrow> ps | _ \<Rightarrow> [])"

definition sample_play_task :: task where
  "sample_play_task = hd (play_tasks (hd sample_plays))"

definition quiet_server :: "unit server_tools" where
  "quiet_server = \<lparr>sv_decode = (\<lambda>_. Some Map.empty), sv_encode = (\<lambda>_. Some ''{}''), sv_run = (\<lambda>_ _ _ s. (s, Ok empty_return))\<rparr>"

lemma sample_plays_parsed:
  "parse_playbook (list_visit sample_names) play_actions play_modules sample_settings (Some (Some [Some sample_raw])) = Ok sample_plays
   \<and> sample_plays \<noteq> [] \<and> play_tasks (hd sample_plays) \<noteq> []"
proof -
  have "(case parse_playbook (list_visit sample_names) play_actions play_modules sample_settings (Some (Some [Some sample_raw])) of
      Ok ps \<Rightarrow> ps \<noteq> [] \<and> play_tasks (hd ps) \<noteq> [] | _ \<Rightarrow> False)"
    by code_simp
  then show ?thesis by (auto simp: sample_plays_def split: outcome.splits)
qed

lemma sample_task_action: "map_option act_name (task_action sample_play_task) = Some ''command''"
  by code_simp

lemma calls_reach_module_witness:
  "\<exists>a :: action_desc. \<exists>!fn. fn \<in> set all_module_fns \<and> act_name a \<in> set (to_internal_fqcns (mod_name fn))
    \<and> serve_module quiet_server served_modules \<lparr>mq_module = act_name a, mq_vars = ''{}'', mq_runtime = []\<rparr> () =
        pbind (sv_run quiet_server fn [] Map.empty) (\<lambda>r. case sv_encode quiet_server r of None \<Rightarrow> plift (Err ''json'') | Some x \<Rightarrow> pret x) ()"
proof -
  obtain a where a: "task_action sample_play_task = Some a" "act_name a = ''command''"
    using sample_task_action by auto
  have "find_action ''command'' play_actions = None" by code_simp
  then have none: "find_action (act_name a) play_actions = None" using a by simp
  have mem: "hd sample_plays \<in> set sample_plays" "sample_play_task \<in> set (play_tasks (hd sample_plays))"
    using sample_plays_parsed by (simp_all add: sample_play_task_def)
  have dec: "sv_decode quiet_server ''{}'' = Some Map.empty" by (simp add: quiet_server_def)
  show ?thesis
    by (rule exI [of _ a], rule calls_reach_module [OF conjunct1 [OF sample_plays_parsed] mem a(1) none dec])
qed

end
