(* ===== verification/Config_Data.thy ===== *)
theory Config_Data
  imports Go_Values
begin

text \<open>
  The tables of \<open>config/config_data.go\<close>, which a script generates from the base definitions: the
  fields and their types, the cases of the switch over the keys of the base definitions, and those
  of the switches over the sections and keys of an ini file, each in the order of the source.
\<close>

datatype field_kind = BoolField | StringField | IntField | FloatField | StringsField

type_synonym config_data = "string \<Rightarrow> gval"
type_synonym ini_table = "(string \<times> (string \<times> field_kind) option) list"

section \<open>The fields\<close>

definition config_fields_a :: "(string \<times> field_kind) list" where
  "config_fields_a =
     [(''ACTION_WARNINGS'', BoolField), (''AGNOSTIC_BECOME_PROMPT'', BoolField),
      (''ANSIBLE_CONNECTION_PATH'', StringField), (''ANSIBLE_COW_ACCEPTLIST'', StringsField),
      (''ANSIBLE_COW_PATH'', StringField), (''ANSIBLE_FORCE_COLOR'', BoolField), (''ANSIBLE_HOME'', StringField),
      (''ANSIBLE_NOCOLOR'', BoolField), (''ANSIBLE_NOCOWS'', BoolField), (''ANSIBLE_PIPELINING'', BoolField),
      (''ANY_ERRORS_FATAL'', BoolField), (''BECOME_ALLOW_SAME_USER'', BoolField),
      (''BECOME_PASSWORD_FILE'', StringField), (''BECOME_PLUGIN_PATH'', StringField),
      (''CACHE_PLUGIN'', StringField), (''CACHE_PLUGIN_CONNECTION'', StringField),
      (''CACHE_PLUGIN_PREFIX'', StringField), (''CACHE_PLUGIN_TIMEOUT'', IntField),
      (''CALLBACKS_ENABLED'', StringsField), (''COLLECTIONS_ON_ANSIBLE_VERSION_MISMATCH'', StringField),
      (''COLLECTIONS_PATHS'', StringField), (''COLLECTIONS_SCAN_SYS_PATH'', BoolField),
      (''COLOR_CHANGED'', StringField), (''COLOR_CONSOLE_PROMPT'', StringField), (''COLOR_DEBUG'', StringField),
      (''COLOR_DEPRECATE'', StringField)]"

definition config_fields_b :: "(string \<times> field_kind) list" where
  "config_fields_b =
     [(''COLOR_DIFF_ADD'', StringField), (''COLOR_DIFF_LINES'', StringField), (''COLOR_DIFF_REMOVE'', StringField),
      (''COLOR_ERROR'', StringField), (''COLOR_HIGHLIGHT'', StringField), (''COLOR_OK'', StringField),
      (''COLOR_SKIP'', StringField), (''COLOR_UNREACHABLE'', StringField), (''COLOR_VERBOSE'', StringField),
      (''COLOR_WARN'', StringField), (''CONNECTION_PASSWORD_FILE'', StringField),
      (''COVERAGE_REMOTE_OUTPUT'', StringField), (''COVERAGE_REMOTE_PATHS'', StringField),
      (''DEFAULT_ACTION_PLUGIN_PATH'', StringField), (''DEFAULT_ALLOW_UNSAFE_LOOKUPS'', BoolField),
      (''DEFAULT_ASK_PASS'', BoolField), (''DEFAULT_ASK_VAULT_PASS'', BoolField), (''DEFAULT_BECOME'', BoolField),
      (''DEFAULT_BECOME_ASK_PASS'', BoolField), (''DEFAULT_BECOME_EXE'', StringField),
      (''DEFAULT_BECOME_FLAGS'', StringField), (''DEFAULT_BECOME_METHOD'', StringField),
      (''DEFAULT_BECOME_USER'', StringField), (''DEFAULT_CACHE_PLUGIN_PATH'', StringField),
      (''DEFAULT_CALLBACK_PLUGIN_PATH'', StringField), (''DEFAULT_CLICONF_PLUGIN_PATH'', StringField),
      (''DEFAULT_CONNECTION_PLUGIN_PATH'', StringField)]"

definition config_fields_c :: "(string \<times> field_kind) list" where
  "config_fields_c =
     [(''DEFAULT_DEBUG'', BoolField), (''DEFAULT_EXECUTABLE'', StringField), (''DEFAULT_FACT_PATH'', StringField),
      (''DEFAULT_FILTER_PLUGIN_PATH'', StringField), (''DEFAULT_FORCE_HANDLERS'', BoolField),
      (''DEFAULT_FORKS'', IntField), (''DEFAULT_GATHERING'', StringField), (''DEFAULT_GATHER_SUBSET'', StringsField),
      (''DEFAULT_GATHER_TIMEOUT'', IntField), (''DEFAULT_HASH_BEHAVIOUR'', StringField),
      (''DEFAULT_HOST_LIST'', StringField), (''DEFAULT_HTTPAPI_PLUGIN_PATH'', StringField),
      (''DEFAULT_INTERNAL_POLL_INTERVAL'', FloatField), (''DEFAULT_INVENTORY_PLUGIN_PATH'', StringField),
      (''DEFAULT_JINJA2_EXTENSIONS'', StringsField), (''DEFAULT_JINJA2_NATIVE'', BoolField),
      (''DEFAULT_KEEP_REMOTE_FILES'', BoolField), (''DEFAULT_LIBVIRT_LXC_NOSECLABEL'', BoolField),
      (''DEFAULT_LOAD_CALLBACK_PLUGINS'', BoolField), (''DEFAULT_LOCAL_TMP'', StringField),
      (''DEFAULT_LOG_FILTER'', StringsField), (''DEFAULT_LOG_PATH'', StringField),
      (''DEFAULT_LOOKUP_PLUGIN_PATH'', StringField), (''DEFAULT_MANAGED_STR'', StringField)]"

definition config_fields_d :: "(string \<times> field_kind) list" where
  "config_fields_d =
     [(''DEFAULT_MODULE_ARGS'', StringField), (''DEFAULT_MODULE_COMPRESSION'', StringField),
      (''DEFAULT_MODULE_NAME'', StringField), (''DEFAULT_MODULE_PATH'', StringField),
      (''DEFAULT_MODULE_UTILS_PATH'', StringField), (''DEFAULT_NETCONF_PLUGIN_PATH'', StringField),
      (''DEFAULT_NO_LOG'', BoolField), (''DEFAULT_NO_TARGET_SYSLOG'', BoolField),
      (''DEFAULT_NULL_REPRESENTATION'', StringField), (''DEFAULT_POLL_INTERVAL'', IntField),
      (''DEFAULT_PRIVATE_KEY_FILE'', StringField), (''DEFAULT_PRIVATE_ROLE_VARS'', BoolField),
      (''DEFAULT_REMOTE_PORT'', IntField), (''DEFAULT_REMOTE_USER'', StringField),
      (''DEFAULT_ROLES_PATH'', StringField), (''DEFAULT_SELINUX_SPECIAL_FS'', StringsField),
      (''DEFAULT_STDOUT_CALLBACK'', StringField), (''DEFAULT_STRATEGY'', StringField),
      (''DEFAULT_STRATEGY_PLUGIN_PATH'', StringField), (''DEFAULT_SU'', BoolField),
      (''DEFAULT_SYSLOG_FACILITY'', StringField), (''DEFAULT_TERMINAL_PLUGIN_PATH'', StringField),
      (''DEFAULT_TEST_PLUGIN_PATH'', StringField), (''DEFAULT_TIMEOUT'', IntField),
      (''DEFAULT_TRANSPORT'', StringField), (''DEFAULT_UNDEFINED_VAR_BEHAVIOR'', BoolField),
      (''DEFAULT_VARS_PLUGIN_PATH'', StringField), (''DEFAULT_VAULT_ENCRYPT_IDENTITY'', StringField)]"

definition config_fields_e :: "(string \<times> field_kind) list" where
  "config_fields_e =
     [(''DEFAULT_VAULT_IDENTITY'', StringField), (''DEFAULT_VAULT_IDENTITY_LIST'', StringsField),
      (''DEFAULT_VAULT_ID_MATCH'', BoolField), (''DEFAULT_VAULT_PASSWORD_FILE'', StringField),
      (''DEFAULT_VERBOSITY'', IntField), (''DEPRECATION_WARNINGS'', BoolField), (''DEVEL_WARNING'', BoolField),
      (''DIFF_ALWAYS'', BoolField), (''DIFF_CONTEXT'', IntField), (''DISPLAY_ARGS_TO_STDOUT'', BoolField),
      (''DISPLAY_SKIPPED_HOSTS'', BoolField), (''DOCSITE_ROOT_URL'', StringField),
      (''DOC_FRAGMENT_PLUGIN_PATH'', StringField), (''DUPLICATE_YAML_DICT_KEY'', StringField),
      (''ENABLE_TASK_DEBUGGER'', BoolField), (''ERROR_ON_MISSING_HANDLER'', BoolField),
      (''FACTS_MODULES'', StringsField), (''GALAXY_CACHE_DIR'', StringField),
      (''GALAXY_COLLECTION_SKELETON'', StringField), (''GALAXY_COLLECTION_SKELETON_IGNORE'', StringsField),
      (''GALAXY_DISABLE_GPG_VERIFY'', BoolField), (''GALAXY_DISPLAY_PROGRESS'', BoolField),
      (''GALAXY_GPG_KEYRING'', StringField), (''GALAXY_IGNORE_CERTS'', BoolField),
      (''GALAXY_IGNORE_INVALID_SIGNATURE_STATUS_CODES'', StringsField), (''GALAXY_ROLE_SKELETON'', StringField)]"

definition config_fields_f :: "(string \<times> field_kind) list" where
  "config_fields_f =
     [(''GALAXY_ROLE_SKELETON_IGNORE'', StringsField), (''GALAXY_SERVER'', StringField),
      (''GALAXY_SERVER_LIST'', StringsField), (''GALAXY_TOKEN_PATH'', StringField),
      (''HOST_KEY_CHECKING'', BoolField), (''HOST_PATTERN_MISMATCH'', StringField),
      (''INJECT_FACTS_AS_VARS'', BoolField), (''INTERPRETER_PYTHON'', StringField),
      (''INTERPRETER_PYTHON_FALLBACK'', StringsField), (''INVALID_TASK_ATTRIBUTE_FAILED'', BoolField),
      (''INVENTORY_ANY_UNPARSED_IS_FAILED'', BoolField), (''INVENTORY_CACHE_ENABLED'', BoolField),
      (''INVENTORY_CACHE_PLUGIN'', StringField), (''INVENTORY_CACHE_PLUGIN_CONNECTION'', StringField),
      (''INVENTORY_CACHE_PLUGIN_PREFIX'', StringField), (''INVENTORY_CACHE_TIMEOUT'', IntField),
      (''INVENTORY_ENABLED'', StringsField), (''INVENTORY_EXPORT'', BoolField),
      (''INVENTORY_IGNORE_PATTERNS'', StringsField), (''INVENTORY_UNPARSED_IS_FAILED'', BoolField),
      (''INVENTORY_UNPARSED_WARNING'', BoolField), (''JINJA2_NATIVE_WARNING'', BoolField),
      (''LOCALHOST_WARNING'', BoolField), (''MAX_FILE_SIZE_FOR_DIFF'', IntField)]"

definition config_fields_g :: "(string \<times> field_kind) list" where
  "config_fields_g =
     [(''NETCONF_SSH_CONFIG'', StringField), (''NETWORK_GROUP_MODULES'', StringsField),
      (''OLD_PLUGIN_CACHE_CLEARING'', BoolField), (''PARAMIKO_HOST_KEY_AUTO_ADD'', BoolField),
      (''PARAMIKO_LOOK_FOR_KEYS'', BoolField), (''PERSISTENT_COMMAND_TIMEOUT'', IntField),
      (''PERSISTENT_CONNECT_RETRY_TIMEOUT'', IntField), (''PERSISTENT_CONNECT_TIMEOUT'', IntField),
      (''PERSISTENT_CONTROL_PATH_DIR'', StringField), (''PLAYBOOK_DIR'', StringField),
      (''PLAYBOOK_VARS_ROOT'', StringField), (''PYTHON_MODULE_RLIMIT_NOFILE'', IntField),
      (''RETRY_FILES_ENABLED'', BoolField), (''RETRY_FILES_SAVE_PATH'', StringField),
      (''RUN_VARS_PLUGINS'', StringField), (''SHOW_CUSTOM_STATS'', BoolField),
      (''STRING_CONVERSION_ACTION'', StringField), (''STRING_TYPE_FILTERS'', StringsField),
      (''SYSTEM_WARNINGS'', BoolField), (''TAGS_RUN'', StringsField), (''TAGS_SKIP'', StringsField),
      (''TASK_DEBUGGER_IGNORE_ERRORS'', BoolField), (''TASK_TIMEOUT'', IntField),
      (''TRANSFORM_INVALID_GROUP_CHARS'', StringField), (''USE_PERSISTENT_CONNECTIONS'', BoolField),
      (''VALIDATE_ACTION_GROUP_METADATA'', BoolField), (''VARIABLE_PLUGINS_ENABLED'', StringsField)]"

definition config_fields_h :: "(string \<times> field_kind) list" where
  "config_fields_h =
     [(''VARIABLE_PRECEDENCE'', StringsField), (''VERBOSE_TO_STDERR'', BoolField),
      (''WIN_ASYNC_STARTUP_TIMEOUT'', IntField), (''WORKER_SHUTDOWN_POLL_COUNT'', IntField),
      (''WORKER_SHUTDOWN_POLL_DELAY'', FloatField), (''YAML_FILENAME_EXTENSIONS'', StringsField),
      (''_COLOR_DEFAULTS'', StringsField)]"

definition config_fields :: "(string \<times> field_kind) list" where
  "config_fields =
     config_fields_a @ config_fields_b @ config_fields_c @ config_fields_d @ config_fields_e @ config_fields_f @ config_fields_g @ config_fields_h"

section \<open>The keys of the base definitions\<close>

text \<open>Each key names its own field; \<open>None\<close> is a key that is ignored.\<close>

definition base_keys_a :: "(string \<times> field_kind option) list" where
  "base_keys_a =
     [(''ACTION_WARNINGS'', Some BoolField), (''AGNOSTIC_BECOME_PROMPT'', Some BoolField),
      (''ANSIBLE_CONNECTION_PATH'', Some StringField), (''ANSIBLE_COW_ACCEPTLIST'', Some StringsField),
      (''ANSIBLE_COW_PATH'', Some StringField), (''ANSIBLE_FORCE_COLOR'', Some BoolField),
      (''ANSIBLE_HOME'', Some StringField), (''ANSIBLE_NOCOLOR'', Some BoolField),
      (''ANSIBLE_NOCOWS'', Some BoolField), (''ANSIBLE_PIPELINING'', Some BoolField),
      (''ANY_ERRORS_FATAL'', Some BoolField), (''BECOME_ALLOW_SAME_USER'', Some BoolField),
      (''BECOME_PASSWORD_FILE'', Some StringField), (''BECOME_PLUGIN_PATH'', Some StringField),
      (''CACHE_PLUGIN'', Some StringField), (''CACHE_PLUGIN_CONNECTION'', Some StringField),
      (''CACHE_PLUGIN_PREFIX'', Some StringField), (''CACHE_PLUGIN_TIMEOUT'', Some IntField),
      (''CALLBACKS_ENABLED'', Some StringsField), (''COLLECTIONS_ON_ANSIBLE_VERSION_MISMATCH'', Some StringField),
      (''COLLECTIONS_PATHS'', Some StringField), (''COLLECTIONS_SCAN_SYS_PATH'', Some BoolField),
      (''COLOR_CHANGED'', Some StringField), (''COLOR_CONSOLE_PROMPT'', Some StringField),
      (''COLOR_DEBUG'', Some StringField), (''COLOR_DEPRECATE'', Some StringField),
      (''COLOR_DIFF_ADD'', Some StringField), (''COLOR_DIFF_LINES'', Some StringField),
      (''COLOR_DIFF_REMOVE'', Some StringField), (''COLOR_ERROR'', Some StringField),
      (''COLOR_HIGHLIGHT'', Some StringField), (''COLOR_OK'', Some StringField), (''COLOR_SKIP'', Some StringField),
      (''COLOR_UNREACHABLE'', Some StringField), (''COLOR_VERBOSE'', Some StringField),
      (''COLOR_WARN'', Some StringField), (''CONNECTION_PASSWORD_FILE'', Some StringField),
      (''COVERAGE_REMOTE_OUTPUT'', Some StringField), (''COVERAGE_REMOTE_PATHS'', Some StringField),
      (''DEFAULT_ACTION_PLUGIN_PATH'', Some StringField), (''DEFAULT_ALLOW_UNSAFE_LOOKUPS'', Some BoolField),
      (''DEFAULT_ASK_PASS'', Some BoolField)]"

definition base_keys_b :: "(string \<times> field_kind option) list" where
  "base_keys_b =
     [(''DEFAULT_ASK_VAULT_PASS'', Some BoolField), (''DEFAULT_BECOME'', Some BoolField),
      (''DEFAULT_BECOME_ASK_PASS'', Some BoolField), (''DEFAULT_BECOME_EXE'', Some StringField),
      (''DEFAULT_BECOME_FLAGS'', Some StringField), (''DEFAULT_BECOME_METHOD'', Some StringField),
      (''DEFAULT_BECOME_USER'', Some StringField), (''DEFAULT_CACHE_PLUGIN_PATH'', Some StringField),
      (''DEFAULT_CALLBACK_PLUGIN_PATH'', Some StringField), (''DEFAULT_CLICONF_PLUGIN_PATH'', Some StringField),
      (''DEFAULT_CONNECTION_PLUGIN_PATH'', Some StringField), (''DEFAULT_DEBUG'', Some BoolField),
      (''DEFAULT_EXECUTABLE'', Some StringField), (''DEFAULT_FACT_PATH'', Some StringField),
      (''DEFAULT_FILTER_PLUGIN_PATH'', Some StringField), (''DEFAULT_FORCE_HANDLERS'', Some BoolField),
      (''DEFAULT_FORKS'', Some IntField), (''DEFAULT_GATHERING'', Some StringField),
      (''DEFAULT_GATHER_SUBSET'', Some StringsField), (''DEFAULT_GATHER_TIMEOUT'', Some IntField),
      (''DEFAULT_HASH_BEHAVIOUR'', Some StringField), (''DEFAULT_HOST_LIST'', Some StringField),
      (''DEFAULT_HTTPAPI_PLUGIN_PATH'', Some StringField), (''DEFAULT_INTERNAL_POLL_INTERVAL'', Some FloatField),
      (''DEFAULT_INVENTORY_PLUGIN_PATH'', Some StringField), (''DEFAULT_JINJA2_EXTENSIONS'', Some StringsField),
      (''DEFAULT_JINJA2_NATIVE'', Some BoolField), (''DEFAULT_KEEP_REMOTE_FILES'', Some BoolField),
      (''DEFAULT_LIBVIRT_LXC_NOSECLABEL'', Some BoolField), (''DEFAULT_LOAD_CALLBACK_PLUGINS'', Some BoolField),
      (''DEFAULT_LOCAL_TMP'', Some StringField), (''DEFAULT_LOG_FILTER'', Some StringsField),
      (''DEFAULT_LOG_PATH'', Some StringField)]"

definition base_keys_c :: "(string \<times> field_kind option) list" where
  "base_keys_c =
     [(''DEFAULT_LOOKUP_PLUGIN_PATH'', Some StringField), (''DEFAULT_MANAGED_STR'', Some StringField),
      (''DEFAULT_MODULE_ARGS'', Some StringField), (''DEFAULT_MODULE_COMPRESSION'', Some StringField),
      (''DEFAULT_MODULE_NAME'', Some StringField), (''DEFAULT_MODULE_PATH'', Some StringField),
      (''DEFAULT_MODULE_UTILS_PATH'', Some StringField), (''DEFAULT_NETCONF_PLUGIN_PATH'', Some StringField),
      (''DEFAULT_NO_LOG'', Some BoolField), (''DEFAULT_NO_TARGET_SYSLOG'', Some BoolField),
      (''DEFAULT_NULL_REPRESENTATION'', Some StringField), (''DEFAULT_POLL_INTERVAL'', Some IntField),
      (''DEFAULT_PRIVATE_KEY_FILE'', Some StringField), (''DEFAULT_PRIVATE_ROLE_VARS'', Some BoolField),
      (''DEFAULT_REMOTE_PORT'', Some IntField), (''DEFAULT_REMOTE_USER'', Some StringField),
      (''DEFAULT_ROLES_PATH'', Some StringField), (''DEFAULT_SELINUX_SPECIAL_FS'', Some StringsField),
      (''DEFAULT_STDOUT_CALLBACK'', Some StringField), (''DEFAULT_STRATEGY'', Some StringField),
      (''DEFAULT_STRATEGY_PLUGIN_PATH'', Some StringField), (''DEFAULT_SU'', Some BoolField),
      (''DEFAULT_SYSLOG_FACILITY'', Some StringField), (''DEFAULT_TERMINAL_PLUGIN_PATH'', Some StringField),
      (''DEFAULT_TEST_PLUGIN_PATH'', Some StringField), (''DEFAULT_TIMEOUT'', Some IntField),
      (''DEFAULT_TRANSPORT'', Some StringField), (''DEFAULT_UNDEFINED_VAR_BEHAVIOR'', Some BoolField),
      (''DEFAULT_VARS_PLUGIN_PATH'', Some StringField), (''DEFAULT_VAULT_ENCRYPT_IDENTITY'', Some StringField),
      (''DEFAULT_VAULT_IDENTITY'', Some StringField), (''DEFAULT_VAULT_IDENTITY_LIST'', Some StringsField),
      (''DEFAULT_VAULT_ID_MATCH'', Some BoolField), (''DEFAULT_VAULT_PASSWORD_FILE'', Some StringField),
      (''DEFAULT_VERBOSITY'', Some IntField), (''DEPRECATION_WARNINGS'', Some BoolField),
      (''DEVEL_WARNING'', Some BoolField), (''DIFF_ALWAYS'', Some BoolField), (''DIFF_CONTEXT'', Some IntField),
      (''DISPLAY_ARGS_TO_STDOUT'', Some BoolField), (''DISPLAY_SKIPPED_HOSTS'', Some BoolField),
      (''DOCSITE_ROOT_URL'', Some StringField)]"

definition base_keys_d :: "(string \<times> field_kind option) list" where
  "base_keys_d =
     [(''DOC_FRAGMENT_PLUGIN_PATH'', Some StringField), (''DUPLICATE_YAML_DICT_KEY'', Some StringField),
      (''ENABLE_TASK_DEBUGGER'', Some BoolField), (''ERROR_ON_MISSING_HANDLER'', Some BoolField),
      (''FACTS_MODULES'', Some StringsField), (''GALAXY_CACHE_DIR'', Some StringField),
      (''GALAXY_COLLECTION_SKELETON'', Some StringField), (''GALAXY_COLLECTION_SKELETON_IGNORE'', Some StringsField),
      (''GALAXY_DISABLE_GPG_VERIFY'', Some BoolField), (''GALAXY_DISPLAY_PROGRESS'', Some BoolField),
      (''GALAXY_GPG_KEYRING'', Some StringField), (''GALAXY_IGNORE_CERTS'', Some BoolField),
      (''GALAXY_IGNORE_INVALID_SIGNATURE_STATUS_CODES'', Some StringsField),
      (''GALAXY_ROLE_SKELETON'', Some StringField), (''GALAXY_ROLE_SKELETON_IGNORE'', Some StringsField),
      (''GALAXY_SERVER'', Some StringField), (''GALAXY_SERVER_LIST'', Some StringsField)]"

definition base_keys_e :: "(string \<times> field_kind option) list" where
  "base_keys_e =
     [(''GALAXY_TOKEN_PATH'', Some StringField), (''HOST_KEY_CHECKING'', Some BoolField),
      (''HOST_PATTERN_MISMATCH'', Some StringField), (''INJECT_FACTS_AS_VARS'', Some BoolField),
      (''INTERPRETER_PYTHON'', Some StringField), (''INTERPRETER_PYTHON_FALLBACK'', Some StringsField),
      (''INVALID_TASK_ATTRIBUTE_FAILED'', Some BoolField), (''INVENTORY_ANY_UNPARSED_IS_FAILED'', Some BoolField),
      (''INVENTORY_CACHE_ENABLED'', Some BoolField), (''INVENTORY_CACHE_PLUGIN'', Some StringField),
      (''INVENTORY_CACHE_PLUGIN_CONNECTION'', Some StringField),
      (''INVENTORY_CACHE_PLUGIN_PREFIX'', Some StringField), (''INVENTORY_CACHE_TIMEOUT'', Some IntField),
      (''INVENTORY_ENABLED'', Some StringsField), (''INVENTORY_EXPORT'', Some BoolField),
      (''INVENTORY_IGNORE_PATTERNS'', Some StringsField), (''INVENTORY_UNPARSED_IS_FAILED'', Some BoolField),
      (''INVENTORY_UNPARSED_WARNING'', Some BoolField), (''JINJA2_NATIVE_WARNING'', Some BoolField),
      (''LOCALHOST_WARNING'', Some BoolField), (''MAX_FILE_SIZE_FOR_DIFF'', Some IntField),
      (''NETCONF_SSH_CONFIG'', Some StringField), (''NETWORK_GROUP_MODULES'', Some StringsField)]"

definition base_keys_f :: "(string \<times> field_kind option) list" where
  "base_keys_f =
     [(''OLD_PLUGIN_CACHE_CLEARING'', Some BoolField), (''PARAMIKO_HOST_KEY_AUTO_ADD'', Some BoolField),
      (''PARAMIKO_LOOK_FOR_KEYS'', Some BoolField), (''PERSISTENT_COMMAND_TIMEOUT'', Some IntField),
      (''PERSISTENT_CONNECT_RETRY_TIMEOUT'', Some IntField), (''PERSISTENT_CONNECT_TIMEOUT'', Some IntField),
      (''PERSISTENT_CONTROL_PATH_DIR'', Some StringField), (''PLAYBOOK_DIR'', Some StringField),
      (''PLAYBOOK_VARS_ROOT'', Some StringField), (''PYTHON_MODULE_RLIMIT_NOFILE'', Some IntField),
      (''RETRY_FILES_ENABLED'', Some BoolField), (''RETRY_FILES_SAVE_PATH'', Some StringField),
      (''RUN_VARS_PLUGINS'', Some StringField), (''SHOW_CUSTOM_STATS'', Some BoolField),
      (''STRING_CONVERSION_ACTION'', Some StringField), (''STRING_TYPE_FILTERS'', Some StringsField),
      (''SYSTEM_WARNINGS'', Some BoolField), (''TAGS_RUN'', Some StringsField), (''TAGS_SKIP'', Some StringsField),
      (''TASK_DEBUGGER_IGNORE_ERRORS'', Some BoolField), (''TASK_TIMEOUT'', Some IntField),
      (''TRANSFORM_INVALID_GROUP_CHARS'', Some StringField), (''USE_PERSISTENT_CONNECTIONS'', Some BoolField),
      (''VALIDATE_ACTION_GROUP_METADATA'', Some BoolField), (''VARIABLE_PLUGINS_ENABLED'', Some StringsField)]"

definition base_keys_g :: "(string \<times> field_kind option) list" where
  "base_keys_g =
     [(''VARIABLE_PRECEDENCE'', Some StringsField), (''VERBOSE_TO_STDERR'', Some BoolField),
      (''WIN_ASYNC_STARTUP_TIMEOUT'', Some IntField), (''WORKER_SHUTDOWN_POLL_COUNT'', Some IntField),
      (''WORKER_SHUTDOWN_POLL_DELAY'', Some FloatField), (''YAML_FILENAME_EXTENSIONS'', Some StringsField),
      (''_COLOR_DEFAULTS'', Some StringsField), (''INTERPRETER_PYTHON_DISTRO_MAP'', None),
      (''INVENTORY_IGNORE_EXTS'', None), (''MODULE_IGNORE_EXTS'', None), (''PLUGIN_FILTERS_CFG'', None),
      (''CONNECTION_FACTS_MODULES'', None), (''ANSIBLE_COW_SELECTION'', None),
      (''GALAXY_REQUIRED_VALID_SIGNATURE_COUNT'', None)]"

definition base_keys :: "(string \<times> field_kind option) list" where
  "base_keys = base_keys_a @ base_keys_b @ base_keys_c @ base_keys_d @ base_keys_e @ base_keys_f @ base_keys_g"

section \<open>The keys of ini files\<close>

text \<open>The field a key sets and how its text is read; \<open>None\<close> is a key that is ignored.\<close>

definition ini_defaults_a :: "ini_table" where
  "ini_defaults_a =
     [(''action_warnings'', Some (''ACTION_WARNINGS'', BoolField)),
      (''cow_whitelist'', Some (''ANSIBLE_COW_ACCEPTLIST'', StringsField)),
      (''cowsay_enabled_stencils'', Some (''ANSIBLE_COW_ACCEPTLIST'', StringsField)),
      (''cowpath'', Some (''ANSIBLE_COW_PATH'', StringField)), (''cow_selection'', None),
      (''force_color'', Some (''ANSIBLE_FORCE_COLOR'', BoolField)), (''home'', Some (''ANSIBLE_HOME'', StringField)),
      (''nocolor'', Some (''ANSIBLE_NOCOLOR'', BoolField)), (''nocows'', Some (''ANSIBLE_NOCOWS'', BoolField)),
      (''pipelining'', Some (''ANSIBLE_PIPELINING'', BoolField)),
      (''any_errors_fatal'', Some (''ANY_ERRORS_FATAL'', BoolField)),
      (''become_password_file'', Some (''BECOME_PASSWORD_FILE'', StringField)),
      (''become_plugins'', Some (''BECOME_PLUGIN_PATH'', StringField)),
      (''fact_caching'', Some (''CACHE_PLUGIN'', StringField)),
      (''fact_caching_connection'', Some (''CACHE_PLUGIN_CONNECTION'', StringField)),
      (''fact_caching_prefix'', Some (''CACHE_PLUGIN_PREFIX'', StringField)),
      (''fact_caching_timeout'', Some (''CACHE_PLUGIN_TIMEOUT'', IntField)),
      (''callback_whitelist'', Some (''CALLBACKS_ENABLED'', StringsField)),
      (''callbacks_enabled'', Some (''CALLBACKS_ENABLED'', StringsField)),
      (''collections_on_ansible_version_mismatch'', Some (''COLLECTIONS_ON_ANSIBLE_VERSION_MISMATCH'', StringField)),
      (''collections_paths'', Some (''COLLECTIONS_PATHS'', StringField)),
      (''collections_path'', Some (''COLLECTIONS_PATHS'', StringField)),
      (''collections_scan_sys_path'', Some (''COLLECTIONS_SCAN_SYS_PATH'', BoolField)),
      (''connection_password_file'', Some (''CONNECTION_PASSWORD_FILE'', StringField)),
      (''action_plugins'', Some (''DEFAULT_ACTION_PLUGIN_PATH'', StringField)),
      (''allow_unsafe_lookups'', Some (''DEFAULT_ALLOW_UNSAFE_LOOKUPS'', BoolField)),
      (''ask_pass'', Some (''DEFAULT_ASK_PASS'', BoolField)),
      (''ask_vault_pass'', Some (''DEFAULT_ASK_VAULT_PASS'', BoolField)),
      (''cache_plugins'', Some (''DEFAULT_CACHE_PLUGIN_PATH'', StringField)),
      (''callback_plugins'', Some (''DEFAULT_CALLBACK_PLUGIN_PATH'', StringField)),
      (''cliconf_plugins'', Some (''DEFAULT_CLICONF_PLUGIN_PATH'', StringField)),
      (''connection_plugins'', Some (''DEFAULT_CONNECTION_PLUGIN_PATH'', StringField)),
      (''debug'', Some (''DEFAULT_DEBUG'', BoolField)), (''executable'', Some (''DEFAULT_EXECUTABLE'', StringField)),
      (''fact_path'', Some (''DEFAULT_FACT_PATH'', StringField)),
      (''filter_plugins'', Some (''DEFAULT_FILTER_PLUGIN_PATH'', StringField)),
      (''force_handlers'', Some (''DEFAULT_FORCE_HANDLERS'', BoolField)),
      (''forks'', Some (''DEFAULT_FORKS'', IntField)), (''gathering'', Some (''DEFAULT_GATHERING'', StringField)),
      (''gather_subset'', Some (''DEFAULT_GATHER_SUBSET'', StringsField)),
      (''gather_timeout'', Some (''DEFAULT_GATHER_TIMEOUT'', IntField)),
      (''hash_behaviour'', Some (''DEFAULT_HASH_BEHAVIOUR'', StringField)),
      (''inventory'', Some (''DEFAULT_HOST_LIST'', StringField)),
      (''httpapi_plugins'', Some (''DEFAULT_HTTPAPI_PLUGIN_PATH'', StringField)),
      (''internal_poll_interval'', Some (''DEFAULT_INTERNAL_POLL_INTERVAL'', FloatField)),
      (''inventory_plugins'', Some (''DEFAULT_INVENTORY_PLUGIN_PATH'', StringField)),
      (''jinja2_extensions'', Some (''DEFAULT_JINJA2_EXTENSIONS'', StringsField)),
      (''jinja2_native'', Some (''DEFAULT_JINJA2_NATIVE'', BoolField)),
      (''keep_remote_files'', Some (''DEFAULT_KEEP_REMOTE_FILES'', BoolField)),
      (''bin_ansible_callbacks'', Some (''DEFAULT_LOAD_CALLBACK_PLUGINS'', BoolField)),
      (''local_tmp'', Some (''DEFAULT_LOCAL_TMP'', StringField)),
      (''log_filter'', Some (''DEFAULT_LOG_FILTER'', StringsField)),
      (''log_path'', Some (''DEFAULT_LOG_PATH'', StringField)),
      (''lookup_plugins'', Some (''DEFAULT_LOOKUP_PLUGIN_PATH'', StringField)),
      (''ansible_managed'', Some (''DEFAULT_MANAGED_STR'', StringField)),
      (''module_args'', Some (''DEFAULT_MODULE_ARGS'', StringField)),
      (''module_compression'', Some (''DEFAULT_MODULE_COMPRESSION'', StringField)),
      (''module_name'', Some (''DEFAULT_MODULE_NAME'', StringField)),
      (''library'', Some (''DEFAULT_MODULE_PATH'', StringField)),
      (''module_utils'', Some (''DEFAULT_MODULE_UTILS_PATH'', StringField)),
      (''netconf_plugins'', Some (''DEFAULT_NETCONF_PLUGIN_PATH'', StringField))]"

definition ini_defaults_b :: "ini_table" where
  "ini_defaults_b =
     [(''no_log'', Some (''DEFAULT_NO_LOG'', BoolField)),
      (''no_target_syslog'', Some (''DEFAULT_NO_TARGET_SYSLOG'', BoolField)),
      (''null_representation'', Some (''DEFAULT_NULL_REPRESENTATION'', StringField)),
      (''poll_interval'', Some (''DEFAULT_POLL_INTERVAL'', IntField)),
      (''private_key_file'', Some (''DEFAULT_PRIVATE_KEY_FILE'', StringField)),
      (''private_role_vars'', Some (''DEFAULT_PRIVATE_ROLE_VARS'', BoolField)),
      (''remote_port'', Some (''DEFAULT_REMOTE_PORT'', IntField)),
      (''remote_user'', Some (''DEFAULT_REMOTE_USER'', StringField)),
      (''roles_path'', Some (''DEFAULT_ROLES_PATH'', StringField)),
      (''stdout_callback'', Some (''DEFAULT_STDOUT_CALLBACK'', StringField)),
      (''strategy'', Some (''DEFAULT_STRATEGY'', StringField)),
      (''strategy_plugins'', Some (''DEFAULT_STRATEGY_PLUGIN_PATH'', StringField)),
      (''su'', Some (''DEFAULT_SU'', BoolField)),
      (''syslog_facility'', Some (''DEFAULT_SYSLOG_FACILITY'', StringField)),
      (''terminal_plugins'', Some (''DEFAULT_TERMINAL_PLUGIN_PATH'', StringField)),
      (''test_plugins'', Some (''DEFAULT_TEST_PLUGIN_PATH'', StringField)),
      (''timeout'', Some (''DEFAULT_TIMEOUT'', IntField)),
      (''transport'', Some (''DEFAULT_TRANSPORT'', StringField)),
      (''error_on_undefined_vars'', Some (''DEFAULT_UNDEFINED_VAR_BEHAVIOR'', BoolField)),
      (''vars_plugins'', Some (''DEFAULT_VARS_PLUGIN_PATH'', StringField)),
      (''vault_encrypt_identity'', Some (''DEFAULT_VAULT_ENCRYPT_IDENTITY'', StringField)),
      (''vault_identity'', Some (''DEFAULT_VAULT_IDENTITY'', StringField)),
      (''vault_identity_list'', Some (''DEFAULT_VAULT_IDENTITY_LIST'', StringsField)),
      (''vault_id_match'', Some (''DEFAULT_VAULT_ID_MATCH'', BoolField)),
      (''vault_password_file'', Some (''DEFAULT_VAULT_PASSWORD_FILE'', StringField)),
      (''verbosity'', Some (''DEFAULT_VERBOSITY'', IntField)),
      (''deprecation_warnings'', Some (''DEPRECATION_WARNINGS'', BoolField)),
      (''devel_warning'', Some (''DEVEL_WARNING'', BoolField)),
      (''display_args_to_stdout'', Some (''DISPLAY_ARGS_TO_STDOUT'', BoolField)),
      (''display_skipped_hosts'', Some (''DISPLAY_SKIPPED_HOSTS'', BoolField)),
      (''docsite_root_url'', Some (''DOCSITE_ROOT_URL'', StringField)),
      (''doc_fragment_plugins'', Some (''DOC_FRAGMENT_PLUGIN_PATH'', StringField)),
      (''duplicate_dict_key'', Some (''DUPLICATE_YAML_DICT_KEY'', StringField)),
      (''enable_task_debugger'', Some (''ENABLE_TASK_DEBUGGER'', BoolField)),
      (''error_on_missing_handler'', Some (''ERROR_ON_MISSING_HANDLER'', BoolField)),
      (''facts_modules'', Some (''FACTS_MODULES'', StringsField)),
      (''host_key_checking'', Some (''HOST_KEY_CHECKING'', BoolField)),
      (''inject_facts_as_vars'', Some (''INJECT_FACTS_AS_VARS'', BoolField)),
      (''interpreter_python'', Some (''INTERPRETER_PYTHON'', StringField)),
      (''invalid_task_attribute_failed'', Some (''INVALID_TASK_ATTRIBUTE_FAILED'', BoolField)),
      (''inventory_ignore_extensions'', None),
      (''inventory_ignore_patterns'', Some (''INVENTORY_IGNORE_PATTERNS'', StringsField)),
      (''jinja2_native_warning'', Some (''JINJA2_NATIVE_WARNING'', BoolField)),
      (''localhost_warning'', Some (''LOCALHOST_WARNING'', BoolField)),
      (''max_diff_size'', Some (''MAX_FILE_SIZE_FOR_DIFF'', IntField)), (''module_ignore_exts'', None),
      (''network_group_modules'', Some (''NETWORK_GROUP_MODULES'', StringsField)),
      (''old_plugin_cache_clear'', Some (''OLD_PLUGIN_CACHE_CLEARING'', BoolField)),
      (''playbook_dir'', Some (''PLAYBOOK_DIR'', StringField)),
      (''playbook_vars_root'', Some (''PLAYBOOK_VARS_ROOT'', StringField)), (''plugin_filters_cfg'', None),
      (''python_module_rlimit_nofile'', Some (''PYTHON_MODULE_RLIMIT_NOFILE'', IntField)),
      (''retry_files_enabled'', Some (''RETRY_FILES_ENABLED'', BoolField)),
      (''retry_files_save_path'', Some (''RETRY_FILES_SAVE_PATH'', StringField)),
      (''run_vars_plugins'', Some (''RUN_VARS_PLUGINS'', StringField)),
      (''show_custom_stats'', Some (''SHOW_CUSTOM_STATS'', BoolField)),
      (''string_conversion_action'', Some (''STRING_CONVERSION_ACTION'', StringField)),
      (''system_warnings'', Some (''SYSTEM_WARNINGS'', BoolField)),
      (''task_debugger_ignore_errors'', Some (''TASK_DEBUGGER_IGNORE_ERRORS'', BoolField)),
      (''task_timeout'', Some (''TASK_TIMEOUT'', IntField)),
      (''force_valid_group_names'', Some (''TRANSFORM_INVALID_GROUP_CHARS'', StringField))]"

definition ini_defaults_c :: "ini_table" where
  "ini_defaults_c =
     [(''use_persistent_connections'', Some (''USE_PERSISTENT_CONNECTIONS'', BoolField)),
      (''validate_action_group_metadata'', Some (''VALIDATE_ACTION_GROUP_METADATA'', BoolField)),
      (''vars_plugins_enabled'', Some (''VARIABLE_PLUGINS_ENABLED'', StringsField)),
      (''precedence'', Some (''VARIABLE_PRECEDENCE'', StringsField)),
      (''verbose_to_stderr'', Some (''VERBOSE_TO_STDERR'', BoolField)),
      (''win_async_startup_timeout'', Some (''WIN_ASYNC_STARTUP_TIMEOUT'', IntField)),
      (''yaml_valid_extensions'', Some (''YAML_FILENAME_EXTENSIONS'', StringsField))]"

definition ini_privilege_escalation :: "ini_table" where
  "ini_privilege_escalation =
     [(''agnostic_become_prompt'', Some (''AGNOSTIC_BECOME_PROMPT'', BoolField)),
      (''become_allow_same_user'', Some (''BECOME_ALLOW_SAME_USER'', BoolField)),
      (''become'', Some (''DEFAULT_BECOME'', BoolField)),
      (''become_ask_pass'', Some (''DEFAULT_BECOME_ASK_PASS'', BoolField)),
      (''become_exe'', Some (''DEFAULT_BECOME_EXE'', StringField)),
      (''become_flags'', Some (''DEFAULT_BECOME_FLAGS'', StringField)),
      (''become_method'', Some (''DEFAULT_BECOME_METHOD'', StringField)),
      (''become_user'', Some (''DEFAULT_BECOME_USER'', StringField))]"

definition ini_persistent_connection :: "ini_table" where
  "ini_persistent_connection =
     [(''ansible_connection_path'', Some (''ANSIBLE_CONNECTION_PATH'', StringField)),
      (''command_timeout'', Some (''PERSISTENT_COMMAND_TIMEOUT'', IntField)),
      (''connect_retry_timeout'', Some (''PERSISTENT_CONNECT_RETRY_TIMEOUT'', IntField)),
      (''connect_timeout'', Some (''PERSISTENT_CONNECT_TIMEOUT'', IntField)),
      (''control_path_dir'', Some (''PERSISTENT_CONTROL_PATH_DIR'', StringField))]"

definition ini_connection :: "ini_table" where
  "ini_connection =
     [(''pipelining'', Some (''ANSIBLE_PIPELINING'', BoolField))]"

definition ini_colors :: "ini_table" where
  "ini_colors =
     [(''changed'', Some (''COLOR_CHANGED'', StringField)),
      (''console_prompt'', Some (''COLOR_CONSOLE_PROMPT'', StringField)),
      (''debug'', Some (''COLOR_DEBUG'', StringField)), (''deprecate'', Some (''COLOR_DEPRECATE'', StringField)),
      (''diff_add'', Some (''COLOR_DIFF_ADD'', StringField)),
      (''diff_lines'', Some (''COLOR_DIFF_LINES'', StringField)),
      (''diff_remove'', Some (''COLOR_DIFF_REMOVE'', StringField)), (''error'', Some (''COLOR_ERROR'', StringField)),
      (''highlight'', Some (''COLOR_HIGHLIGHT'', StringField)), (''ok'', Some (''COLOR_OK'', StringField)),
      (''skip'', Some (''COLOR_SKIP'', StringField)), (''unreachable'', Some (''COLOR_UNREACHABLE'', StringField)),
      (''verbose'', Some (''COLOR_VERBOSE'', StringField)), (''warn'', Some (''COLOR_WARN'', StringField))]"

definition ini_selinux :: "ini_table" where
  "ini_selinux =
     [(''libvirt_lxc_noseclabel'', Some (''DEFAULT_LIBVIRT_LXC_NOSECLABEL'', BoolField)),
      (''special_context_filesystems'', Some (''DEFAULT_SELINUX_SPECIAL_FS'', StringsField))]"

definition ini_diff :: "ini_table" where
  "ini_diff =
     [(''always'', Some (''DIFF_ALWAYS'', BoolField)), (''context'', Some (''DIFF_CONTEXT'', IntField))]"

definition ini_galaxy :: "ini_table" where
  "ini_galaxy =
     [(''cache_dir'', Some (''GALAXY_CACHE_DIR'', StringField)),
      (''collection_skeleton'', Some (''GALAXY_COLLECTION_SKELETON'', StringField)),
      (''collection_skeleton_ignore'', Some (''GALAXY_COLLECTION_SKELETON_IGNORE'', StringsField)),
      (''disable_gpg_verify'', Some (''GALAXY_DISABLE_GPG_VERIFY'', BoolField)),
      (''display_progress'', Some (''GALAXY_DISPLAY_PROGRESS'', BoolField)),
      (''gpg_keyring'', Some (''GALAXY_GPG_KEYRING'', StringField)),
      (''ignore_certs'', Some (''GALAXY_IGNORE_CERTS'', BoolField)),
      (''ignore_signature_status_codes'', Some (''GALAXY_IGNORE_INVALID_SIGNATURE_STATUS_CODES'', StringsField)),
      (''required_valid_signature_count'', None), (''role_skeleton'', Some (''GALAXY_ROLE_SKELETON'', StringField)),
      (''role_skeleton_ignore'', Some (''GALAXY_ROLE_SKELETON_IGNORE'', StringsField)),
      (''server'', Some (''GALAXY_SERVER'', StringField)),
      (''server_list'', Some (''GALAXY_SERVER_LIST'', StringsField)),
      (''token_path'', Some (''GALAXY_TOKEN_PATH'', StringField))]"

definition ini_inventory :: "ini_table" where
  "ini_inventory =
     [(''host_pattern_mismatch'', Some (''HOST_PATTERN_MISMATCH'', StringField)),
      (''any_unparsed_is_failed'', Some (''INVENTORY_ANY_UNPARSED_IS_FAILED'', BoolField)),
      (''cache'', Some (''INVENTORY_CACHE_ENABLED'', BoolField)),
      (''cache_plugin'', Some (''INVENTORY_CACHE_PLUGIN'', StringField)),
      (''cache_connection'', Some (''INVENTORY_CACHE_PLUGIN_CONNECTION'', StringField)),
      (''cache_prefix'', Some (''INVENTORY_CACHE_PLUGIN_PREFIX'', StringField)),
      (''cache_timeout'', Some (''INVENTORY_CACHE_TIMEOUT'', IntField)),
      (''enable_plugins'', Some (''INVENTORY_ENABLED'', StringsField)),
      (''export'', Some (''INVENTORY_EXPORT'', BoolField)), (''ignore_extensions'', None),
      (''ignore_patterns'', Some (''INVENTORY_IGNORE_PATTERNS'', StringsField)),
      (''unparsed_is_failed'', Some (''INVENTORY_UNPARSED_IS_FAILED'', BoolField)),
      (''inventory_unparsed_warning'', Some (''INVENTORY_UNPARSED_WARNING'', BoolField))]"

definition ini_netconf_connection :: "ini_table" where
  "ini_netconf_connection =
     [(''ssh_config'', Some (''NETCONF_SSH_CONFIG'', StringField))]"

definition ini_paramiko_connection :: "ini_table" where
  "ini_paramiko_connection =
     [(''host_key_auto_add'', Some (''PARAMIKO_HOST_KEY_AUTO_ADD'', BoolField)),
      (''look_for_keys'', Some (''PARAMIKO_LOOK_FOR_KEYS'', BoolField))]"

definition ini_jinja2 :: "ini_table" where
  "ini_jinja2 =
     [(''dont_type_filters'', Some (''STRING_TYPE_FILTERS'', StringsField))]"

definition ini_tags :: "ini_table" where
  "ini_tags =
     [(''run'', Some (''TAGS_RUN'', StringsField)), (''skip'', Some (''TAGS_SKIP'', StringsField))]"

definition ini_sections :: "(string \<times> ini_table) list" where
  "ini_sections =
     [(''defaults'', ini_defaults_a @ ini_defaults_b @ ini_defaults_c),
      (''privilege_escalation'', ini_privilege_escalation),
      (''persistent_connection'', ini_persistent_connection),
      (''connection'', ini_connection),
      (''colors'', ini_colors),
      (''selinux'', ini_selinux),
      (''diff'', ini_diff),
      (''galaxy'', ini_galaxy),
      (''inventory'', ini_inventory),
      (''netconf_connection'', ini_netconf_connection),
      (''paramiko_connection'', ini_paramiko_connection),
      (''jinja2'', ini_jinja2),
      (''tags'', ini_tags)]"

section \<open>The tables agree\<close>

lemmas config_fields_all = config_fields_def config_fields_a_def config_fields_b_def config_fields_c_def
  config_fields_d_def config_fields_e_def config_fields_f_def config_fields_g_def config_fields_h_def

lemmas base_keys_all = base_keys_def base_keys_a_def base_keys_b_def base_keys_c_def base_keys_d_def
  base_keys_e_def base_keys_f_def base_keys_g_def

text \<open>The keys that are not ignored are the fields, in order and with their types.\<close>

definition named_fields :: "(string \<times> field_kind option) list \<Rightarrow> (string \<times> field_kind) list" where
  "named_fields ks = List.map_filter (\<lambda>(f, k). map_option (Pair f) k) ks"

lemma named_fields_simps [simp]:
  "named_fields [] = []" "named_fields ((f, Some k) # ks) = (f, k) # named_fields ks" "named_fields ((f, None) # ks) = named_fields ks"
  by (simp_all add: named_fields_def map_filter_simps)

lemma base_keys_are_fields: "named_fields base_keys = config_fields"
  by (simp only: config_fields_all base_keys_all append_Cons append_Nil named_fields_simps)

lemma map_of_named: "map_of ks f = Some (Some k) \<Longrightarrow> map_of (named_fields ks) f = Some k"
  by (induction ks) (auto simp: named_fields_def map_filter_simps split: if_splits option.splits)

lemma base_key_kind: "map_of base_keys f = Some (Some k) \<Longrightarrow> map_of config_fields f = Some k"
  using map_of_named [of base_keys f k] base_keys_are_fields by simp

text \<open>The names of the fields increase, so no two are the same.\<close>

fun str_less :: "string \<Rightarrow> string \<Rightarrow> bool" where
  "str_less s [] = False"
| "str_less [] (d # t) = True"
| "str_less (c # s) (d # t) = (if c = d then str_less s t else of_char c < (of_char d :: nat))"

lemma str_less_irrefl: "\<not> str_less s s"
  by (induction s) simp_all

lemma str_less_trans: "str_less s t \<Longrightarrow> str_less t u \<Longrightarrow> str_less s u"
proof (induction s t arbitrary: u rule: str_less.induct)
  case (2 d t)
  then show ?case by (cases u) simp_all
next
  case (3 c s d t)
  then show ?case by (cases u) (auto split: if_splits)
qed simp

lemma config_fields_increase: "successively str_less (map fst config_fields)"
  by code_simp

lemma sorted_wrt_distinct: "sorted_wrt str_less ss \<Longrightarrow> distinct ss"
  by (induction ss) (auto simp: str_less_irrefl)

lemma config_fields_distinct: "distinct (map fst config_fields)"
proof -
  have "transp str_less" by (rule transpI) (rule str_less_trans)
  with config_fields_increase have "sorted_wrt str_less (map fst config_fields)"
    using successively_conv_sorted_wrt by blast
  then show ?thesis by (rule sorted_wrt_distinct)
qed

text \<open>The part of the fields a name can be in, so that a field is found in a short list.\<close>

definition part_of :: "string \<Rightarrow> (string \<times> field_kind) list" where
  "part_of f =
     (if str_less f ''COLOR_DIFF_ADD'' then config_fields_a
      else if str_less f ''DEFAULT_DEBUG'' then config_fields_b
      else if str_less f ''DEFAULT_MODULE_ARGS'' then config_fields_c
      else if str_less f ''DEFAULT_VAULT_IDENTITY'' then config_fields_d
      else if str_less f ''GALAXY_ROLE_SKELETON_IGNORE'' then config_fields_e
      else if str_less f ''NETCONF_SSH_CONFIG'' then config_fields_f
      else if str_less f ''VARIABLE_PRECEDENCE'' then config_fields_g
      else config_fields_h)"

lemma part_of_sub: "set (part_of f) \<subseteq> set config_fields"
  by (auto simp: part_of_def config_fields_def)

text \<open>Every key of an ini file that is not ignored sets a field, by the type the field has.\<close>

definition row_ok :: "string \<times> (string \<times> field_kind) option \<Rightarrow> bool" where
  "row_ok r = (case snd r of None \<Rightarrow> True | Some t \<Rightarrow> t \<in> set (part_of (fst t)))"

lemma rows_ok:
  "list_all row_ok ini_defaults_a" "list_all row_ok ini_defaults_b" "list_all row_ok ini_defaults_c"
  "list_all row_ok ini_privilege_escalation" "list_all row_ok ini_persistent_connection" "list_all row_ok ini_connection"
  "list_all row_ok ini_colors" "list_all row_ok ini_selinux" "list_all row_ok ini_diff" "list_all row_ok ini_galaxy"
  "list_all row_ok ini_inventory" "list_all row_ok ini_netconf_connection" "list_all row_ok ini_paramiko_connection"
  "list_all row_ok ini_jinja2" "list_all row_ok ini_tags"
  by code_simp+


lemma sections_ok: "list_all (\<lambda>(sec, keys). list_all row_ok keys) ini_sections"
  by (simp add: ini_sections_def rows_ok)

lemma ini_target:
  assumes "map_of ini_sections sec = Some keys" "map_of keys key = Some (Some (f, k))"
  shows "map_of config_fields f = Some k"
proof -
  have "(sec, keys) \<in> set ini_sections" "(key, Some (f, k)) \<in> set keys"
    using assms by (simp_all add: map_of_SomeD)
  then have "row_ok (key, Some (f, k))" using sections_ok by (force simp: list_all_iff)
  then have "(f, k) \<in> set (part_of f)" by (simp add: row_ok_def)
  then have "(f, k) \<in> set config_fields" using part_of_sub by blast
  then show ?thesis using config_fields_distinct by simp
qed

end
