(* ===== verification/Settings.thy ===== *)
theory Settings
  imports Config Config_Data
begin

text \<open>
  The settings (\<open>config/config_data.go\<close>) over the tables of theory \<open>Config_Data\<close>: a map from the
  names of fields to values.  YAML and the readings of the texts of ini keys are parameters; of the
  values \<open>GNum n\<close> those are of type \<open>float64\<close> that \<open>is_float\<close> says.
\<close>

section \<open>Values\<close>

definition zero_of :: "field_kind \<Rightarrow> gval" where
  "zero_of k = (case k of BoolField \<Rightarrow> GBool False | StringField \<Rightarrow> GStr [] | IntField \<Rightarrow> GInt 0 | FloatField \<Rightarrow> GNum 0 | StringsField \<Rightarrow> GStrs [])"

text \<open>The settings before anything is assigned.\<close>

definition zero_config :: config_data where
  "zero_config f = (case map_of config_fields f of Some k \<Rightarrow> zero_of k | None \<Rightarrow> GNil)"

text \<open>\<open>strings.Split\<close> at a comma followed by a blank.\<close>

fun split_comma :: "string \<Rightarrow> string list" where
  "split_comma [] = [[]]"
| "split_comma (c # s) =
     (if c = CHR '','' \<and> s \<noteq> [] \<and> hd s = CHR '' '' then [] # split_comma (drop 1 s)
      else case split_comma s of w # ws \<Rightarrow> (c # w) # ws | [] \<Rightarrow> [[c]])"

text \<open>The value assigned, and whether it had the type: a failed assertion still assigns the zero value.\<close>

definition strings_of :: "gval \<Rightarrow> string list \<times> bool" where
  "strings_of v =
     (case v of
        GStrs ss \<Rightarrow> (ss, True)
      | GList vs \<Rightarrow> (List.map_filter as_string vs, list_all (\<lambda>v. as_string v \<noteq> None) vs)
      | GStr s \<Rightarrow> (split_comma s, True)
      | _ \<Rightarrow> ([], False))"

fun has_kind :: "(nat \<Rightarrow> bool) \<Rightarrow> field_kind \<Rightarrow> gval \<Rightarrow> bool" where
  "has_kind is_float BoolField (GBool b) = True"
| "has_kind is_float StringField (GStr s) = True"
| "has_kind is_float IntField (GInt i) = True"
| "has_kind is_float FloatField (GNum n) = is_float n"
| "has_kind is_float StringsField (GStrs ss) = True"
| "has_kind is_float k v = False"

definition convert_default :: "(nat \<Rightarrow> bool) \<Rightarrow> field_kind \<Rightarrow> gval \<Rightarrow> gval \<times> bool" where
  "convert_default is_float k v =
     (if k = StringsField then (case strings_of v of (ss, ok) \<Rightarrow> (GStrs ss, ok))
      else if has_kind is_float k v then (v, True)
      else (zero_of k, False))"

section \<open>Base definitions\<close>

definition default_of :: "(string \<rightharpoonup> gval) \<Rightarrow> gval option" where
  "default_of def = (case (case def ''default'' of Some v \<Rightarrow> Some v | None \<Rightarrow> def ''choices'') of
     None \<Rightarrow> None | Some v \<Rightarrow> if v = GNil then None else Some v)"

definition parse_field :: "(nat \<Rightarrow> bool) \<Rightarrow> string \<Rightarrow> (string \<rightharpoonup> gval) \<Rightarrow> config_data \<Rightarrow> (string, config_data) outcome" where
  "parse_field is_float key def c =
     (case default_of def of
        None \<Rightarrow> Ok c
      | Some v \<Rightarrow>
          (case map_of base_keys key of
             None \<Rightarrow> Err (''unrecognized config key: '' @ key)
           | Some None \<Rightarrow> Ok c
           | Some (Some k) \<Rightarrow>
               (case convert_default is_float k v of
                  (x, True) \<Rightarrow> Ok (c(key := x))
                | (x, False) \<Rightarrow> Err (''unable to parse config field: '' @ key))))"

text \<open>The definitions in the order in which the map of them is ranged over.\<close>

definition parse_base_defs ::
  "(nat \<Rightarrow> bool) \<Rightarrow> (string \<times> (string \<rightharpoonup> gval)) list option \<Rightarrow> (string, config_data) outcome" where
  "parse_base_defs is_float yaml =
     (case yaml of
        None \<Rightarrow> Err ''yaml''
      | Some defs \<Rightarrow> ofold (\<lambda>(k, def). parse_field is_float k def) defs zero_config)"

section \<open>Keys of ini files\<close>

text \<open>How the library reads the text of a key.\<close>

record ini_tools =
  it_text :: "string \<Rightarrow> string"
  it_bool :: "string \<Rightarrow> bool option"
  it_int :: "string \<Rightarrow> int option"
  it_float :: "string \<Rightarrow> nat option"
  it_strings :: "string \<Rightarrow> string list"

definition read_key :: "ini_tools \<Rightarrow> field_kind \<Rightarrow> string \<Rightarrow> gval \<times> string option" where
  "read_key t k s =
     (case k of
        StringField \<Rightarrow> (GStr (it_text t s), None)
      | StringsField \<Rightarrow> (GStrs (it_strings t s), None)
      | BoolField \<Rightarrow> (case it_bool t s of Some b \<Rightarrow> (GBool b, None) | None \<Rightarrow> (GBool False, Some ''bool''))
      | IntField \<Rightarrow> (case it_int t s of Some i \<Rightarrow> (GInt i, None) | None \<Rightarrow> (GInt 0, Some ''int''))
      | FloatField \<Rightarrow> (case it_float t s of Some n \<Rightarrow> (GNum n, None) | None \<Rightarrow> (GNum 0, Some ''float'')))"

definition update_field_from_ini :: "ini_tools \<Rightarrow> string \<Rightarrow> string \<times> string \<Rightarrow> config_data \<Rightarrow> config_data \<times> string option" where
  "update_field_from_ini t sec key c =
     (case map_of ini_sections sec of
        None \<Rightarrow> (c, Some (''unrecognized section '' @ sec))
      | Some keys \<Rightarrow>
          (case map_of keys (fst key) of
             None \<Rightarrow> (c, Some (''unrecognized key '' @ fst key @ '' in section '' @ sec))
           | Some None \<Rightarrow> (c, None)
           | Some (Some (f, k)) \<Rightarrow> (case read_key t k (snd key) of (x, e) \<Rightarrow> (c(f := x), e))))"


section \<open>Types of settings\<close>

definition well_typed :: "(nat \<Rightarrow> bool) \<Rightarrow> config_data \<Rightarrow> bool" where
  "well_typed is_float c \<longleftrightarrow> (\<forall>f k. map_of config_fields f = Some k \<longrightarrow> has_kind is_float k (c f))"

lemma well_typed_upd:
  "well_typed is_float c \<Longrightarrow> map_of config_fields f = Some k \<Longrightarrow> has_kind is_float k x \<Longrightarrow> well_typed is_float (c(f := x))"
  by (simp add: well_typed_def)

lemma zero_of_kind: "is_float 0 \<Longrightarrow> has_kind is_float k (zero_of k)"
  by (cases k) (simp_all add: zero_of_def)

lemma zero_config_typed: "is_float 0 \<Longrightarrow> well_typed is_float zero_config"
  by (simp add: well_typed_def zero_config_def zero_of_kind)

lemma convert_default_kind: "is_float 0 \<Longrightarrow> has_kind is_float k (fst (convert_default is_float k v))"
  by (cases "strings_of v") (auto simp: convert_default_def zero_of_kind)

lemma parse_field_cases:
  assumes "parse_field is_float f def c = Ok c'"
  obtains "c' = c" | k v x where "map_of base_keys f = Some (Some k)" "convert_default is_float k v = (x, True)" "c' = c(f := x)"
  using assms by (auto simp: parse_field_def split: option.splits prod.splits bool.splits)

lemma parse_field_typed:
  assumes "is_float 0" "well_typed is_float c" "parse_field is_float f def c = Ok c'"
  shows "well_typed is_float c'"
  using assms(3)
proof (cases rule: parse_field_cases)
  case (2 k v x)
  then have "has_kind is_float k x" using convert_default_kind [of is_float k v] assms(1) by simp
  then show ?thesis using well_typed_upd [OF assms(2) base_key_kind [OF 2(1)]] 2(3) by simp
qed (use assms(2) in simp)

lemma parse_base_defs_typed:
  assumes "is_float 0" "parse_base_defs is_float yaml = Ok c"
  shows "well_typed is_float c"
proof -
  obtain defs where run: "ofold (\<lambda>(k, def). parse_field is_float k def) defs zero_config = Ok c"
    using assms(2) by (auto simp: parse_base_defs_def split: option.splits)
  show ?thesis
    by (rule ofold_invariant [OF _ _ run, where P = "well_typed is_float"])
       (auto intro: parse_field_typed [where is_float = is_float, OF assms(1)] zero_config_typed [where is_float = is_float, OF assms(1)])
qed

text \<open>What the library reads as a number with a fraction is one.\<close>

definition reads_floats :: "ini_tools \<Rightarrow> (nat \<Rightarrow> bool) \<Rightarrow> bool" where
  "reads_floats t is_float \<longleftrightarrow> is_float 0 \<and> (\<forall>s n. it_float t s = Some n \<longrightarrow> is_float n)"

lemma read_key_kind: "reads_floats t is_float \<Longrightarrow> has_kind is_float k (fst (read_key t k s))"
  by (cases k) (auto simp: read_key_def reads_floats_def split: option.splits)

lemma update_field_cases:
  obtains "fst (update_field_from_ini t sec key c) = c"
  | f k where "map_of config_fields f = Some k" "fst (update_field_from_ini t sec key c) = c(f := fst (read_key t k (snd key)))"
proof (cases "map_of ini_sections sec")
  case (Some keys)
  note sec = this
  show ?thesis
  proof (cases "map_of keys (fst key)")
    case (Some r)
    show ?thesis
    proof (cases r)
      case (Some p)
      obtain f k where p: "p = (f, k)" by (cases p)
      have row: "map_of keys (fst key) = Some (Some (f, k))" using \<open>map_of keys (fst key) = Some r\<close> Some p by simp
      show ?thesis
        by (rule that(2) [OF ini_target [OF sec row]])
           (simp add: update_field_from_ini_def sec row split: prod.splits)
    qed (use that(1) sec Some in \<open>simp add: update_field_from_ini_def\<close>)
  qed (use that(1) sec in \<open>simp add: update_field_from_ini_def\<close>)
qed (use that(1) in \<open>simp add: update_field_from_ini_def\<close>)

lemma update_field_typed:
  assumes "reads_floats t is_float" "well_typed is_float c"
  shows "well_typed is_float (fst (update_field_from_ini t sec key c))"
proof (cases rule: update_field_cases [of t sec key c])
  case (2 f k)
  then show ?thesis using well_typed_upd [OF assms(2) 2(1) read_key_kind [OF assms(1)]] by simp
qed (use assms(2) in simp)

text \<open>The configuration of theory \<open>Config\<close> over these settings; copying gives the source.\<close>

definition config_over :: "ini_tools \<Rightarrow> (nat \<Rightarrow> bool) \<Rightarrow> (string \<times> (string \<rightharpoonup> gval)) list option \<Rightarrow> config_data config_tools \<Rightarrow> bool" where
  "config_over t is_float yaml ct \<longleftrightarrow>
     ct_zero ct = zero_config \<and> ct_update ct = update_field_from_ini t
     \<and> ct_base ct = (case parse_base_defs is_float yaml of Ok c \<Rightarrow> Inr c | _ \<Rightarrow> Inl ''base'')
     \<and> (\<forall>a b. ct_copy ct a b = Inl b)"

lemma update_keys_typed:
  assumes "reads_floats t is_float" "ct_update ct = update_field_from_ini t" "well_typed is_float c"
  shows "well_typed is_float (fst (update_keys ct sec ks c))"
  using assms(3)
proof (induction ks arbitrary: c)
  case (Cons k ks)
  have "well_typed is_float (fst (ct_update ct sec k c))"
    using update_field_typed [OF assms(1) Cons.prems, of sec k] assms(2) by simp
  with Cons.IH show ?case by (auto split: prod.splits option.splits)
qed simp

lemma update_sections_typed:
  assumes "reads_floats t is_float" "ct_update ct = update_field_from_ini t" "well_typed is_float c"
  shows "well_typed is_float (fst (update_sections ct ss c))"
  using assms(3)
proof (induction ss arbitrary: c)
  case (Cons x ss)
  obtain sec ks where x: "x = (sec, ks)" by (cases x)
  have "well_typed is_float (fst (update_keys ct sec ks c))"
    by (rule update_keys_typed [OF assms(1,2) Cons.prems])
  with Cons.IH x show ?case by (auto split: prod.splits option.splits)
qed simp

lemma parse_config_typed:
  assumes "reads_floats t is_float" "ct_update ct = update_field_from_ini t" "well_typed is_float c"
  shows "well_typed is_float (fst (parse_config ct fs path c))"
  using update_sections_typed [OF assms] assms(3)
  by (auto simp: parse_config_def split: outcome.splits option.splits sum.splits)

definition manager_typed :: "(nat \<Rightarrow> bool) \<Rightarrow> config_data manager \<Rightarrow> bool" where
  "manager_typed is_float m \<longleftrightarrow> well_typed is_float (mg_settings m) \<and> well_typed is_float (mg_base m)"

lemma load_file_typed:
  assumes "reads_floats t is_float" "config_over t is_float yaml ct" "manager_typed is_float m"
  shows "manager_typed is_float (fst (load_file ct fs path m))"
proof -
  have upd: "ct_update ct = update_field_from_ini t" and copy: "\<And>a b. ct_copy ct a b = Inl b"
    using assms(2) by (simp_all add: config_over_def)
  have "well_typed is_float (fst (parse_config ct fs path (mg_settings m)))"
    by (rule parse_config_typed [OF assms(1) upd]) (use assms(3) in \<open>simp add: manager_typed_def\<close>)
  with assms(3) copy show ?thesis
    by (auto simp: load_file_def manager_typed_def split: prod.splits option.splits)
qed



section \<open>The order of the base definitions\<close>

text \<open>What the definition of one key does, whatever the settings are.\<close>

definition field_effect :: "(nat \<Rightarrow> bool) \<Rightarrow> string \<times> (string \<rightharpoonup> gval) \<Rightarrow> gval option option" where
  "field_effect is_float d =
     (case default_of (snd d) of
        None \<Rightarrow> Some None
      | Some v \<Rightarrow>
          (case map_of base_keys (fst d) of
             None \<Rightarrow> None
           | Some None \<Rightarrow> Some None
           | Some (Some k) \<Rightarrow> (case convert_default is_float k v of (x, ok) \<Rightarrow> if ok then Some (Some x) else None)))"

lemma parse_field_effect:
  "parse_field is_float k def c = Ok c' \<longleftrightarrow>
     (\<exists>r. field_effect is_float (k, def) = Some r \<and> c' = (case r of None \<Rightarrow> c | Some x \<Rightarrow> c(k := x)))"
  by (auto simp: parse_field_def field_effect_def split: option.splits prod.splits bool.splits if_splits)

definition defs_config :: "(nat \<Rightarrow> bool) \<Rightarrow> (string \<times> (string \<rightharpoonup> gval)) list \<Rightarrow> config_data \<Rightarrow> config_data" where
  "defs_config is_float defs c f =
     (case map_of defs f of
        None \<Rightarrow> c f
      | Some def \<Rightarrow> (case field_effect is_float (f, def) of Some (Some x) \<Rightarrow> x | _ \<Rightarrow> c f))"

lemma defs_run:
  assumes "distinct (map fst defs)"
  shows "ofold (\<lambda>(k, def). parse_field is_float k def) defs c = Ok c' \<longleftrightarrow>
    list_all (\<lambda>d. field_effect is_float d \<noteq> None) defs \<and> c' = defs_config is_float defs c"
  using assms
proof (induction defs arbitrary: c)
  case Nil
  then show ?case by (auto simp: defs_config_def)
next
  case (Cons d defs)
  obtain k def where d: "d = (k, def)" by (cases d)
  have k: "map_of defs k = None" using Cons.prems d by (simp add: map_of_eq_None_iff)
  have step: "defs_config is_float defs (case r of None \<Rightarrow> c | Some x \<Rightarrow> c(k := x)) = defs_config is_float (d # defs) c"
    if "field_effect is_float d = Some r" for r
    using that d k by (intro ext) (auto simp: defs_config_def split: option.splits)
  have "ofold (\<lambda>(k, def). parse_field is_float k def) (d # defs) c = Ok c' \<longleftrightarrow>
      (\<exists>r. field_effect is_float d = Some r \<and>
         ofold (\<lambda>(k, def). parse_field is_float k def) defs (case r of None \<Rightarrow> c | Some x \<Rightarrow> c(k := x)) = Ok c')"
    using parse_field_effect [of is_float k def c] d by auto
  also have "\<dots> \<longleftrightarrow> list_all (\<lambda>d. field_effect is_float d \<noteq> None) (d # defs) \<and> c' = defs_config is_float (d # defs) c"
    using Cons.IH [of _] Cons.prems step by auto
  finally show ?case .
qed

text \<open>
  C10.  The settings that the base definitions give do not depend on the order in which the map of
  them is ranged over, and neither does whether they are accepted.
\<close>

theorem base_defs_any_order:
  assumes "distinct (map fst defs)" "mset defs = mset defs'"
  shows "parse_base_defs is_float (Some defs) = Ok c \<longleftrightarrow> parse_base_defs is_float (Some defs') = Ok c"
proof -
  have "distinct (map fst defs')"
    using assms by (metis mset_map mset_eq_imp_distinct_iff)
  moreover have "map_of defs' = map_of defs"
    using assms calculation by (intro map_of_inject_set [THEN iffD2]) (auto dest: mset_eq_setD)
  moreover have "set defs' = set defs" using assms(2) mset_eq_setD by metis
  ultimately show ?thesis
    using assms(1) by (simp add: parse_base_defs_def defs_run defs_config_def [abs_def] list_all_iff)
qed

section \<open>What a key changes\<close>

lemma ini_changes_one_field:
  "\<exists>f. \<forall>g. g \<noteq> f \<longrightarrow> fst (update_field_from_ini t sec key c) g = c g"
proof (cases rule: update_field_cases [of t sec key c])
  case (2 f k)
  then show ?thesis by (intro exI [of _ f]) simp
qed simp

text \<open>A key with a bad truth value is an error, and the setting is switched off until the base definitions are back.\<close>

lemma bad_bool_clears:
  assumes "map_of ini_sections sec = Some keys" "map_of keys (fst key) = Some (Some (f, BoolField))" "it_bool t (snd key) = None"
  shows "update_field_from_ini t sec key c = (c(f := GBool False), Some ''bool'')"
  using assms by (simp add: update_field_from_ini_def read_key_def)


section \<open>Examples\<close>

definition plain_ini :: ini_tools where
  "plain_ini =
     \<lparr>it_text = (\<lambda>s. s), it_bool = (\<lambda>s. if s = ''true'' then Some True else if s = ''false'' then Some False else None),
      it_int = parse_int 10 64, it_float = (\<lambda>_. None), it_strings = split_on (CHR '','')\<rparr>"

definition warn_defs :: "(string \<times> (string \<rightharpoonup> gval)) list" where
  "warn_defs = [(''ACTION_WARNINGS'', [''default'' \<mapsto> GBool True]), (''ANSIBLE_COW_ACCEPTLIST'', [''default'' \<mapsto> GStr ''bud, dragon''])]"

definition warn_config :: config_data where
  "warn_config = zero_config(''ACTION_WARNINGS'' := GBool True, ''ANSIBLE_COW_ACCEPTLIST'' := GStrs [''bud'', ''dragon''])"

lemma warn_keys: "map_of base_keys ''ACTION_WARNINGS'' = Some (Some BoolField)" "map_of base_keys ''ANSIBLE_COW_ACCEPTLIST'' = Some (Some StringsField)"
  by code_simp+

lemma warn_parsed: "parse_base_defs is_float (Some warn_defs) = Ok warn_config"
proof -
  have "split_comma ''bud, dragon'' = [''bud'', ''dragon'']" by code_simp
  then show ?thesis
    by (simp add: parse_base_defs_def warn_defs_def warn_config_def parse_field_def default_of_def warn_keys convert_default_def strings_of_def)
qed

definition warn_tools :: "config_data config_tools" where
  "warn_tools =
     \<lparr>ct_env = shared_env, ct_base = Inr warn_config, ct_zero = zero_config, ct_copy = (\<lambda>_ b. Inl b),
      ct_ini = (\<lambda>_. Inr [(''defaults'', [(''nocows'', ''maybe'')])]), ct_update = update_field_from_ini plain_ini\<rparr>"


lemma base_defs_any_order_witness:
  "parse_base_defs (\<lambda>n. n = 0) (Some warn_defs) = Ok warn_config \<longleftrightarrow> parse_base_defs (\<lambda>n. n = 0) (Some (rev warn_defs)) = Ok warn_config"
  by (rule base_defs_any_order) (simp_all add: warn_defs_def)

end
